(* ===== verification/Prelude.thy ===== *)
theory Prelude imports Main "HOL-Library.Word" "HOL-Library.Signed_Division" begin

text \<open>
  What every component of the dauth model shares: the types that stand for the
  Go types of the sources, Go error values with \<open>errors.Is\<close> and
  \<open>errors.As\<close>, the third-party Ethereum package as a record of parameters,
  and a few lemmas on maps and sums that the component proofs use through the
  simplifier.
\<close>

unbundle bit_operations_syntax

named_theorems go_defs \<open>definitions that only wrap a value: unfolded by the component proofs\<close>
named_theorems store_laws \<open>introduction rules for the laws of a challenge store\<close>

section \<open>Types\<close>

text \<open>
  A Go \<open>string\<close> is a sequence of bytes, as an Isabelle \<open>string\<close> is;
  \<open>[]byte\<close> is a list of 8-bit words.  \<open>common.Address\<close> is
  \<open>[20]byte\<close>, kept as one 160-bit word; its zero value is 0.  A
  \<open>time.Time\<close> is its number of nanoseconds since Go's zero time
  (January 1 of year 1, UTC), so that \<open>t.IsZero()\<close> is \<open>t = 0\<close>,
  \<open>t.After(u)\<close> is \<open>u < t\<close> and \<open>t.Before(u)\<close> is
  \<open>t < u\<close>.  A \<open>time.Duration\<close> is a number of nanoseconds.
\<close>

type_synonym bytes = "8 word list"
type_synonym address = "160 word"
type_synonym int64 = "64 word"
type_synonym uint64 = "64 word"
type_synonym instant = int
type_synonym duration = int

definition bytes_of :: "string \<Rightarrow> bytes" where
  "bytes_of s = map of_char s"

definition go_after :: "instant \<Rightarrow> instant \<Rightarrow> bool" where
  [go_defs]: "go_after t u \<longleftrightarrow> u < t"

definition go_before :: "instant \<Rightarrow> instant \<Rightarrow> bool" where
  [go_defs]: "go_before t u \<longleftrightarrow> t < u"

definition go_is_zero :: "instant \<Rightarrow> bool" where
  [go_defs]: "go_is_zero t \<longleftrightarrow> t = 0"

section \<open>Errors\<close>

text \<open>
  The package-level error variables the sources compare with \<open>errors.Is\<close>.
\<close>

datatype sentinel =
    ErrNotFound | ErrFull | ErrBackend | ErrNoRows
  | ErrVehicleNotFound | ErrNoEthAddr | ErrNoSubject

text \<open>
  An error value: \<open>errors.New\<close> or \<open>fmt.Errorf\<close> without a wrapped
  error (\<open>Err\<close>), \<open>fmt.Errorf\<close> with \<open>%w\<close> (\<open>Wrap\<close>), \<open>errors.Join\<close>
  (\<open>Join\<close>), a package-level variable (\<open>Sentinel\<close>) and
  \<open>richerrors.Error{Code, Err, ExternalMsg}\<close> (\<open>Rich\<close>).  The strings of
  \<open>Err\<close> and \<open>Wrap\<close> keep the message without its formatted arguments;
  the external message of \<open>Rich\<close>, which clients see, is kept exactly.
\<close>

datatype go_error =
    Err string
  | Wrap string go_error
  | Join "go_error list"
  | Sentinel sentinel
  | Rich int "go_error option" string

text \<open>
  \<open>errors.Is(err, sentinel)\<close>: the chain of wrapped errors is searched.  No
  \<open>richerrors.Error\<close> reaches a call of \<open>errors.Is\<close> in the sources.
\<close>

fun errors_is :: "go_error \<Rightarrow> sentinel \<Rightarrow> bool" where
  "errors_is (Err m) t = False"
| "errors_is (Wrap m e) t = errors_is e t"
| "errors_is (Join es) t = (\<exists>e \<in> set es. errors_is e t)"
| "errors_is (Sentinel s) t = (s = t)"
| "errors_is (Rich c e m) t = False"

text \<open>
  \<open>errors.As(err, &richErr)\<close>: the first \<open>richerrors.Error\<close> of the chain,
  depth first.
\<close>

fun first_some :: "('a \<Rightarrow> 'b option) \<Rightarrow> 'a list \<Rightarrow> 'b option" where
  "first_some f [] = None"
| "first_some f (x # xs) = (case f x of None \<Rightarrow> first_some f xs | Some y \<Rightarrow> Some y)"

lemma first_some_cong [fundef_cong]:
  "xs = ys \<Longrightarrow> (\<And>x. x \<in> set ys \<Longrightarrow> f x = g x) \<Longrightarrow> first_some f xs = first_some g ys"
  by (induction ys arbitrary: xs) (auto split: option.splits)

fun errors_as_rich :: "go_error \<Rightarrow> (int \<times> go_error option \<times> string) option" where
  "errors_as_rich (Err m) = None"
| "errors_as_rich (Wrap m e) = errors_as_rich e"
| "errors_as_rich (Join es) = first_some errors_as_rich es"
| "errors_as_rich (Sentinel s) = None"
| "errors_as_rich (Rich c e m) = Some (c, e, m)"

text \<open>\<open>errors.Join(err, e)\<close> as the loops use it: \<open>err\<close> is nil on the first round.\<close>

definition join_err :: "go_error option \<Rightarrow> go_error \<Rightarrow> go_error option" where
  "join_err acc e = Some (case acc of None \<Rightarrow> Join [e] | Some a \<Rightarrow> Join [a, e])"

lemma join_err_not_None [simp]: "join_err acc e \<noteq> None"
  by (simp add: join_err_def)

section \<open>The Ethereum package\<close>

text \<open>
  A JSON value as \<open>encoding/json\<close> scans it: strings and member names as they are written, without their
  quotes, and numbers as their text.
\<close>

datatype jval =
    VNull
  | VBool bool
  | VNum string
  | VStr string
  | VArr "jval list"
  | VObj "(string \<times> jval) list"

text \<open>
  What the sources call of go-ethereum (\<open>common\<close>, \<open>common/hexutil\<close>,
  \<open>accounts\<close>, \<open>crypto\<close>) is not part of the repository: it is a
  record of functions the definitions take as an argument.  Laws a property needs
  of it are hypotheses of that property.
\<close>

record eth =
  eth_is_hex_address :: "string \<Rightarrow> bool"
  eth_hex_to_address :: "string \<Rightarrow> address"
  eth_address_hex :: "address \<Rightarrow> string"
  eth_marshal_address :: "address \<Rightarrow> string"
  eth_unmarshal_address :: "jval \<Rightarrow> go_error + address"
  eth_address_bytes :: "address \<Rightarrow> bytes"
  eth_bytes_to_address :: "bytes \<Rightarrow> address"
  eth_hexutil_decode :: "string \<Rightarrow> go_error + bytes"
  eth_hexutil_decode_big :: "string \<Rightarrow> go_error + int"
  eth_from_hex :: "string \<Rightarrow> bytes"
  eth_text_hash :: "bytes \<Rightarrow> bytes"
  eth_bytes_to_hash :: "bytes \<Rightarrow> bytes"
  eth_sig_to_pub :: "bytes \<Rightarrow> bytes \<Rightarrow> go_error + bytes"
  eth_pubkey_to_address :: "bytes \<Rightarrow> address"

section \<open>Shared lemmas\<close>

lemma sum_case_Inr_iff:
  "(case x of Inl e \<Rightarrow> Inl e | Inr a \<Rightarrow> f a) = Inr b \<longleftrightarrow> (\<exists>a. x = Inr a \<and> f a = Inr b)"
  by (cases x) auto

lemma is_Inl_iff: "(\<exists>e. x = Inl e) \<longleftrightarrow> (\<forall>a. x \<noteq> Inr a)"
  by (cases x) auto

lemma map_of_filter_Some:
  "distinct (map fst xs) \<Longrightarrow>
   map_of (filter P xs) k = Some v \<longleftrightarrow> map_of xs k = Some v \<and> P (k, v)"
  by (induction xs) (auto dest: map_of_SomeD simp: rev_image_eqI)

lemma distinct_map_filter: "distinct (map f xs) \<Longrightarrow> distinct (map f (filter P xs))"
  by (induction xs) auto

end
