(* ===== verification/GoText.thy ===== *)
theory GoText imports Prelude begin

text \<open>
  The parts of Go's standard library that turn values into text and back
  (\<open>strconv\<close>, \<open>strings\<close>, \<open>encoding/hex\<close>,
  \<open>encoding/base64\<close>, \<open>math/big\<close>, \<open>fmt\<close>'s \<open>%v\<close> and
  \<open>%d\<close>), as far as the sources use them, with the round trips and
  injectivity facts the components rely on.
\<close>

section \<open>Decimal numbers\<close>

definition digit_char :: "nat \<Rightarrow> char" where
  "digit_char n = char_of (48 + n)"

definition is_digit :: "char \<Rightarrow> bool" where
  "is_digit c \<longleftrightarrow> 48 \<le> (of_char c :: nat) \<and> (of_char c :: nat) \<le> 57"

definition digit_val :: "char \<Rightarrow> nat" where
  "digit_val c = of_char c - 48"

fun show_nat :: "nat \<Rightarrow> string" where
  "show_nat n = (if n < 10 then [digit_char n] else show_nat (n div 10) @ [digit_char (n mod 10)])"

declare show_nat.simps [simp del]

definition show_int :: "int \<Rightarrow> string" where
  "show_int i = (if i < 0 then ''-'' @ show_nat (nat (- i)) else show_nat (nat i))"

definition parse_nat :: "string \<Rightarrow> nat option" where
  "parse_nat s = (if s \<noteq> [] \<and> list_all is_digit s
     then Some (foldl (\<lambda>n c. 10 * n + digit_val c) 0 s) else None)"

lemma of_char_digit_char: "n < 10 \<Longrightarrow> (of_char (digit_char n) :: nat) = 48 + n"
  by (simp add: digit_char_def)

lemma is_digit_digit_char [simp]: "n < 10 \<Longrightarrow> is_digit (digit_char n)"
  by (simp add: is_digit_def of_char_digit_char)

lemma digit_val_digit_char [simp]: "n < 10 \<Longrightarrow> digit_val (digit_char n) = n"
  by (simp add: digit_val_def of_char_digit_char)

lemma show_nat_nonempty [simp]: "show_nat n \<noteq> []"
  by (subst show_nat.simps) simp

lemma show_nat_digits [simp]: "list_all is_digit (show_nat n)"
  by (induction n rule: show_nat.induct) (subst show_nat.simps, simp)

lemma show_nat_fold: "foldl (\<lambda>n c. 10 * n + digit_val c) 0 (show_nat n) = n"
  by (induction n rule: show_nat.induct) (subst show_nat.simps, simp)

lemma parse_show_nat [simp]: "parse_nat (show_nat n) = Some n"
  by (simp add: parse_nat_def show_nat_fold)

lemma show_nat_inject: "show_nat m = show_nat n \<longleftrightarrow> m = n"
  by (metis parse_show_nat option.inject)

text \<open>\<open>(*big.Int).SetString(s, 10)\<close>: an optional sign, then decimal digits to the end.\<close>

definition big_set_string :: "string \<Rightarrow> int option" where
  "big_set_string s =
     (case s of
        c # cs \<Rightarrow>
          if c = CHR ''-'' then map_option (\<lambda>n. - int n) (parse_nat cs)
          else if c = CHR ''+'' then map_option int (parse_nat cs)
          else map_option int (parse_nat s)
      | [] \<Rightarrow> None)"

lemma digit_not_sign: "is_digit c \<Longrightarrow> c \<noteq> CHR ''-'' \<and> c \<noteq> CHR ''+''"
  by (auto simp: is_digit_def)

lemma big_set_string_show_nat: "big_set_string (show_nat n) = Some (int n)"
proof -
  obtain c cs where s: "show_nat n = c # cs"
    by (cases "show_nat n") auto
  moreover have "is_digit c"
    using show_nat_digits [of n] s by simp
  ultimately show ?thesis
    using parse_show_nat [of n] digit_not_sign [of c] by (simp add: big_set_string_def)
qed

lemma big_set_string_show_int: "big_set_string (show_int i) = Some i"
  by (auto simp: show_int_def big_set_string_show_nat)
     (simp add: big_set_string_def)

section \<open>Formatting\<close>

definition nl :: string where
  "nl = [CHR 0x0A]"

definition tab :: string where
  "tab = [CHR 0x09]"

fun join_with :: "string \<Rightarrow> string list \<Rightarrow> string" where
  "join_with sep [] = []"
| "join_with sep [x] = x"
| "join_with sep (x # y # xs) = x @ sep @ join_with sep (y # xs)"

text \<open>\<open>%v\<close> of a slice: the elements in brackets, separated by blanks.\<close>

definition fmt_strings :: "string list \<Rightarrow> string" where
  "fmt_strings xs = ''['' @ join_with '' '' xs @ '']''"

definition fmt_int64s :: "int64 list \<Rightarrow> string" where
  "fmt_int64s xs = fmt_strings (map (\<lambda>x. show_int (sint x)) xs)"

section \<open>Hexadecimal\<close>

definition hex_digit :: "nat \<Rightarrow> char" where
  "hex_digit n = (if n < 10 then char_of (48 + n) else char_of (87 + n))"

definition hex_val :: "char \<Rightarrow> nat" where
  "hex_val c = (let k = of_char c in if k \<le> 57 then k - 48 else k - 87)"

lemma hex_val_digit [simp]: "n < 16 \<Longrightarrow> hex_val (hex_digit n) = n"
  by (simp add: hex_val_def hex_digit_def Let_def)

text \<open>\<open>hex.EncodeToString\<close>\<close>

fun hex_encode :: "bytes \<Rightarrow> string" where
  "hex_encode [] = []"
| "hex_encode (b # bs) = hex_digit (unat b div 16) # hex_digit (unat b mod 16) # hex_encode bs"

fun hex_decode :: "string \<Rightarrow> bytes" where
  "hex_decode (x # y # s) = word_of_nat (16 * hex_val x + hex_val y) # hex_decode s"
| "hex_decode s = []"

lemma unat_byte_bound: "unat (b :: 8 word) < 256"
  using unsigned_less [of b, where ?'a = nat] by simp

lemma hex_decode_encode [simp]: "hex_decode (hex_encode bs) = bs"
proof (induction bs)
  case (Cons b bs)
  have "unat b div 16 < 16"
    using unat_byte_bound [of b] by (simp add: less_mult_imp_div_less)
  with Cons show ?case by simp
qed simp

lemma hex_encode_inject: "hex_encode a = hex_encode b \<longleftrightarrow> a = b"
  by (metis hex_decode_encode)

lemma length_hex_encode [simp]: "length (hex_encode bs) = 2 * length bs"
  by (induction bs) simp_all

section \<open>Base64 (URL alphabet, no padding)\<close>

definition b64_char :: "nat \<Rightarrow> char" where
  "b64_char n =
     (if n < 26 then char_of (65 + n)
      else if n < 52 then char_of (71 + n)
      else if n < 62 then char_of (n - 4)
      else if n = 62 then CHR ''-'' else CHR ''_'')"

definition b64_val :: "char \<Rightarrow> nat" where
  "b64_val c =
     (let k = of_char c in
      if k = 45 then 62 else if k = 95 then 63
      else if k \<le> 57 then k + 4 else if k \<le> 90 then k - 65 else k - 71)"

lemma b64_val_char [simp]: "n < 64 \<Longrightarrow> b64_val (b64_char n) = n"
  by (auto simp: b64_val_def b64_char_def Let_def)

text \<open>\<open>base64.RawURLEncoding.EncodeToString\<close>: three bytes become four characters.\<close>

fun b64_encode :: "bytes \<Rightarrow> string" where
  "b64_encode (a # b # c # bs) =
     b64_char (unat a div 4)
     # b64_char (unat a mod 4 * 16 + unat b div 16)
     # b64_char (unat b mod 16 * 4 + unat c div 64)
     # b64_char (unat c mod 64)
     # b64_encode bs"
| "b64_encode [a, b] =
     [b64_char (unat a div 4), b64_char (unat a mod 4 * 16 + unat b div 16),
      b64_char (unat b mod 16 * 4)]"
| "b64_encode [a] = [b64_char (unat a div 4), b64_char (unat a mod 4 * 16)]"
| "b64_encode [] = []"

definition byte :: "nat \<Rightarrow> 8 word" where
  "byte n = word_of_nat n"

lemma byte_unat [simp]: "byte (unat b) = b"
  by (simp add: byte_def)

fun b64_decode :: "string \<Rightarrow> bytes" where
  "b64_decode (w # x # y # z # s) =
     byte (b64_val w * 4 + b64_val x div 16)
     # byte (b64_val x mod 16 * 16 + b64_val y div 4)
     # byte (b64_val y mod 4 * 64 + b64_val z)
     # b64_decode s"
| "b64_decode [w, x, y] =
     [byte (b64_val w * 4 + b64_val x div 16),
      byte (b64_val x mod 16 * 16 + b64_val y div 4)]"
| "b64_decode [w, x] = [byte (b64_val w * 4 + b64_val x div 16)]"
| "b64_decode s = []"

lemma div_byte: "unat (b :: 8 word) div 4 < 64" "unat b div 16 < 16" "unat b div 64 < 4"
  using unat_byte_bound [of b] by (simp_all add: less_mult_imp_div_less)

lemma sextets:
  fixes a b :: "8 word"
  shows "unat a mod 4 * 16 + unat b div 16 < 64" and "unat a mod 4 * 16 < 64"
    and "unat a mod 16 * 4 + unat b div 64 < 64" and "unat a mod 16 * 4 < 64"
proof -
  have "unat a mod 4 < 4" and "unat a mod 16 < 16" by simp_all
  with div_byte [of b] show "unat a mod 4 * 16 + unat b div 16 < 64"
    and "unat a mod 4 * 16 < 64" and "unat a mod 16 * 4 + unat b div 64 < 64"
    and "unat a mod 16 * 4 < 64"
    by linarith+
qed

lemma sextets_join:
  fixes a b c :: "8 word"
  shows "(unat a mod 4 * 16 + unat b div 16) div 16 = unat a mod 4"
    and "(unat a mod 4 * 16 + unat b div 16) mod 16 = unat b div 16"
    and "(unat b mod 16 * 4 + unat c div 64) div 4 = unat b mod 16"
    and "(unat b mod 16 * 4 + unat c div 64) mod 4 = unat c div 64"
  using div_byte [of b] div_byte [of c] by simp_all

lemma b64_decode_encode [simp]: "b64_decode (b64_encode bs) = bs"
  by (induction bs rule: b64_encode.induct) (simp_all add: sextets sextets_join div_byte)

lemma b64_encode_inject: "b64_encode a = b64_encode b \<longleftrightarrow> a = b"
  by (metis b64_decode_encode)

section \<open>Big-endian bytes of a natural number\<close>

text \<open>\<open>(*big.Int).Bytes()\<close> of a non-negative value: no leading zero byte.\<close>

fun nat_bytes :: "nat \<Rightarrow> bytes" where
  "nat_bytes n = (if n = 0 then [] else nat_bytes (n div 256) @ [word_of_nat (n mod 256)])"

declare nat_bytes.simps [simp del]

lemma nat_bytes_fold: "foldl (\<lambda>n b. 256 * n + unat b) 0 (nat_bytes n) = n"
proof (induction n rule: nat_bytes.induct)
  case (1 n)
  show ?case
  proof (cases "n = 0")
    case True
    then show ?thesis by (simp add: nat_bytes.simps)
  next
    case False
    with 1 have "foldl (\<lambda>n b. 256 * n + unat b) 0 (nat_bytes (n div 256)) = n div 256"
      by simp
    with False show ?thesis
      by (simp add: nat_bytes.simps [of n] unat_of_nat)
  qed
qed

lemma nat_bytes_inject: "nat_bytes m = nat_bytes n \<longleftrightarrow> m = n"
proof
  assume "nat_bytes m = nat_bytes n"
  then have "foldl (\<lambda>n b. 256 * n + unat b) 0 (nat_bytes m) = foldl (\<lambda>n b. 256 * n + unat b) 0 (nat_bytes n)"
    by (rule arg_cong)
  then show "m = n" by (simp only: nat_bytes_fold)
qed simp

end
