(* ===== verification/GoTime.thy ===== *)
theory GoTime imports GoText begin

text \<open>
  The part of Go's \<open>time\<close> package the sign-in messages use:
  \<open>Format(time.RFC3339)\<close> of a UTC time, with the Gregorian calendar computed
  the way the library does (cycles of 400, 100, 4 and 1 years counted from
  January 1 of year 1), \<open>Unix()\<close>, and the whole seconds of a duration.
\<close>

section \<open>Calendar dates\<close>

definition is_leap :: "int \<Rightarrow> bool" where
  "is_leap y \<longleftrightarrow> y mod 4 = 0 \<and> (y mod 100 \<noteq> 0 \<or> y mod 400 = 0)"

definition month_lengths :: "int \<Rightarrow> int list" where
  "month_lengths y = [31, if is_leap y then 29 else 28, 31, 30, 31, 30, 31, 31, 30, 31, 30, 31]"

text \<open>Year and day of the year (from 0) of the day number counted from January 1, year 1.\<close>

definition year_yday :: "int \<Rightarrow> int \<times> int" where
  "year_yday d =
     (let n400 = d div 146097; d = d mod 146097;
          n100 = min 3 (d div 36524); d = d - 36524 * n100;
          n4 = d div 1461; d = d mod 1461;
          n1 = min 3 (d div 365); d = d - 365 * n1
      in (400 * n400 + 100 * n100 + 4 * n4 + n1 + 1, d))"

text \<open>Month (from 1) and day of the month (from 1) of a day of the year.\<close>

fun month_day :: "int list \<Rightarrow> int \<Rightarrow> int \<Rightarrow> int \<times> int" where
  "month_day (l # ls) m d = (if d < l \<or> ls = [] then (m, d + 1) else month_day ls (m + 1) (d - l))"
| "month_day [] m d = (m, d + 1)"

definition civil_date :: "int \<Rightarrow> int \<times> int \<times> int" where
  "civil_date d = (let (y, yd) = year_yday d; (m, md) = month_day (month_lengths y) 1 yd in (y, m, md))"

definition days_before_year :: "int \<Rightarrow> int" where
  "days_before_year y = 365 * (y - 1) + (y - 1) div 4 - (y - 1) div 100 + (y - 1) div 400"

definition days_of_civil :: "int \<times> int \<times> int \<Rightarrow> int" where
  "days_of_civil = (\<lambda>(y, m, md).
     days_before_year y + sum_list (take (nat (m - 1)) (month_lengths y)) + (md - 1))"

lemma capped_div:
  fixes k n :: int
  assumes "0 < k" and "0 \<le> n" and "n \<le> 4 * k"
  defines "q \<equiv> min 3 (n div k)"
  shows "0 \<le> q" and "q \<le> 3" and "0 \<le> n - k * q" and "n - k * q \<le> k"
    and "q < 3 \<Longrightarrow> n - k * q < k"
proof -
  have m: "k * (n div k) + n mod k = n" "0 \<le> n mod k" "n mod k < k"
    using assms(1) by simp_all
  show "0 \<le> q" using assms(1,2) by (simp add: q_def pos_imp_zdiv_nonneg_iff)
  show "q \<le> 3" by (simp add: q_def)
  show *: "q < 3 \<Longrightarrow> n - k * q < k"
  proof -
    assume "q < 3"
    then have q: "q = n div k" unfolding q_def by linarith
    show "n - k * q < k" unfolding q using m by linarith
  qed
  show "0 \<le> n - k * q"
  proof (cases "3 \<le> n div k")
    case True
    then have "k * 3 \<le> k * (n div k)" using assms(1) by simp
    moreover have q: "q = 3" using True unfolding q_def by linarith
    ultimately show ?thesis unfolding q using m by linarith
  next
    case False
    then have q: "q = n div k" unfolding q_def by linarith
    show ?thesis unfolding q using m by linarith
  qed
  show "n - k * q \<le> k"
    using * assms(3) \<open>q \<le> 3\<close> by (cases "q = 3") auto
qed

lemma year_yday_parts:
  assumes "year_yday d = (y, yd)"
  obtains a b c e where "d = 146097 * a + 36524 * b + 1461 * c + 365 * e + yd"
    and "y = 400 * a + 100 * b + 4 * c + e + 1"
    and "0 \<le> b" "b \<le> 3" "0 \<le> c" "c \<le> 24" "0 \<le> e" "e \<le> 3" "0 \<le> yd" "yd \<le> 365"
    and "e < 3 \<Longrightarrow> yd < 365" and "b < 3 \<Longrightarrow> c = 24 \<Longrightarrow> e = 3 \<Longrightarrow> yd < 365"
proof -
  define a where "a = d div 146097"
  define r where "r = d mod 146097"
  define b where "b = min 3 (r div 36524)"
  define r2 where "r2 = r - 36524 * b"
  define c where "c = r2 div 1461"
  define r3 where "r3 = r2 mod 1461"
  define e where "e = min 3 (r3 div 365)"
  note defs = a_def r_def b_def r2_def c_def r3_def e_def
  have "year_yday d = (400 * a + 100 * b + 4 * c + e + 1, r3 - 365 * e)"
    by (simp only: year_yday_def Let_def defs)
  then have y: "y = 400 * a + 100 * b + 4 * c + e + 1" and yd: "yd = r3 - 365 * e"
    using assms by (simp_all only: prod.inject)
  have r: "0 \<le> r" "r < 146097" "d = 146097 * a + r"
    by (simp_all add: r_def a_def)
  have b: "0 \<le> b" "b \<le> 3" "0 \<le> r2" "r2 \<le> 36524" "b < 3 \<Longrightarrow> r2 < 36524"
    unfolding r2_def b_def using r(1,2) by (intro capped_div; linarith)+
  have c: "0 \<le> c" "c \<le> 24" "0 \<le> r3" "r3 < 1461" "r2 = 1461 * c + r3"
  proof -
    show m: "r2 = 1461 * c + r3" "0 \<le> r3" "r3 < 1461" by (simp_all add: c_def r3_def)
    show "0 \<le> c" "c \<le> 24" using m b(3,4) by linarith+
  qed
  have e: "0 \<le> e" "e \<le> 3" "0 \<le> yd" "yd \<le> 365" "e < 3 \<Longrightarrow> yd < 365"
    unfolding yd e_def using c(3,4) by (intro capped_div; linarith)+
  show thesis
  proof (rule that [OF _ y b(1,2) c(1,2) e])
    show "d = 146097 * a + 36524 * b + 1461 * c + 365 * e + yd"
      using r(3) c(5) yd r2_def by linarith
    show "b < 3 \<Longrightarrow> c = 24 \<Longrightarrow> e = 3 \<Longrightarrow> yd < 365"
      using b(5) c(5) yd by linarith
  qed
qed

lemma leap_cycle:
  fixes a b c e :: int
  assumes "y = 400 * a + 100 * b + 4 * c + e + 1"
    and "0 \<le> b" "b \<le> 3" "0 \<le> c" "c \<le> 24" "0 \<le> e" "e \<le> 3"
  shows "(y - 1) div 4 = 100 * a + 25 * b + c" and "(y - 1) div 100 = 4 * a + b"
    and "(y - 1) div 400 = a" and "y mod 4 = (e + 1) mod 4"
    and "e = 3 \<Longrightarrow> y mod 100 = 0 \<longleftrightarrow> c = 24"
    and "e = 3 \<Longrightarrow> c = 24 \<Longrightarrow> y mod 400 = 0 \<longleftrightarrow> b = 3"
proof -
  have q: "y - 1 = e + (100 * a + 25 * b + c) * 4"
    "y - 1 = (4 * c + e) + (4 * a + b) * 100" "y - 1 = (100 * b + 4 * c + e) + a * 400"
    using assms(1) by simp_all
  show "(y - 1) div 4 = 100 * a + 25 * b + c"
    unfolding q(1) using assms(6,7) by simp
  show "(y - 1) div 100 = 4 * a + b"
    unfolding q(2) using assms(4-7) by simp
  show "(y - 1) div 400 = a"
    unfolding q(3) using assms(2-7) by simp
  have "y = (e + 1) + (100 * a + 25 * b + c) * 4"
    using assms(1) by simp
  then show "y mod 4 = (e + 1) mod 4" by (simp only: mod_mult_self1)
  assume e: "e = 3"
  have y: "y = 4 * (c + 1) + (4 * a + b) * 100" "y = (100 * b + 4 * c + 4) + a * 400"
    using assms(1) e by simp_all
  have "y mod 100 = 4 * (c + 1) mod 100"
    unfolding y(1) by (rule mod_mult_self1)
  then show "y mod 100 = 0 \<longleftrightarrow> c = 24"
    using assms(4,5) by (cases "c = 24") auto
  assume c: "c = 24"
  have "y mod 400 = (100 * b + 4 * c + 4) mod 400"
    unfolding y(2) by (rule mod_mult_self1)
  then show "y mod 400 = 0 \<longleftrightarrow> b = 3"
    using assms(2,3) c by (cases "b = 3") auto
qed

lemma year_yday_days:
  assumes "year_yday d = (y, yd)"
  shows "days_before_year y + yd = d" and "0 \<le> yd" and "yd < (if is_leap y then 366 else 365)"
proof -
  obtain a b c e where d: "d = 146097 * a + 36524 * b + 1461 * c + 365 * e + yd"
    and y: "y = 400 * a + 100 * b + 4 * c + e + 1"
    and r: "0 \<le> b" "b \<le> 3" "0 \<le> c" "c \<le> 24" "0 \<le> e" "e \<le> 3"
    and yd: "0 \<le> yd" "yd \<le> 365" "e < 3 \<Longrightarrow> yd < 365"
      "b < 3 \<Longrightarrow> c = 24 \<Longrightarrow> e = 3 \<Longrightarrow> yd < 365"
    by (rule year_yday_parts [OF assms]) blast
  note cycle = leap_cycle [OF y r]
  show "days_before_year y + yd = d"
    unfolding days_before_year_def cycle(1-3) using d y by simp
  show "0 \<le> yd" by (rule yd(1))
  have "is_leap y" if h: "yd = 365"
  proof -
    have e: "e = 3" using yd(3) r(6) h by linarith
    have "c = 24 \<Longrightarrow> b = 3" using yd(4) r(2) e h by linarith
    then show ?thesis
      using cycle(4) cycle(5) [OF e] cycle(6) [OF e] e by (auto simp: is_leap_def)
  qed
  with yd(2) show "yd < (if is_leap y then 366 else 365)"
    by (cases "yd = 365") auto
qed

lemma month_day_sum:
  assumes "0 \<le> d" and "d < sum_list ls" and "month_day ls m d = (m', md)"
    and "list_all (\<lambda>l. 0 < l) ls"
  shows "m \<le> m' \<and> m' < m + int (length ls) \<and> 1 \<le> md
     \<and> sum_list (take (nat (m' - m)) ls) + (md - 1) = d
     \<and> md \<le> ls ! nat (m' - m)"
  using assms
proof (induction ls m d rule: month_day.induct)
  case (1 l ls m d)
  show ?case
  proof (cases "d < l \<or> ls = []")
    case True
    with 1 show ?thesis by auto
  next
    case False
    with 1 have ih: "m + 1 \<le> m' \<and> m' < m + 1 + int (length ls) \<and> 1 \<le> md
     \<and> sum_list (take (nat (m' - (m + 1))) ls) + (md - 1) = d - l
     \<and> md \<le> ls ! nat (m' - (m + 1))"
      by simp
    have "m + 1 \<le> m'" using ih by (rule conjunct1)
    then have "nat (m' - m) = Suc (nat (m' - (m + 1)))" by arith
    with ih show ?thesis by auto
  qed
qed simp

text \<open>The date computed is the date: counting its days gives the day number back.\<close>

lemma civil_date_days: "days_of_civil (civil_date d) = d"
proof -
  obtain y yd where yy: "year_yday d = (y, yd)" by fastforce
  obtain m md where mm: "month_day (month_lengths y) 1 yd = (m, md)" by fastforce
  note y = year_yday_days [OF yy]
  have "sum_list (month_lengths y) = (if is_leap y then 366 else 365)"
    by (simp add: month_lengths_def)
  with y have "yd < sum_list (month_lengths y)" by simp
  from month_day_sum [OF y(2) this mm]
  have "sum_list (take (nat (m - 1)) (month_lengths y)) + (md - 1) = yd"
    by (auto simp: month_lengths_def)
  with y(1) show ?thesis
    by (simp add: civil_date_def days_of_civil_def yy mm)
qed

lemma civil_date_inject: "civil_date d = civil_date d' \<longleftrightarrow> d = d'"
  by (metis civil_date_days)

lemma civil_date_range:
  assumes "civil_date d = (y, m, md)"
  shows "1 \<le> m" and "m \<le> 12" and "1 \<le> md" and "md \<le> 31"
proof -
  obtain y' yd where yy: "year_yday d = (y', yd)" by fastforce
  obtain m' md' where mm: "month_day (month_lengths y') 1 yd = (m', md')" by fastforce
  have eq: "y' = y" "m' = m" "md' = md"
    using assms by (simp_all add: civil_date_def yy mm)
  note y = year_yday_days [OF yy]
  have "yd < sum_list (month_lengths y')"
    using y(3) by (cases "is_leap y'") (simp_all add: month_lengths_def)
  from month_day_sum [OF y(2) this mm]
  have r: "1 \<le> m'" "m' < 1 + 12" "1 \<le> md'" "md' \<le> month_lengths y' ! nat (m' - 1)"
    by (auto simp: month_lengths_def)
  have "\<forall>l \<in> set (month_lengths y'). l \<le> 31"
    by (simp add: month_lengths_def)
  moreover have "month_lengths y' ! nat (m' - 1) \<in> set (month_lengths y')"
    using r by (intro nth_mem) (simp add: month_lengths_def)
  ultimately have "month_lengths y' ! nat (m' - 1) \<le> 31" by blast
  with r eq show "1 \<le> m" "m \<le> 12" "1 \<le> md" "md \<le> 31" by auto
qed

lemma civil_date_year:
  assumes "civil_date d = (y, m, md)" and "0 \<le> d" and "d < 3652059"
  shows "1 \<le> y" and "y \<le> 9999"
proof -
  obtain y' yd where yy: "year_yday d = (y', yd)" by fastforce
  have "y' = y"
    using assms(1) by (simp add: civil_date_def yy split: prod.splits)
  moreover have "1 \<le> y' \<and> y' \<le> 9999"
    by (rule year_yday_parts [OF yy]) (use assms(2,3) in linarith)
  ultimately show "1 \<le> y" "y \<le> 9999" by simp_all
qed

section \<open>RFC 3339\<close>

text \<open>\<open>appendInt(b, n, w)\<close>: at least \<open>w\<close> digits, a minus sign in front of them.\<close>

definition pad_nat :: "nat \<Rightarrow> nat \<Rightarrow> string" where
  "pad_nat w n = replicate (w - length (show_nat n)) (CHR ''0'') @ show_nat n"

definition pad_int :: "nat \<Rightarrow> int \<Rightarrow> string" where
  "pad_int w i = (if i < 0 then ''-'' @ pad_nat w (nat (- i)) else pad_nat w (nat i))"

definition second :: duration where
  "second = 1000000000"

definition rfc3339 :: "instant \<Rightarrow> string" where
  "rfc3339 t =
     (let secs = t div second; (y, m, d) = civil_date (secs div 86400); s = secs mod 86400
      in pad_int 4 y @ ''-'' @ pad_int 2 m @ ''-'' @ pad_int 2 d @ ''T'' @
         pad_int 2 (s div 3600) @ '':'' @ pad_int 2 (s mod 3600 div 60) @ '':'' @
         pad_int 2 (s mod 60) @ ''Z'')"

definition unix_seconds :: "instant \<Rightarrow> int" where
  "unix_seconds t = t div second - 62135596800"

section \<open>Time stamps are fixed-width and tell seconds apart\<close>

lemma length_show_nat: "n < 10 ^ Suc w \<Longrightarrow> length (show_nat n) \<le> Suc w"
proof (induction w arbitrary: n)
  case 0
  then show ?case by (simp add: show_nat.simps)
next
  case (Suc w)
  then have "n div 10 < 10 ^ Suc w"
    by (simp add: less_mult_imp_div_less)
  then have "length (show_nat (n div 10)) \<le> Suc w" by (rule Suc.IH)
  then show ?case by (subst show_nat.simps) simp
qed

lemma length_pad_nat:
  assumes "0 < w" and "n < 10 ^ w"
  shows "length (pad_nat w n) = w"
proof -
  obtain w' where "w = Suc w'" using assms(1) by (cases w) auto
  with length_show_nat [of n w'] assms(2) show ?thesis by (simp add: pad_nat_def)
qed

lemma pad_nat_value: "foldl (\<lambda>n c. 10 * n + digit_val c) 0 (pad_nat w n) = n"
proof -
  have "foldl (\<lambda>n c. 10 * n + digit_val c) 0 (replicate k (CHR ''0'')) = 0" for k
    by (induction k) (simp_all add: digit_val_def)
  then show ?thesis by (simp add: pad_nat_def show_nat_fold)
qed

lemma pad_nat_inject: "pad_nat w m = pad_nat w n \<longleftrightarrow> m = n"
  by (metis pad_nat_value)

lemma pad_int_inject: "0 \<le> i \<Longrightarrow> 0 \<le> j \<Longrightarrow> pad_int w i = pad_int w j \<longleftrightarrow> i = j"
  by (auto simp: pad_int_def pad_nat_inject)

lemma length_pad_int:
  "0 \<le> i \<Longrightarrow> i < 100 \<Longrightarrow> length (pad_int 2 i) = 2"
  "0 \<le> i \<Longrightarrow> i < 10000 \<Longrightarrow> length (pad_int 4 i) = 4"
  by (simp_all add: pad_int_def length_pad_nat nat_less_iff)

text \<open>The instants of the years 1 to 9999, the ones RFC 3339 has a four-digit year for.\<close>

definition four_digit_year :: "instant \<Rightarrow> bool" where
  "four_digit_year t \<longleftrightarrow> 0 \<le> t \<and> t < 3652059 * 86400 * second"

lemma day_range:
  assumes "four_digit_year t"
  shows "0 \<le> t div second div 86400" and "t div second div 86400 < 3652059"
proof -
  have "0 \<le> t" "t < 3652059 * 86400 * 1000000000"
    using assms by (simp_all add: four_digit_year_def second_def)
  then show "0 \<le> t div second div 86400" "t div second div 86400 < 3652059"
    unfolding second_def by (simp_all add: pos_imp_zdiv_nonneg_iff div_less_iff_less_mult zdiv_zmult2_eq [symmetric])
qed

lemma clock_range:
  fixes s :: int
  shows "0 \<le> s mod 86400 div 3600" "s mod 86400 div 3600 < 100"
    "0 \<le> s mod 86400 mod 3600 div 60" "s mod 86400 mod 3600 div 60 < 100"
    "0 \<le> s mod 86400 mod 60" "s mod 86400 mod 60 < 100"
proof -
  have a: "0 \<le> s mod 86400" "s mod 86400 < 86400"
    and b: "0 \<le> s mod 86400 mod 3600" "s mod 86400 mod 3600 < 3600"
    and c: "0 \<le> s mod 86400 mod 60" "s mod 86400 mod 60 < 60" by simp_all
  show "0 \<le> s mod 86400 div 3600" "0 \<le> s mod 86400 mod 3600 div 60" "0 \<le> s mod 86400 mod 60"
    using a(1) b(1) c(1) by (simp_all add: pos_imp_zdiv_nonneg_iff)
  have "s mod 86400 div 3600 < 24" using a(2) by (simp add: div_less_iff_less_mult)
  moreover have "s mod 86400 mod 3600 div 60 < 60" using b(2) by (simp add: div_less_iff_less_mult)
  ultimately show "s mod 86400 div 3600 < 100" "s mod 86400 mod 3600 div 60 < 100"
    "s mod 86400 mod 60 < 100" using c(2) by linarith+
qed

lemma rfc3339_fields:
  assumes "four_digit_year t"
  obtains y m d where "civil_date (t div second div 86400) = (y, m, d)"
    and "0 \<le> y" "y < 10000" "0 \<le> m" "m < 100" "0 \<le> d" "d < 100"
proof -
  obtain y m d where c: "civil_date (t div second div 86400) = (y, m, d)"
    using prod_cases3 by blast
  with civil_date_year [OF c day_range [OF assms]] civil_date_range [OF c] show thesis
    by (intro that [OF c]) linarith+
qed

lemma rfc3339_length: "four_digit_year t \<Longrightarrow> length (rfc3339 t) = 20"
  by (erule rfc3339_fields)
     (simp add: rfc3339_def Let_def length_pad_int clock_range)

lemma rfc3339_seconds:
  assumes "four_digit_year t" and "four_digit_year u" and "rfc3339 t = rfc3339 u"
  shows "t div second = u div second"
proof -
  let ?s = "t div second" and ?r = "u div second"
  obtain y m d where t: "civil_date (?s div 86400) = (y, m, d)"
    "0 \<le> y" "y < 10000" "0 \<le> m" "m < 100" "0 \<le> d" "d < 100"
    by (rule rfc3339_fields [OF assms(1)])
  obtain y' m' d' where u: "civil_date (?r div 86400) = (y', m', d')"
    "0 \<le> y'" "y' < 10000" "0 \<le> m'" "m' < 100" "0 \<le> d'" "d' < 100"
    by (rule rfc3339_fields [OF assms(2)])
  note fields = assms(3) [unfolded rfc3339_def Let_def t(1) u(1) prod.case]
  from fields have eq: "y = y' \<and> m = m' \<and> d = d' \<and>
      ?s mod 86400 div 3600 = ?r mod 86400 div 3600 \<and>
      ?s mod 86400 mod 3600 div 60 = ?r mod 86400 mod 3600 div 60 \<and>
      ?s mod 86400 mod 60 = ?r mod 86400 mod 60"
    by (simp add: append_eq_append_conv length_pad_int clock_range t u pad_int_inject)
  then have hms: "?s mod 86400 div 3600 = ?r mod 86400 div 3600"
      "?s mod 86400 mod 3600 div 60 = ?r mod 86400 mod 3600 div 60"
      "?s mod 86400 mod 60 = ?r mod 86400 mod 60" by blast+
  have "civil_date (?s div 86400) = civil_date (?r div 86400)"
    unfolding t(1) u(1) using eq by blast
  then have day: "?s div 86400 = ?r div 86400" unfolding civil_date_inject .
  have split: "x = 3600 * (x div 3600) + 60 * (x mod 3600 div 60) + x mod 60" for x :: int
  proof -
    have "x mod 60 = x mod 3600 mod 60" by (simp add: mod_mod_cancel)
    then show ?thesis
      using mult_div_mod_eq [of 3600 x] mult_div_mod_eq [of 60 "x mod 3600"] by linarith
  qed
  have "?s mod 86400 = ?r mod 86400"
    using split [of "?s mod 86400"] split [of "?r mod 86400"] hms by metis
  with day show ?thesis by (metis div_mult_mod_eq)
qed

section \<open>Whole seconds\<close>

text \<open>
  \<open>int(d.Seconds())\<close>, which adds a float64 of the seconds \<open>s\<close> and one of the fraction \<open>n / second\<close>.  The
  fraction is rounded to \<open>f / 2 ^ 53\<close>, which only matters when it is near 1, and the sum reaches the next
  second when the fraction is no further from it than half the distance between floats at \<open>s\<close>, the
  \<open>2 ^ (e - 53)\<close> for \<open>2 ^ e \<le> s\<close>; otherwise the conversion cuts the fraction off.
\<close>

definition int_seconds :: "duration \<Rightarrow> int" where
  "int_seconds d =
     (let s = \<bar>d\<bar> div second; n = \<bar>d\<bar> mod second; f = (2 * n * 2 ^ 53 + second) div (2 * second)
      in sgn d * (if list_ex (\<lambda>e. 2 ^ e \<le> s \<and> 2 ^ 53 \<le> f + 2 ^ e) [0..<53] then s + 1 else s))"

text \<open>The fraction is always cut off from whole seconds and below \<open>2 ^ 23\<close> seconds, some 97 days.\<close>

lemma int_seconds_cut:
  assumes "\<bar>d\<bar> div second < 2 ^ 23 \<or> \<bar>d\<bar> mod second = 0"
  shows "int_seconds d = sgn d * (\<bar>d\<bar> div second)"
proof -
  let ?s = "\<bar>d\<bar> div second" and ?n = "\<bar>d\<bar> mod second"
  let ?f = "(2 * ?n * 2 ^ 53 + second) div (2 * second)"
  have False if e: "e < 53" "2 ^ e \<le> ?s" "2 ^ 53 \<le> ?f + 2 ^ e" for e :: nat
    using assms
  proof
    assume "?s < 2 ^ 23"
    with e(2) have "(2 :: int) ^ e < 2 ^ 23" by linarith
    moreover have "?n \<le> 999999999" using pos_mod_bound [of second "\<bar>d\<bar>"] by (simp add: second_def)
    then have "?f \<le> (2 * 999999999 * 2 ^ 53 + second) div (2 * second)" by (intro zdiv_mono1) (simp_all add: second_def)
    ultimately show False using e(3) by (simp add: second_def)
  next
    assume "?n = 0"
    then have "?f = 0" by (simp add: second_def)
    then have "(2 :: int) ^ 53 \<le> 2 ^ e" using e(3) by linarith
    then have "53 \<le> e" by (rule power_le_imp_le_exp [rotated]) simp
    with e(1) show False by simp
  qed
  then have "\<not> list_ex (\<lambda>e. 2 ^ e \<le> ?s \<and> 2 ^ 53 \<le> ?f + 2 ^ e) [0..<53]"
    unfolding list_ex_iff set_upt by (metis atLeastLessThan_iff)
  then show ?thesis unfolding int_seconds_def Let_def by (simp only: if_False)
qed

lemma int_seconds_whole: "d mod second = 0 \<Longrightarrow> int_seconds d = d div second"
proof -
  assume "d mod second = 0"
  then obtain k where d: "d = second * k" by auto
  then have "\<bar>d\<bar> = second * \<bar>k\<bar>" by (simp add: abs_mult second_def)
  moreover have "second \<noteq> 0" by (simp add: second_def)
  ultimately show ?thesis
    using int_seconds_cut [of d] by (simp add: d sgn_mult second_def sgn_mult_abs)
qed

lemma int_seconds_short: "\<bar>d\<bar> < 2 ^ 23 * second \<Longrightarrow> int_seconds d = d sdiv second"
proof -
  assume "\<bar>d\<bar> < 2 ^ 23 * second"
  then have "\<bar>d\<bar> div second < 2 ^ 23" by (simp add: second_def)
  moreover have "d sdiv second = sgn d * (\<bar>d\<bar> div second)" by (simp add: signed_divide_int_def second_def)
  ultimately show ?thesis using int_seconds_cut [of d] by simp
qed

end
