(* ===== verification/EthModel.thy ===== *)
theory EthModel imports GoText begin

text \<open>
  A concrete instance of the Ethereum package: addresses as 20 big-endian bytes and
  their hexadecimal text (without the EIP-55 capitals, which need Keccak), and a
  stand-in signature scheme in which the first 20 bytes of a signature are the
  signer's address.  The definitions of the model take the package as an argument; this
  instance serves the witnesses and the interpretations that need one.
\<close>

definition bytes_nat :: "bytes \<Rightarrow> nat" where
  "bytes_nat bs = foldl (\<lambda>n b. 256 * n + unat b) 0 bs"

definition model_address_bytes :: "address \<Rightarrow> bytes" where
  "model_address_bytes a = (let bs = nat_bytes (unat a) in replicate (20 - length bs) 0 @ bs)"

definition model_bytes_to_address :: "bytes \<Rightarrow> address" where
  "model_bytes_to_address bs = word_of_nat (bytes_nat bs)"

definition strip_0x :: "string \<Rightarrow> string" where
  "strip_0x s = (if take 2 s = ''0x'' \<or> take 2 s = ''0X'' then drop 2 s else s)"

definition is_hex_digit :: "char \<Rightarrow> bool" where
  "is_hex_digit c \<longleftrightarrow> is_digit c \<or> (97 \<le> (of_char c :: nat) \<and> (of_char c :: nat) \<le> 102)"

definition model_is_hex_address :: "string \<Rightarrow> bool" where
  "model_is_hex_address s = (let h = strip_0x s in length h = 40 \<and> list_all is_hex_digit h)"

definition model_from_hex :: "string \<Rightarrow> bytes" where
  "model_from_hex s = (let h = strip_0x s in hex_decode (takeWhile is_hex_digit (if even (length h) then h else CHR ''0'' # h)))"

definition model_hexutil_decode :: "string \<Rightarrow> go_error + bytes" where
  "model_hexutil_decode s =
     (if take 2 s = ''0x'' \<and> even (length s) \<and> list_all is_hex_digit (drop 2 s)
      then Inr (hex_decode (drop 2 s)) else Inl (Err ''invalid hex string''))"

definition model_unmarshal_address :: "jval \<Rightarrow> go_error + address" where
  "model_unmarshal_address v =
     (case v of
        VStr raw \<Rightarrow>
          (case model_hexutil_decode raw of
             Inl err \<Rightarrow> Inl err
           | Inr bs \<Rightarrow> if length bs = 20 then Inr (model_bytes_to_address bs) else Inl (Err ''wrong length''))
      | _ \<Rightarrow> Inl (Err ''non-string''))"

definition eth_model :: eth where
  "eth_model = \<lparr>
     eth_is_hex_address = model_is_hex_address,
     eth_hex_to_address = (\<lambda>s. model_bytes_to_address (model_from_hex s)),
     eth_address_hex = (\<lambda>a. ''0x'' @ hex_encode (model_address_bytes a)),
     eth_marshal_address = (\<lambda>a. ''0x'' @ hex_encode (model_address_bytes a)),
     eth_unmarshal_address = model_unmarshal_address,
     eth_address_bytes = model_address_bytes,
     eth_bytes_to_address = model_bytes_to_address,
     eth_hexutil_decode = model_hexutil_decode,
     eth_hexutil_decode_big = (\<lambda>s. map_sum (\<lambda>e. e) (\<lambda>b. int (bytes_nat b)) (model_hexutil_decode s)),
     eth_from_hex = model_from_hex,
     eth_text_hash = (\<lambda>b. b),
     eth_bytes_to_hash = (\<lambda>b. b),
     eth_sig_to_pub = (\<lambda>h sig. Inr (take 20 sig)),
     eth_pubkey_to_address = model_bytes_to_address\<rparr>"

lemma bytes_nat_zeros [simp]: "bytes_nat (replicate n 0 @ bs) = bytes_nat bs"
proof -
  have "foldl (\<lambda>n b. 256 * n + unat b) 0 (replicate n (0 :: 8 word)) = 0"
    by (induction n) simp_all
  then show ?thesis by (simp add: bytes_nat_def)
qed

lemma bytes_nat_nat_bytes [simp]: "bytes_nat (nat_bytes n) = n"
  by (simp add: bytes_nat_def nat_bytes_fold)

lemma model_address_roundtrip [simp]: "model_bytes_to_address (model_address_bytes a) = a"
  by (simp add: model_bytes_to_address_def model_address_bytes_def Let_def)

lemma length_nat_bytes: "n < 256 ^ k \<Longrightarrow> length (nat_bytes n) \<le> k"
proof (induction k arbitrary: n)
  case 0
  then show ?case by (simp add: nat_bytes.simps)
next
  case (Suc k)
  then have "n div 256 < 256 ^ k" by (simp add: less_mult_imp_div_less mult.commute)
  then have "length (nat_bytes (n div 256)) \<le> k" by (rule Suc.IH)
  then show ?case by (subst nat_bytes.simps) simp
qed

lemma length_model_address_bytes: "length (model_address_bytes a) = 20"
proof -
  have "unat a < 2 ^ 160" using unsigned_less [of a, where ?'a = nat] by simp
  then have "unat a < 256 ^ 20" by simp
  then show ?thesis
    using length_nat_bytes [of "unat a" 20] by (simp add: model_address_bytes_def Let_def)
qed

lemma model_address_hex_length: "length (eth_address_hex eth_model a) = 42"
  by (simp add: eth_model_def length_model_address_bytes)

lemma model_address_hex_inject: "eth_address_hex eth_model a = eth_address_hex eth_model b \<longleftrightarrow> a = b"
  by (auto simp: eth_model_def hex_encode_inject dest: arg_cong [where f = model_bytes_to_address])

lemma hex_digit_is: "n < 16 \<Longrightarrow> is_hex_digit (hex_digit n)"
  by (auto simp: is_hex_digit_def is_digit_def hex_digit_def)

lemma hex_encode_digits: "list_all is_hex_digit (hex_encode bs)"
proof (induction bs)
  case (Cons b bs)
  have "unat b div 16 < 16" using unat_byte_bound [of b] by (simp add: less_mult_imp_div_less)
  with Cons show ?case by (simp add: hex_digit_is)
qed simp

lemma takeWhile_hex [simp]: "takeWhile is_hex_digit (hex_encode bs) = hex_encode bs"
  using hex_encode_digits [of bs] by (simp add: takeWhile_eq_all_conv list_all_iff)

lemma model_decode_hex:
  "eth_hexutil_decode eth_model (''0x'' @ hex_encode bs) = Inr bs"
  "eth_from_hex eth_model (''0x'' @ hex_encode bs) = bs"
  by (simp_all add: eth_model_def model_hexutil_decode_def model_from_hex_def strip_0x_def hex_encode_digits)

lemma model_decode_address:
  "eth_is_hex_address eth_model (eth_address_hex eth_model a)"
  "eth_hex_to_address eth_model (eth_address_hex eth_model a) = a"
  by (simp_all add: eth_model_def model_is_hex_address_def model_from_hex_def strip_0x_def
      hex_encode_digits length_model_address_bytes)

text \<open>A signature of the instance: the signer's address, then anything, then the recovery id.\<close>

definition model_signature :: "address \<Rightarrow> 8 word \<Rightarrow> bytes" where
  "model_signature a v = model_address_bytes a @ replicate 44 0 @ [v]"

end
