(* ===== verification/SiweMessage.thy ===== *)
theory SiweMessage imports GoTime EthModel begin

text \<open>
  The EIP-4361 message (internal/siwe/message/message.go), rendered byte for byte, and
  what its text determines: the account, the nonce, and the two times to the second.
\<close>

section \<open>Rendering\<close>

definition version_string :: string where
  "version_string = ''1''"

record message =
  msg_domain :: string
  msg_address :: address
  msg_statement :: string
  msg_uri :: string
  msg_chain_id :: uint64
  msg_nonce :: string
  msg_issued_at :: instant
  msg_expiration_time :: instant

definition message_string :: "eth \<Rightarrow> message \<Rightarrow> string" where
  "message_string eth m =
     msg_domain m @ '' wants you to sign in with your Ethereum account:'' @ nl
     @ eth_address_hex eth (msg_address m)
     @ nl @ nl
     @ msg_statement m
     @ nl @ nl
     @ ''URI: '' @ msg_uri m @ nl
     @ ''Version: '' @ version_string @ nl
     @ ''Chain ID: '' @ show_nat (unat (msg_chain_id m)) @ nl
     @ ''Nonce: '' @ msg_nonce m @ nl
     @ ''Issued At: '' @ rfc3339 (msg_issued_at m) @ nl
     @ ''Expiration Time: '' @ rfc3339 (msg_expiration_time m)"

section \<open>What the text determines\<close>

text \<open>
  Two messages of one server: the fields its configuration fixes agree.
\<close>

definition same_server :: "message \<Rightarrow> message \<Rightarrow> bool" where
  "same_server m m' \<longleftrightarrow> msg_domain m = msg_domain m' \<and> msg_statement m = msg_statement m' \<and>
     msg_uri m = msg_uri m' \<and> msg_chain_id m = msg_chain_id m'"

text \<open>
  The text of an address has 42 characters and tells addresses apart; the instance of
  EthModel shows that such a rendering exists.
\<close>

locale address_text =
  fixes eth :: eth
  assumes hex_length: "length (eth_address_hex eth a) = 42"
    and hex_inject: "eth_address_hex eth a = eth_address_hex eth b \<Longrightarrow> a = b"
begin

lemma message_fields:
  assumes "same_server m m'" and "length (msg_nonce m) = length (msg_nonce m')"
    and years: "four_digit_year (msg_issued_at m)" "four_digit_year (msg_issued_at m')"
      "four_digit_year (msg_expiration_time m)" "four_digit_year (msg_expiration_time m')"
    and eq: "message_string eth m = message_string eth m'"
  shows "msg_address m = msg_address m'" and "msg_nonce m = msg_nonce m'"
    and "msg_issued_at m div second = msg_issued_at m' div second"
    and "msg_expiration_time m div second = msg_expiration_time m' div second"
proof -
  have len: "length (rfc3339 (msg_issued_at m)) = length (rfc3339 (msg_issued_at m'))"
    "length (eth_address_hex eth (msg_address m)) = length (eth_address_hex eth (msg_address m'))"
    by (simp_all add: rfc3339_length years hex_length)
  from eq assms(1,2) len have "eth_address_hex eth (msg_address m) = eth_address_hex eth (msg_address m')
      \<and> msg_nonce m = msg_nonce m' \<and> rfc3339 (msg_issued_at m) = rfc3339 (msg_issued_at m')
      \<and> rfc3339 (msg_expiration_time m) = rfc3339 (msg_expiration_time m')"
    by (simp add: message_string_def same_server_def)
  then show "msg_address m = msg_address m'" and "msg_nonce m = msg_nonce m'"
    and "msg_issued_at m div second = msg_issued_at m' div second"
    and "msg_expiration_time m div second = msg_expiration_time m' div second"
    by (auto dest: hex_inject rfc3339_seconds [OF years(1,2)] rfc3339_seconds [OF years(3,4)])
qed

end

interpretation text_model: address_text eth_model
  by unfold_locales (simp_all add: model_address_hex_length model_address_hex_inject)

section \<open>Properties\<close>

text \<open>
  C35: Binding.  Two challenge messages of one server with the same text are for the same account, the
  same nonce, and the same issue and expiry second, so a signature over the one says nothing about
  any other challenge.
\<close>

theorem message_binding:
  assumes "address_text eth" and "same_server m m'" and "length (msg_nonce m) = length (msg_nonce m')"
    and "four_digit_year (msg_issued_at m)" and "four_digit_year (msg_issued_at m')"
    and "four_digit_year (msg_expiration_time m)" and "four_digit_year (msg_expiration_time m')"
    and "message_string eth m = message_string eth m'"
  shows "msg_address m = msg_address m' \<and> msg_nonce m = msg_nonce m' \<and>
    msg_issued_at m div second = msg_issued_at m' div second \<and>
    msg_expiration_time m div second = msg_expiration_time m' div second"
  using address_text.message_fields [OF assms] by simp

definition sample_message :: "instant \<Rightarrow> message" where
  "sample_message t = \<lparr>msg_domain = ''auth.example'', msg_address = 7, msg_statement = ''Sign in'',
     msg_uri = ''https://auth.example'', msg_chain_id = 137, msg_nonce = ''abc'',
     msg_issued_at = t, msg_expiration_time = t\<rparr>"

theorem message_binding_witness:
  "msg_issued_at (sample_message (63900000000 * second)) div second
     = msg_issued_at (sample_message (63900000000 * second + 5)) div second"
proof -
  have "rfc3339 (63900000000 * second) = rfc3339 (63900000000 * second + 5)"
    by (simp add: rfc3339_def second_def)
  then have "message_string eth_model (sample_message (63900000000 * second))
      = message_string eth_model (sample_message (63900000000 * second + 5))"
    by (simp add: message_string_def sample_message_def)
  from message_binding [OF text_model.address_text_axioms _ _ _ _ _ _ this] show ?thesis
    by (simp add: sample_message_def same_server_def four_digit_year_def second_def)
qed

end
