(* ===== verification/NonceStore.thy ===== *)
theory NonceStore imports GoTime begin

text \<open>
  The challenge store of the sign-in flow (internal/siwe/nonce/nonce.go): the
  stored challenge, the fresh nonce, and the \<open>Store\<close> interface as a locale
  whose laws are what the handlers rely on.  The two implementations interpret the
  locale in their own theories.
\<close>

section \<open>Challenges and nonces\<close>

record challenge =
  ch_message :: string
  ch_address :: address
  ch_expires_at :: instant
  ch_audience :: "string list"

text \<open>
  \<open>New\<close>: the argument is what \<open>rand.Read\<close> gives for a buffer of 32 bytes.
\<close>

definition nonce_new :: "go_error + bytes \<Rightarrow> go_error + string" where
  "nonce_new rnd = (case rnd of Inl err \<Rightarrow> Inl err | Inr b \<Rightarrow> Inr (hex_encode b))"

lemma nonce_new_Inr: "nonce_new rnd = Inr n \<longleftrightarrow> (\<exists>b. rnd = Inr b \<and> n = hex_encode b)"
  by (auto simp: nonce_new_def split: sum.splits)

lemma nonce_new_length:
  "nonce_new (Inr b) = Inr n \<Longrightarrow> length b = 32 \<Longrightarrow> length n = 64"
  by (auto simp: nonce_new_def)

section \<open>The Store interface\<close>

text \<open>
  A store has a state \<open>'s\<close>; each call happens in an environment \<open>'e\<close> (the
  clock reading of the call, and for a database its fate).  \<open>lookup\<close> is the
  abstract content: which challenge a nonce is outstanding for.  \<open>norm\<close> is what
  the store keeps of a challenge (a database may round the expiry down).
  \<open>sweep e i\<close> is one locked step of the janitor, over portion \<open>i\<close> of the store; \<open>healthy\<close> marks the calls that the
  backend carries out and whose reply arrives.
\<close>

locale challenge_store =
  fixes put :: "'e \<Rightarrow> string \<Rightarrow> challenge \<Rightarrow> 's \<Rightarrow> go_error option \<times> 's"
    and consume :: "'e \<Rightarrow> string \<Rightarrow> 's \<Rightarrow> (go_error + challenge) \<times> 's"
    and sweep :: "'e \<Rightarrow> nat \<Rightarrow> 's \<Rightarrow> 's"
    and lookup :: "'s \<Rightarrow> string \<Rightarrow> challenge option"
    and inv :: "'s \<Rightarrow> bool"
    and clock :: "'e \<Rightarrow> instant"
    and healthy :: "'e \<Rightarrow> bool"
    and norm :: "challenge \<Rightarrow> challenge"
  assumes norm_keeps: "ch_message (norm ch) = ch_message ch"
      "ch_address (norm ch) = ch_address ch" "ch_audience (norm ch) = ch_audience ch"
    and norm_expiry: "ch_expires_at (norm ch) \<le> ch_expires_at ch"
    and put_inv: "inv s \<Longrightarrow> put e k ch s = (r, s') \<Longrightarrow> inv s'"
    and put_stores: "inv s \<Longrightarrow> put e k ch s = (None, s') \<Longrightarrow> lookup s' k = Some (norm ch)"
    and put_only: "inv s \<Longrightarrow> put e k ch s = (r, s') \<Longrightarrow> lookup s' k' = Some c \<Longrightarrow>
        lookup s k' = Some c \<or> (k' = k \<and> c = norm ch)"
    and put_keeps: "inv s \<Longrightarrow> put e k ch s = (r, s') \<Longrightarrow> k' \<noteq> k \<Longrightarrow> lookup s k' = Some c \<Longrightarrow>
        clock e \<le> ch_expires_at c \<Longrightarrow> lookup s' k' = Some c"
    and consume_inv: "inv s \<Longrightarrow> consume e k s = (res, s') \<Longrightarrow> inv s'"
    and consume_returns: "inv s \<Longrightarrow> consume e k s = (Inr ch, s') \<Longrightarrow>
        lookup s k = Some ch \<and> clock e \<le> ch_expires_at ch"
    and consume_removes: "inv s \<Longrightarrow> consume e k s = (Inr ch, s') \<Longrightarrow> lookup s' k = None"
    and consume_only: "inv s \<Longrightarrow> consume e k s = (res, s') \<Longrightarrow> lookup s' k' = Some c \<Longrightarrow>
        lookup s k' = Some c"
    and consume_keeps: "inv s \<Longrightarrow> consume e k s = (res, s') \<Longrightarrow> k' \<noteq> k \<Longrightarrow>
        lookup s' k' = lookup s k'"
    and consume_live: "inv s \<Longrightarrow> lookup s k = Some ch \<Longrightarrow> clock e \<le> ch_expires_at ch \<Longrightarrow>
        healthy e \<Longrightarrow> \<exists>s'. consume e k s = (Inr ch, s')"
    and sweep_inv: "inv s \<Longrightarrow> inv (sweep e i s)"
    and sweep_only: "inv s \<Longrightarrow> lookup (sweep e i s) k = Some c \<Longrightarrow> lookup s k = Some c"
    and sweep_keeps: "inv s \<Longrightarrow> lookup s k = Some c \<Longrightarrow> clock e \<le> ch_expires_at c \<Longrightarrow>
        lookup (sweep e i s) k = Some c"
begin

lemma consume_unknown:
  assumes "inv s" and "lookup s k = None" and "consume e k s = (r, s')"
  shows "\<exists>err. r = Inl err"
proof (cases r)
  case (Inr ch)
  with assms consume_returns [of s e k ch s'] show ?thesis by simp
qed simp

lemma consume_expired:
  assumes "inv s" and "lookup s k = Some ch" and "ch_expires_at ch < clock e"
    and "consume e k s = (r, s')"
  shows "\<exists>err. r = Inl err"
proof (cases r)
  case (Inr ch')
  with assms consume_returns [of s e k ch' s'] show ?thesis by auto
qed simp

lemma consume_twice:
  assumes "inv s" and "consume e k s = (Inr ch, s1)" and "consume e' k s1 = (r, s2)"
  shows "\<exists>err. r = Inl err"
  using consume_unknown consume_inv [OF assms(1,2)] consume_removes [OF assms(1,2)] assms(3)
  by blast

lemma put_consume:
  assumes "inv s" and "put e k ch s = (None, s1)"
    and "clock e' \<le> ch_expires_at (norm ch)" and "healthy e'"
  shows "\<exists>s2. consume e' k s1 = (Inr (norm ch), s2)"
  using consume_live [OF put_inv [OF assms(1,2)] put_stores [OF assms(1,2)] assms(3,4)] .

end

end
