(* ===== verification/GoUtf8.thy ===== *)
theory GoUtf8 imports GoText begin

text \<open>
  UTF-8 as the Go package utf8 reads and writes it.  A string is its bytes; a byte that begins no valid
  encoding reads as U+FFFD.
\<close>

section \<open>Runes\<close>

text \<open>\<open>utf8.DecodeRune\<close>: the rune and its length; a byte that begins no valid encoding is U+FFFD of length 1.\<close>

definition utf8_cont :: "nat \<Rightarrow> bool" where
  "utf8_cont b \<longleftrightarrow> 0x80 \<le> b \<and> b \<le> 0xBF"

definition decode_rune :: "string \<Rightarrow> nat \<times> nat" where
  "decode_rune s =
     (case map of_char (take 4 s) of
        [] \<Rightarrow> (0xFFFD, 0)
      | b0 # t \<Rightarrow>
          if b0 < 0x80 then (b0, 1)
          else if 0xC2 \<le> b0 \<and> b0 \<le> 0xDF then
            (case t of
               b1 # _ \<Rightarrow> if utf8_cont b1 then ((b0 - 0xC0) * 64 + (b1 - 0x80), 2) else (0xFFFD, 1)
             | _ \<Rightarrow> (0xFFFD, 1))
          else if 0xE0 \<le> b0 \<and> b0 \<le> 0xEF then
            (case t of
               b1 # b2 # _ \<Rightarrow>
                 if (if b0 = 0xE0 then 0xA0 else 0x80) \<le> b1 \<and> b1 \<le> (if b0 = 0xED then 0x9F else 0xBF) \<and> utf8_cont b2
                 then ((b0 - 0xE0) * 4096 + (b1 - 0x80) * 64 + (b2 - 0x80), 3) else (0xFFFD, 1)
             | _ \<Rightarrow> (0xFFFD, 1))
          else if 0xF0 \<le> b0 \<and> b0 \<le> 0xF4 then
            (case t of
               b1 # b2 # b3 # _ \<Rightarrow>
                 if (if b0 = 0xF0 then 0x90 else 0x80) \<le> b1 \<and> b1 \<le> (if b0 = 0xF4 then 0x8F else 0xBF) \<and>
                    utf8_cont b2 \<and> utf8_cont b3
                 then ((b0 - 0xF0) * 262144 + (b1 - 0x80) * 4096 + (b2 - 0x80) * 64 + (b3 - 0x80), 4) else (0xFFFD, 1)
             | _ \<Rightarrow> (0xFFFD, 1))
          else (0xFFFD, 1))"

definition surrogate :: "nat \<Rightarrow> bool" where
  "surrogate r \<longleftrightarrow> 0xD800 \<le> r \<and> r < 0xE000"

text \<open>\<open>utf8.EncodeRune\<close>\<close>

definition encode_rune :: "nat \<Rightarrow> string" where
  "encode_rune r =
     map char_of
      (if r < 0x80 then [r]
       else if r < 0x800 then [0xC0 + r div 64, 0x80 + r mod 64]
       else if surrogate r \<or> 0x110000 \<le> r then [0xEF, 0xBF, 0xBD]
       else if r < 0x10000 then [0xE0 + r div 4096, 0x80 + r div 64 mod 64, 0x80 + r mod 64]
       else [0xF0 + r div 262144, 0x80 + r div 4096 mod 64, 0x80 + r div 64 mod 64, 0x80 + r mod 64])"

section \<open>Bytes of an encoding\<close>

text \<open>A rune is at least one byte long, and all bytes of one that is not ASCII are above 127.\<close>

lemma decode_rune_bytes:
  assumes "decode_rune (c # s) = (r, n)" and "128 \<le> (of_char c :: nat)"
  shows "1 \<le> n" and "list_all (\<lambda>b. 128 \<le> (of_char b :: nat)) (take n (c # s))"
proof -
  have c: "list_all (\<lambda>b. 128 \<le> (of_char b :: nat)) (take (Suc 0) (c # s))" using assms(2) by simp
  consider "n = 1"
    | b1 s1 where "s = b1 # s1" "n = 2" "utf8_cont (of_char b1)"
    | b1 b2 s1 where "s = b1 # b2 # s1" "n = 3" "0x80 \<le> (of_char b1 :: nat)" "utf8_cont (of_char b2)"
    | b1 b2 b3 s1 where "s = b1 # b2 # b3 # s1" "n = 4" "0x80 \<le> (of_char b1 :: nat)" "utf8_cont (of_char b2)" "utf8_cont (of_char b3)"
    using assms
    by (cases s; cases "tl s"; cases "tl (tl s)") (auto simp: decode_rune_def split: if_splits)
  then show "1 \<le> n" "list_all (\<lambda>b. 128 \<le> (of_char b :: nat)) (take n (c # s))"
    using c assms(2) by (cases; simp add: utf8_cont_def)+
qed

end
