(* ===== verification/GoJson.thy ===== *)
theory GoJson imports GoUtf8 begin

text \<open>
  JSON documents as \<open>encoding/json\<close> writes them: no spaces, struct fields in
  declaration order, strings quoted with the HTML-safe escapes.  A byte that is not UTF-8 is written as
  U+FFFD, and the two line separators of Unicode are escaped.
\<close>

datatype json =
    JNull
  | JBool bool
  | JInt int
  | JStr string
  | JArr "json list"
  | JObj "(string \<times> json) list"

definition json_escape :: "char \<Rightarrow> string" where
  "json_escape c =
     (let k = of_char c :: nat in
      if k = 34 \<or> k = 92 then [CHR 0x5C, c]
      else if k = 8 then CHR 0x5C # ''b''
      else if k = 12 then CHR 0x5C # ''f''
      else if k = 10 then CHR 0x5C # ''n''
      else if k = 13 then CHR 0x5C # ''r''
      else if k = 9 then CHR 0x5C # ''t''
      else if k < 32 \<or> k = 60 \<or> k = 62 \<or> k = 38 then CHR 0x5C # ''u00'' @ hex_encode [word_of_nat k]
      else [c])"

fun escaped :: "string \<Rightarrow> string" where
  "escaped [] = []"
| "escaped (c # s) =
     (if (of_char c :: nat) < 128 then json_escape c @ escaped s
      else (let (r, n) = decode_rune (c # s)
            in (if r = 0xFFFD \<and> n = 1 then CHR 0x5C # ''ufffd''
                else if r = 0x2028 \<or> r = 0x2029 then CHR 0x5C # ''u202'' @ [hex_digit (r mod 16)]
                else take n (c # s))
               @ escaped (drop (n - 1) s)))"

declare escaped.simps(2) [simp del]

definition json_quote :: "string \<Rightarrow> string" where
  "json_quote s = [CHR 0x22] @ escaped s @ [CHR 0x22]"

fun json_text :: "json \<Rightarrow> string" where
  "json_text JNull = ''null''"
| "json_text (JBool b) = (if b then ''true'' else ''false'')"
| "json_text (JInt i) = show_int i"
| "json_text (JStr s) = json_quote s"
| "json_text (JArr js) = ''['' @ join_with '','' (map json_text js) @ '']''"
| "json_text (JObj fs) =
     ''{'' @ join_with '','' (map (\<lambda>(k, j). json_quote k @ '':'' @ json_text j) fs) @ ''}''"

fun json_field :: "string \<Rightarrow> json \<Rightarrow> json option" where
  "json_field k (JObj fs) = map_of fs k"
| "json_field k j = None"

definition json_strings :: "string list \<Rightarrow> json" where
  "json_strings xs = JArr (map JStr xs)"

end
