(* ===== verification/Keyset.thy ===== *)
theory Keyset imports GoJson begin

text \<open>
  The signing keys (internal/keyset/keyset.go and jwks.go): loading them from PEM,
  their RFC 7638 thumbprints, signing with the first of them, and the published JWKS.
  PEM and X.509 parsing, SHA-256 and the RSA signature are parameters.
\<close>

section \<open>Keys\<close>

record rsa_private =
  priv_n :: int
  priv_e :: int
  priv_d :: int

record rsa_public =
  pub_n :: int
  pub_e :: int

definition public_key :: "rsa_private \<Rightarrow> rsa_public" where
  "public_key k = \<lparr>pub_n = priv_n k, pub_e = priv_e k\<rparr>"

text \<open>\<open>x509.ParsePKCS8PrivateKey\<close> gives an RSA key or one of another type.\<close>

datatype pkcs8_key = RsaKey rsa_private | OtherKey string

record key_codec =
  pem_decode :: "bytes \<Rightarrow> bytes option"
  parse_pkcs1 :: "bytes \<Rightarrow> go_error + rsa_private"
  parse_pkcs8 :: "bytes \<Rightarrow> go_error + pkcs8_key"
  sha256 :: "bytes \<Rightarrow> bytes"

record signing_key =
  sk_kid :: string
  sk_priv :: rsa_private

record key_set =
  ks_all :: "signing_key list"

definition min_rsa_bits :: nat where
  "min_rsa_bits = 2048"

text \<open>\<open>(*big.Int).BitLen\<close> and \<open>(*big.Int).Bytes\<close>: both read the absolute value.\<close>

fun nat_bits :: "nat \<Rightarrow> nat" where
  "nat_bits n = (if n = 0 then 0 else Suc (nat_bits (n div 2)))"

declare nat_bits.simps [simp del]

definition bit_len :: "int \<Rightarrow> nat" where
  "bit_len n = nat_bits (nat \<bar>n\<bar>)"

definition big_bytes :: "int \<Rightarrow> bytes" where
  "big_bytes n = nat_bytes (nat \<bar>n\<bar>)"

section \<open>Loading\<close>

definition parse_rsa_private_key :: "key_codec \<Rightarrow> bytes \<Rightarrow> go_error + rsa_private" where
  "parse_rsa_private_key c pem_bytes =
     (case pem_decode c pem_bytes of
        None \<Rightarrow> Inl (Err ''no PEM block found'')
      | Some block \<Rightarrow>
          (case parse_pkcs1 c block of
             Inr key \<Rightarrow> Inr key
           | Inl _ \<Rightarrow>
               (case parse_pkcs8 c block of
                  Inl err \<Rightarrow> Inl (Wrap ''not a valid PKCS#1 or PKCS#8 RSA key'' err)
                | Inr (OtherKey t) \<Rightarrow> Inl (Err (''key is '' @ t @ '', not RSA''))
                | Inr (RsaKey key) \<Rightarrow> Inr key)))"

definition canonical_jwk :: "rsa_public \<Rightarrow> string" where
  "canonical_jwk pub =
     ''{'' @ [CHR 0x22] @ ''e'' @ [CHR 0x22] @ '':'' @ [CHR 0x22] @ b64_encode (big_bytes (pub_e pub))
     @ [CHR 0x22] @ '','' @ [CHR 0x22] @ ''kty'' @ [CHR 0x22] @ '':'' @ [CHR 0x22] @ ''RSA'' @ [CHR 0x22]
     @ '','' @ [CHR 0x22] @ ''n'' @ [CHR 0x22] @ '':'' @ [CHR 0x22] @ b64_encode (big_bytes (pub_n pub))
     @ [CHR 0x22] @ ''}''"

definition thumbprint :: "key_codec \<Rightarrow> rsa_public \<Rightarrow> string" where
  "thumbprint c pub = b64_encode (sha256 c (bytes_of (canonical_jwk pub)))"

text \<open>
  The loop of \<open>Load\<close> at index \<open>i\<close>: \<open>seen\<close> and \<open>acc\<close> hold the kids and keys so far.
\<close>

definition key_error :: "nat \<Rightarrow> go_error \<Rightarrow> go_error" where
  "key_error i e = Wrap (''signing key '' @ show_nat (i + 1)) e"

fun load_loop ::
  "key_codec \<Rightarrow> nat \<Rightarrow> string list \<Rightarrow> signing_key list \<Rightarrow> string list \<Rightarrow> go_error + signing_key list" where
  "load_loop c i seen acc [] = Inr acc"
| "load_loop c i seen acc (p # ps) =
     (case parse_rsa_private_key c (bytes_of p) of
        Inl err \<Rightarrow> Inl (key_error i err)
      | Inr priv \<Rightarrow>
          if bit_len (priv_n priv) < min_rsa_bits
          then Inl (key_error i (Err ''RSA modulus is below the minimum''))
          else
            (let kid = thumbprint c (public_key priv) in
             if kid \<in> set seen then Inl (key_error i (Err ''duplicate key''))
             else load_loop c (Suc i) (kid # seen) (acc @ [\<lparr>sk_kid = kid, sk_priv = priv\<rparr>]) ps))"

definition load_keys :: "key_codec \<Rightarrow> string list \<Rightarrow> go_error + key_set" where
  "load_keys c pems =
     (if pems = [] then Inl (Err ''no signing keys provided'')
      else case load_loop c 0 [] [] pems of
             Inl err \<Rightarrow> Inl err | Inr ks \<Rightarrow> Inr \<lparr>ks_all = ks\<rparr>)"

section \<open>Signing and publishing\<close>

text \<open>
  \<open>Sign\<close>: the key set of a successful load is not empty, so that \<open>k.all[0]\<close> is its
  head.  \<open>signed_string\<close> is the RS256 signature over header and claims.
\<close>

definition keyset_sign ::
  "(rsa_private \<Rightarrow> string \<Rightarrow> 'c \<Rightarrow> go_error + string) \<Rightarrow> key_set \<Rightarrow> 'c \<Rightarrow> go_error + string" where
  "keyset_sign signed_string k claims =
     (let active = ks_all k ! 0 in signed_string (sk_priv active) (sk_kid active) claims)"

definition active_kid :: "key_set \<Rightarrow> string" where
  "active_kid k = sk_kid (ks_all k ! 0)"

record jwk =
  jwk_kty :: string
  jwk_use :: string
  jwk_alg :: string
  jwk_kid :: string
  jwk_n :: string
  jwk_e :: string

definition public_jwk :: "string \<Rightarrow> rsa_public \<Rightarrow> jwk" where
  "public_jwk kid pub = \<lparr>jwk_kty = ''RSA'', jwk_use = ''sig'', jwk_alg = ''RS256'', jwk_kid = kid,
     jwk_n = b64_encode (big_bytes (pub_n pub)), jwk_e = b64_encode (big_bytes (pub_e pub))\<rparr>"

definition jwk_list :: "key_set \<Rightarrow> jwk list" where
  "jwk_list k = map (\<lambda>sk. public_jwk (sk_kid sk) (public_key (sk_priv sk))) (ks_all k)"

definition jwk_json :: "jwk \<Rightarrow> json" where
  "jwk_json j = JObj [(''kty'', JStr (jwk_kty j)), (''use'', JStr (jwk_use j)), (''alg'', JStr (jwk_alg j)),
     (''kid'', JStr (jwk_kid j)), (''n'', JStr (jwk_n j)), (''e'', JStr (jwk_e j))]"

definition keyset_jwks :: "key_set \<Rightarrow> string" where
  "keyset_jwks k = json_text (JObj [(''keys'', JArr (map jwk_json (jwk_list k)))])"

section \<open>Lemmas\<close>

lemma nat_bits_ge: "2 ^ k \<le> n \<Longrightarrow> k < nat_bits n"
proof (induction k arbitrary: n)
  case 0
  then show ?case by (subst nat_bits.simps) simp
next
  case (Suc k)
  then have "2 ^ k \<le> n div 2" by simp
  with Suc.IH have "k < nat_bits (n div 2)" by simp
  moreover have "n \<noteq> 0" using Suc.prems by (cases n) simp_all
  ultimately show ?case by (subst nat_bits.simps) simp
qed

lemma bit_len_ge: "2 ^ k \<le> n \<Longrightarrow> k < bit_len n"
  by (simp add: bit_len_def nat_bits_ge le_nat_iff)

text \<open>The base64 alphabet has no quotation mark, so the canonical form can be read back.\<close>

lemma b64_char_no_quote: "n < 64 \<Longrightarrow> CHR 0x22 \<noteq> b64_char n"
proof
  assume "n < 64" and quote: "CHR 0x22 = b64_char n"
  then have "n = 38" using b64_val_char [of n] by (simp add: b64_val_def flip: quote)
  with arg_cong [OF quote, of "of_char :: char \<Rightarrow> nat"] show False by (simp add: b64_char_def)
qed

lemma b64_no_quote: "CHR 0x22 \<notin> set (b64_encode bs)"
  by (induction bs rule: b64_encode.induct)
     (simp_all add: b64_char_no_quote sextets div_byte)

lemma quoted_prefix:
  assumes "q \<notin> set s" and "q \<notin> set s'" and "s @ q # t = s' @ q # t'"
  shows "s = s' \<and> t = t'"
  using assms by (induction s arbitrary: s') (auto simp: Cons_eq_append_conv append_eq_Cons_conv)

lemma big_bytes_inject: "0 \<le> m \<Longrightarrow> 0 \<le> n \<Longrightarrow> big_bytes m = big_bytes n \<longleftrightarrow> m = n"
  by (auto simp: big_bytes_def nat_bytes_inject)

lemma canonical_jwk_inject:
  assumes "canonical_jwk p = canonical_jwk q"
    and "0 \<le> pub_n p" "0 \<le> pub_e p" "0 \<le> pub_n q" "0 \<le> pub_e q"
  shows "p = q"
proof -
  from assms(1) have "b64_encode (big_bytes (pub_e p)) = b64_encode (big_bytes (pub_e q)) \<and>
      b64_encode (big_bytes (pub_n p)) = b64_encode (big_bytes (pub_n q))"
    by (auto simp: canonical_jwk_def dest!: quoted_prefix [OF b64_no_quote b64_no_quote])
  with assms(2-) show ?thesis
    by (auto simp: b64_encode_inject big_bytes_inject intro: rsa_public.equality)
qed

lemma of_char_word: "(of_char c :: 8 word) = word_of_nat (of_char c)"
  by (cases c) (simp add: of_char_def)

lemma bytes_of_inject: "bytes_of s = bytes_of t \<longleftrightarrow> s = t"
proof -
  have "inj (of_char :: char \<Rightarrow> 8 word)"
  proof (rule injI)
    fix c d :: char
    assume "(of_char c :: 8 word) = of_char d"
    then have "(of_char c :: nat) mod 256 = of_char d mod 256"
      by (simp add: of_char_word word_of_nat_eq_iff take_bit_eq_mod)
    then show "c = d" by simp
  qed
  then show ?thesis unfolding bytes_of_def by (simp add: inj_map_eq_map)
qed

definition signing_key_of :: "key_codec \<Rightarrow> rsa_private \<Rightarrow> signing_key" where
  "signing_key_of c k = \<lparr>sk_kid = thumbprint c (public_key k), sk_priv = k\<rparr>"

definition loadable :: "key_codec \<Rightarrow> string list \<Rightarrow> rsa_private list \<Rightarrow> bool" where
  "loadable c pems privs \<longleftrightarrow>
     map (\<lambda>p. parse_rsa_private_key c (bytes_of p)) pems = map Inr privs \<and>
     (\<forall>k \<in> set privs. 2048 \<le> bit_len (priv_n k)) \<and>
     distinct (map (\<lambda>k. thumbprint c (public_key k)) privs)"

lemma loadable_Nil [simp]: "loadable c [] privs \<longleftrightarrow> privs = []"
  by (auto simp: loadable_def)

lemma loadable_Cons:
  "loadable c (p # ps) privs \<longleftrightarrow> (\<exists>k ks. privs = k # ks \<and> loadable c ps ks \<and>
     parse_rsa_private_key c (bytes_of p) = Inr k \<and> 2048 \<le> bit_len (priv_n k) \<and>
     (\<forall>x \<in> set ks. thumbprint c (public_key x) \<noteq> thumbprint c (public_key k)))"
  by (cases privs) (auto simp: loadable_def image_iff dest: sym)

lemma load_loop_iff:
  "load_loop c i seen acc ps = Inr r \<longleftrightarrow>
     (\<exists>privs. loadable c ps privs \<and> (\<forall>k \<in> set privs. thumbprint c (public_key k) \<notin> set seen) \<and>
        r = acc @ map (signing_key_of c) privs)"
proof (induction ps arbitrary: i seen acc)
  case (Cons p ps)
  show ?case
  proof (cases "parse_rsa_private_key c (bytes_of p)")
    case (Inr k)
    have "load_loop c i seen acc (p # ps) = Inr r \<longleftrightarrow>
        2048 \<le> bit_len (priv_n k) \<and> thumbprint c (public_key k) \<notin> set seen \<and>
        load_loop c (Suc i) (thumbprint c (public_key k) # seen) (acc @ [signing_key_of c k]) ps = Inr r"
      by (auto simp: Inr min_rsa_bits_def Let_def signing_key_of_def)
    moreover have "(\<exists>privs. loadable c (p # ps) privs \<and> Q privs) \<longleftrightarrow>
        2048 \<le> bit_len (priv_n k) \<and> (\<exists>ks. loadable c ps ks \<and>
          (\<forall>x \<in> set ks. thumbprint c (public_key x) \<noteq> thumbprint c (public_key k)) \<and> Q (k # ks))" for Q
      by (simp add: loadable_Cons Inr) blast
    ultimately show ?thesis
      unfolding Cons.IH by (simp add: ball_conj_distrib del: load_loop.simps) blast
  qed (simp add: loadable_Cons)
qed auto

lemma loadable_unique: "loadable c pems ks \<Longrightarrow> loadable c pems ks' \<Longrightarrow> ks = ks'"
  by (induction pems arbitrary: ks ks') (auto simp: loadable_Cons)

lemma load_keys_loadable:
  "load_keys c pems = Inr ks \<longleftrightarrow> pems \<noteq> [] \<and>
     (\<exists>privs. loadable c pems privs \<and> ks = \<lparr>ks_all = map (signing_key_of c) privs\<rparr>)"
proof -
  have "load_keys c pems = Inr ks \<longleftrightarrow> pems \<noteq> [] \<and>
     (\<exists>r. load_loop c 0 [] [] pems = Inr r \<and> ks = \<lparr>ks_all = r\<rparr>)"
    by (auto simp: load_keys_def split: sum.splits)
  then show ?thesis by (auto simp: load_loop_iff)
qed

lemma load_keys_Inr:
  assumes "load_keys c pems = Inr ks"
  obtains privs where "loadable c pems privs" and "ks_all ks = map (signing_key_of c) privs" and "privs \<noteq> []"
proof -
  obtain privs where "pems \<noteq> []" and l: "loadable c pems privs" and ks: "ks_all ks = map (signing_key_of c) privs"
    using assms by (auto simp: load_keys_loadable)
  then have "privs \<noteq> []" by (cases pems) (auto simp: loadable_Cons)
  with l ks show ?thesis by (rule that)
qed

lemma loaded_kids_distinct:
  assumes "load_keys c pems = Inr ks"
  shows "distinct (map sk_kid (ks_all ks))"
proof -
  obtain privs where "loadable c pems privs" and "ks_all ks = map (signing_key_of c) privs"
    using assms by (rule load_keys_Inr)
  then show ?thesis by (simp add: loadable_def signing_key_of_def comp_def)
qed

lemma find_by_kid:
  "distinct (map f xs) \<Longrightarrow> x \<in> set xs \<Longrightarrow> (\<And>y. y \<in> set xs \<Longrightarrow> g (h y) = f y) \<Longrightarrow>
   List.find (\<lambda>j. g j = f x) (map h xs) = Some (h x)"
  by (induction xs) (auto simp: image_iff)

lemma find_jwk:
  assumes "load_keys c pems = Inr ks" and "sk \<in> set (ks_all ks)"
  shows "List.find (\<lambda>j. jwk_kid j = sk_kid sk) (jwk_list ks) =
    Some (public_jwk (sk_kid sk) (public_key (sk_priv sk)))"
  unfolding jwk_list_def
  by (rule find_by_kid [OF loaded_kids_distinct [OF assms(1)] assms(2)]) (simp add: public_jwk_def)

section \<open>A concrete codec\<close>

text \<open>
  A codec for the witnesses: a PEM file of one character \<open>x\<close> holds the key with modulus
  \<open>2^2047 + x\<close>; the empty file holds none.
\<close>

definition toy_codec :: key_codec where
  "toy_codec = \<lparr>pem_decode = (\<lambda>b. if b = [] then None else Some b),
     parse_pkcs1 = (\<lambda>b. Inr \<lparr>priv_n = 2 ^ 2047 + uint (hd b), priv_e = 65537, priv_d = 0\<rparr>),
     parse_pkcs8 = (\<lambda>b. Inl (Err '''')), sha256 = (\<lambda>b. b)\<rparr>"

definition toy_key :: "8 word \<Rightarrow> rsa_private" where
  "toy_key x = \<lparr>priv_n = 2 ^ 2047 + uint x, priv_e = 65537, priv_d = 0\<rparr>"

lemma toy_parse: "parse_rsa_private_key toy_codec (bytes_of [x]) = Inr (toy_key (of_char x))"
  by (simp add: parse_rsa_private_key_def toy_codec_def toy_key_def bytes_of_def del: power_numeral)

lemma toy_kids: "thumbprint toy_codec (public_key (toy_key x)) = thumbprint toy_codec (public_key (toy_key y)) \<longleftrightarrow> x = y"
proof -
  have "(0 :: int) \<le> 2 ^ 2047" by (rule zero_le_power) simp
  then have "0 \<le> 2 ^ 2047 + uint (b :: 8 word)" for b by (simp only: add_nonneg_nonneg uint_ge_0)
  moreover have "thumbprint toy_codec p = thumbprint toy_codec q \<longleftrightarrow> canonical_jwk p = canonical_jwk q" for p q
    by (simp add: thumbprint_def toy_codec_def b64_encode_inject bytes_of_inject)
  ultimately show ?thesis
    using canonical_jwk_inject [of "public_key (toy_key x)" "public_key (toy_key y)"]
    by (auto simp: public_key_def toy_key_def intro: iffD2 [OF word_uint_eq_iff] simp del: power_numeral)
qed

lemma toy_bits: "2048 \<le> bit_len (priv_n (toy_key x))"
proof -
  have "(2 :: int) ^ 2047 \<le> 2 ^ 2047 + uint x" by simp
  then show ?thesis using bit_len_ge [of 2047 "priv_n (toy_key x)"] by (simp add: toy_key_def del: power_numeral)
qed

lemma toy_loads:
  "load_keys toy_codec [''A''] = Inr \<lparr>ks_all = [signing_key_of toy_codec (toy_key 65)]\<rparr>"
  "load_keys toy_codec [''B'', ''A''] =
     Inr \<lparr>ks_all = [signing_key_of toy_codec (toy_key 66), signing_key_of toy_codec (toy_key 65)]\<rparr>"
proof -
  have A: "loadable toy_codec [''A''] [toy_key 65]"
    by (simp add: loadable_Cons toy_parse toy_bits)
  then show "load_keys toy_codec [''A''] = Inr \<lparr>ks_all = [signing_key_of toy_codec (toy_key 65)]\<rparr>"
    unfolding load_keys_loadable by force
  from A have "loadable toy_codec [''B'', ''A''] [toy_key 66, toy_key 65]"
    by (simp add: loadable_Cons toy_parse toy_bits toy_kids)
  then show "load_keys toy_codec [''B'', ''A''] =
      Inr \<lparr>ks_all = [signing_key_of toy_codec (toy_key 66), signing_key_of toy_codec (toy_key 65)]\<rparr>"
    unfolding load_keys_loadable by force
qed

section \<open>Properties\<close>

text \<open>
  C34: \<open>Load\<close> succeeds exactly when there is at least one key, every entry parses as an
  RSA key of at least 2048 bits and no two have the same thumbprint; the key set then holds
  the keys in the given order, each under its thumbprint.
\<close>

theorem load_keys_exact:
  "load_keys c pems = Inr ks \<longleftrightarrow> pems \<noteq> [] \<and>
     (\<exists>privs. map (\<lambda>p. parse_rsa_private_key c (bytes_of p)) pems = map Inr privs \<and>
        list_all (\<lambda>k. 2048 \<le> bit_len (priv_n k)) privs \<and>
        distinct (map (\<lambda>k. thumbprint c (public_key k)) privs) \<and>
        ks = \<lparr>ks_all = map (\<lambda>k. \<lparr>sk_kid = thumbprint c (public_key k), sk_priv = k\<rparr>) privs\<rparr>)"
  by (auto simp: load_keys_loadable loadable_def list_all_iff signing_key_of_def)

text \<open>
  The published JWKS has, under the kid of any loaded key, exactly the public half of that
  key, so that a validator that selects by kid finds the key a token was signed with.
\<close>

theorem jwks_selects_key:
  assumes "load_keys c pems = Inr ks" and "sk \<in> set (ks_all ks)"
  shows "\<exists>j. List.find (\<lambda>j. jwk_kid j = sk_kid sk) (jwk_list ks) = Some j \<and>
    b64_decode (jwk_n j) = big_bytes (priv_n (sk_priv sk)) \<and>
    b64_decode (jwk_e j) = big_bytes (priv_e (sk_priv sk)) \<and> jwk_alg j = ''RS256''"
  using find_jwk [OF assms] by (simp add: public_jwk_def public_key_def)

theorem jwks_selects_key_witness:
  "\<exists>j. List.find (\<lambda>j. jwk_kid j = sk_kid (signing_key_of toy_codec (toy_key 65)))
      (jwk_list \<lparr>ks_all = [signing_key_of toy_codec (toy_key 66), signing_key_of toy_codec (toy_key 65)]\<rparr>) = Some j \<and>
    b64_decode (jwk_n j) = big_bytes (priv_n (toy_key 65)) \<and>
    b64_decode (jwk_e j) = big_bytes (priv_e (toy_key 65)) \<and> jwk_alg j = ''RS256''"
  using jwks_selects_key [OF toy_loads(2), of "signing_key_of toy_codec (toy_key 65)"]
  by (simp add: signing_key_of_def)

text \<open>
  Rotating a new key in front makes it the signer, whose kid new tokens carry, and keeps
  every old key in the JWKS unchanged.
\<close>

theorem rotation_keeps_keys:
  assumes "load_keys c pems = Inr old" and "load_keys c (p # pems) = Inr new"
  shows "\<exists>k. parse_rsa_private_key c (bytes_of p) = Inr k \<and>
    keyset_sign signed_string new claims = signed_string k (active_kid new) claims \<and>
    jwk_list new = public_jwk (active_kid new) (public_key k) # jwk_list old \<and>
    active_kid new \<notin> jwk_kid ` set (jwk_list old)"
proof -
  obtain ks where old: "loadable c pems ks" "ks_all old = map (signing_key_of c) ks"
    using assms(1) by (rule load_keys_Inr)
  obtain ks' where new: "loadable c (p # pems) ks'" "ks_all new = map (signing_key_of c) ks'"
    using assms(2) by (rule load_keys_Inr)
  then obtain k ts where k: "ks' = k # ts" "parse_rsa_private_key c (bytes_of p) = Inr k"
    "\<forall>x \<in> set ts. thumbprint c (public_key x) \<noteq> thumbprint c (public_key k)"
    and "loadable c pems ts"
    by (auto simp: loadable_Cons)
  then have "ts = ks" using old(1) by (blast intro: loadable_unique)
  with k have "ks' = k # ks" "parse_rsa_private_key c (bytes_of p) = Inr k"
    "\<forall>x \<in> set ks. thumbprint c (public_key x) \<noteq> thumbprint c (public_key k)" by auto
  with old new show ?thesis
    by (auto simp: keyset_sign_def active_kid_def jwk_list_def signing_key_of_def public_jwk_def)
qed

theorem rotation_keeps_keys_witness:
  "\<exists>k. parse_rsa_private_key toy_codec (bytes_of ''B'') = Inr k \<and>
    active_kid \<lparr>ks_all = [signing_key_of toy_codec (toy_key 66), signing_key_of toy_codec (toy_key 65)]\<rparr>
      \<notin> jwk_kid ` set (jwk_list \<lparr>ks_all = [signing_key_of toy_codec (toy_key 65)]\<rparr>)"
  using rotation_keeps_keys [OF toy_loads, where signed_string = "\<lambda>k h c. Inr h" and claims = "()"] by fast

text \<open>
  as long as SHA-256 does not collide on their canonical forms, different public keys have
  different key ids.
\<close>

theorem thumbprint_identifies_key:
  assumes "thumbprint c p = thumbprint c q"
    and "sha256 c (bytes_of (canonical_jwk p)) = sha256 c (bytes_of (canonical_jwk q)) \<Longrightarrow>
      bytes_of (canonical_jwk p) = bytes_of (canonical_jwk q)"
    and "0 \<le> pub_n p" "0 \<le> pub_e p" "0 \<le> pub_n q" "0 \<le> pub_e q"
  shows "p = q"
  using assms canonical_jwk_inject
  by (simp add: thumbprint_def b64_encode_inject bytes_of_inject)

theorem thumbprint_identifies_key_witness:
  "\<lparr>pub_n = 3233, pub_e = 17\<rparr> = \<lparr>pub_n = 3233, pub_e = 17\<rparr>"
  by (rule thumbprint_identifies_key [where c = toy_codec]) (simp_all add: toy_codec_def)

end
