(* ===== verification/SiweToken.thy ===== *)
theory SiweToken imports Keyset GoTime begin

text \<open>
  The access tokens of a successful sign-in (internal/siwe/token/token.go).  The clock
  reading, the fresh uuid and the RS256 signature are arguments of \<open>issue\<close>; the JWT
  library keeps a numeric date to the second.
\<close>

datatype numeric_date = NewNumericDate instant

record claims =
  cl_ethereum_address :: string
  cl_issuer :: string
  cl_subject :: string
  cl_audience :: "string list"
  cl_issued_at :: numeric_date
  cl_not_before :: numeric_date
  cl_expires_at :: numeric_date
  cl_id :: string

record issuer =
  is_keys :: key_set
  is_issuer :: string
  is_audience :: "string list"
  is_ttl :: duration

record issuer_config =
  ic_keys :: key_set
  ic_issuer :: string
  ic_audience :: "string list"
  ic_ttl :: duration

definition new_issuer :: "issuer_config \<Rightarrow> issuer" where
  "new_issuer cfg = \<lparr>is_keys = ic_keys cfg, is_issuer = ic_issuer cfg,
     is_audience = ic_audience cfg, is_ttl = ic_ttl cfg\<rparr>"

text \<open>The signature over a siwe token, as the key set calls it.\<close>

type_synonym claims_signer = "rsa_private \<Rightarrow> string \<Rightarrow> claims \<Rightarrow> go_error + string"

definition issue_claims ::
  "eth \<Rightarrow> issuer \<Rightarrow> instant \<Rightarrow> string \<Rightarrow> address \<Rightarrow> string list \<Rightarrow> claims" where
  "issue_claims eth i now uuid account audience =
     (let exp = now + is_ttl i;
          addr = eth_address_hex eth account;
          aud = (if length audience > 0 then audience else is_audience i)
      in \<lparr>cl_ethereum_address = addr, cl_issuer = is_issuer i, cl_subject = addr,
          cl_audience = aud, cl_issued_at = NewNumericDate now, cl_not_before = NewNumericDate now,
          cl_expires_at = NewNumericDate exp, cl_id = uuid\<rparr>)"

definition issue ::
  "eth \<Rightarrow> claims_signer \<Rightarrow> issuer \<Rightarrow> instant \<Rightarrow> string \<Rightarrow> address \<Rightarrow> string list
   \<Rightarrow> go_error + (string \<times> instant)" where
  "issue eth signed_string i now uuid account audience =
     (case keyset_sign signed_string (is_keys i) (issue_claims eth i now uuid account audience) of
        Inl err \<Rightarrow> Inl err
      | Inr tok \<Rightarrow> Inr (tok, now + is_ttl i))"

definition issuer_ttl :: "issuer \<Rightarrow> duration" where
  "issuer_ttl i = is_ttl i"

lemma issue_Inr:
  "issue eth sg i now uuid a aud = Inr (tok, exp) \<longleftrightarrow>
     keyset_sign sg (is_keys i) (issue_claims eth i now uuid a aud) = Inr tok \<and> exp = now + is_ttl i"
  by (auto simp: issue_def split: sum.splits)

lemma issue_claims_simps [simp]:
  "cl_subject (issue_claims eth i now uuid a aud) = eth_address_hex eth a"
  "cl_ethereum_address (issue_claims eth i now uuid a aud) = eth_address_hex eth a"
  "cl_audience (issue_claims eth i now uuid a aud) = (if aud = [] then is_audience i else aud)"
  "cl_issuer (issue_claims eth i now uuid a aud) = is_issuer i"
  "cl_expires_at (issue_claims eth i now uuid a aud) = NewNumericDate (now + is_ttl i)"
  "cl_id (issue_claims eth i now uuid a aud) = uuid"
  by (simp_all add: issue_claims_def Let_def)

end
