(* ===== verification/Contracts.thy ===== *)
theory Contracts imports Prelude begin

text \<open>
  The read-only contract calls of the sources and the generated bindings that make them
  (internal/exchange/contracts, internal/siwe/web3/contract\_login.go): the ERC-1271
  account, the SACD permission contract and the template contract.  The node behind
  \<open>bind.ContractBackend\<close> is the record \<open>chain\<close>: the code at an address, and per result
  type what a call of a method with given arguments on a given contract answers.  The
  bindings build the argument lists and name the methods; the theories of the single bindings
  model them as they are generated, over go-ethereum's own packages, and show that they make these calls.
\<close>

section \<open>The backend\<close>

text \<open>
  Arguments of a call: addresses, \<open>*big.Int\<close> (which may be nil), byte slices and byte arrays of a
  fixed length.
\<close>

datatype abi_value = AbiAddress address | AbiUint "int option" | AbiBytes bytes | AbiFixed bytes

text \<open>\<open>ISacdPermissionRecord\<close> and \<open>ITemplateTemplateData\<close>\<close>

record sacd_record =
  sr_permissions :: int
  sr_expiration :: int
  sr_source :: string
  sr_template_id :: "int option"

record template_data =
  td_asset :: address
  td_permissions :: int
  td_source :: string
  td_is_active :: bool

record chain =
  chain_code_at :: "address \<Rightarrow> go_error + bytes"
  chain_bytes4 :: "address \<Rightarrow> string \<Rightarrow> abi_value list \<Rightarrow> go_error + bytes"
  chain_uint :: "address \<Rightarrow> string \<Rightarrow> abi_value list \<Rightarrow> go_error + int"
  chain_bool :: "address \<Rightarrow> string \<Rightarrow> abi_value list \<Rightarrow> go_error + bool"
  chain_record :: "address \<Rightarrow> string \<Rightarrow> abi_value list \<Rightarrow> go_error + sacd_record"
  chain_template :: "address \<Rightarrow> string \<Rightarrow> abi_value list \<Rightarrow> go_error + template_data"

text \<open>
  A bound contract is its address and the backend.  The \<open>New\<close> functions parse the ABI
  of the binding (\<open>abi\<close> is the outcome of that parse) before they bind.
\<close>

record bound_contract =
  bc_address :: address
  bc_chain :: chain

definition new_bound_contract :: "go_error option \<Rightarrow> address \<Rightarrow> chain \<Rightarrow> go_error + bound_contract" where
  "new_bound_contract abi a ch =
     (case abi of Some err \<Rightarrow> Inl err | None \<Rightarrow> Inr \<lparr>bc_address = a, bc_chain = ch\<rparr>)"

section \<open>ERC-1271\<close>

definition new_erc1271 :: "go_error option \<Rightarrow> address \<Rightarrow> chain \<Rightarrow> go_error + bound_contract" where
  [go_defs]: "new_erc1271 abi a ch = new_bound_contract abi a ch"

definition is_valid_signature :: "bound_contract \<Rightarrow> bytes \<Rightarrow> bytes \<Rightarrow> go_error + bytes" where
  "is_valid_signature c hash signature =
     chain_bytes4 (bc_chain c) (bc_address c) ''isValidSignature'' [AbiFixed hash, AbiBytes signature]"

section \<open>SACD\<close>

definition new_sacd :: "go_error option \<Rightarrow> address \<Rightarrow> chain \<Rightarrow> go_error + bound_contract" where
  [go_defs]: "new_sacd abi a ch = new_bound_contract abi a ch"

definition account_permission_records ::
  "bound_contract \<Rightarrow> address \<Rightarrow> address \<Rightarrow> go_error + sacd_record" where
  "account_permission_records c grantor grantee =
     chain_record (bc_chain c) (bc_address c) ''accountPermissionRecords'' [AbiAddress grantor, AbiAddress grantee]"

definition current_permission_record ::
  "bound_contract \<Rightarrow> address \<Rightarrow> int option \<Rightarrow> address \<Rightarrow> go_error + sacd_record" where
  "current_permission_record c asset token_id grantee =
     chain_record (bc_chain c) (bc_address c) ''currentPermissionRecord''
       [AbiAddress asset, AbiUint token_id, AbiAddress grantee]"

definition get_account_permissions ::
  "bound_contract \<Rightarrow> address \<Rightarrow> address \<Rightarrow> int \<Rightarrow> go_error + int" where
  "get_account_permissions c grantor grantee permissions =
     chain_uint (bc_chain c) (bc_address c) ''getAccountPermissions''
       [AbiAddress grantor, AbiAddress grantee, AbiUint (Some permissions)]"

definition get_permissions ::
  "bound_contract \<Rightarrow> address \<Rightarrow> int option \<Rightarrow> address \<Rightarrow> int \<Rightarrow> go_error + int" where
  "get_permissions c asset token_id grantee permissions =
     chain_uint (bc_chain c) (bc_address c) ''getPermissions''
       [AbiAddress asset, AbiUint token_id, AbiAddress grantee, AbiUint (Some permissions)]"

section \<open>Templates\<close>

definition new_template_binding :: "go_error option \<Rightarrow> address \<Rightarrow> chain \<Rightarrow> go_error + bound_contract" where
  [go_defs]: "new_template_binding abi a ch = new_bound_contract abi a ch"

definition is_template_active :: "bound_contract \<Rightarrow> int \<Rightarrow> go_error + bool" where
  "is_template_active c template_id =
     chain_bool (bc_chain c) (bc_address c) ''isTemplateActive'' [AbiUint (Some template_id)]"

definition templates :: "bound_contract \<Rightarrow> int \<Rightarrow> go_error + template_data" where
  "templates c template_id =
     chain_template (bc_chain c) (bc_address c) ''templates'' [AbiUint (Some template_id)]"

end
