(* ===== verification/SiweVerifier.thy ===== *)
theory SiweVerifier imports Contracts EthModel begin

text \<open>
  Signature verification of the sign-in flow (internal/siwe/signer/verifier.go): local
  recovery for externally owned accounts, ERC-1271 for smart accounts, and the error
  \<open>ErrBackend\<close> for a check that could not be made.
\<close>

definition erc1271_magic_value :: bytes where
  "erc1271_magic_value = [0x16, 0x26, 0xba, 0x7e]"

text \<open>The recovery id: 27 and 28 are brought to 0 and 1, which are accepted as they are.\<close>

definition normalize_v :: "8 word \<Rightarrow> 8 word option" where
  "normalize_v v = (if v = 27 \<or> v = 28 then Some (v - 27) else if v = 0 \<or> v = 1 then Some v else None)"

definition verify_eoa :: "eth \<Rightarrow> bytes \<Rightarrow> bytes \<Rightarrow> address \<Rightarrow> bool" where
  "verify_eoa eth signature hash expected =
     (if length signature \<noteq> 65 then False
      else case normalize_v (signature ! 64) of
             None \<Rightarrow> False
           | Some v \<Rightarrow>
               (case eth_sig_to_pub eth hash (signature[64 := v]) of
                  Inl _ \<Rightarrow> False
                | Inr pub \<Rightarrow> eth_pubkey_to_address eth pub = expected))"

definition verify_erc1271 ::
  "go_error option \<Rightarrow> chain \<Rightarrow> bytes \<Rightarrow> bytes \<Rightarrow> address \<Rightarrow> go_error + bool" where
  "verify_erc1271 abi backend signature hash account =
     (case new_erc1271 abi account backend of
        Inl err \<Rightarrow> Inl (Wrap ''binding contract'' err)
      | Inr contract \<Rightarrow>
          (case is_valid_signature contract hash signature of
             Inl err \<Rightarrow> Inl (Wrap ''calling isValidSignature'' err)
           | Inr result \<Rightarrow> Inr (result = erc1271_magic_value)))"

record verifier =
  vf_backend :: "chain option"
  vf_abi :: "go_error option"

text \<open>
  \<open>Verify\<close>.  Its errors wrap \<open>ErrBackend\<close> with \<open>%w\<close>; the cause is only text (\<open>%v\<close>).
\<close>

definition verify :: "eth \<Rightarrow> verifier \<Rightarrow> address \<Rightarrow> bytes \<Rightarrow> bytes \<Rightarrow> go_error + bool" where
  "verify eth v signer message signature =
     (let hash = eth_text_hash eth message in
      if verify_eoa eth signature hash signer then Inr True
      else case vf_backend v of
             None \<Rightarrow> Inr False
           | Some backend \<Rightarrow>
               (case chain_code_at backend signer of
                  Inl err \<Rightarrow> Inl (Wrap ''fetching code'' (Sentinel ErrBackend))
                | Inr code \<Rightarrow>
                    if length code = 0 then Inr False
                    else (case verify_erc1271 (vf_abi v) backend signature
                                  (eth_bytes_to_hash eth hash) signer of
                            Inl err \<Rightarrow> Inl (Wrap '''' (Sentinel ErrBackend))
                          | Inr ok \<Rightarrow> Inr ok)))"

section \<open>What acceptance means\<close>

text \<open>
  The signature is the account's own ECDSA signature over the message, or the account has code
  and its contract answers with the magic value.
\<close>

definition recovers_to :: "eth \<Rightarrow> bytes \<Rightarrow> bytes \<Rightarrow> address \<Rightarrow> bool" where
  "recovers_to eth hash signature a \<longleftrightarrow>
     length signature = 65 \<and>
     (\<exists>v pub. normalize_v (signature ! 64) = Some v \<and>
        eth_sig_to_pub eth hash (signature[64 := v]) = Inr pub \<and> eth_pubkey_to_address eth pub = a)"

definition contract_accepts :: "chain \<Rightarrow> address \<Rightarrow> bytes \<Rightarrow> bytes \<Rightarrow> bool" where
  "contract_accepts ch a hash signature \<longleftrightarrow>
     (\<exists>code. chain_code_at ch a = Inr code \<and> code \<noteq> []) \<and>
     chain_bytes4 ch a ''isValidSignature'' [AbiFixed hash, AbiBytes signature] = Inr erc1271_magic_value"

lemma verify_eoa_iff: "verify_eoa eth signature hash a \<longleftrightarrow> recovers_to eth hash signature a"
  by (auto simp: verify_eoa_def recovers_to_def split: option.splits sum.splits)

lemma verify_True:
  "verify eth v a m s = Inr True \<longleftrightarrow>
     recovers_to eth (eth_text_hash eth m) s a \<or>
     (vf_abi v = None \<and> (\<exists>ch. vf_backend v = Some ch \<and>
        contract_accepts ch a (eth_bytes_to_hash eth (eth_text_hash eth m)) s))"
  by (auto simp: verify_def verify_eoa_iff verify_erc1271_def contract_accepts_def new_bound_contract_def
      is_valid_signature_def go_defs Let_def split: option.splits sum.splits)

lemma verify_Inl:
  assumes "verify eth v a m s = Inl e"
  shows "errors_is e ErrBackend"
  using assms by (auto simp: verify_def Let_def split: if_splits option.splits sum.splits)

lemma recovers_to_unique: "recovers_to eth h s a \<Longrightarrow> recovers_to eth h s b \<Longrightarrow> a = b"
  by (auto simp: recovers_to_def)

section \<open>Properties\<close>

text \<open>
  C30: The verifier accepts exactly the account's own ECDSA signature over the prefixed message, with
  a recovery id of 0, 1, 27 or 28, or, with a backend, what the code at the account's address answers
  for with the ERC-1271 magic value.
\<close>

theorem verify_accepts_iff:
  "verify eth v a m s = Inr True \<longleftrightarrow>
     (length s = 65 \<and> s ! 64 \<in> {0, 1, 27, 28} \<and>
        (\<exists>pub. eth_sig_to_pub eth (eth_text_hash eth m)
            (s[64 := if s ! 64 \<in> {27, 28} then s ! 64 - 27 else s ! 64]) = Inr pub \<and>
          eth_pubkey_to_address eth pub = a)) \<or>
     (vf_abi v = None \<and> (\<exists>ch code. vf_backend v = Some ch \<and> chain_code_at ch a = Inr code \<and> code \<noteq> [] \<and>
        chain_bytes4 ch a ''isValidSignature''
          [AbiFixed (eth_bytes_to_hash eth (eth_text_hash eth m)), AbiBytes s] = Inr [0x16, 0x26, 0xba, 0x7e]))"
  unfolding verify_True
  by (auto simp: recovers_to_def contract_accepts_def normalize_v_def erc1271_magic_value_def)

text \<open>
  The verifier answers with an error exactly when it could not find out: the local check did not
  settle it and the code could not be fetched, or there is code and the contract could not be asked.
  Every such error is \<open>ErrBackend\<close>; an account without code is never an error.
\<close>

theorem verify_undetermined_iff:
  "((\<exists>err. verify eth v a m s = Inl err) \<longleftrightarrow>
     \<not> recovers_to eth (eth_text_hash eth m) s a \<and>
     (\<exists>ch. vf_backend v = Some ch \<and>
       ((\<exists>err. chain_code_at ch a = Inl err) \<or>
        (\<exists>code. chain_code_at ch a = Inr code \<and> code \<noteq> [] \<and>
           ((\<exists>err. vf_abi v = Some err) \<or> (\<exists>err. chain_bytes4 ch a ''isValidSignature''
              [AbiFixed (eth_bytes_to_hash eth (eth_text_hash eth m)), AbiBytes s] = Inl err))))))
   \<and> (case verify eth v a m s of Inl err \<Rightarrow> errors_is err ErrBackend | Inr _ \<Rightarrow> True)"
proof
  show "case verify eth v a m s of Inl err \<Rightarrow> errors_is err ErrBackend | Inr _ \<Rightarrow> True"
    by (auto dest: verify_Inl split: sum.split)
qed (auto simp: verify_def verify_eoa_iff verify_erc1271_def new_bound_contract_def
      is_valid_signature_def go_defs Let_def split: option.splits sum.splits)

end
