(* ===== verification/SiweServer.thy ===== *)
theory SiweServer imports NonceStore SiweMessage SiweToken SiweVerifier begin

text \<open>
  The two sign-in handlers (internal/siwe/server/handlers.go).  A handler takes the outcome of
  \<open>decodeJSON\<close>, the randomness and clock readings of the request, the store operation it
  calls and the store, and returns the response and the store.  Logging is left out.
\<close>

section \<open>Requests, responses, configuration\<close>

record challenge_request =
  cr_address :: string
  cr_audience :: "string list"

record token_request =
  tr_nonce :: string
  tr_signature :: string

record response =
  rs_status :: int
  rs_body :: json

record handlers =
  h_verifier :: verifier
  h_issuer :: issuer
  h_domain :: string
  h_uri :: string
  h_statement :: string
  h_chain_id :: uint64
  h_challenge_ttl :: duration
  h_allowed_audiences :: "string list"

definition write_json :: "int \<Rightarrow> json \<Rightarrow> response" where
  [go_defs]: "write_json status v = \<lparr>rs_status = status, rs_body = v\<rparr>"

definition write_error :: "int \<Rightarrow> string \<Rightarrow> string \<Rightarrow> response" where
  "write_error status code description =
     write_json status (JObj [(''error'', JStr code), (''error_description'', JStr description)])"

definition challenge_response :: "string \<Rightarrow> string \<Rightarrow> string \<Rightarrow> json" where
  "challenge_response ch nc expires_at =
     JObj [(''challenge'', JStr ch), (''nonce'', JStr nc), (''expires_at'', JStr expires_at)]"

definition token_response :: "string \<Rightarrow> int \<Rightarrow> json" where
  "token_response tok expires_in =
     JObj [(''token'', JStr tok), (''token_type'', JStr ''Bearer''), (''expires_in'', JInt expires_in)]"

section \<open>Handlers\<close>

fun contains :: "string list \<Rightarrow> string \<Rightarrow> bool" where
  "contains [] needle = False"
| "contains (v # vs) needle = (if v = needle then True else contains vs needle)"

fun audience_allowed :: "handlers \<Rightarrow> string list \<Rightarrow> bool" where
  "audience_allowed h [] = True"
| "audience_allowed h (want # wants) =
     (if \<not> contains (h_allowed_audiences h) want then False else audience_allowed h wants)"

definition challenge_message :: "handlers \<Rightarrow> address \<Rightarrow> string \<Rightarrow> instant \<Rightarrow> message" where
  "challenge_message h addr nc now =
     \<lparr>msg_domain = h_domain h, msg_address = addr, msg_statement = h_statement h, msg_uri = h_uri h,
      msg_chain_id = h_chain_id h, msg_nonce = nc, msg_issued_at = now,
      msg_expiration_time = now + h_challenge_ttl h\<rparr>"

definition challenge_entry ::
  "eth \<Rightarrow> handlers \<Rightarrow> address \<Rightarrow> string list \<Rightarrow> string \<Rightarrow> instant \<Rightarrow> challenge" where
  "challenge_entry eth h addr aud nc now =
     \<lparr>ch_message = message_string eth (challenge_message h addr nc now), ch_address = addr,
      ch_expires_at = now + h_challenge_ttl h, ch_audience = aud\<rparr>"

definition challenge_handler ::
  "eth \<Rightarrow> ('e \<Rightarrow> string \<Rightarrow> challenge \<Rightarrow> 's \<Rightarrow> go_error option \<times> 's) \<Rightarrow> handlers
   \<Rightarrow> go_error + challenge_request \<Rightarrow> go_error + bytes \<Rightarrow> instant \<Rightarrow> 'e \<Rightarrow> 's \<Rightarrow> response \<times> 's" where
  "challenge_handler eth put h decoded rnd now e s =
     (case decoded of
        Inl _ \<Rightarrow> (write_error 400 ''invalid_request'' ''could not parse request body'', s)
      | Inr req \<Rightarrow>
          if \<not> eth_is_hex_address eth (cr_address req)
          then (write_error 400 ''invalid_request'' ''address is not a valid Ethereum address'', s)
          else
            (let addr = eth_hex_to_address eth (cr_address req) in
             if addr = 0
             then (write_error 400 ''invalid_request'' ''address must not be the zero address'', s)
             else if \<not> audience_allowed h (cr_audience req)
             then (write_error 400 ''invalid_request'' ''requested audience is not allowed'', s)
             else case nonce_new rnd of
                    Inl _ \<Rightarrow> (write_error 500 ''server_error'' ''could not generate challenge'', s)
                  | Inr nc \<Rightarrow>
                      (let expires_at = now + h_challenge_ttl h;
                           msg = message_string eth (challenge_message h addr nc now);
                           (err, s') = put e nc
                             \<lparr>ch_message = msg, ch_address = addr, ch_expires_at = expires_at,
                              ch_audience = cr_audience req\<rparr> s
                       in case err of
                            Some _ \<Rightarrow> (write_error 503 ''server_error''
                                        ''challenge store unavailable, retry shortly'', s')
                          | None \<Rightarrow> (write_json 200 (challenge_response msg nc (rfc3339 expires_at)), s'))))"

text \<open>The whole seconds of the reply are \<open>int(ttl.Seconds())\<close>, \<open>int_seconds\<close> of GoTime.\<close>

definition token_handler ::
  "eth \<Rightarrow> claims_signer \<Rightarrow> ('e \<Rightarrow> string \<Rightarrow> 's \<Rightarrow> (go_error + challenge) \<times> 's) \<Rightarrow> handlers
   \<Rightarrow> go_error + token_request \<Rightarrow> 'e \<Rightarrow> instant \<Rightarrow> string \<Rightarrow> 's \<Rightarrow> response \<times> 's" where
  "token_handler eth signed_string consume h decoded e now uuid s =
     (case decoded of
        Inl _ \<Rightarrow> (write_error 400 ''invalid_request'' ''could not parse request body'', s)
      | Inr req \<Rightarrow>
          if tr_nonce req = '''' then (write_error 400 ''invalid_request'' ''nonce is required'', s)
          else case eth_hexutil_decode eth (tr_signature req) of
            Inl _ \<Rightarrow> (write_error 400 ''invalid_request'' ''signature must be 0x-prefixed hex'', s)
          | Inr sig \<Rightarrow>
              (let (res, s') = consume e (tr_nonce req) s in
               case res of
                 Inl _ \<Rightarrow> (write_error 401 ''invalid_grant''
                            ''challenge not found, already used, or expired'', s')
               | Inr ch \<Rightarrow>
                   (case verify eth (h_verifier h) (ch_address ch) (bytes_of (ch_message ch)) sig of
                      Inl err \<Rightarrow>
                        if errors_is err ErrBackend
                        then (write_error 503 ''server_error'' ''could not verify signature, retry shortly'', s')
                        else (write_error 500 ''server_error'' ''could not verify signature'', s')
                    | Inr valid \<Rightarrow>
                        if \<not> valid
                        then (write_error 401 ''invalid_grant'' ''signature does not match address'', s')
                        else case issue eth signed_string (h_issuer h) now uuid (ch_address ch) (ch_audience ch) of
                               Inl _ \<Rightarrow> (write_error 500 ''server_error'' ''could not issue token'', s')
                             | Inr (tok, exp) \<Rightarrow>
                                 (write_json 200 (token_response tok
                                    (int_seconds (issuer_ttl (h_issuer h)))), s'))))"

section \<open>Lemmas\<close>

lemma write_error_status [simp]: "rs_status (write_error st c d) = st"
  by (simp add: write_error_def go_defs)

lemma write_json_status [simp]: "rs_status (write_json st v) = st"
  by (simp add: go_defs)

lemma contains_iff: "contains vs v \<longleftrightarrow> v \<in> set vs"
  by (induction vs) auto

lemma audience_allowed_iff: "audience_allowed h wants \<longleftrightarrow> set wants \<subseteq> set (h_allowed_audiences h)"
  by (induction wants) (auto simp: contains_iff)

text \<open>What a request must be for a challenge to be stored.\<close>

definition challenge_accepted ::
  "eth \<Rightarrow> handlers \<Rightarrow> challenge_request \<Rightarrow> go_error + bytes \<Rightarrow> string \<Rightarrow> bool" where
  "challenge_accepted eth h req rnd nc \<longleftrightarrow>
     eth_is_hex_address eth (cr_address req) \<and> eth_hex_to_address eth (cr_address req) \<noteq> 0 \<and>
     set (cr_audience req) \<subseteq> set (h_allowed_audiences h) \<and> nonce_new rnd = Inr nc"

lemma challenge_handler_cases:
  assumes "challenge_handler eth put h decoded rnd now e s = (r, s')"
  obtains (rejected) "s' = s" and "rs_status r \<in> {400, 500}"
    and "\<And>req nc. decoded = Inr req \<Longrightarrow> \<not> challenge_accepted eth h req rnd nc"
  | (stored) req nc err where "decoded = Inr req" and "challenge_accepted eth h req rnd nc"
    and "put e nc (challenge_entry eth h (eth_hex_to_address eth (cr_address req)) (cr_audience req) nc now) s
      = (err, s')"
    and "r = (case err of Some _ \<Rightarrow> write_error 503 ''server_error''
                            ''challenge store unavailable, retry shortly''
        | None \<Rightarrow> write_json 200 (challenge_response
            (message_string eth (challenge_message h (eth_hex_to_address eth (cr_address req)) nc now)) nc
            (rfc3339 (now + h_challenge_ttl h))))"
proof (cases "\<exists>req nc. decoded = Inr req \<and> challenge_accepted eth h req rnd nc")
  case True
  then obtain req nc where acc: "decoded = Inr req" "challenge_accepted eth h req rnd nc" by blast
  with assms show ?thesis
    by (intro stored [OF acc, of "fst (put e nc (challenge_entry eth h
            (eth_hex_to_address eth (cr_address req)) (cr_audience req) nc now) s)"])
       (auto simp: challenge_handler_def challenge_accepted_def audience_allowed_iff challenge_entry_def
        Let_def split: prod.splits option.splits)
next
  case False
  with assms have "s' = s \<and> rs_status r \<in> {400, 500}"
    by (auto simp: challenge_handler_def challenge_accepted_def audience_allowed_iff Let_def
        split: sum.splits if_splits)
  with False show ?thesis by (intro rejected) auto
qed

text \<open>A token request that reaches the store: its nonce and its decoded signature.\<close>

definition token_presented :: "eth \<Rightarrow> go_error + token_request \<Rightarrow> string \<Rightarrow> bytes \<Rightarrow> bool" where
  "token_presented eth decoded nc sig \<longleftrightarrow>
     (\<exists>req. decoded = Inr req \<and> tr_nonce req = nc \<and> nc \<noteq> '''' \<and>
        eth_hexutil_decode eth (tr_signature req) = Inr sig)"

definition token_outcome ::
  "eth \<Rightarrow> claims_signer \<Rightarrow> handlers \<Rightarrow> go_error + challenge \<Rightarrow> bytes \<Rightarrow> instant \<Rightarrow> string \<Rightarrow> response" where
  "token_outcome eth sg h res sig now uuid =
     (case res of
        Inl _ \<Rightarrow> write_error 401 ''invalid_grant'' ''challenge not found, already used, or expired''
      | Inr ch \<Rightarrow>
          (case verify eth (h_verifier h) (ch_address ch) (bytes_of (ch_message ch)) sig of
             Inl err \<Rightarrow> write_error 503 ''server_error'' ''could not verify signature, retry shortly''
           | Inr False \<Rightarrow> write_error 401 ''invalid_grant'' ''signature does not match address''
           | Inr True \<Rightarrow>
               (case issue eth sg (h_issuer h) now uuid (ch_address ch) (ch_audience ch) of
                  Inl _ \<Rightarrow> write_error 500 ''server_error'' ''could not issue token''
                | Inr (tok, exp) \<Rightarrow>
                    write_json 200 (token_response tok (int_seconds (issuer_ttl (h_issuer h)))))))"

lemma token_handler_cases:
  assumes "token_handler eth sg consume h decoded e now uuid s = (r, s')"
  obtains (rejected) "s' = s" and "rs_status r = 400" and "\<And>nc sig. \<not> token_presented eth decoded nc sig"
  | (presented) nc sig res where "token_presented eth decoded nc sig"
    and "consume e nc s = (res, s')" and "r = token_outcome eth sg h res sig now uuid"
proof (cases "\<exists>nc sig. token_presented eth decoded nc sig")
  case True
  then obtain nc sig where p: "token_presented eth decoded nc sig" by blast
  obtain res s1 where c: "consume e nc s = (res, s1)" by fastforce
  from assms p c have "s1 = s' \<and> r = token_outcome eth sg h res sig now uuid"
    by (auto simp: token_handler_def token_presented_def token_outcome_def dest: verify_Inl
        split: sum.splits if_splits bool.splits)
  with p c show ?thesis by (intro presented) auto
next
  case False
  with assms have "s' = s \<and> rs_status r = 400"
    by (auto simp: token_handler_def token_presented_def split: sum.splits if_splits)
  with False show ?thesis by (intro rejected) auto
qed

lemma token_outcome_200:
  "rs_status (token_outcome eth sg h res sig now uuid) = 200 \<longleftrightarrow>
     (\<exists>ch tok. res = Inr ch \<and> verify eth (h_verifier h) (ch_address ch) (bytes_of (ch_message ch)) sig = Inr True \<and>
        keyset_sign sg (is_keys (h_issuer h))
          (issue_claims eth (h_issuer h) now uuid (ch_address ch) (ch_audience ch)) = Inr tok)"
  by (auto simp: token_outcome_def issue_def split: sum.splits bool.splits)

lemma token_outcome_ok:
  assumes "res = Inr ch" and "verify eth (h_verifier h) (ch_address ch) (bytes_of (ch_message ch)) sig = Inr True"
    and "keyset_sign sg (is_keys (h_issuer h))
          (issue_claims eth (h_issuer h) now uuid (ch_address ch) (ch_audience ch)) = Inr tok"
  shows "token_outcome eth sg h res sig now uuid =
    write_json 200 (token_response tok (int_seconds (issuer_ttl (h_issuer h))))"
  using assms by (simp add: token_outcome_def issue_def)

section \<open>Properties\<close>

text \<open>
  C29: \<open>POST /challenge\<close> answers 200 exactly when the address is well formed and not zero, every
  requested audience is on the allow-list, a nonce could be drawn and the store took it; what is
  stored under the nonce is the very message that is returned, with the requested account,
  audience and expiry.  Any answer but 200 and 503 leaves the store as it was.
\<close>

theorem challenge_issued_iff:
  "(challenge_handler eth put h decoded rnd now e s = (r, s') \<and> rs_status r = 200 \<longleftrightarrow>
     (\<exists>req nc addr. decoded = Inr req \<and> eth_is_hex_address eth (cr_address req) \<and>
        addr = eth_hex_to_address eth (cr_address req) \<and> addr \<noteq> 0 \<and>
        set (cr_audience req) \<subseteq> set (h_allowed_audiences h) \<and> nonce_new rnd = Inr nc \<and>
        put e nc (challenge_entry eth h addr (cr_audience req) nc now) s = (None, s') \<and>
        r = write_json 200 (challenge_response (message_string eth (challenge_message h addr nc now)) nc
              (rfc3339 (now + h_challenge_ttl h)))))
   \<and> (rs_status (fst (challenge_handler eth put h decoded rnd now e s)) \<in> {200, 503} \<or>
      snd (challenge_handler eth put h decoded rnd now e s) = s)"
proof (rule conjI)
  show "challenge_handler eth put h decoded rnd now e s = (r, s') \<and> rs_status r = 200 \<longleftrightarrow>
     (\<exists>req nc addr. decoded = Inr req \<and> eth_is_hex_address eth (cr_address req) \<and>
        addr = eth_hex_to_address eth (cr_address req) \<and> addr \<noteq> 0 \<and>
        set (cr_audience req) \<subseteq> set (h_allowed_audiences h) \<and> nonce_new rnd = Inr nc \<and>
        put e nc (challenge_entry eth h addr (cr_audience req) nc now) s = (None, s') \<and>
        r = write_json 200 (challenge_response (message_string eth (challenge_message h addr nc now)) nc
              (rfc3339 (now + h_challenge_ttl h))))"
    by (auto simp: challenge_handler_def audience_allowed_iff challenge_entry_def Let_def
        split: sum.splits if_splits prod.splits option.splits)
  show "rs_status (fst (challenge_handler eth put h decoded rnd now e s)) \<in> {200, 503} \<or>
      snd (challenge_handler eth put h decoded rnd now e s) = s"
    by (auto simp: challenge_handler_def Let_def split: sum.splits prod.splits option.splits)
qed

text \<open>
  C28: \<open>POST /token\<close> answers 200 exactly when the nonce is given, the signature decodes, the store
  gives up the challenge, the signature verifies over the stored message for the stored account,
  and signing works; the token carries that account and the audience of the challenge.  Whenever
  the request reaches the store, the store afterwards is the store after \<open>Consume\<close>, whatever the
  verification says.
\<close>

theorem token_issued_iff:
  "(token_handler eth sg consume h decoded e now uuid s = (r, s') \<and> rs_status r = 200 \<longleftrightarrow>
     (\<exists>nc sig ch tok. token_presented eth decoded nc sig \<and> consume e nc s = (Inr ch, s') \<and>
        verify eth (h_verifier h) (ch_address ch) (bytes_of (ch_message ch)) sig = Inr True \<and>
        keyset_sign sg (is_keys (h_issuer h))
          (issue_claims eth (h_issuer h) now uuid (ch_address ch) (ch_audience ch)) = Inr tok \<and>
        r = write_json 200 (token_response tok (int_seconds (is_ttl (h_issuer h))))))
   \<and> (rs_status (fst (token_handler eth sg consume h decoded e now uuid s)) = 400 \<and>
        snd (token_handler eth sg consume h decoded e now uuid s) = s
      \<or> (\<exists>nc sig. token_presented eth decoded nc sig \<and>
        snd (token_handler eth sg consume h decoded e now uuid s) = snd (consume e nc s)))"
proof (rule conjI)
  show "token_handler eth sg consume h decoded e now uuid s = (r, s') \<and> rs_status r = 200 \<longleftrightarrow>
     (\<exists>nc sig ch tok. token_presented eth decoded nc sig \<and> consume e nc s = (Inr ch, s') \<and>
        verify eth (h_verifier h) (ch_address ch) (bytes_of (ch_message ch)) sig = Inr True \<and>
        keyset_sign sg (is_keys (h_issuer h))
          (issue_claims eth (h_issuer h) now uuid (ch_address ch) (ch_audience ch)) = Inr tok \<and>
        r = write_json 200 (token_response tok (int_seconds (is_ttl (h_issuer h)))))"
    by (auto simp: token_handler_def token_presented_def issue_def issuer_ttl_def
        split: sum.splits if_splits prod.splits)
next
  obtain r1 s1 where run: "token_handler eth sg consume h decoded e now uuid s = (r1, s1)" by fastforce
  then show "rs_status (fst (token_handler eth sg consume h decoded e now uuid s)) = 400 \<and>
        snd (token_handler eth sg consume h decoded e now uuid s) = s
      \<or> (\<exists>nc sig. token_presented eth decoded nc sig \<and>
        snd (token_handler eth sg consume h decoded e now uuid s) = snd (consume e nc s))"
    by (cases rule: token_handler_cases) (use run in auto)
qed

end
