(* ===== verification/NonceMemory.thy ===== *)
theory NonceMemory imports NonceStore "HOL-Library.AList" begin

text \<open>
  The in-memory challenge store (internal/siwe/nonce/memory.go): 64 shards, each a Go
  map from nonce to entry, kept as an association list with distinct keys so that
  \<open>len(s.entries)\<close> computes.  The shard of a nonce is its 32-bit FNV-1a hash
  modulo 64.  Each operation holds the lock of its shard from start to end, so it is
  one atomic step; the clock is read once per operation.
\<close>

section \<open>State and operations\<close>

record entry =
  en_ch :: challenge
  en_expires_at :: instant

type_synonym shard_map = "(string \<times> entry) list"

record memory =
  mem_shards :: "shard_map list"
  mem_max_entries :: int

definition shards :: nat where
  "shards = 64"

definition new_memory :: "int \<Rightarrow> memory" where
  "new_memory max_entries =
     \<lparr>mem_shards = replicate shards [], mem_max_entries = max_entries\<rparr>"

text \<open>\<open>fnv.New32a\<close>: offset basis and prime of the 32-bit FNV-1a hash.\<close>

definition fnv32a :: "string \<Rightarrow> 32 word" where
  "fnv32a s = foldl (\<lambda>h c. (h XOR of_char c) * 16777619) 2166136261 s"

definition shard_index :: "string \<Rightarrow> nat" where
  "shard_index nc = unat (fnv32a nc) mod shards"

definition sweep_locked :: "instant \<Rightarrow> shard_map \<Rightarrow> shard_map" where
  "sweep_locked now s = filter (\<lambda>(nc, e). \<not> go_after now (en_expires_at e)) s"

definition per_shard :: "int \<Rightarrow> int" where
  "per_shard max_entries =
     (let n = max_entries sdiv int shards in if n < 1 then 1 else n)"

definition memory_put ::
  "instant \<Rightarrow> string \<Rightarrow> challenge \<Rightarrow> memory \<Rightarrow> go_error option \<times> memory" where
  "memory_put now nc ch m =
     (let i = shard_index nc; s = mem_shards m ! i; cap = per_shard (mem_max_entries m);
          full = cap \<le> int (length s);
          s = (if full then sweep_locked now s else s)
      in if full \<and> cap \<le> int (length s)
         then (Some (Sentinel ErrFull), m\<lparr>mem_shards := (mem_shards m)[i := s]\<rparr>)
         else (None, m\<lparr>mem_shards := (mem_shards m)
                 [i := AList.update nc \<lparr>en_ch = ch, en_expires_at = ch_expires_at ch\<rparr> s]\<rparr>))"

definition memory_consume ::
  "instant \<Rightarrow> string \<Rightarrow> memory \<Rightarrow> (go_error + challenge) \<times> memory" where
  "memory_consume now nc m =
     (let i = shard_index nc; s = mem_shards m ! i in
      case map_of s nc of
        None \<Rightarrow> (Inl (Sentinel ErrNotFound), m)
      | Some e \<Rightarrow>
          (let m' = m\<lparr>mem_shards := (mem_shards m)[i := AList.delete nc s]\<rparr> in
           if go_after now (en_expires_at e) then (Inl (Sentinel ErrNotFound), m')
           else (Inr (en_ch e), m')))"

text \<open>
  One step of a janitor tick: the lock of shard \<open>i\<close> is taken, the clock read, the shard swept.  A tick
  does this for each shard in turn; other operations may come between two shards.
\<close>

definition memory_sweep :: "instant \<Rightarrow> nat \<Rightarrow> memory \<Rightarrow> memory" where
  "memory_sweep now i m =
     m\<lparr>mem_shards := (mem_shards m)[i := sweep_locked now (mem_shards m ! i)]\<rparr>"

section \<open>Invariant and abstract content\<close>

text \<open>
  64 shards; in each the keys are distinct, belong to the shard, carry the expiry of
  their challenge, and are at most as many as the shard's capacity.
\<close>

definition shard_ok :: "int \<Rightarrow> nat \<Rightarrow> shard_map \<Rightarrow> bool" where
  "shard_ok cap i s \<longleftrightarrow>
     distinct (map fst s) \<and> int (length s) \<le> cap \<and>
     list_all (\<lambda>(nc, e). shard_index nc = i \<and> en_expires_at e = ch_expires_at (en_ch e)) s"

definition memory_inv :: "memory \<Rightarrow> bool" where
  "memory_inv m \<longleftrightarrow> length (mem_shards m) = shards \<and>
     list_all (\<lambda>i. shard_ok (per_shard (mem_max_entries m)) i (mem_shards m ! i)) [0..<shards]"

definition shard_lookup :: "shard_map \<Rightarrow> string \<Rightarrow> challenge option" where
  "shard_lookup s nc = map_option en_ch (map_of s nc)"

definition memory_lookup :: "memory \<Rightarrow> string \<Rightarrow> challenge option" where
  "memory_lookup m nc = shard_lookup (mem_shards m ! shard_index nc) nc"

definition memory_size :: "memory \<Rightarrow> nat" where
  "memory_size m = sum_list (map length (mem_shards m))"

lemma shard_index_less [simp]: "shard_index nc < shards"
  by (simp add: shard_index_def shards_def)

lemma per_shard_pos [simp]: "1 \<le> per_shard n"
  by (simp add: per_shard_def Let_def)

lemma per_shard_nonneg [simp]: "0 \<le> per_shard n"
  using per_shard_pos [of n] by linarith

lemma memory_inv_iff:
  "memory_inv m \<longleftrightarrow> length (mem_shards m) = shards \<and>
     (\<forall>i < shards. shard_ok (per_shard (mem_max_entries m)) i (mem_shards m ! i))"
  by (auto simp: memory_inv_def list_all_iff)

lemma memory_inv_shard:
  "memory_inv m \<Longrightarrow> shard_ok (per_shard (mem_max_entries m)) (shard_index nc) (mem_shards m ! shard_index nc)"
  by (simp add: memory_inv_iff)

lemma new_memory_inv: "memory_inv (new_memory n)"
proof -
  have "0 \<le> per_shard n" using per_shard_pos [of n] by linarith
  then show ?thesis by (simp add: memory_inv_iff new_memory_def shard_ok_def)
qed

lemma new_memory_lookup [simp]: "memory_lookup (new_memory n) nc = None"
  by (simp add: memory_lookup_def shard_lookup_def new_memory_def)

section \<open>Shards\<close>

lemma set_sweep: "set (sweep_locked now s) \<subseteq> set s"
  by (auto simp: sweep_locked_def)

lemma shard_ok_filter:
  assumes "shard_ok cap i s"
  shows "shard_ok cap i (filter P s)"
proof -
  have "int (length s) \<le> cap \<Longrightarrow> int (length (filter P s)) \<le> cap"
    using length_filter_le [of P s] by linarith
  with assms show ?thesis
    by (auto simp: shard_ok_def distinct_map_filter list_all_iff)
qed

lemma shard_ok_sweep: "shard_ok cap i s \<Longrightarrow> shard_ok cap i (sweep_locked now s)"
  by (simp add: sweep_locked_def shard_ok_filter)

lemma length_alist_update: "length (AList.update k v s) \<le> Suc (length s)"
  by (induction s) auto

lemma shard_ok_update:
  assumes "shard_ok cap i s" and "int (length s) < cap" and "shard_index nc = i"
    and "en_expires_at e = ch_expires_at (en_ch e)"
  shows "shard_ok cap i (AList.update nc e s)"
proof -
  have "int (length (AList.update nc e s)) \<le> cap"
    using length_alist_update [of nc e s] assms(2) by linarith
  moreover have "\<And>p. p \<in> set (AList.update nc e s) \<Longrightarrow> p = (nc, e) \<or> p \<in> set s"
    by (induction s) (auto split: if_splits)
  ultimately show ?thesis
    using assms by (fastforce simp: shard_ok_def list_all_iff distinct_update)
qed

lemma shard_ok_delete: "shard_ok cap i s \<Longrightarrow> shard_ok cap i (AList.delete nc s)"
  by (simp add: AList.delete_eq shard_ok_filter)

lemma shard_lookup_update [simp]:
  "shard_lookup (AList.update nc e s) k = (if k = nc then Some (en_ch e) else shard_lookup s k)"
  by (simp add: shard_lookup_def AList.update_conv)

lemma shard_lookup_delete [simp]:
  "shard_lookup (AList.delete nc s) k = (if k = nc then None else shard_lookup s k)"
  by (simp add: shard_lookup_def AList.delete_conv)

lemma shard_lookup_sweep:
  assumes "shard_ok cap i s"
  shows "shard_lookup (sweep_locked now s) nc = Some c \<longleftrightarrow>
    shard_lookup s nc = Some c \<and> now \<le> ch_expires_at c"
proof -
  have d: "distinct (map fst s)" using assms by (simp add: shard_ok_def)
  have "\<And>e. map_of s nc = Some e \<Longrightarrow> en_expires_at e = ch_expires_at (en_ch e)"
    using assms by (auto simp: shard_ok_def list_all_iff dest: map_of_SomeD)
  then show ?thesis
    by (auto simp: shard_lookup_def sweep_locked_def map_of_filter_Some [OF d] go_defs)
qed

lemma memory_lookup_fold [simp]:
  "shard_index k = i \<Longrightarrow> shard_lookup (mem_shards m ! i) k = memory_lookup m k"
  by (auto simp: memory_lookup_def)

lemma memory_inv_update_shard:
  assumes "memory_inv m" and "i < shards" and "shard_ok (per_shard (mem_max_entries m)) i s"
  shows "memory_inv (m\<lparr>mem_shards := (mem_shards m)[i := s]\<rparr>)"
  using assms by (auto simp: memory_inv_iff nth_list_update)

lemma memory_lookup_update_shard:
  assumes "memory_inv m" and "i < shards"
  shows "memory_lookup (m\<lparr>mem_shards := (mem_shards m)[i := s]\<rparr>) nc =
    (if shard_index nc = i then shard_lookup s nc else memory_lookup m nc)"
  using assms by (auto simp: memory_inv_iff memory_lookup_def simp del: memory_lookup_fold)

section \<open>The operations on the abstract content\<close>

text \<open>
  \<open>Put\<close>, in the two ways it can end: the shard (swept if it was at capacity)
  has room and takes the entry, or it is full of unexpired entries and stays so.
\<close>

lemma memory_put_cases:
  assumes "memory_put now nc ch m = (r, m')"
  obtains (stored) s where "r = None"
      and "s = mem_shards m ! shard_index nc \<or> s = sweep_locked now (mem_shards m ! shard_index nc)"
      and "int (length s) < per_shard (mem_max_entries m)"
      and "m' = m\<lparr>mem_shards := (mem_shards m)[shard_index nc :=
          AList.update nc \<lparr>en_ch = ch, en_expires_at = ch_expires_at ch\<rparr> s]\<rparr>"
    | (full) "r = Some (Sentinel ErrFull)"
      and "per_shard (mem_max_entries m) \<le> int (length (sweep_locked now (mem_shards m ! shard_index nc)))"
      and "m' = m\<lparr>mem_shards := (mem_shards m)[shard_index nc :=
          sweep_locked now (mem_shards m ! shard_index nc)]\<rparr>"
  using assms by (auto simp: memory_put_def Let_def not_le split: if_splits)

lemma memory_put_inv: "memory_inv m \<Longrightarrow> memory_put now nc ch m = (r, m') \<Longrightarrow> memory_inv m'"
  by (erule memory_put_cases)
     (auto intro!: memory_inv_update_shard shard_ok_update shard_ok_sweep memory_inv_shard)

lemma memory_put_stores:
  "memory_inv m \<Longrightarrow> memory_put now nc ch m = (None, m') \<Longrightarrow> memory_lookup m' nc = Some ch"
  by (erule memory_put_cases) (simp_all add: memory_lookup_update_shard)

lemma shard_sweep_lookup [simp]:
  "memory_inv m \<Longrightarrow> shard_index k = i \<Longrightarrow>
   shard_lookup (sweep_locked now (mem_shards m ! i)) k = Some c \<longleftrightarrow>
   memory_lookup m k = Some c \<and> now \<le> ch_expires_at c"
  using shard_lookup_sweep [OF memory_inv_shard, where nc = k and now = now and c = c] by auto

lemma memory_put_only:
  assumes "memory_inv m" and "memory_put now nc ch m = (r, m')" and "memory_lookup m' k = Some c"
  shows "memory_lookup m k = Some c \<or> (k = nc \<and> c = ch)"
  using assms(2)
  by (cases rule: memory_put_cases)
     (use assms(1,3) in \<open>auto simp: memory_lookup_update_shard split: if_splits\<close>)

lemma memory_put_keeps:
  assumes "memory_inv m" and "memory_put now nc ch m = (r, m')" and "k \<noteq> nc"
    and "memory_lookup m k = Some c" and "now \<le> ch_expires_at c"
  shows "memory_lookup m' k = Some c"
  using assms(2)
  by (cases rule: memory_put_cases)
     (use assms(1,3-5) in \<open>auto simp: memory_lookup_update_shard split: if_splits\<close>)

text \<open>\<open>Consume\<close>: whatever it answers, the nonce is gone and nothing else changed.\<close>

lemma memory_consume_cases:
  assumes "memory_inv m" and "memory_consume now nc m = (r, m')"
  obtains (unknown) "memory_lookup m nc = None" "r = Inl (Sentinel ErrNotFound)" "m' = m"
    | (expired) ch where "memory_lookup m nc = Some ch" "ch_expires_at ch < now"
        "r = Inl (Sentinel ErrNotFound)"
        "m' = m\<lparr>mem_shards := (mem_shards m)[shard_index nc :=
           AList.delete nc (mem_shards m ! shard_index nc)]\<rparr>"
    | (returned) ch where "memory_lookup m nc = Some ch" "now \<le> ch_expires_at ch" "r = Inr ch"
        "m' = m\<lparr>mem_shards := (mem_shards m)[shard_index nc :=
           AList.delete nc (mem_shards m ! shard_index nc)]\<rparr>"
proof (cases "map_of (mem_shards m ! shard_index nc) nc")
  case None
  with assms(2) show thesis
    by (intro unknown)
       (auto simp: memory_consume_def memory_lookup_def shard_lookup_def Let_def
          simp del: memory_lookup_fold)
next
  case (Some e)
  then have "en_expires_at e = ch_expires_at (en_ch e)"
    using memory_inv_shard [OF assms(1), of nc]
    by (auto simp: shard_ok_def list_all_iff dest!: map_of_SomeD)
  with Some assms(2) show thesis
    by (cases "go_after now (en_expires_at e)")
       (auto intro: expired returned simp: memory_consume_def memory_lookup_def shard_lookup_def
          Let_def go_defs simp del: memory_lookup_fold)
qed

lemma memory_lookup_delete:
  "memory_inv m \<Longrightarrow>
   memory_lookup (m\<lparr>mem_shards := (mem_shards m)[shard_index nc :=
     AList.delete nc (mem_shards m ! shard_index nc)]\<rparr>) k =
   (if k = nc then None else memory_lookup m k)"
  by (simp add: memory_lookup_update_shard)

lemma memory_consume_lookup:
  assumes "memory_inv m" and "memory_consume now nc m = (r, m')"
  shows "memory_lookup m' = (memory_lookup m)(nc := None)"
  using assms(2)
  by (cases rule: memory_consume_cases [OF assms(1)])
     (auto simp: memory_lookup_delete [OF assms(1)])

lemma memory_consume_inv:
  assumes "memory_inv m" and "memory_consume now nc m = (r, m')"
  shows "memory_inv m'"
  using assms(2)
  by (cases rule: memory_consume_cases [OF assms(1)])
     (auto intro!: memory_inv_update_shard shard_ok_delete memory_inv_shard assms(1))

lemma memory_consume_returns:
  assumes "memory_inv m" and "memory_consume now nc m = (Inr ch, m')"
  shows "memory_lookup m nc = Some ch \<and> now \<le> ch_expires_at ch"
  using assms by (cases rule: memory_consume_cases) auto

lemma memory_consume_live:
  assumes "memory_inv m" and "memory_lookup m nc = Some ch" and "now \<le> ch_expires_at ch"
  shows "\<exists>m'. memory_consume now nc m = (Inr ch, m')"
proof -
  obtain r m' where c: "memory_consume now nc m = (r, m')" by fastforce
  with assms(1) show ?thesis
    by (cases rule: memory_consume_cases) (use assms(2,3) c in auto)
qed

lemma memory_sweep_inv: "memory_inv m \<Longrightarrow> memory_inv (memory_sweep now i m)"
proof -
  assume inv: "memory_inv m"
  have "shard_ok (per_shard (mem_max_entries m)) j ((mem_shards m)[i := sweep_locked now (mem_shards m ! i)] ! j)"
    if "j < shards" for j
    using inv that by (cases "j = i") (auto simp: memory_inv_iff shard_ok_sweep)
  with inv show ?thesis by (simp add: memory_inv_iff memory_sweep_def)
qed

lemma memory_sweep_lookup:
  assumes "memory_inv m"
  shows "memory_lookup (memory_sweep now i m) k = Some c \<longleftrightarrow>
    memory_lookup m k = Some c \<and> (shard_index k = i \<longrightarrow> now \<le> ch_expires_at c)"
proof -
  have "mem_shards (memory_sweep now i m) ! shard_index k =
      (if shard_index k = i then sweep_locked now (mem_shards m ! shard_index k) else mem_shards m ! shard_index k)"
    using assms by (auto simp: memory_inv_iff memory_sweep_def nth_list_update)
  then show ?thesis
    using shard_sweep_lookup [OF assms refl, where k = k and now = now and c = c]
    by (cases "shard_index k = i") (auto simp: memory_lookup_def simp del: memory_lookup_fold)
qed

interpretation mem: challenge_store memory_put memory_consume memory_sweep memory_lookup
  memory_inv "\<lambda>now. now" "\<lambda>_. True" "\<lambda>ch. ch"
  by unfold_locales
     (auto intro: memory_put_inv memory_consume_inv memory_sweep_inv memory_put_stores
        memory_consume_live memory_put_keeps
      dest: memory_put_only memory_consume_returns
      simp: memory_consume_lookup memory_sweep_lookup split: if_splits)

section \<open>Capacity\<close>

text \<open>Any sequence of operations on a store, as a run from its first state.\<close>

datatype memory_op =
    PutOp instant string challenge
  | ConsumeOp instant string
  | SweepOp instant nat

fun memory_step :: "memory_op \<Rightarrow> memory \<Rightarrow> memory" where
  "memory_step (PutOp now nc ch) m = snd (memory_put now nc ch m)"
| "memory_step (ConsumeOp now nc) m = snd (memory_consume now nc m)"
| "memory_step (SweepOp now i) m = memory_sweep now i m"

definition memory_run :: "memory_op list \<Rightarrow> memory \<Rightarrow> memory" where
  "memory_run ops m = fold memory_step ops m"

lemma memory_step_inv: "memory_inv m \<Longrightarrow> memory_inv (memory_step op m)"
  by (cases op) (auto intro: memory_put_inv memory_consume_inv memory_sweep_inv surjective_pairing)

lemma memory_step_cap: "mem_max_entries (memory_step op m) = mem_max_entries m"
  by (cases op)
     (auto simp: memory_put_def memory_consume_def memory_sweep_def Let_def
       split: if_splits option.splits)

lemma memory_run_inv:
  "memory_inv m \<Longrightarrow> memory_inv (memory_run ops m) \<and>
     mem_max_entries (memory_run ops m) = mem_max_entries m"
  by (induction ops arbitrary: m)
     (auto simp: memory_run_def memory_step_inv memory_step_cap)

lemma memory_size_bound:
  assumes "memory_inv m"
  shows "int (memory_size m) \<le> int shards * per_shard (mem_max_entries m)"
proof -
  have bound: "sum_list (map length xs) \<le> length xs * n" if "\<forall>x \<in> set xs. length x \<le> n" for n and xs :: "shard_map list"
    using that by (induction xs) auto
  have each: "\<forall>s \<in> set (mem_shards m). length s \<le> nat (per_shard (mem_max_entries m))"
    using assms by (auto simp: memory_inv_iff shard_ok_def in_set_conv_nth le_nat_iff per_shard_nonneg)
  have "memory_size m \<le> shards * nat (per_shard (mem_max_entries m))"
    using bound [OF each] assms by (simp add: memory_size_def memory_inv_iff)
  then have "int (memory_size m) \<le> int (shards * nat (per_shard (mem_max_entries m)))"
    by (simp only: of_nat_le_iff)
  then show ?thesis by simp
qed

lemma per_shard_total:
  assumes "int shards \<le> n"
  shows "int shards * per_shard n \<le> n"
proof -
  have "n sdiv int shards = n div int shards"
    using assms by (simp add: shards_def signed_divide_int_def sgn_if)
  moreover have "1 \<le> n div int shards"
    using assms by (simp add: shards_def)
  ultimately have "per_shard n = n div int shards"
    by (simp add: per_shard_def Let_def)
  then show ?thesis
    by (simp add: shards_def)
qed

section \<open>Properties\<close>

lemma per_shard_cap: "int shards * per_shard n \<le> max (int shards) n"
proof (cases "int shards \<le> n")
  case True
  then show ?thesis using per_shard_total [OF True] by simp
next
  case False
  then have "n sdiv 64 < 1"
    by (auto simp: signed_divide_int_def shards_def sgn_if zdiv_eq_0_iff not_le)
  then show ?thesis by (simp add: per_shard_def shards_def Let_def)
qed

text \<open>
  C36: Whatever operations are carried out and in whatever order, the memory store never holds more
  than \<open>max(maxEntries, 64)\<close> challenges.
\<close>

theorem memory_bounded:
  "int (memory_size (memory_run ops (new_memory n))) \<le> max 64 n"
  using memory_size_bound [of "memory_run ops (new_memory n)"] memory_run_inv [OF new_memory_inv [of n], of ops]
    per_shard_cap [of n]
  by (simp add: shards_def new_memory_def)

text \<open>
  \<open>Put\<close> refuses a challenge, with \<open>ErrFull\<close>, exactly when the unexpired challenges of its shard
  already fill the shard's capacity (also when the nonce itself is one of them); otherwise it is
  stored.  In either case no unexpired challenge of another nonce is lost.
\<close>

theorem memory_put_exact:
  assumes "memory_inv m"
  shows "(fst (memory_put now k ch m) = Some (Sentinel ErrFull) \<longleftrightarrow>
      per_shard (mem_max_entries m) \<le> int (length (sweep_locked now (mem_shards m ! shard_index k))))
    \<and> (fst (memory_put now k ch m) = None \<longleftrightarrow> memory_lookup (snd (memory_put now k ch m)) k = Some ch
        \<and> int (length (sweep_locked now (mem_shards m ! shard_index k))) < per_shard (mem_max_entries m))
    \<and> (k' \<noteq> k \<longrightarrow> memory_lookup m k' = Some c \<longrightarrow> now \<le> ch_expires_at c \<longrightarrow>
        memory_lookup (snd (memory_put now k ch m)) k' = Some c)"
proof -
  obtain r m' where put: "memory_put now k ch m = (r, m')" by fastforce
  have "length (sweep_locked now (mem_shards m ! shard_index k)) \<le> length (mem_shards m ! shard_index k)"
    by (simp add: sweep_locked_def)
  then have "r = (if per_shard (mem_max_entries m) \<le> int (length (sweep_locked now (mem_shards m ! shard_index k)))
      then Some (Sentinel ErrFull) else None)"
    using put by (auto simp: memory_put_def Let_def split: if_splits)
  moreover have "r = None \<Longrightarrow> memory_lookup m' k = Some ch"
    using mem.put_stores [OF assms, of now k ch m'] put by simp
  moreover have "k' \<noteq> k \<longrightarrow> memory_lookup m k' = Some c \<longrightarrow> now \<le> ch_expires_at c \<longrightarrow> memory_lookup m' k' = Some c"
    using mem.put_keeps [OF assms put] by blast
  ultimately show ?thesis using put by simp
qed

theorem memory_put_exact_witness:
  "fst (memory_put 5 ''a'' \<lparr>ch_message = ''m'', ch_address = 1, ch_expires_at = 9, ch_audience = []\<rparr> (new_memory 64)) = None
     \<longleftrightarrow> memory_lookup (snd (memory_put 5 ''a'' \<lparr>ch_message = ''m'', ch_address = 1, ch_expires_at = 9, ch_audience = []\<rparr>
           (new_memory 64))) ''a'' = Some \<lparr>ch_message = ''m'', ch_address = 1, ch_expires_at = 9, ch_audience = []\<rparr>
       \<and> int (length (sweep_locked 5 (mem_shards (new_memory 64) ! shard_index ''a''))) < per_shard (mem_max_entries (new_memory 64))"
  using memory_put_exact [OF new_memory_inv [of 64]] by blast

end
