(* ===== verification/NoncePostgres.thy ===== *)
theory NoncePostgres imports NonceStore EthModel begin

text \<open>
  The Postgres challenge store (internal/siwe/nonce/postgres.go, schema.sql): the table
  \<open>nonce_challenges\<close> as a map from its primary key to its row, one definition per
  SQL statement, and the store operations over them.  Each statement is one atomic
  step.  What becomes of a statement is part of its call: carried out, refused, or
  carried out with the reply lost (a dropped connection, a cancelled context).
  \<open>ts\<close> stands for the rounding of a timestamp stored in a \<open>TIMESTAMPTZ\<close>
  column.
\<close>

section \<open>The table\<close>

record pg_row =
  row_message :: string
  row_address :: bytes
  row_expires_at :: instant
  row_audience :: "string list"

type_synonym pg_table = "string \<rightharpoonup> pg_row"

datatype pg_fate = Committed | Refused go_error | ReplyLost go_error

record pg_call =
  pg_now :: instant
  pg_fate :: pg_fate

text \<open>\<open>INSERT INTO nonce_challenges\<close>: a second row for a primary key is an error.\<close>

definition pg_insert :: "string \<Rightarrow> pg_row \<Rightarrow> pg_table \<Rightarrow> go_error option \<times> pg_table" where
  "pg_insert k row t =
     (if t k = None then (None, t(k \<mapsto> row))
      else (Some (Err ''duplicate key value violates unique constraint''), t))"

text \<open>\<open>DELETE FROM nonce_challenges WHERE nonce = $1 RETURNING ...\<close>, scanned by \<open>QueryRow\<close>.\<close>

definition pg_delete_returning :: "string \<Rightarrow> pg_table \<Rightarrow> (go_error + pg_row) \<times> pg_table" where
  "pg_delete_returning k t =
     ((case t k of None \<Rightarrow> Inl (Sentinel ErrNoRows) | Some row \<Rightarrow> Inr row), t(k := None))"

text \<open>\<open>DELETE FROM nonce_challenges WHERE expires_at < $1\<close>\<close>

definition pg_delete_expired :: "instant \<Rightarrow> pg_table \<Rightarrow> pg_table" where
  "pg_delete_expired now t = (\<lambda>k. case t k of None \<Rightarrow> None
     | Some row \<Rightarrow> if row_expires_at row < now then None else Some row)"

section \<open>The store operations\<close>

definition postgres_put ::
  "eth \<Rightarrow> (instant \<Rightarrow> instant) \<Rightarrow> pg_call \<Rightarrow> string \<Rightarrow> challenge \<Rightarrow> pg_table
   \<Rightarrow> go_error option \<times> pg_table" where
  "postgres_put eth ts call nc ch t =
     (let row = \<lparr>row_message = ch_message ch,
                 row_address = eth_address_bytes eth (ch_address ch),
                 row_expires_at = ts (ch_expires_at ch),
                 row_audience = ch_audience ch\<rparr>;
          (err, t') = pg_insert nc row t
      in case pg_fate call of
           Refused e \<Rightarrow> (Some (Wrap ''storing challenge'' e), t)
         | ReplyLost e \<Rightarrow> (Some (Wrap ''storing challenge'' e), t')
         | Committed \<Rightarrow> (map_option (Wrap ''storing challenge'') err, t'))"

definition postgres_consume ::
  "eth \<Rightarrow> pg_call \<Rightarrow> string \<Rightarrow> pg_table \<Rightarrow> (go_error + challenge) \<times> pg_table" where
  "postgres_consume eth call nc t =
     (let (row, t') = pg_delete_returning nc t;
          (scanned, t'') = (case pg_fate call of
              Refused e \<Rightarrow> (Inl e, t) | ReplyLost e \<Rightarrow> (Inl e, t') | Committed \<Rightarrow> (row, t'))
      in ((case scanned of
             Inl e \<Rightarrow> if errors_is e ErrNoRows then Inl (Sentinel ErrNotFound)
                      else Inl (Wrap ''consuming challenge'' e)
           | Inr r \<Rightarrow> if go_after (pg_now call) (row_expires_at r) then Inl (Sentinel ErrNotFound)
                      else Inr \<lparr>ch_message = row_message r,
                               ch_address = eth_bytes_to_address eth (row_address r),
                               ch_expires_at = row_expires_at r,
                               ch_audience = row_audience r\<rparr>), t''))"

text \<open>One tick of the janitor; a failed sweep is logged and the loop goes on.\<close>

definition postgres_sweep :: "(instant \<Rightarrow> instant) \<Rightarrow> pg_call \<Rightarrow> pg_table \<Rightarrow> pg_table" where
  "postgres_sweep ts call t =
     (case pg_fate call of
        Refused e \<Rightarrow> t
      | _ \<Rightarrow> pg_delete_expired (ts (pg_now call)) t)"

text \<open>The one statement of a tick covers the whole table.\<close>

abbreviation postgres_tick :: "(instant \<Rightarrow> instant) \<Rightarrow> pg_call \<Rightarrow> nat \<Rightarrow> pg_table \<Rightarrow> pg_table" where
  "postgres_tick ts \<equiv> \<lambda>call i. postgres_sweep ts call"

section \<open>Abstract content\<close>

definition row_challenge :: "eth \<Rightarrow> pg_row \<Rightarrow> challenge" where
  "row_challenge eth r = \<lparr>ch_message = row_message r,
     ch_address = eth_bytes_to_address eth (row_address r),
     ch_expires_at = row_expires_at r, ch_audience = row_audience r\<rparr>"

definition postgres_lookup :: "eth \<Rightarrow> pg_table \<Rightarrow> string \<Rightarrow> challenge option" where
  "postgres_lookup eth t k = map_option (row_challenge eth) (t k)"

definition stored_challenge :: "(instant \<Rightarrow> instant) \<Rightarrow> challenge \<Rightarrow> challenge" where
  "stored_challenge ts ch = ch\<lparr>ch_expires_at := ts (ch_expires_at ch)\<rparr>"

text \<open>
  What the store needs of the address codec and of the timestamp column: an address
  survives its bytes, and a stored timestamp is never later than the one given.
\<close>

locale postgres_backend =
  fixes eth :: eth and ts :: "instant \<Rightarrow> instant"
  assumes address_roundtrip: "eth_bytes_to_address eth (eth_address_bytes eth a) = a"
    and ts_not_later: "ts t \<le> t"
begin

lemma row_challenge_put:
  "row_challenge eth \<lparr>row_message = ch_message ch, row_address = eth_address_bytes eth (ch_address ch),
     row_expires_at = ts (ch_expires_at ch), row_audience = ch_audience ch\<rparr> = stored_challenge ts ch"
  by (simp add: row_challenge_def stored_challenge_def address_roundtrip)

lemma put_lookup:
  assumes "postgres_put eth ts call nc ch t = (r, t')"
  shows "postgres_lookup eth t' k = postgres_lookup eth t k \<or>
    (k = nc \<and> postgres_lookup eth t' k = Some (stored_challenge ts ch))"
    and "r = None \<Longrightarrow> postgres_lookup eth t' nc = Some (stored_challenge ts ch)"
  using assms
  by (auto simp: postgres_put_def pg_insert_def postgres_lookup_def Let_def row_challenge_put
      split: if_splits pg_fate.splits)

lemma consume_lookup:
  assumes "postgres_consume eth call nc t = (r, t')"
  shows "postgres_lookup eth t' = postgres_lookup eth t \<or>
    postgres_lookup eth t' = (postgres_lookup eth t)(nc := None)"
    and "r = Inr ch \<Longrightarrow> postgres_lookup eth t nc = Some ch \<and> pg_now call \<le> ch_expires_at ch \<and>
      postgres_lookup eth t' = (postgres_lookup eth t)(nc := None)"
  using assms
  by (auto simp: postgres_consume_def pg_delete_returning_def postgres_lookup_def row_challenge_def
      go_defs split: if_splits pg_fate.splits option.splits)

lemma sweep_lookup:
  shows "postgres_lookup eth (postgres_sweep ts call t) k = Some c \<Longrightarrow> postgres_lookup eth t k = Some c"
    and "postgres_lookup eth t k = Some c \<Longrightarrow> pg_now call \<le> ch_expires_at c \<Longrightarrow>
      postgres_lookup eth (postgres_sweep ts call t) k = Some c"
  using ts_not_later [of "pg_now call"]
  by (auto simp: postgres_sweep_def pg_delete_expired_def postgres_lookup_def row_challenge_def
      split: if_splits pg_fate.splits option.splits)

lemma put_only:
  "postgres_put eth ts call nc ch t = (r, t') \<Longrightarrow> postgres_lookup eth t' k = Some c \<Longrightarrow>
   postgres_lookup eth t k = Some c \<or> (k = nc \<and> c = stored_challenge ts ch)"
  using put_lookup(1) [of call nc ch t r t' k] by auto

lemma put_keeps:
  "postgres_put eth ts call nc ch t = (r, t') \<Longrightarrow> k \<noteq> nc \<Longrightarrow> postgres_lookup eth t k = Some c \<Longrightarrow>
   postgres_lookup eth t' k = Some c"
  using put_lookup(1) [of call nc ch t r t' k] by auto

lemma consume_only:
  "postgres_consume eth call nc t = (r, t') \<Longrightarrow> postgres_lookup eth t' k = Some c \<Longrightarrow>
   postgres_lookup eth t k = Some c"
  using consume_lookup(1) [of call nc t r t'] by (auto split: if_splits)

lemma consume_keeps:
  "postgres_consume eth call nc t = (r, t') \<Longrightarrow> k \<noteq> nc \<Longrightarrow>
   postgres_lookup eth t' k = postgres_lookup eth t k"
  using consume_lookup(1) [of call nc t r t'] by auto

lemma consume_live:
  "postgres_lookup eth t nc = Some ch \<Longrightarrow> pg_now call \<le> ch_expires_at ch \<Longrightarrow>
   pg_fate call = Committed \<Longrightarrow> \<exists>t'. postgres_consume eth call nc t = (Inr ch, t')"
  by (auto simp: postgres_consume_def pg_delete_returning_def postgres_lookup_def row_challenge_def
      go_defs split: option.splits)

end

sublocale postgres_backend \<subseteq> pg: challenge_store "postgres_put eth ts" "postgres_consume eth"
  "postgres_tick ts" "postgres_lookup eth" "\<lambda>_. True" pg_now "\<lambda>call. pg_fate call = Committed"
  "stored_challenge ts"
  by unfold_locales
     (auto simp: stored_challenge_def ts_not_later
      intro: put_lookup(2) [unfolded stored_challenge_def] put_keeps consume_keeps consume_live sweep_lookup
      dest: put_only [unfolded stored_challenge_def] consume_only consume_lookup(2))

text \<open>
  The column type keeps microseconds: \<open>microseconds\<close> rounds down to them.
\<close>

definition microseconds :: "instant \<Rightarrow> instant" where
  "microseconds t = t div 1000 * 1000"

interpretation pg_model: postgres_backend eth_model microseconds
  by unfold_locales (simp_all add: eth_model_def microseconds_def minus_mod_eq_div_mult [symmetric])

end
