(* ===== verification/SiweSystem.thy ===== *)
theory SiweSystem imports SiweServer NonceMemory NoncePostgres begin

text \<open>
  The sign-in surface as a running system: challenge requests, token requests and janitor ticks
  in any order over one store, with the trace of what was served.  A request carries the handlers that
  serve it: they differ between the replicas that share a store, and the node behind the verifier
  answers each request as it is at that moment.  Stated over the challenge store interface, so that
  every fact holds for the memory store and for Postgres.
\<close>

section \<open>The system\<close>

datatype 'e siwe_event =
    ChallengeServed handlers "go_error + challenge_request" "go_error + bytes" instant 'e response
  | TokenServed handlers "go_error + token_request" 'e instant string response
  | JanitorTick 'e nat

record ('e, 's) siwe_ops =
  op_put :: "'e \<Rightarrow> string \<Rightarrow> challenge \<Rightarrow> 's \<Rightarrow> go_error option \<times> 's"
  op_consume :: "'e \<Rightarrow> string \<Rightarrow> 's \<Rightarrow> (go_error + challenge) \<times> 's"
  op_sweep :: "'e \<Rightarrow> nat \<Rightarrow> 's \<Rightarrow> 's"

inductive siwe_step ::
  "eth \<Rightarrow> claims_signer \<Rightarrow> ('e, 's) siwe_ops \<Rightarrow> 's \<Rightarrow> 'e siwe_event \<Rightarrow> 's \<Rightarrow> bool"
  for eth sg ops
where
  challenge: "challenge_handler eth (op_put ops) h decoded rnd now e s = (r, s') \<Longrightarrow>
    siwe_step eth sg ops s (ChallengeServed h decoded rnd now e r) s'"
| token: "token_handler eth sg (op_consume ops) h decoded e now uuid s = (r, s') \<Longrightarrow>
    siwe_step eth sg ops s (TokenServed h decoded e now uuid r) s'"
| janitor: "siwe_step eth sg ops s (JanitorTick e i) (op_sweep ops e i s)"

inductive_cases siwe_challengeE: "siwe_step eth sg ops s (ChallengeServed h decoded rnd now e r) s'"
inductive_cases siwe_tokenE: "siwe_step eth sg ops s (TokenServed h decoded e now uuid r) s'"
inductive_cases siwe_janitorE: "siwe_step eth sg ops s (JanitorTick e i) s'"
inductive_simps siwe_step_simps:
  "siwe_step eth sg ops s (ChallengeServed h decoded rnd now e r) s'"
  "siwe_step eth sg ops s (TokenServed h decoded e now uuid r) s'"
  "siwe_step eth sg ops s (JanitorTick e i) s'"

text \<open>A run from \<open>s\<close> to \<open>s'\<close>, with its events in order.\<close>

inductive siwe_run ::
  "eth \<Rightarrow> claims_signer \<Rightarrow> ('e, 's) siwe_ops \<Rightarrow> 's \<Rightarrow> 'e siwe_event list \<Rightarrow> 's \<Rightarrow> bool"
  for eth sg ops s
where
  start: "siwe_run eth sg ops s [] s"
| step: "siwe_run eth sg ops s tr s1 \<Longrightarrow> siwe_step eth sg ops s1 ev s2 \<Longrightarrow>
    siwe_run eth sg ops s (tr @ [ev]) s2"

text \<open>
  Whether an event drew a nonce for a challenge, or served a token for it.
\<close>

fun draws :: "string \<Rightarrow> 'e siwe_event \<Rightarrow> bool" where
  "draws k (ChallengeServed h decoded rnd now e r) = (nonce_new rnd = Inr k)"
| "draws k (TokenServed h decoded e now uuid r) = False"
| "draws k (JanitorTick e i) = False"

fun serves_token :: "string \<Rightarrow> 'e siwe_event \<Rightarrow> bool" where
  "serves_token k (TokenServed h decoded e now uuid r) =
     (rs_status r = 200 \<and> (case decoded of Inl _ \<Rightarrow> False | Inr req \<Rightarrow> tr_nonce req = k))"
| "serves_token k (ChallengeServed h decoded rnd now e r) = False"
| "serves_token k (JanitorTick e i) = False"

fun event_touches :: "string \<Rightarrow> 'e siwe_event \<Rightarrow> bool" where
  "event_touches k (ChallengeServed h decoded rnd now e r) = (nonce_new rnd = Inr k)"
| "event_touches k (TokenServed h decoded e now uuid r) =
     (case decoded of Inl _ \<Rightarrow> False | Inr req \<Rightarrow> tr_nonce req = k)"
| "event_touches k (JanitorTick e i) = False"

fun event_env :: "'e siwe_event \<Rightarrow> 'e" where
  "event_env (ChallengeServed h decoded rnd now e r) = e"
| "event_env (TokenServed h decoded e now uuid r) = e"
| "event_env (JanitorTick e i) = e"

text \<open>A challenge request that was accepted with nonce \<open>k\<close>, and the challenge it asks to store.\<close>

fun asks_challenge :: "eth \<Rightarrow> string \<Rightarrow> challenge \<Rightarrow> 'e siwe_event \<Rightarrow> bool" where
  "asks_challenge eth k c (ChallengeServed h decoded rnd now e r) =
     (case decoded of
        Inl _ \<Rightarrow> False
      | Inr req \<Rightarrow> challenge_accepted eth h req rnd k \<and>
          c = challenge_entry eth h (eth_hex_to_address eth (cr_address req)) (cr_audience req) k now)"
| "asks_challenge eth k c (TokenServed h decoded e now uuid r) = False"
| "asks_challenge eth k c (JanitorTick e i) = False"

definition count_events :: "('e siwe_event \<Rightarrow> bool) \<Rightarrow> 'e siwe_event list \<Rightarrow> nat" where
  "count_events P tr = length (filter P tr)"

lemma count_events_simps [simp]:
  "count_events P [] = 0"
  "count_events P (tr @ [ev]) = count_events P tr + (if P ev then 1 else 0)"
  by (simp_all add: count_events_def)

lemma siwe_run_Nil: "siwe_run eth sg ops s [] s' \<longleftrightarrow> s' = s"
  by (auto elim: siwe_run.cases intro: siwe_run.start)

lemma siwe_run_snoc:
  "siwe_run eth sg ops s (tr @ [ev]) s' \<longleftrightarrow>
     (\<exists>m. siwe_run eth sg ops s tr m \<and> siwe_step eth sg ops m ev s')"
  by (auto elim: siwe_run.cases intro: siwe_run.step)

lemma siwe_run_append:
  "siwe_run eth sg ops s (tr @ tr') s' \<longleftrightarrow>
     (\<exists>m. siwe_run eth sg ops s tr m \<and> siwe_run eth sg ops m tr' s')"
proof (induction tr' arbitrary: s' rule: rev_induct)
  case (snoc ev tr')
  have "siwe_run eth sg ops s (tr @ tr' @ [ev]) s' \<longleftrightarrow>
      (\<exists>m. siwe_run eth sg ops s (tr @ tr') m \<and> siwe_step eth sg ops m ev s')"
    by (metis append.assoc siwe_run_snoc)
  then show ?case by (auto simp: siwe_run_snoc snoc.IH)
qed (simp add: siwe_run_Nil)

lemma siwe_run_Cons:
  "siwe_run eth sg ops s (ev # tr) s' \<longleftrightarrow>
     (\<exists>m. siwe_step eth sg ops s ev m \<and> siwe_run eth sg ops m tr s')"
proof -
  have "siwe_run eth sg ops s [ev] m \<longleftrightarrow> siwe_step eth sg ops s ev m" for m
    using siwe_run_snoc [of eth sg ops s "[]" ev m] by (simp add: siwe_run_Nil)
  with siwe_run_append [of eth sg ops s "[ev]" tr s'] show ?thesis by simp
qed

section \<open>Over any challenge store\<close>

locale siwe = challenge_store put consume sweep lookup inv clock healthy norm
  for put :: "'e \<Rightarrow> string \<Rightarrow> challenge \<Rightarrow> 's \<Rightarrow> go_error option \<times> 's"
    and consume :: "'e \<Rightarrow> string \<Rightarrow> 's \<Rightarrow> (go_error + challenge) \<times> 's"
    and sweep :: "'e \<Rightarrow> nat \<Rightarrow> 's \<Rightarrow> 's"
    and lookup :: "'s \<Rightarrow> string \<Rightarrow> challenge option"
    and inv :: "'s \<Rightarrow> bool" and clock :: "'e \<Rightarrow> instant"
    and healthy :: "'e \<Rightarrow> bool" and norm :: "challenge \<Rightarrow> challenge" +
  fixes eth :: eth and sg :: claims_signer and ops :: "('e, 's) siwe_ops"
  assumes ops_put: "op_put ops = put" and ops_consume: "op_consume ops = consume"
    and ops_sweep: "op_sweep ops = sweep"
begin

lemmas step_simps = siwe_step_simps ops_put ops_consume ops_sweep

lemma step_inv:
  assumes "siwe_step eth sg ops s ev s'" and "inv s"
  shows "inv s'"
  using assms
proof cases
  case (challenge h decoded rnd now e r)
  from challenge(2) assms(2) show ?thesis
    unfolding ops_put by (cases rule: challenge_handler_cases) (auto dest: put_inv)
next
  case (token h decoded e now uuid r)
  from token(2) assms(2) show ?thesis
    unfolding ops_consume by (cases rule: token_handler_cases) (auto dest: consume_inv)
qed (simp add: ops_sweep sweep_inv)

lemma run_inv: "siwe_run eth sg ops s tr s' \<Longrightarrow> inv s \<Longrightarrow> inv s'"
  by (induction rule: siwe_run.induct) (auto dest: step_inv)

text \<open>A step neither brings back nor invents a challenge, unless it draws its nonce.\<close>

lemma step_lookup_only:
  assumes "siwe_step eth sg ops s ev s'" and "inv s" and "lookup s' k = Some c" and "\<not> draws k ev"
  shows "lookup s k = Some c"
  using assms(1)
proof cases
  case (challenge h decoded rnd now e r)
  from challenge(2) assms(2-4) challenge(1) show ?thesis
    unfolding ops_put
    by (cases rule: challenge_handler_cases) (auto dest!: put_only simp: challenge_accepted_def)
next
  case (token h decoded e now uuid r)
  from token(2) assms(2,3) show ?thesis
    unfolding ops_consume by (cases rule: token_handler_cases) (auto dest: consume_only)
next
  case (janitor e i)
  with assms(2,3) show ?thesis by (simp add: ops_sweep sweep_only)
qed

lemma step_token:
  assumes "siwe_step eth sg ops s (TokenServed h decoded e now uuid r) s'" and "rs_status r = 200"
  obtains nc sig ch tok where "token_presented eth decoded nc sig" and "consume e nc s = (Inr ch, s')"
    and "verify eth (h_verifier h) (ch_address ch) (bytes_of (ch_message ch)) sig = Inr True"
    and "keyset_sign sg (is_keys (h_issuer h))
          (issue_claims eth (h_issuer h) now uuid (ch_address ch) (ch_audience ch)) = Inr tok"
    and "r = write_json 200 (token_response tok (int_seconds (issuer_ttl (h_issuer h))))"
proof -
  from assms(1) have "token_handler eth sg consume h decoded e now uuid s = (r, s')"
    by (simp add: step_simps)
  then show ?thesis
  proof (cases rule: token_handler_cases)
    case rejected
    with assms(2) show ?thesis by simp
  next
    case (presented nc sig res)
    with assms(2) obtain ch tok where "res = Inr ch"
      "verify eth (h_verifier h) (ch_address ch) (bytes_of (ch_message ch)) sig = Inr True"
      "keyset_sign sg (is_keys (h_issuer h))
          (issue_claims eth (h_issuer h) now uuid (ch_address ch) (ch_audience ch)) = Inr tok"
      by (auto simp: token_outcome_200)
    with presented show ?thesis by (intro that) (auto simp: token_outcome_ok)
  qed
qed

lemma step_serves:
  assumes "siwe_step eth sg ops s ev s'" and "inv s" and "serves_token k ev"
  shows "lookup s k \<noteq> None" and "lookup s' k = None"
proof -
  obtain h decoded e now uuid r req where ev: "ev = TokenServed h decoded e now uuid r"
    and r: "rs_status r = 200" and req: "decoded = Inr req" "tr_nonce req = k"
    using assms(3) by (cases ev) (auto split: sum.splits)
  from assms(1) r obtain nc sig ch where p: "token_presented eth decoded nc sig"
    and c: "consume e nc s = (Inr ch, s')"
    unfolding ev by (rule step_token)
  from p req have "nc = k" by (auto simp: token_presented_def)
  with c assms(2) show "lookup s k \<noteq> None" and "lookup s' k = None"
    by (auto dest: consume_returns consume_removes)
qed

text \<open>
  The counting invariant behind single use: the tokens served for a nonce, and the challenge still
  outstanding for it, are together at most the draws of that nonce.
\<close>

lemma token_count:
  assumes "siwe_run eth sg ops s tr s'" and "inv s" and "lookup s k = None"
  shows "count_events (serves_token k) tr + (if lookup s' k = None then 0 else 1)
    \<le> count_events (draws k) tr"
  using assms(1)
proof induction
  case start
  with assms(3) show ?case by simp
next
  case (step tr s1 ev s2)
  then have inv: "inv s1" using assms(2) run_inv by blast
  show ?case
  proof (cases "serves_token k ev")
    case True
    then have "\<not> draws k ev" by (cases ev) auto
    moreover have "lookup s1 k \<noteq> None" and "lookup s2 k = None"
      using step_serves [OF step.hyps(2) inv True] by auto
    ultimately show ?thesis using True step.IH by (simp split: if_splits)
  next
    case False
    with step_lookup_only [OF step.hyps(2) inv, of k] step.IH show ?thesis
      by (cases "lookup s2 k"; cases "draws k ev") auto
  qed
qed

text \<open>Every outstanding challenge goes back to an accepted request of the run.\<close>

lemma step_origin:
  assumes "siwe_step eth sg ops s ev s'" and "inv s" and "lookup s' k = Some c"
  shows "lookup s k = Some c \<or> (\<exists>c0. asks_challenge eth k c0 ev \<and> c = norm c0)"
  using assms(1)
proof cases
  case (challenge h decoded rnd now e r)
  from challenge(2) assms(2,3) challenge(1) show ?thesis
    unfolding ops_put
    by (cases rule: challenge_handler_cases) (auto dest!: put_only)
next
  case (token h decoded e now uuid r)
  with assms(1-3) step_lookup_only [of s ev s' k c] show ?thesis by simp
next
  case (janitor e i)
  with assms(1-3) step_lookup_only [of s ev s' k c] show ?thesis by simp
qed

lemma run_origin:
  assumes "siwe_run eth sg ops s tr s'" and "inv s" and "lookup s' k = Some c"
  shows "lookup s k = Some c \<or> (\<exists>ev c0. ev \<in> set tr \<and> asks_challenge eth k c0 ev \<and> c = norm c0)"
  using assms(1,3)
proof (induction arbitrary: c)
  case start
  then show ?case by simp
next
  case (step tr s1 ev s2)
  then have "inv s1" using assms(2) run_inv by blast
  from step_origin [OF step.hyps(2) this step.prems] step.IH show ?case by fastforce
qed

text \<open>A served token was paid for by a challenge of the run, or by one that the store held before it.\<close>

lemma token_sound_from:
  assumes run: "siwe_run eth sg ops s (tr @ [TokenServed h decoded e now uuid r]) s'"
    and "inv s" and r: "rs_status r = 200"
  shows "\<exists>nc sig ch tok. ((\<exists>ev \<in> set tr. asks_challenge eth nc ch ev) \<or> lookup s nc = Some ch) \<and>
    token_presented eth decoded nc sig \<and> clock e \<le> ch_expires_at ch \<and>
    verify eth (h_verifier h) (ch_address ch) (bytes_of (ch_message ch)) sig = Inr True \<and>
    keyset_sign sg (is_keys (h_issuer h))
      (issue_claims eth (h_issuer h) now uuid (ch_address ch) (ch_audience ch)) = Inr tok \<and>
    r = write_json 200 (token_response tok (int_seconds (issuer_ttl (h_issuer h))))"
proof -
  obtain s1 where run1: "siwe_run eth sg ops s tr s1"
    and st: "siwe_step eth sg ops s1 (TokenServed h decoded e now uuid r) s'"
    using run by (auto simp: siwe_run_snoc)
  then have inv: "inv s1" using assms(2) run_inv by blast
  obtain nc sig c tok where tok: "token_presented eth decoded nc sig" "consume e nc s1 = (Inr c, s')"
    "verify eth (h_verifier h) (ch_address c) (bytes_of (ch_message c)) sig = Inr True"
    "keyset_sign sg (is_keys (h_issuer h))
          (issue_claims eth (h_issuer h) now uuid (ch_address c) (ch_audience c)) = Inr tok"
    "r = write_json 200 (token_response tok (int_seconds (issuer_ttl (h_issuer h))))"
    using st r by (rule step_token)
  have c: "lookup s1 nc = Some c" "clock e \<le> ch_expires_at c"
    using consume_returns [OF inv tok(2)] by auto
  from run_origin [OF run1 assms(2) c(1)] show ?thesis
  proof
    assume "lookup s nc = Some c"
    with tok c(2) show ?thesis by blast
  next
    assume "\<exists>ev c0. ev \<in> set tr \<and> asks_challenge eth nc c0 ev \<and> c = norm c0"
    then obtain ev c0 where ev: "ev \<in> set tr" "asks_challenge eth nc c0 ev" "c = norm c0" by blast
    moreover have "clock e \<le> ch_expires_at c0"
      using c(2) norm_expiry [of c0] \<open>c = norm c0\<close> by simp
    ultimately show ?thesis
      using tok by (intro exI [of _ nc] exI [of _ sig] exI [of _ c0] exI [of _ tok]) (auto simp: norm_keeps)
  qed
qed

lemma token_sound:
  assumes "siwe_run eth sg ops s (tr @ [TokenServed h decoded e now uuid r]) s'"
    and "inv s" and "\<And>k. lookup s k = None" and "rs_status r = 200"
  shows "\<exists>nc sig ch tok ev. ev \<in> set tr \<and> asks_challenge eth nc ch ev \<and>
    token_presented eth decoded nc sig \<and> clock e \<le> ch_expires_at ch \<and>
    verify eth (h_verifier h) (ch_address ch) (bytes_of (ch_message ch)) sig = Inr True \<and>
    keyset_sign sg (is_keys (h_issuer h))
      (issue_claims eth (h_issuer h) now uuid (ch_address ch) (ch_audience ch)) = Inr tok \<and>
    r = write_json 200 (token_response tok (int_seconds (issuer_ttl (h_issuer h))))"
  using token_sound_from [OF assms(1,2,4)] assms(3) by (fastforce simp: Bex_def)

text \<open>What does not touch a nonce leaves its challenge outstanding until it expires.\<close>

lemma step_keeps:
  assumes "siwe_step eth sg ops s ev s'" and "inv s" and "lookup s k = Some c"
    and "\<not> event_touches k ev" and "clock (event_env ev) \<le> ch_expires_at c"
  shows "lookup s' k = Some c"
  using assms(1)
proof cases
  case (challenge h decoded rnd now e r)
  from challenge(2) assms(2-5) challenge(1) show ?thesis
    unfolding ops_put
    by (cases rule: challenge_handler_cases) (auto intro: put_keeps simp: challenge_accepted_def)
next
  case (token h decoded e now uuid r)
  then have run: "token_handler eth sg consume h decoded e now uuid s = (r, s')"
    by (simp add: ops_consume)
  then show ?thesis
  proof (cases rule: token_handler_cases)
    case (presented nc sig res)
    with assms(4) token(1) have "k \<noteq> nc" by (auto simp: token_presented_def)
    with consume_keeps [OF assms(2) presented(2)] assms(3) show ?thesis by simp
  qed (simp add: assms(3))
next
  case (janitor e i)
  with assms(2,3,5) show ?thesis by (simp add: ops_sweep sweep_keeps)
qed

lemma run_keeps:
  assumes "siwe_run eth sg ops s tr s'" and "inv s" and "lookup s k = Some c"
    and "list_all (\<lambda>ev. \<not> event_touches k ev \<and> clock (event_env ev) \<le> ch_expires_at c) tr"
  shows "lookup s' k = Some c"
  using assms
proof induction
  case (step tr s1 ev s2)
  then show ?case using run_inv step_keeps by (auto dest: run_inv)
qed simp

lemma sign_in_completes:
  assumes "inv s" and "siwe_step eth sg ops s (ChallengeServed h0 (Inr req) rnd t0 e0 r0) s1"
    and "rs_status r0 = 200" and "nonce_new rnd = Inr nc"
    and "ch = challenge_entry eth h0 (eth_hex_to_address eth (cr_address req)) (cr_audience req) nc t0"
    and "siwe_run eth sg ops s1 tr s2"
    and "list_all (\<lambda>ev. \<not> event_touches nc ev \<and> clock (event_env ev) \<le> ch_expires_at (norm ch)) tr"
    and "token_presented eth decoded nc sig" and "clock e \<le> ch_expires_at (norm ch)" and "healthy e"
    and "verify eth (h_verifier h) (ch_address ch) (bytes_of (ch_message ch)) sig = Inr True"
    and "keyset_sign sg (is_keys (h_issuer h))
      (issue_claims eth (h_issuer h) now uuid (ch_address ch) (ch_audience ch)) = Inr tok"
  shows "\<exists>s3. siwe_step eth sg ops s2 (TokenServed h decoded e now uuid
      (write_json 200 (token_response tok (int_seconds (issuer_ttl (h_issuer h)))))) s3"
proof -
  from assms(2) have "challenge_handler eth put h0 (Inr req) rnd t0 e0 s = (r0, s1)"
    by (simp add: step_simps)
  then have "put e0 nc ch s = (None, s1)"
    using assms(3-5) by (cases rule: challenge_handler_cases) (auto simp: challenge_accepted_def split: option.splits)
  then have s1: "inv s1" "lookup s1 nc = Some (norm ch)"
    using put_inv put_stores assms(1) by blast+
  then have "lookup s2 nc = Some (norm ch)" and "inv s2"
    using run_keeps run_inv assms(6,7) by blast+
  then obtain s3 where "consume e nc s2 = (Inr (norm ch), s3)"
    using consume_live assms(9,10) by blast
  moreover obtain r s3' where run: "token_handler eth sg consume h decoded e now uuid s2 = (r, s3')"
    by fastforce
  ultimately have "r = write_json 200 (token_response tok (int_seconds (issuer_ttl (h_issuer h))))"
    using assms(8,11,12)
    by (cases rule: token_handler_cases [OF run])
       (auto simp: token_presented_def norm_keeps intro!: token_outcome_ok)
  with run show ?thesis by (auto simp: step_simps)
qed

end

section \<open>The two stores behind the system\<close>

definition memory_ops :: "(instant, memory) siwe_ops" where
  "memory_ops = \<lparr>op_put = memory_put, op_consume = memory_consume, op_sweep = memory_sweep\<rparr>"

definition postgres_ops :: "eth \<Rightarrow> (instant \<Rightarrow> instant) \<Rightarrow> (pg_call, pg_table) siwe_ops" where
  "postgres_ops eth ts =
     \<lparr>op_put = postgres_put eth ts, op_consume = postgres_consume eth, op_sweep = postgres_tick ts\<rparr>"

interpretation mem_siwe: siwe memory_put memory_consume memory_sweep memory_lookup memory_inv
  "\<lambda>now. now" "\<lambda>_. True" "\<lambda>ch. ch" eth sg memory_ops for eth sg
  by unfold_locales (simp_all add: memory_ops_def)

sublocale postgres_backend \<subseteq> pg_siwe: siwe "postgres_put eth ts" "postgres_consume eth"
  "postgres_tick ts" "postgres_lookup eth" "\<lambda>_. True" pg_now "\<lambda>call. pg_fate call = Committed"
  "stored_challenge ts" eth sg "postgres_ops eth ts" for sg
  by unfold_locales (simp_all add: postgres_ops_def)

context postgres_backend
begin

lemmas pg_token_count = pg_siwe.token_count
lemmas pg_token_sound = pg_siwe.token_sound
lemmas pg_sign_in_completes = pg_siwe.sign_in_completes

end

end
