(* ===== verification/SiweDemo.thy ===== *)
theory SiweDemo imports SiweSystem begin

text \<open>
  One concrete sign-in for the witnesses: a deployment without an Ethereum backend over the
  package instance of EthModel, the account 7, and a signature that the instance takes.
\<close>

lemma model_recovers:
  "v \<in> {0, 1, 27, 28} \<Longrightarrow> recovers_to eth_model hash (model_signature a v) a"
  by (auto simp: recovers_to_def model_signature_def eth_model_def length_model_address_bytes
      normalize_v_def nth_append list_update_append)

definition demo_handlers :: handlers where
  "demo_handlers = \<lparr>h_verifier = \<lparr>vf_backend = None, vf_abi = None\<rparr>,
     h_issuer = \<lparr>is_keys = \<lparr>ks_all = [signing_key_of toy_codec (toy_key 65)]\<rparr>,
       is_issuer = ''https://auth.example'', is_audience = [''dimo''], is_ttl = 3600 * second\<rparr>,
     h_domain = ''auth.example'', h_uri = ''https://auth.example'', h_statement = ''Sign in'',
     h_chain_id = 137, h_challenge_ttl = 300 * second, h_allowed_audiences = [''step-ca'']\<rparr>"

text \<open>A stand-in for a signed token: the account's text in hexadecimal.\<close>

definition demo_sign :: claims_signer where
  "demo_sign priv kid cl = Inr (''t'' @ hex_encode (bytes_of (cl_ethereum_address cl)))"

definition demo_now :: instant where
  "demo_now = 63900000000 * second"

definition demo_request :: challenge_request where
  "demo_request = \<lparr>cr_address = eth_address_hex eth_model 7, cr_audience = [''step-ca'']\<rparr>"

definition demo_random :: bytes where
  "demo_random = replicate 32 0xab"

definition demo_nonce :: string where
  "demo_nonce = hex_encode demo_random"

definition demo_challenge :: challenge where
  "demo_challenge = challenge_entry eth_model demo_handlers 7 [''step-ca''] demo_nonce demo_now"

definition demo_token_request :: token_request where
  "demo_token_request = \<lparr>tr_nonce = demo_nonce, tr_signature = ''0x'' @ hex_encode (model_signature 7 27)\<rparr>"

definition demo_challenge_reply :: response where
  "demo_challenge_reply = write_json 200 (challenge_response (ch_message demo_challenge) demo_nonce
     (rfc3339 (demo_now + 300 * second)))"

definition demo_token :: string where
  "demo_token = ''t'' @ hex_encode (bytes_of (eth_address_hex eth_model 7))"

definition demo_token_reply :: response where
  "demo_token_reply = write_json 200 (token_response demo_token (int_seconds (3600 * second)))"

definition demo_challenge_event :: "'e \<Rightarrow> 'e siwe_event" where
  "demo_challenge_event e = ChallengeServed demo_handlers (Inr demo_request) (Inr demo_random) demo_now e demo_challenge_reply"

definition demo_token_event :: "'e \<Rightarrow> 'e siwe_event" where
  "demo_token_event e = TokenServed demo_handlers (Inr demo_token_request) e (demo_now + second) ''uuid'' demo_token_reply"

lemma demo_accepted:
  "challenge_accepted eth_model demo_handlers demo_request (Inr demo_random) demo_nonce"
  by (simp add: challenge_accepted_def demo_request_def model_decode_address nonce_new_def
      demo_nonce_def demo_handlers_def)

lemma demo_nonce_nonempty: "demo_nonce \<noteq> ''''"
proof -
  have "length demo_nonce = 64" by (simp add: demo_nonce_def demo_random_def)
  then show ?thesis by auto
qed

lemma demo_presented: "token_presented eth_model (Inr demo_token_request) demo_nonce (model_signature 7 27)"
  using model_decode_hex(1) [of "model_signature 7 27"] demo_nonce_nonempty
  by (simp add: token_presented_def demo_token_request_def)

lemma demo_verify:
  "verify eth_model (h_verifier demo_handlers) (ch_address demo_challenge)
     (bytes_of (ch_message demo_challenge)) (model_signature 7 27) = Inr True"
  by (simp add: verify_True model_recovers demo_challenge_def challenge_entry_def)

lemma demo_signs:
  "keyset_sign demo_sign (is_keys (h_issuer demo_handlers))
     (issue_claims eth_model (h_issuer demo_handlers) now uuid (ch_address demo_challenge) aud) = Inr demo_token"
  by (simp add: keyset_sign_def demo_handlers_def demo_sign_def demo_token_def demo_challenge_def challenge_entry_def)

lemma demo_challenge_step:
  assumes "op_put ops e demo_nonce demo_challenge s = (None, s')"
  shows "siwe_step eth_model demo_sign ops s (demo_challenge_event e) s'"
  using assms demo_accepted
  by (simp add: demo_challenge_event_def siwe_step_simps challenge_handler_def challenge_accepted_def
      audience_allowed_iff demo_challenge_reply_def demo_challenge_def challenge_entry_def demo_request_def
      model_decode_address Let_def)
     (simp add: demo_handlers_def)

lemma demo_token_step:
  assumes "op_consume ops e demo_nonce s = (Inr c, s')" and "ch_message c = ch_message demo_challenge"
    "ch_address c = ch_address demo_challenge"
  shows "siwe_step eth_model demo_sign ops s (demo_token_event e) s'"
proof -
  obtain r s1 where run: "token_handler eth_model demo_sign (op_consume ops) demo_handlers (Inr demo_token_request) e
      (demo_now + second) ''uuid'' s = (r, s1)" by fastforce
  have "s1 = s' \<and> r = demo_token_reply"
    using run
  proof (cases rule: token_handler_cases)
    case (presented nc sig res)
    with demo_presented have "nc = demo_nonce" "sig = model_signature 7 27"
      by (auto simp: token_presented_def)
    with presented assms show ?thesis
      by (auto simp: demo_token_reply_def demo_verify demo_signs issuer_ttl_def
          intro!: token_outcome_ok [THEN trans])
         (simp add: demo_handlers_def)
  qed (use demo_presented in blast)
  with run show ?thesis by (simp add: demo_token_event_def siwe_step_simps)
qed

text \<open>The same sign-in over the memory store.\<close>

definition demo_memory :: memory where
  "demo_memory = snd (memory_put demo_now demo_nonce demo_challenge (new_memory 1000))"

lemma demo_put: "memory_put demo_now demo_nonce demo_challenge (new_memory 1000) = (None, demo_memory)"
proof -
  have "shard_index demo_nonce < 64" by (metis shard_index_less shards_def)
  then show ?thesis
    unfolding demo_memory_def memory_put_def new_memory_def
    by (simp add: Let_def per_shard_def shards_def)
qed

lemma demo_memory_facts:
  "memory_inv demo_memory" "memory_lookup demo_memory demo_nonce = Some demo_challenge"
  using mem.put_inv [OF new_memory_inv demo_put] mem.put_stores [OF new_memory_inv demo_put] by auto

lemma demo_consume:
  "\<exists>m. memory_consume (demo_now + second) demo_nonce demo_memory = (Inr demo_challenge, m)"
proof (rule mem.consume_live [OF demo_memory_facts])
  show "demo_now + second \<le> ch_expires_at demo_challenge"
    by (simp add: demo_challenge_def challenge_entry_def demo_handlers_def second_def)
qed simp

lemma demo_memory_run:
  "\<exists>m. siwe_run eth_model demo_sign memory_ops (new_memory 1000)
     [demo_challenge_event demo_now, demo_token_event (demo_now + second)] m"
proof -
  obtain m where "memory_consume (demo_now + second) demo_nonce demo_memory = (Inr demo_challenge, m)"
    using demo_consume by blast
  then have "siwe_step eth_model demo_sign memory_ops demo_memory
      (demo_token_event (demo_now + second)) m"
    by (intro demo_token_step) (simp_all add: memory_ops_def)
  moreover have "siwe_step eth_model demo_sign memory_ops (new_memory 1000)
      (demo_challenge_event demo_now) demo_memory"
    by (intro demo_challenge_step) (simp add: memory_ops_def demo_put)
  ultimately show ?thesis by (auto simp: siwe_run_Cons siwe_run_Nil)
qed

text \<open>And over Postgres.\<close>

definition demo_call :: "instant \<Rightarrow> pg_call" where
  "demo_call now = \<lparr>pg_now = now, pg_fate = Committed\<rparr>"

definition demo_table :: pg_table where
  "demo_table = snd (postgres_put eth_model microseconds (demo_call demo_now) demo_nonce demo_challenge Map.empty)"

lemma demo_pg_put:
  "postgres_put eth_model microseconds (demo_call demo_now) demo_nonce demo_challenge Map.empty = (None, demo_table)"
  by (simp add: demo_table_def postgres_put_def pg_insert_def demo_call_def)

lemma demo_pg_lookup: "postgres_lookup eth_model demo_table demo_nonce = Some (stored_challenge microseconds demo_challenge)"
  using pg_model.put_lookup(2) [OF demo_pg_put] by simp

lemma demo_pg_consume:
  "\<exists>t. postgres_consume eth_model (demo_call (demo_now + second)) demo_nonce demo_table
     = (Inr (stored_challenge microseconds demo_challenge), t)"
proof (rule pg_model.consume_live [OF demo_pg_lookup])
  show "pg_now (demo_call (demo_now + second)) \<le> ch_expires_at (stored_challenge microseconds demo_challenge)"
    by (simp add: demo_call_def stored_challenge_def microseconds_def demo_challenge_def challenge_entry_def
        demo_handlers_def demo_now_def second_def)
qed (simp add: demo_call_def)

lemma demo_pg_run:
  "\<exists>t. siwe_run eth_model demo_sign (postgres_ops eth_model microseconds) Map.empty
     [demo_challenge_event (demo_call demo_now), demo_token_event (demo_call (demo_now + second))] t"
proof -
  obtain t where "postgres_consume eth_model (demo_call (demo_now + second)) demo_nonce demo_table
      = (Inr (stored_challenge microseconds demo_challenge), t)"
    using demo_pg_consume by blast
  then have "siwe_step eth_model demo_sign (postgres_ops eth_model microseconds) demo_table
      (demo_token_event (demo_call (demo_now + second))) t"
    by (intro demo_token_step [where c = "stored_challenge microseconds demo_challenge"])
       (simp_all add: postgres_ops_def stored_challenge_def)
  moreover have "siwe_step eth_model demo_sign (postgres_ops eth_model microseconds) Map.empty
      (demo_challenge_event (demo_call demo_now)) demo_table"
    by (intro demo_challenge_step) (simp add: postgres_ops_def demo_pg_put)
  ultimately show ?thesis by (auto simp: siwe_run_Cons siwe_run_Nil)
qed

lemma demo_reply_status: "rs_status demo_challenge_reply = 200"
  by (simp add: demo_challenge_reply_def)

lemma demo_drawn: "nonce_new (Inr demo_random) = Inr demo_nonce"
  by (simp add: nonce_new_def demo_nonce_def)

lemma demo_challenge_asked:
  "demo_challenge = challenge_entry eth_model demo_handlers (eth_hex_to_address eth_model (cr_address demo_request))
     (cr_audience demo_request) demo_nonce demo_now"
  by (simp add: demo_challenge_def demo_request_def model_decode_address)

end
