(* ===== verification/StoreRefinement.thy ===== *)
theory StoreRefinement imports SiweDemo begin

text \<open>
  The contract of the challenge store as an abstract machine, a plain map from nonces to challenges
  that never forgets early, and the refinement: over any sequence of calls with a forward clock whose
  puts succeed, every store answers as the abstract one does.  Then every answer of each store, refused puts
  included, over a list of pending challenges, and how the answers of the two compare.
\<close>

section \<open>The abstract store\<close>

datatype 'e store_call = PutCall 'e string challenge | ConsumeCall 'e string | SweepCall 'e nat

datatype observation = PutDone bool | Consumed "challenge option" | Swept

fun call_env :: "'e store_call \<Rightarrow> 'e" where
  "call_env (PutCall e k ch) = e"
| "call_env (ConsumeCall e k) = e"
| "call_env (SweepCall e i) = e"

type_synonym abstract_store = "string \<rightharpoonup> challenge"

fun spec_step ::
  "('e \<Rightarrow> instant) \<Rightarrow> (challenge \<Rightarrow> challenge) \<Rightarrow> 'e store_call \<Rightarrow> abstract_store \<Rightarrow> observation \<times> abstract_store" where
  "spec_step clock norm (PutCall e k ch) m = (PutDone True, m(k \<mapsto> norm ch))"
| "spec_step clock norm (ConsumeCall e k) m =
     (Consumed (case m k of None \<Rightarrow> None
        | Some c \<Rightarrow> if clock e \<le> ch_expires_at c then Some c else None), m(k := None))"
| "spec_step clock norm (SweepCall e i) m = (Swept, m)"

fun run_calls :: "('c \<Rightarrow> 's \<Rightarrow> observation \<times> 's) \<Rightarrow> 'c list \<Rightarrow> 's \<Rightarrow> observation list" where
  "run_calls f [] s = []"
| "run_calls f (c # cs) s = (let (ob, s') = f c s in ob # run_calls f cs s')"

text \<open>The same calls on an implementation, and what a caller sees of them.\<close>

fun store_step ::
  "('e \<Rightarrow> string \<Rightarrow> challenge \<Rightarrow> 's \<Rightarrow> go_error option \<times> 's) \<Rightarrow>
   ('e \<Rightarrow> string \<Rightarrow> 's \<Rightarrow> (go_error + challenge) \<times> 's) \<Rightarrow> ('e \<Rightarrow> nat \<Rightarrow> 's \<Rightarrow> 's)
   \<Rightarrow> 'e store_call \<Rightarrow> 's \<Rightarrow> observation \<times> 's" where
  "store_step put consume sweep (PutCall e k ch) s =
     (let (err, s') = put e k ch s in (PutDone (err = None), s'))"
| "store_step put consume sweep (ConsumeCall e k) s =
     (let (res, s') = consume e k s
      in (Consumed (case res of Inl _ \<Rightarrow> None | Inr c \<Rightarrow> Some c), s'))"
| "store_step put consume sweep (SweepCall e i) s = (Swept, sweep e i s)"

definition forward :: "('e \<Rightarrow> instant) \<Rightarrow> 'e store_call list \<Rightarrow> bool" where
  "forward clock cs \<longleftrightarrow> sorted (map (\<lambda>c. clock (call_env c)) cs)"

lemma forward_Cons:
  "forward clock (c # cs) \<longleftrightarrow>
     (\<forall>d \<in> set cs. clock (call_env c) \<le> clock (call_env d)) \<and> forward clock cs"
  by (auto simp: forward_def)

section \<open>Refinement\<close>

text \<open>
  The two states agree on what has not expired at time \<open>t\<close>.
\<close>

definition agree :: "instant \<Rightarrow> (string \<rightharpoonup> challenge) \<Rightarrow> abstract_store \<Rightarrow> bool" where
  "agree t l m \<longleftrightarrow> (\<forall>k c. t \<le> ch_expires_at c \<longrightarrow> l k = Some c \<longleftrightarrow> m k = Some c)"

lemma agree_later: "agree t l m \<Longrightarrow> t \<le> u \<Longrightarrow> agree u l m"
  by (auto simp: agree_def)

context challenge_store
begin

lemma step_refines:
  assumes "inv s" and "agree t (lookup s) m" and "t \<le> clock (call_env c)" and "healthy (call_env c)"
    and "store_step put consume sweep c s = (ob, s')" and "ob \<noteq> PutDone False"
  shows "\<exists>m'. spec_step clock norm c m = (ob, m') \<and> inv s' \<and> agree (clock (call_env c)) (lookup s') m'"
proof (cases c)
  case (PutCall e k ch)
  with assms(5,6) have put: "put e k ch s = (None, s')" and ob: "ob = PutDone True"
    by (auto split: prod.splits)
  have "agree (clock e) (lookup s') (m(k \<mapsto> norm ch))"
    unfolding agree_def
  proof (intro allI impI)
    fix k' and c :: challenge assume "clock e \<le> ch_expires_at c"
    then show "lookup s' k' = Some c \<longleftrightarrow> (m(k \<mapsto> norm ch)) k' = Some c"
      using put_stores [OF assms(1) put] put_only [OF assms(1) put, of k' c]
        put_keeps [OF assms(1) put, of k' c] assms(2,3) PutCall
      by (cases "k' = k") (auto simp: agree_def)
  qed
  with PutCall ob put_inv [OF assms(1) put] show ?thesis by simp
next
  case (ConsumeCall e k)
  obtain res where con: "consume e k s = (res, s')" and ob: "ob = Consumed (case res of Inl _ \<Rightarrow> None | Inr c \<Rightarrow> Some c)"
    using assms(5) ConsumeCall by (auto split: prod.splits)
  have live: "res = Inr c" if "lookup s k = Some c" "clock e \<le> ch_expires_at c" for c
    using consume_live [OF assms(1) that] assms(4) con ConsumeCall by auto
  have ag: "lookup s k' = Some c \<longleftrightarrow> m k' = Some c" if "clock e \<le> ch_expires_at c" for k' c
    using assms(2,3) that ConsumeCall by (auto simp: agree_def)
  have "spec_step clock norm (ConsumeCall e k) m = (ob, m(k := None))"
  proof (cases res)
    case (Inl err)
    with live ag have "\<not> (\<exists>c. m k = Some c \<and> clock e \<le> ch_expires_at c)" by auto
    with Inl ob show ?thesis by (auto split: option.splits)
  next
    case (Inr c)
    with consume_returns [OF assms(1)] con have "lookup s k = Some c" "clock e \<le> ch_expires_at c" by auto
    with ag Inr ob show ?thesis by auto
  qed
  moreover have "agree (clock e) (lookup s') (m(k := None))"
    unfolding agree_def
  proof (intro allI impI)
    fix k' and c :: challenge assume c: "clock e \<le> ch_expires_at c"
    have "lookup s' k \<noteq> Some c"
    proof
      assume some: "lookup s' k = Some c"
      then have "res = Inr c" using consume_only [OF assms(1) con] live c by blast
      with consume_removes [OF assms(1)] con some show False by auto
    qed
    then show "lookup s' k' = Some c \<longleftrightarrow> (m(k := None)) k' = Some c"
      using consume_keeps [OF assms(1) con, of k'] ag [OF c, of k'] by (cases "k' = k") simp_all
  qed
  ultimately show ?thesis using ConsumeCall consume_inv [OF assms(1) con] by auto
next
  case (SweepCall e i)
  have "agree (clock e) (lookup (sweep e i s)) m"
    unfolding agree_def
  proof (intro allI impI)
    fix k and c :: challenge assume c: "clock e \<le> ch_expires_at c"
    then have "lookup (sweep e i s) k = Some c \<longleftrightarrow> lookup s k = Some c"
      using sweep_only [OF assms(1)] sweep_keeps [OF assms(1) _ c] by blast
    with c assms(2,3) SweepCall show "lookup (sweep e i s) k = Some c \<longleftrightarrow> m k = Some c"
      by (simp add: agree_def)
  qed
  with SweepCall assms(5) sweep_inv [OF assms(1)] show ?thesis by auto
qed

lemma run_refines:
  assumes "inv s" and "agree t (lookup s) m" and "forward clock cs"
    and "\<forall>c \<in> set cs. t \<le> clock (call_env c) \<and> healthy (call_env c)"
    and "PutDone False \<notin> set (run_calls (store_step put consume sweep) cs s)"
  shows "run_calls (store_step put consume sweep) cs s = run_calls (spec_step clock norm) cs m"
  using assms
proof (induction cs arbitrary: s m t)
  case (Cons c cs)
  obtain ob s' where st: "store_step put consume sweep c s = (ob, s')" by fastforce
  with Cons.prems(5) have "ob \<noteq> PutDone False" by auto
  then obtain m' where m': "spec_step clock norm c m = (ob, m')" "inv s'"
    "agree (clock (call_env c)) (lookup s') m'"
    using step_refines [OF Cons.prems(1,2) _ _ st] Cons.prems(4) by auto
  have "run_calls (store_step put consume sweep) cs s' = run_calls (spec_step clock norm) cs m'"
    using Cons.prems(3-5) st by (intro Cons.IH [OF m'(2,3)]) (auto simp: forward_Cons)
  with st m' show ?case by simp
qed simp

lemma run_refines_start:
  assumes "inv s" and "\<And>k. lookup s k = None" and "forward clock cs"
    and "list_all (\<lambda>c. healthy (call_env c)) cs"
    and "PutDone False \<notin> set (run_calls (store_step put consume sweep) cs s)"
  shows "run_calls (store_step put consume sweep) cs s = run_calls (spec_step clock norm) cs Map.empty"
proof (cases cs)
  case (Cons c ds)
  have "agree (clock (call_env c)) (lookup s) Map.empty" by (simp add: agree_def assms(2))
  from run_refines [OF assms(1) this assms(3) _ assms(5)] assms(3,4) Cons show ?thesis
    by (simp add: forward_Cons list_all_iff)
qed simp

end

context postgres_backend
begin

lemmas pg_run_refines = pg.run_refines_start [OF TrueI]

end

definition demo_calls :: "(instant \<Rightarrow> 'e) \<Rightarrow> 'e store_call list" where
  "demo_calls env = [PutCall (env demo_now) demo_nonce demo_challenge,
     ConsumeCall (env (demo_now + second)) demo_nonce, SweepCall (env (demo_now + 2 * second)) (shard_index demo_nonce),
     ConsumeCall (env (demo_now + 2 * second)) demo_nonce]"

lemma demo_memory_calls:
  "run_calls (store_step memory_put memory_consume memory_sweep) (demo_calls (\<lambda>now. now)) (new_memory 1000) =
     [PutDone True, Consumed (Some demo_challenge), Swept, Consumed None]"
proof -
  obtain m where m: "memory_consume (demo_now + second) demo_nonce demo_memory = (Inr demo_challenge, m)"
    using demo_consume by blast
  have "memory_inv m" and none: "memory_lookup m demo_nonce = None"
    using mem.consume_inv [OF demo_memory_facts(1) m] mem.consume_removes [OF demo_memory_facts(1) m] by auto
  then have inv: "memory_inv (memory_sweep (demo_now + 2 * second) (shard_index demo_nonce) m)"
    and none': "memory_lookup (memory_sweep (demo_now + 2 * second) (shard_index demo_nonce) m) demo_nonce = None"
    using mem.sweep_inv mem.sweep_only by (blast, metis option.exhaust)
  obtain r m' where r: "memory_consume (demo_now + 2 * second) demo_nonce
      (memory_sweep (demo_now + 2 * second) (shard_index demo_nonce) m) = (r, m')" by fastforce
  with mem.consume_unknown [OF inv none'] have "\<exists>err. r = Inl err" by blast
  with m r show ?thesis by (auto simp: demo_calls_def demo_put)
qed

lemma demo_forward: "(\<And>t. clock (env t) = t) \<Longrightarrow> forward clock (demo_calls env)"
  by (simp add: forward_def demo_calls_def second_def)

lemma demo_pg_calls:
  "run_calls (store_step (postgres_put eth_model microseconds) (postgres_consume eth_model)
      (postgres_tick microseconds)) (demo_calls demo_call) Map.empty =
     [PutDone True, Consumed (Some (stored_challenge microseconds demo_challenge)), Swept, Consumed None]"
proof -
  obtain t where t: "postgres_consume eth_model (demo_call (demo_now + second)) demo_nonce demo_table
      = (Inr (stored_challenge microseconds demo_challenge), t)"
    using demo_pg_consume by blast
  have none: "postgres_lookup eth_model (postgres_sweep microseconds c t) demo_nonce = None" for c
    using pg_model.consume_lookup(2) [OF t refl] pg_model.sweep_lookup(1) by (metis fun_upd_same option.exhaust)
  obtain r t' where r: "postgres_consume eth_model (demo_call (demo_now + 2 * second)) demo_nonce
      (postgres_sweep microseconds (demo_call (demo_now + 2 * second)) t) = (r, t')" by fastforce
  with pg_model.pg.consume_unknown [OF TrueI none] have "\<exists>err. r = Inl err" by blast
  with t r show ?thesis by (auto simp: demo_calls_def demo_pg_put)
qed

section \<open>Every answer of each store\<close>

text \<open>
  What a store answers, refusals included, over the list of the challenges it holds: \<open>accept\<close> is when a put
  is taken, \<open>norm\<close> what is kept of it, and \<open>lapsed\<close> what a sweep takes away.
\<close>

fun pending_step ::
  "(instant \<Rightarrow> string \<Rightarrow> (string \<times> challenge) list \<Rightarrow> bool) \<Rightarrow> (challenge \<Rightarrow> challenge) \<Rightarrow> (instant \<Rightarrow> challenge \<Rightarrow> bool)
   \<Rightarrow> instant store_call \<Rightarrow> (string \<times> challenge) list \<Rightarrow> observation \<times> (string \<times> challenge) list" where
  "pending_step accept norm lapsed (PutCall t k ch) l =
     (if accept t k l then (PutDone True, AList.update k (norm ch) l) else (PutDone False, l))"
| "pending_step accept norm lapsed (ConsumeCall t k) l =
     (Consumed (case map_of l k of None \<Rightarrow> None | Some c \<Rightarrow> if t \<le> ch_expires_at c then Some c else None), AList.delete k l)"
| "pending_step accept norm lapsed (SweepCall t i) l = (Swept, filter (\<lambda>p. \<not> lapsed t (snd p)) l)"

text \<open>
  The memory store has room for a nonce while the unexpired challenges of its shard are fewer than the
  capacity of the shard; a put replaces the challenge of its nonce; and sweeping cannot be observed.
\<close>

definition room :: "int \<Rightarrow> instant \<Rightarrow> string \<Rightarrow> (string \<times> challenge) list \<Rightarrow> bool" where
  "room cap t k l \<longleftrightarrow>
     int (length (filter (\<lambda>p. shard_index (fst p) = shard_index k \<and> t \<le> ch_expires_at (snd p)) l)) < cap"

abbreviation memory_answers :: "int \<Rightarrow> instant store_call list \<Rightarrow> observation list" where
  "memory_answers n cs \<equiv> run_calls (store_step memory_put memory_consume memory_sweep) cs (new_memory n)"

abbreviation memory_pending :: "int \<Rightarrow> instant store_call \<Rightarrow> (string \<times> challenge) list \<Rightarrow> observation \<times> (string \<times> challenge) list" where
  "memory_pending n \<equiv> pending_step (room (per_shard n)) (\<lambda>c. c) (\<lambda>t c. False)"

text \<open>
  Postgres takes a put while the table has no row for its nonce, expired or not; it keeps the expiry as the
  column rounds it, and a sweep deletes the rows that expired before the rounded time.
\<close>

abbreviation postgres_answers :: "eth \<Rightarrow> (instant \<Rightarrow> instant) \<Rightarrow> instant store_call list \<Rightarrow> observation list" where
  "postgres_answers eth ts cs \<equiv>
     run_calls (store_step (postgres_put eth ts) (postgres_consume eth) (postgres_tick ts))
       (map (map_store_call demo_call) cs) Map.empty"

abbreviation postgres_pending :: "(instant \<Rightarrow> instant) \<Rightarrow> instant store_call \<Rightarrow> (string \<times> challenge) list \<Rightarrow> observation \<times> (string \<times> challenge) list" where
  "postgres_pending ts \<equiv> pending_step (\<lambda>t k l. k \<notin> fst ` set l) (stored_challenge ts) (\<lambda>t c. ch_expires_at c < ts t)"

text \<open>
  Two answers to a call are the same up to the rounding \<open>ts\<close>: the same challenge with its expiry rounded, or none
  from the second store when the rounded expiry has passed.
\<close>

fun same_answer :: "(instant \<Rightarrow> instant) \<Rightarrow> instant store_call \<Rightarrow> observation \<Rightarrow> observation \<Rightarrow> bool" where
  "same_answer ts (ConsumeCall t k) (Consumed x) (Consumed y) =
     (y = map_option (stored_challenge ts) x \<or> (y = None \<and> ts (ch_expires_at (the x)) < t))"
| "same_answer ts c a b = (a = b)"

lemma map_of_filter_snd:
  "distinct (map fst l) \<Longrightarrow> map_of (filter (\<lambda>p. P (snd p)) l) k = (case map_of l k of None \<Rightarrow> None | Some c \<Rightarrow> if P c then Some c else None)"
proof (induction l)
  case (Cons p l)
  then show ?case by (cases p) (force split: option.splits dest: map_of_SomeD)
qed simp

lemma pending_distinct:
  "pending_step accept norm lapsed c l = (ob, l') \<Longrightarrow> distinct (map fst l) \<Longrightarrow> distinct (map fst l')"
  by (cases c) (auto simp: distinct_update distinct_delete distinct_map_filter split: if_splits)

lemma length_keys: "distinct (map fst l) \<Longrightarrow> length l = card (fst ` set l)"
  by (metis distinct_card length_map set_map)

lemma unexpired_keys:
  assumes "distinct (map fst l)"
  shows "length (filter (\<lambda>p. shard_index (fst p) = i \<and> t \<le> ch_expires_at (snd p)) l) =
    card {k. shard_index k = i \<and> (\<exists>c. map_of l k = Some c \<and> t \<le> ch_expires_at c)}"
proof -
  have "fst ` set (filter (\<lambda>p. shard_index (fst p) = i \<and> t \<le> ch_expires_at (snd p)) l) =
      {k. shard_index k = i \<and> (\<exists>c. map_of l k = Some c \<and> t \<le> ch_expires_at c)}"
    using map_of_is_SomeI [OF assms] by (force dest: map_of_SomeD)
  then show ?thesis using length_keys [of "filter _ l"] assms by (simp add: distinct_map_filter)
qed

lemma swept_keys:
  assumes "memory_inv m" and "i < shards"
  shows "length (sweep_locked t (mem_shards m ! i)) =
    card {k. shard_index k = i \<and> (\<exists>c. memory_lookup m k = Some c \<and> t \<le> ch_expires_at c)}"
proof -
  let ?s = "sweep_locked t (mem_shards m ! i)"
  have ok: "shard_ok (per_shard (mem_max_entries m)) i ?s"
    using assms by (simp add: memory_inv_iff shard_ok_sweep)
  then have d: "distinct (map fst ?s)" by (simp add: shard_ok_def)
  have "k \<in> fst ` set ?s \<longleftrightarrow> shard_index k = i \<and> (\<exists>c. memory_lookup m k = Some c \<and> t \<le> ch_expires_at c)" for k
  proof -
    have "k \<in> fst ` set ?s \<longleftrightarrow> (\<exists>c. shard_lookup ?s k = Some c)"
      by (auto simp: shard_lookup_def map_of_eq_None_iff [symmetric] domIff dom_map_of_conv_image_fst [symmetric])
    moreover have "k \<in> fst ` set ?s \<Longrightarrow> shard_index k = i"
      using ok by (auto simp: shard_ok_def list_all_iff)
    ultimately show ?thesis using assms(1) by auto
  qed
  then have "fst ` set ?s = {k. shard_index k = i \<and> (\<exists>c. memory_lookup m k = Some c \<and> t \<le> ch_expires_at c)}" by blast
  with length_keys [OF d] show ?thesis by simp
qed

lemma memory_put_refuses:
  assumes "memory_inv m" and "agree t (memory_lookup m) (map_of l)" and "t \<le> now" and "distinct (map fst l)"
    and "memory_put now k ch m = (err, m')"
  shows "err = None \<longleftrightarrow> room (per_shard (mem_max_entries m)) now k l"
proof -
  have "(memory_lookup m k' = Some c \<and> now \<le> ch_expires_at c) \<longleftrightarrow> (map_of l k' = Some c \<and> now \<le> ch_expires_at c)" for k' c
    using agree_later [OF assms(2,3)] by (auto simp: agree_def)
  then have swept: "length (sweep_locked now (mem_shards m ! shard_index k)) =
      length (filter (\<lambda>p. shard_index (fst p) = shard_index k \<and> now \<le> ch_expires_at (snd p)) l)"
    by (simp add: swept_keys [OF assms(1)] unexpired_keys [OF assms(4)])
  have less: "length (sweep_locked now (mem_shards m ! shard_index k)) \<le> length (mem_shards m ! shard_index k)"
    by (simp add: sweep_locked_def)
  from assms(5) show ?thesis
    by (cases rule: memory_put_cases) (use swept less in \<open>auto simp: room_def\<close>)
qed

lemma memory_step_pending:
  assumes "memory_inv m" and "agree t (memory_lookup m) (map_of l)" and "t \<le> call_env c" and "distinct (map fst l)"
    and "store_step memory_put memory_consume memory_sweep c m = (ob, m')"
  shows "\<exists>l'. memory_pending (mem_max_entries m) c l = (ob, l') \<and> memory_inv m' \<and> agree (call_env c) (memory_lookup m') (map_of l')"
proof (cases "ob = PutDone False")
  case False
  from mem.step_refines [OF assms(1,2,3) _ assms(5) this] obtain sp where
    sp: "spec_step (\<lambda>now. now) (\<lambda>ch. ch) c (map_of l) = (ob, sp)" "memory_inv m'" "agree (call_env c) (memory_lookup m') sp"
    by blast
  show ?thesis
  proof (cases c)
    case (PutCall e k ch)
    with assms(5) sp(1) have "room (per_shard (mem_max_entries m)) e k l"
      using memory_put_refuses [OF assms(1,2) _ assms(4)] assms(3) by (auto split: prod.splits)
    with sp PutCall show ?thesis by (auto simp: update_conv')
  qed (use sp in \<open>auto simp: delete_conv' fun_upd_def\<close>)
next
  case True
  with assms(5) obtain e k ch err where c: "c = PutCall e k ch" and put: "memory_put e k ch m = (Some err, m')"
    by (cases c) (auto split: prod.splits)
  have "\<not> room (per_shard (mem_max_entries m)) e k l"
    using memory_put_refuses [OF assms(1,2) _ assms(4) put] assms(3) c by simp
  moreover have "memory_lookup m' k' = Some c' \<longleftrightarrow> memory_lookup m k' = Some c'" if "e \<le> ch_expires_at c'" for k' c'
    using put by (cases rule: memory_put_cases) (use that assms(1) in \<open>auto simp: memory_lookup_update_shard\<close>)
  then have "agree e (memory_lookup m') (map_of l)"
    using agree_later [OF assms(2,3)] c by (simp add: agree_def)
  ultimately show ?thesis using c True mem.put_inv [OF assms(1) put] by simp
qed

lemma memory_run_pending:
  assumes "memory_inv m" and "agree t (memory_lookup m) (map_of l)" and "distinct (map fst l)" and "forward (\<lambda>now. now) cs"
    and "\<forall>c \<in> set cs. t \<le> call_env c" and "mem_max_entries m = n"
  shows "run_calls (store_step memory_put memory_consume memory_sweep) cs m = run_calls (memory_pending n) cs l"
  using assms
proof (induction cs arbitrary: m l t)
  case (Cons c cs)
  obtain ob m' where st: "store_step memory_put memory_consume memory_sweep c m = (ob, m')" by fastforce
  from memory_step_pending [OF Cons.prems(1,2) _ Cons.prems(3) st] Cons.prems(5,6) obtain l' where
    l': "memory_pending n c l = (ob, l')" "memory_inv m'" "agree (call_env c) (memory_lookup m') (map_of l')" by auto
  have "mem_max_entries m' = mem_max_entries m"
    using st by (cases c) (auto simp: memory_put_def memory_consume_def memory_sweep_def Let_def split: if_splits option.splits)
  with Cons.prems(4-6) have "run_calls (store_step memory_put memory_consume memory_sweep) cs m' = run_calls (memory_pending n) cs l'"
    by (intro Cons.IH [OF l'(2,3) pending_distinct [OF l'(1) Cons.prems(3)]]) (auto simp: forward_Cons)
  with st l'(1) show ?case by simp
qed simp

context postgres_backend
begin

lemma step_pending:
  assumes "map_of l = postgres_lookup eth t" and "distinct (map fst l)"
    and "store_step (postgres_put eth ts) (postgres_consume eth) (postgres_tick ts) (map_store_call demo_call c) t = (ob, t')"
  shows "\<exists>l'. postgres_pending ts c l = (ob, l') \<and> map_of l' = postgres_lookup eth t'"
proof (cases c)
  case (PutCall e k ch)
  have "k \<in> fst ` set l \<longleftrightarrow> t k \<noteq> None"
    using assms(1) [THEN fun_cong, of k] map_of_eq_None_iff [of l k] by (auto simp: postgres_lookup_def)
  with PutCall assms(1,3) show ?thesis
    by (auto simp: demo_call_def postgres_put_def pg_insert_def update_conv' postgres_lookup_def row_challenge_put split: if_splits)
next
  case (ConsumeCall e k)
  with assms(1) [THEN fun_cong, of k] assms(1,3) show ?thesis
    by (auto simp: demo_call_def postgres_consume_def pg_delete_returning_def postgres_lookup_def row_challenge_def delete_conv'
        go_defs fun_eq_iff split: option.splits if_splits)
next
  case (SweepCall e i)
  have "map_of (filter (\<lambda>p. \<not> ch_expires_at (snd p) < ts e) l) k = postgres_lookup eth (pg_delete_expired (ts e) t) k" for k
    using map_of_filter_snd [OF assms(2), of "\<lambda>c. \<not> ch_expires_at c < ts e" k] assms(1)
    by (auto simp: pg_delete_expired_def postgres_lookup_def row_challenge_def split: option.splits)
  with SweepCall assms(3) show ?thesis by (auto simp: demo_call_def postgres_sweep_def)
qed

lemma run_pending:
  assumes "map_of l = postgres_lookup eth t" and "distinct (map fst l)"
  shows "run_calls (store_step (postgres_put eth ts) (postgres_consume eth) (postgres_tick ts)) (map (map_store_call demo_call) cs) t
    = run_calls (postgres_pending ts) cs l"
  using assms
proof (induction cs arbitrary: t l)
  case (Cons c cs)
  obtain ob t' where st: "store_step (postgres_put eth ts) (postgres_consume eth) (postgres_tick ts) (map_store_call demo_call c) t = (ob, t')"
    by fastforce
  from step_pending [OF Cons.prems st] obtain l' where
    l': "postgres_pending ts c l = (ob, l')" "map_of l' = postgres_lookup eth t'" by blast
  with st Cons.IH [OF l'(2) pending_distinct [OF l'(1) Cons.prems(2)]] show ?case by simp
qed simp

end

text \<open>The lists of the two stores, while neither refuses: equal up to rows that are past their rounded expiry.\<close>

definition alike :: "(instant \<Rightarrow> instant) \<Rightarrow> instant \<Rightarrow> (string \<times> challenge) list \<Rightarrow> (string \<times> challenge) list \<Rightarrow> bool" where
  "alike ts t l l' \<longleftrightarrow> (\<forall>k. map_of l' k = map_option (stored_challenge ts) (map_of l k) \<or>
     (map_of l' k = None \<and> (\<exists>c. map_of l k = Some c \<and> ts (ch_expires_at c) < t)))"

lemma alike_later: "alike ts t l l' \<Longrightarrow> t \<le> u \<Longrightarrow> alike ts u l l'"
  unfolding alike_def by (meson order_less_le_trans)

lemma step_alike:
  assumes "postgres_backend eth ts" and "alike ts (call_env c) l l'" and "distinct (map fst l')"
    and "memory_pending n c l = (a, m)" and "postgres_pending ts c l' = (b, m')" and "a \<noteq> PutDone False" and "b \<noteq> PutDone False"
  shows "same_answer ts c a b \<and> alike ts (call_env c) m m'"
proof (cases c)
  case (PutCall t k ch)
  with assms(4-7) have "m = AList.update k ch l" "m' = AList.update k (stored_challenge ts ch) l'" "a = b"
    by (auto split: if_splits)
  with assms(2) PutCall show ?thesis by (simp add: alike_def update_conv')
next
  case (ConsumeCall t k)
  have "ts e \<le> e" for e using assms(1) by (simp add: postgres_backend_def)
  then have later: "t \<le> e" if "t \<le> ts e" for e using that order_trans by blast
  from assms(2) ConsumeCall have "map_of l' k = map_option (stored_challenge ts) (map_of l k) \<or>
     (map_of l' k = None \<and> (\<exists>c. map_of l k = Some c \<and> ts (ch_expires_at c) < t))"
    by (simp add: alike_def)
  then have "same_answer ts c a b"
    using assms(4,5) ConsumeCall by (auto simp: stored_challenge_def split: option.splits if_splits dest: later)
  moreover have "m = AList.delete k l" "m' = AList.delete k l'" using assms(4,5) ConsumeCall by simp_all
  with assms(2) ConsumeCall have "alike ts t m m'" by (simp add: alike_def delete_conv')
  ultimately show ?thesis using ConsumeCall by simp
next
  case (SweepCall t i)
  have le: "ts t \<le> t" using assms(1) by (simp add: postgres_backend_def)
  have "map_of m' k = map_option (stored_challenge ts) (map_of m k) \<or>
      (map_of m' k = None \<and> (\<exists>c. map_of m k = Some c \<and> ts (ch_expires_at c) < t))" for k
  proof -
    have "m = l" "map_of m' k = (case map_of l' k of None \<Rightarrow> None | Some c \<Rightarrow> if \<not> ch_expires_at c < ts t then Some c else None)"
      using assms(4,5) SweepCall map_of_filter_snd [OF assms(3), of "\<lambda>c. \<not> ch_expires_at c < ts t" k] by auto
    moreover have "map_of l' k = map_option (stored_challenge ts) (map_of l k) \<or>
        (map_of l' k = None \<and> (\<exists>c. map_of l k = Some c \<and> ts (ch_expires_at c) < t))"
      using assms(2) SweepCall by (simp add: alike_def)
    ultimately show ?thesis using le by (auto simp: stored_challenge_def split: option.splits)
  qed
  with assms(4,5) SweepCall show ?thesis by (auto simp: alike_def)
qed

lemma run_alike:
  assumes "postgres_backend eth ts" and "alike ts t l l'" and "distinct (map fst l')"
    and "forward (\<lambda>now. now) cs" and "\<forall>c \<in> set cs. t \<le> call_env c"
    and "PutDone False \<notin> set (run_calls (memory_pending n) cs l)" and "PutDone False \<notin> set (run_calls (postgres_pending ts) cs l')"
  shows "\<forall>i < length cs. same_answer ts (cs ! i) (run_calls (memory_pending n) cs l ! i) (run_calls (postgres_pending ts) cs l' ! i)"
  using assms(2-)
proof (induction cs arbitrary: t l l')
  case (Cons c cs)
  obtain a m b m' where st: "memory_pending n c l = (a, m)" "postgres_pending ts c l' = (b, m')" by fastforce
  have "alike ts (call_env c) l l'" using alike_later [OF Cons.prems(1)] Cons.prems(4) by simp
  from step_alike [OF assms(1) this Cons.prems(2) st] Cons.prems(5,6) st
  have *: "same_answer ts c a b" "alike ts (call_env c) m m'" by auto
  have "\<forall>i < length cs. same_answer ts (cs ! i) (run_calls (memory_pending n) cs m ! i) (run_calls (postgres_pending ts) cs m' ! i)"
    using Cons.prems(3-6) st by (intro Cons.IH [OF *(2) pending_distinct [OF st(2) Cons.prems(2)]]) (auto simp: forward_Cons)
  with * st show ?case by (auto simp: nth_Cons' less_Suc_eq_0_disj)
qed simp

section \<open>Properties\<close>

text \<open>
  C23: The memory store refines the abstract store: over any calls with a forward clock of which no
  put is refused, it answers exactly as the abstract map does.
\<close>

theorem memory_refines_spec:
  assumes "forward (\<lambda>now. now) cs"
    and "PutDone False \<notin> set (run_calls (store_step memory_put memory_consume memory_sweep) cs (new_memory n))"
  shows "run_calls (store_step memory_put memory_consume memory_sweep) cs (new_memory n)
    = run_calls (spec_step (\<lambda>now. now) (\<lambda>ch. ch)) cs Map.empty"
  using mem.run_refines_start [OF new_memory_inv new_memory_lookup assms(1) _ assms(2)]
  by (simp add: list_all_iff)

theorem memory_refines_spec_witness:
  "[PutDone True, Consumed (Some demo_challenge), Swept, Consumed None]
    = run_calls (spec_step (\<lambda>now. now) (\<lambda>ch. ch)) (demo_calls (\<lambda>now. now)) Map.empty"
  using memory_refines_spec [OF demo_forward, of "\<lambda>now. now" 1000] by (simp add: demo_memory_calls)

text \<open>
  C24: Postgres refines the abstract store too, up to the rounding of stored expiries, as long as its
  statements are carried out and no put is refused.
\<close>

theorem postgres_refines_spec:
  assumes "postgres_backend eth ts" and "forward pg_now cs"
    and "list_all (\<lambda>c. pg_fate (call_env c) = Committed) cs"
    and "PutDone False \<notin> set (run_calls
      (store_step (postgres_put eth ts) (postgres_consume eth) (postgres_tick ts)) cs Map.empty)"
  shows "run_calls (store_step (postgres_put eth ts) (postgres_consume eth) (postgres_tick ts)) cs Map.empty
    = run_calls (spec_step pg_now (stored_challenge ts)) cs Map.empty"
proof -
  have "postgres_lookup eth Map.empty k = None" for k by (simp add: postgres_lookup_def)
  with postgres_backend.pg_run_refines [OF assms(1)] assms(2-4) show ?thesis by blast
qed

theorem postgres_refines_spec_witness:
  "[PutDone True, Consumed (Some (stored_challenge microseconds demo_challenge)), Swept, Consumed None]
    = run_calls (spec_step pg_now (stored_challenge microseconds)) (demo_calls demo_call) Map.empty"
proof -
  have "forward pg_now (demo_calls demo_call)" by (rule demo_forward) (simp add: demo_call_def)
  moreover have "list_all (\<lambda>c. pg_fate (call_env c) = Committed) (demo_calls demo_call)"
    by (simp add: demo_calls_def demo_call_def)
  ultimately show ?thesis
    using postgres_refines_spec [OF pg_model.postgres_backend_axioms] by (fastforce simp: demo_pg_calls)
qed

text \<open>
  C18: How the two stores compare, over any calls with a forward clock whose statements are carried out, puts that
  are refused among them.  The memory store answers exactly as a list of challenges that refuses a put while the
  unexpired challenges of the shard fill its capacity and otherwise replaces; Postgres exactly as one that refuses a
  put while it holds a row for the nonce, that rounds expiries, and whose sweeps remove rows.  As long as neither has
  refused a put, every answer of the two is the same up to the rounding of the expiry.
\<close>

theorem stores_compared:
  assumes "postgres_backend eth ts" and "forward (\<lambda>now. now) cs"
  shows "memory_answers n cs = run_calls (memory_pending n) cs [] \<and>
    postgres_answers eth ts cs = run_calls (postgres_pending ts) cs [] \<and>
    (PutDone False \<notin> set (memory_answers n cs) \<union> set (postgres_answers eth ts cs) \<longrightarrow>
      (\<forall>i < length cs. same_answer ts (cs ! i) (memory_answers n cs ! i) (postgres_answers eth ts cs ! i)))"
proof (cases cs)
  case (Cons c ds)
  have start: "\<forall>d \<in> set cs. call_env c \<le> call_env d" using assms(2) Cons by (simp add: forward_Cons)
  have "agree (call_env c) (memory_lookup (new_memory n)) (map_of [])" by (simp add: agree_def)
  from memory_run_pending [OF new_memory_inv this _ assms(2) start]
  have m: "memory_answers n cs = run_calls (memory_pending n) cs []" by (simp add: new_memory_def)
  have "map_of [] = postgres_lookup eth Map.empty" by (simp add: postgres_lookup_def fun_eq_iff)
  from postgres_backend.run_pending [OF assms(1) this]
  have p: "postgres_answers eth ts cs = run_calls (postgres_pending ts) cs []" by simp
  have "alike ts (call_env c) [] []" by (simp add: alike_def)
  from run_alike [OF assms(1) this _ assms(2) start] show ?thesis unfolding m p by simp
qed simp

definition brief_challenge :: "string \<Rightarrow> challenge" where
  "brief_challenge msg = \<lparr>ch_message = msg, ch_address = 7, ch_expires_at = 1500, ch_audience = []\<rparr>"

text \<open>
  A nonce put again while it is pending, in a shard with room and in a full one; and a challenge consumed between its
  rounded and its true expiry.
\<close>

theorem stores_compared_witness:
  "memory_answers 128 [PutCall 0 ''a'' (brief_challenge ''m''), PutCall 100 ''a'' (brief_challenge ''n''), ConsumeCall 200 ''a''] =
      [PutDone True, PutDone True, Consumed (Some (brief_challenge ''n''))] \<and>
   memory_answers 64 [PutCall 0 ''a'' (brief_challenge ''m''), PutCall 100 ''a'' (brief_challenge ''n''), ConsumeCall 200 ''a''] =
      [PutDone True, PutDone False, Consumed (Some (brief_challenge ''m''))] \<and>
   postgres_answers eth_model microseconds
      [PutCall 0 ''a'' (brief_challenge ''m''), PutCall 100 ''a'' (brief_challenge ''n''), ConsumeCall 200 ''a''] =
      [PutDone True, PutDone False, Consumed (Some (stored_challenge microseconds (brief_challenge ''m'')))] \<and>
   same_answer microseconds (ConsumeCall 1200 ''a'')
     (memory_answers 128 [PutCall 0 ''a'' (brief_challenge ''m''), ConsumeCall 1200 ''a''] ! 1)
     (postgres_answers eth_model microseconds [PutCall 0 ''a'' (brief_challenge ''m''), ConsumeCall 1200 ''a''] ! 1)"
proof -
  let ?cs = "[PutCall 0 ''a'' (brief_challenge ''m''), PutCall 100 ''a'' (brief_challenge ''n''), ConsumeCall 200 ''a'']"
  let ?ds = "[PutCall 0 ''a'' (brief_challenge ''m''), ConsumeCall 1200 ''a'']"
  have cap: "per_shard 128 = 2" "per_shard 64 = 1" by code_simp+
  have "forward (\<lambda>now. now) ?cs" "forward (\<lambda>now. now) ?ds" by (simp_all add: forward_def)
  note runs = stores_compared [OF pg_model.postgres_backend_axioms this(1)] stores_compared [OF pg_model.postgres_backend_axioms this(2)]
  have "PutDone False \<notin> set (memory_answers 128 ?ds) \<union> set (postgres_answers eth_model microseconds ?ds)"
    using runs(2) [of 128] by (simp add: cap room_def)
  with runs(2) [of 128] have "same_answer microseconds (?ds ! 1) (memory_answers 128 ?ds ! 1)
      (postgres_answers eth_model microseconds ?ds ! 1)" by (metis One_nat_def length_Cons lessI list.size(3))
  moreover have "memory_answers 128 ?cs = [PutDone True, PutDone True, Consumed (Some (brief_challenge ''n''))]"
    using runs(1) [of 128] by (simp add: cap room_def brief_challenge_def)
  moreover have "memory_answers 64 ?cs = [PutDone True, PutDone False, Consumed (Some (brief_challenge ''m''))]"
    using runs(1) [of 64] by (simp add: cap room_def brief_challenge_def)
  moreover have "postgres_answers eth_model microseconds ?cs =
      [PutDone True, PutDone False, Consumed (Some (stored_challenge microseconds (brief_challenge ''m'')))]"
    using runs(1) [of 128] by (simp add: cap brief_challenge_def stored_challenge_def microseconds_def)
  ultimately show ?thesis by simp
qed

end
