(* ===== verification/SiweSpec.thy ===== *)
theory SiweSpec imports SiweDemo begin

text \<open>
  What the sign-in surface guarantees over either store: a nonce pays for at most one token, a token
  speaks for an account that signed the challenge it was issued for, and an honest sign-in succeeds.
\<close>

text \<open>
  C2: Single use (memory store).  In any run, interleaved in any way, the tokens served for a nonce,
  together with the challenge still outstanding for it, are at most the challenges drawn with that
  nonce; nonces that never repeat buy one token each.
\<close>

theorem memory_single_use:
  assumes "siwe_run eth sg memory_ops (new_memory n) tr m"
  shows "count_events (serves_token k) tr + (if memory_lookup m k = None then 0 else 1)
    \<le> count_events (draws k) tr"
  using mem_siwe.token_count [OF assms new_memory_inv new_memory_lookup] .

theorem memory_single_use_witness:
  "\<exists>m. count_events (serves_token demo_nonce) [demo_challenge_event demo_now, demo_token_event (demo_now + second)]
      + (if memory_lookup m demo_nonce = None then 0 else 1)
    \<le> count_events (draws demo_nonce) [demo_challenge_event demo_now, demo_token_event (demo_now + second)]"
  using demo_memory_run memory_single_use by blast

text \<open>
  Single use (Postgres), also when statements are refused or their replies are lost: the row is
  deleted by the statement that reads it, so no nonce is paid out twice.
\<close>

theorem postgres_single_use:
  assumes "postgres_backend eth ts" and "siwe_run eth sg (postgres_ops eth ts) Map.empty tr t"
  shows "count_events (serves_token k) tr + (if t k = None then 0 else 1) \<le> count_events (draws k) tr"
  using postgres_backend.pg_token_count [OF assms(1,2), where k = k]
  by (simp add: postgres_lookup_def)

theorem postgres_single_use_witness:
  "\<exists>t. count_events (serves_token demo_nonce)
        [demo_challenge_event (demo_call demo_now), demo_token_event (demo_call (demo_now + second))]
      + (if t demo_nonce = None then 0 else 1)
    \<le> count_events (draws demo_nonce)
        [demo_challenge_event (demo_call demo_now), demo_token_event (demo_call (demo_now + second))]
      \<and> siwe_run eth_model demo_sign (postgres_ops eth_model microseconds) Map.empty
        [demo_challenge_event (demo_call demo_now), demo_token_event (demo_call (demo_now + second))] t"
  using demo_pg_run postgres_single_use [OF pg_model.postgres_backend_axioms] by blast

text \<open>
  C5: Soundness of tokens (memory store).  Whenever \<open>/token\<close> answers 200, an earlier challenge request
  of the same run was accepted for an account and audience; the presented nonce is the one drawn for
  it; it had not expired; the presented signature verifies over exactly the message built for that
  request; and the token is the active key's signature over claims whose subject is that account and
  whose audience is the challenge's, or the default when it asked for none.
\<close>

theorem memory_token_sound:
  assumes "siwe_run eth sg memory_ops (new_memory n) (tr @ [TokenServed h decoded e now uuid r]) m"
    and "rs_status r = 200"
  shows "\<exists>nc sig ch tok ev. ev \<in> set tr \<and> asks_challenge eth nc ch ev \<and>
    token_presented eth decoded nc sig \<and> e \<le> ch_expires_at ch \<and>
    verify eth (h_verifier h) (ch_address ch) (bytes_of (ch_message ch)) sig = Inr True \<and>
    keyset_sign sg (is_keys (h_issuer h))
      (issue_claims eth (h_issuer h) now uuid (ch_address ch) (ch_audience ch)) = Inr tok \<and>
    r = write_json 200 (token_response tok (int_seconds (issuer_ttl (h_issuer h))))"
  using mem_siwe.token_sound [OF assms(1) new_memory_inv new_memory_lookup assms(2)] .

theorem memory_token_sound_witness:
  "\<exists>nc sig ch. asks_challenge eth_model nc ch (demo_challenge_event demo_now) \<and>
    token_presented eth_model (Inr demo_token_request) nc sig \<and> demo_now + second \<le> ch_expires_at ch \<and>
    verify eth_model (h_verifier demo_handlers) (ch_address ch) (bytes_of (ch_message ch)) sig = Inr True"
proof -
  obtain m where run: "siwe_run eth_model demo_sign memory_ops (new_memory 1000)
      ([demo_challenge_event demo_now] @ [TokenServed demo_handlers (Inr demo_token_request) (demo_now + second)
         (demo_now + second) ''uuid'' demo_token_reply]) m"
    using demo_memory_run by (auto simp: demo_token_event_def)
  have "rs_status demo_token_reply = 200" by (simp add: demo_token_reply_def)
  from memory_token_sound [OF run this] show ?thesis by auto
qed

text \<open>
  Soundness of tokens (Postgres), whatever becomes of the statements.
\<close>

theorem postgres_token_sound:
  assumes "postgres_backend eth ts"
    and "siwe_run eth sg (postgres_ops eth ts) Map.empty (tr @ [TokenServed h decoded e now uuid r]) t"
    and "rs_status r = 200"
  shows "\<exists>nc sig ch tok ev. ev \<in> set tr \<and> asks_challenge eth nc ch ev \<and>
    token_presented eth decoded nc sig \<and> pg_now e \<le> ch_expires_at ch \<and>
    verify eth (h_verifier h) (ch_address ch) (bytes_of (ch_message ch)) sig = Inr True \<and>
    keyset_sign sg (is_keys (h_issuer h))
      (issue_claims eth (h_issuer h) now uuid (ch_address ch) (ch_audience ch)) = Inr tok \<and>
    r = write_json 200 (token_response tok (int_seconds (issuer_ttl (h_issuer h))))"
proof -
  have "postgres_lookup eth Map.empty k = None" for k by (simp add: postgres_lookup_def)
  from postgres_backend.pg_token_sound [OF assms(1,2) _ this assms(3)] show ?thesis by simp
qed

theorem postgres_token_sound_witness:
  "\<exists>nc sig ch. asks_challenge eth_model nc ch (demo_challenge_event (demo_call demo_now)) \<and>
    token_presented eth_model (Inr demo_token_request) nc sig \<and> demo_now + second \<le> ch_expires_at ch"
proof -
  obtain t where run: "siwe_run eth_model demo_sign (postgres_ops eth_model microseconds) Map.empty
      ([demo_challenge_event (demo_call demo_now)] @ [TokenServed demo_handlers (Inr demo_token_request)
         (demo_call (demo_now + second)) (demo_now + second) ''uuid'' demo_token_reply]) t"
    using demo_pg_run by (auto simp: demo_token_event_def)
  have "rs_status demo_token_reply = 200" by (simp add: demo_token_reply_def)
  from postgres_token_sound [OF pg_model.postgres_backend_axioms run this] show ?thesis
    by (auto simp: demo_call_def)
qed

text \<open>
  C19: An honest sign-in succeeds (memory store).  After a challenge was issued, whatever other requests
  and janitor ticks come between, as long as they do not present or redraw its nonce and nothing
  happens after its expiry, presenting the nonce with a signature that verifies yields the token.
\<close>

theorem memory_sign_in_completes:
  assumes "siwe_run eth sg memory_ops (new_memory n) tr0 s"
    and "siwe_step eth sg memory_ops s (ChallengeServed h0 (Inr req) rnd t0 e0 r0) s1"
    and "rs_status r0 = 200" and "nonce_new rnd = Inr nc"
    and "ch = challenge_entry eth h0 (eth_hex_to_address eth (cr_address req)) (cr_audience req) nc t0"
    and "siwe_run eth sg memory_ops s1 tr s2"
    and "list_all (\<lambda>ev. \<not> event_touches nc ev \<and> event_env ev \<le> ch_expires_at ch) tr"
    and "token_presented eth decoded nc sig" and "e \<le> ch_expires_at ch"
    and "verify eth (h_verifier h) (ch_address ch) (bytes_of (ch_message ch)) sig = Inr True"
    and "keyset_sign sg (is_keys (h_issuer h))
      (issue_claims eth (h_issuer h) now uuid (ch_address ch) (ch_audience ch)) = Inr tok"
  shows "\<exists>s3. siwe_step eth sg memory_ops s2 (TokenServed h decoded e now uuid
      (write_json 200 (token_response tok (int_seconds (issuer_ttl (h_issuer h)))))) s3"
  using mem_siwe.sign_in_completes [OF mem_siwe.run_inv [OF assms(1) new_memory_inv] assms(2-9) TrueI assms(10,11)] .

theorem memory_sign_in_completes_witness:
  "\<exists>s3. siwe_step eth_model demo_sign memory_ops demo_memory
     (TokenServed demo_handlers (Inr demo_token_request) (demo_now + second) (demo_now + second) ''uuid''
       (write_json 200 (token_response demo_token (int_seconds (issuer_ttl (h_issuer demo_handlers)))))) s3"
proof -
  have step: "siwe_step eth_model demo_sign memory_ops (new_memory 1000)
      (ChallengeServed demo_handlers (Inr demo_request) (Inr demo_random) demo_now demo_now demo_challenge_reply) demo_memory"
    using demo_challenge_step [of memory_ops demo_now "new_memory 1000" demo_memory]
    by (simp add: memory_ops_def demo_put demo_challenge_event_def)
  have live: "demo_now + second \<le> ch_expires_at demo_challenge"
    by (simp add: demo_challenge_def challenge_entry_def demo_handlers_def second_def)
  show ?thesis
    by (rule memory_sign_in_completes [OF siwe_run.start step demo_reply_status demo_drawn demo_challenge_asked
          siwe_run.start _ demo_presented live demo_verify demo_signs]) simp
qed

text \<open>
  C20: An honest sign-in succeeds (Postgres), provided the deletion of its own row is carried out and
  answered; the expiry is the stored one, which the column type may have rounded down.
\<close>

theorem postgres_sign_in_completes:
  assumes "postgres_backend eth ts"
    and "siwe_step eth sg (postgres_ops eth ts) s (ChallengeServed h0 (Inr req) rnd t0 e0 r0) s1"
    and "rs_status r0 = 200" and "nonce_new rnd = Inr nc"
    and "ch = challenge_entry eth h0 (eth_hex_to_address eth (cr_address req)) (cr_audience req) nc t0"
    and "siwe_run eth sg (postgres_ops eth ts) s1 tr s2"
    and "list_all (\<lambda>ev. \<not> event_touches nc ev \<and> pg_now (event_env ev) \<le> ts (ch_expires_at ch)) tr"
    and "token_presented eth decoded nc sig" and "pg_now e \<le> ts (ch_expires_at ch)" and "pg_fate e = Committed"
    and "verify eth (h_verifier h) (ch_address ch) (bytes_of (ch_message ch)) sig = Inr True"
    and "keyset_sign sg (is_keys (h_issuer h))
      (issue_claims eth (h_issuer h) now uuid (ch_address ch) (ch_audience ch)) = Inr tok"
  shows "\<exists>s3. siwe_step eth sg (postgres_ops eth ts) s2 (TokenServed h decoded e now uuid
      (write_json 200 (token_response tok (int_seconds (issuer_ttl (h_issuer h)))))) s3"
  using postgres_backend.pg_sign_in_completes [OF assms(1) TrueI assms(2-6) _ assms(8) _ assms(10-12)] assms(7,9)
  by (simp add: stored_challenge_def)

theorem postgres_sign_in_completes_witness:
  "\<exists>s3. siwe_step eth_model demo_sign (postgres_ops eth_model microseconds) demo_table
     (TokenServed demo_handlers (Inr demo_token_request) (demo_call (demo_now + second)) (demo_now + second) ''uuid''
       (write_json 200 (token_response demo_token (int_seconds (issuer_ttl (h_issuer demo_handlers)))))) s3"
proof -
  have step: "siwe_step eth_model demo_sign (postgres_ops eth_model microseconds) Map.empty
      (ChallengeServed demo_handlers (Inr demo_request) (Inr demo_random) demo_now (demo_call demo_now) demo_challenge_reply) demo_table"
    using demo_challenge_step [of "postgres_ops eth_model microseconds" "demo_call demo_now" Map.empty demo_table]
    by (simp add: postgres_ops_def demo_pg_put demo_challenge_event_def)
  have live: "pg_now (demo_call (demo_now + second)) \<le> microseconds (ch_expires_at demo_challenge)"
    by (simp add: demo_call_def microseconds_def demo_challenge_def challenge_entry_def
        demo_handlers_def demo_now_def second_def)
  show ?thesis
    by (rule postgres_sign_in_completes [OF pg_model.postgres_backend_axioms step demo_reply_status demo_drawn
          demo_challenge_asked siwe_run.start _ demo_presented live _ demo_verify demo_signs])
       (simp_all add: demo_call_def)
qed

end
