(* ===== verification/SignatureValidator.thy ===== *)
theory SignatureValidator imports SiweVerifier begin

text \<open>
  The signature check of the exchange (internal/exchange/signature/validator.go): it differs
  from the sign-in verifier in the recovery ids it takes, in asking the contract without
  looking at the account's code, and in its errors.
\<close>

definition valid_eoa_signature :: "eth \<Rightarrow> bytes \<Rightarrow> bytes \<Rightarrow> address \<Rightarrow> go_error option" where
  "valid_eoa_signature eth hash signature eth_addr =
     (if length signature \<noteq> 65 then Some (Err ''invalid signature length'')
      else
        (let v = signature ! 64 - 27 in
         if v \<noteq> 0 \<and> v \<noteq> 1 then Some (Err ''invalid v byte; accepted values 27 or 28'')
         else case eth_sig_to_pub eth hash (signature[64 := v]) of
                Inl err \<Rightarrow> Some (Wrap ''failed to determine public key from signature'' err)
              | Inr pub \<Rightarrow>
                  (let recovered = eth_pubkey_to_address eth pub in
                   if recovered \<noteq> eth_addr then Some (Err (''invalid signature: '' @ eth_address_hex eth recovered))
                   else None)))"

record validator =
  vd_backend :: chain
  vd_abi :: "go_error option"

definition validate_signature ::
  "eth \<Rightarrow> validator \<Rightarrow> bytes \<Rightarrow> string \<Rightarrow> address \<Rightarrow> go_error + bool" where
  "validate_signature eth v payload signature eth_addr =
     (if signature = '''' then Inl (Err ''empty signature'')
      else
        (let hex_signature = eth_from_hex eth signature;
             hash = eth_text_hash eth payload
         in case valid_eoa_signature eth hash hex_signature eth_addr of
              None \<Rightarrow> Inr True
            | Some err \<Rightarrow>
                (case new_erc1271 (vd_abi v) eth_addr (vd_backend v) of
                   Inl err' \<Rightarrow> Inl (Wrap ''failed to connect to address'' err')
                 | Inr contract \<Rightarrow>
                     (case is_valid_signature contract (eth_bytes_to_hash eth hash) hex_signature of
                        Inl err' \<Rightarrow> Inl (Join [Wrap ''failed to recover signer'' err,
                                              Wrap ''erc1271 call failed'' err'])
                      | Inr result \<Rightarrow> Inr (result = erc1271_magic_value)))))"

lemma valid_eoa_None:
  "valid_eoa_signature eth hash s a = None \<longleftrightarrow> recovers_to eth hash s a \<and> s ! 64 \<in> {27, 28}"
proof -
  have "v - 27 = 0 \<longleftrightarrow> v = 27" and "v - 27 = 1 \<longleftrightarrow> v = 28" for v :: "8 word"
    by (auto simp: diff_eq_eq)
  then show ?thesis
    by (auto simp: valid_eoa_signature_def recovers_to_def normalize_v_def Let_def
        split: if_splits sum.splits)
qed

lemma validate_True:
  "validate_signature eth v p s a = Inr True \<longleftrightarrow> s \<noteq> '''' \<and>
     ((recovers_to eth (eth_text_hash eth p) (eth_from_hex eth s) a \<and> eth_from_hex eth s ! 64 \<in> {27, 28}) \<or>
      (vd_abi v = None \<and> chain_bytes4 (vd_backend v) a ''isValidSignature''
         [AbiFixed (eth_bytes_to_hash eth (eth_text_hash eth p)), AbiBytes (eth_from_hex eth s)]
         = Inr erc1271_magic_value))"
  using valid_eoa_None [of eth "eth_text_hash eth p" "eth_from_hex eth s" a]
  by (auto simp: validate_signature_def new_bound_contract_def is_valid_signature_def go_defs Let_def
      split: option.splits sum.splits)

section \<open>Properties\<close>

text \<open>
  C31: On signatures with a recovery id of 27 or 28, and on those only a contract can accept, the
  exchange and the sign-in verifier accept the same, given that an address without code does not
  answer contract calls with the magic value.  Recovery ids 0 and 1 are the sign-in's alone.
\<close>

theorem validators_agree:
  assumes "s \<noteq> ''''" and "eth_from_hex eth s ! 64 \<notin> {0, 1}"
    and "vf_backend vf = Some (vd_backend vd)" and "vf_abi vf = vd_abi vd"
    and "chain_bytes4 (vd_backend vd) a ''isValidSignature''
        [AbiFixed (eth_bytes_to_hash eth (eth_text_hash eth p)), AbiBytes (eth_from_hex eth s)] = Inr erc1271_magic_value
      \<Longrightarrow> \<exists>code. chain_code_at (vd_backend vd) a = Inr code \<and> code \<noteq> []"
  shows "validate_signature eth vd p s a = Inr True \<longleftrightarrow> verify eth vf a p (eth_from_hex eth s) = Inr True"
proof -
  have "recovers_to eth h sig a \<Longrightarrow> sig ! 64 \<notin> {0, 1} \<Longrightarrow> sig ! 64 \<in> {27, 28}" for h sig
    by (auto simp: recovers_to_def normalize_v_def split: if_splits)
  with assms show ?thesis
    by (auto simp: validate_True verify_True contract_accepts_def)
qed

definition quiet_chain :: chain where
  "quiet_chain = \<lparr>chain_code_at = (\<lambda>a. Inr []), chain_bytes4 = (\<lambda>a m args. Inr []),
     chain_uint = (\<lambda>a m args. Inr 0), chain_bool = (\<lambda>a m args. Inr False),
     chain_record = (\<lambda>a m args. Inl (Err ''execution reverted'')),
     chain_template = (\<lambda>a m args. Inl (Err ''execution reverted''))\<rparr>"

theorem validators_agree_witness:
  "validate_signature eth_model \<lparr>vd_backend = quiet_chain, vd_abi = None\<rparr> [1, 2]
     (''0x'' @ hex_encode (model_signature 7 28)) 7 = Inr True \<longleftrightarrow>
   verify eth_model \<lparr>vf_backend = Some quiet_chain, vf_abi = None\<rparr> 7 [1, 2]
     (eth_from_hex eth_model (''0x'' @ hex_encode (model_signature 7 28))) = Inr True"
proof (rule validators_agree)
  show "eth_from_hex eth_model (''0x'' @ hex_encode (model_signature 7 28)) ! 64 \<notin> {0, 1}"
    unfolding model_decode_hex by (simp add: model_signature_def nth_append length_model_address_bytes)
qed (simp_all add: quiet_chain_def erc1271_magic_value_def)

end
