(* ===== verification/GoStrings.thy ===== *)
theory GoStrings imports GoText begin

text \<open>
  Functions of the Go package strings, on strings as their bytes, and \<open>%q\<close> on ASCII text.
\<close>

definition has_prefix :: "string \<Rightarrow> string \<Rightarrow> bool" where
  "has_prefix s p \<longleftrightarrow> take (length p) s = p"

definition trim_prefix :: "string \<Rightarrow> string \<Rightarrow> string" where
  "trim_prefix s p = (if has_prefix s p then drop (length p) s else s)"

text \<open>\<open>strings.CutPrefix\<close>\<close>

definition cut_prefix :: "string \<Rightarrow> string \<Rightarrow> string option" where
  "cut_prefix s p = (if has_prefix s p then Some (drop (length p) s) else None)"

text \<open>The ASCII white space: tab, line feed, vertical tab, form feed, carriage return, blank.\<close>

definition is_space :: "char \<Rightarrow> bool" where
  "is_space c \<longleftrightarrow> (of_char c :: nat) \<in> {9, 10, 11, 12, 13, 32}"

definition trim_right :: "(char \<Rightarrow> bool) \<Rightarrow> string \<Rightarrow> string" where
  "trim_right P s = rev (dropWhile P (rev s))"

text \<open>
  \<open>strings.TrimSpace\<close> takes off the white space of Unicode at both ends.  In UTF-8 its first rune is a space
  exactly when the text begins with one of these encodings, and its last rune when it ends with one.
\<close>

definition space_encodings :: "string list" where
  "space_encodings = map (map char_of)
     ([[9], [10], [11], [12], [13], [32 :: nat], [0xC2, 0x85], [0xC2, 0xA0], [0xE1, 0x9A, 0x80]]
      @ map (\<lambda>b. [0xE2, 0x80, b]) ([0x80..<0x8B] @ [0xA8, 0xA9, 0xAF]) @ [[0xE2, 0x81, 0x9F], [0xE3, 0x80, 0x80]])"

function strip :: "string list \<Rightarrow> string \<Rightarrow> string" where
  "strip ps s =
     (case find (\<lambda>p. p \<noteq> [] \<and> has_prefix s p) ps of
        None \<Rightarrow> s
      | Some p \<Rightarrow> strip ps (drop (length p) s))"
  by pat_completeness auto

termination
proof (relation "measure (\<lambda>(ps, s). length s)", simp)
  fix ps s p
  assume "find (\<lambda>p. p \<noteq> [] \<and> has_prefix s p) ps = Some p"
  then have "p \<noteq> []" "take (length p) s = p" by (auto simp: find_Some_iff has_prefix_def)
  then have "s \<noteq> []" by auto
  with \<open>p \<noteq> []\<close> show "((ps, drop (length p) s), ps, s) \<in> measure (\<lambda>(ps, s). length s)" by simp
qed

declare strip.simps [simp del]

definition trim_space :: "string \<Rightarrow> string" where
  "trim_space s = rev (strip (map rev space_encodings) (rev (strip space_encodings s)))"

text \<open>\<open>strings.Split(s, sep)\<close> for a separator of one character.\<close>

fun split_on :: "char \<Rightarrow> string \<Rightarrow> string list" where
  "split_on sep [] = [[]]"
| "split_on sep (c # s) =
     (if c = sep then [] # split_on sep s
      else case split_on sep s of [] \<Rightarrow> [[c]] | w # ws \<Rightarrow> (c # w) # ws)"

text \<open>\<open>%q\<close>\<close>

definition quote_char :: "char \<Rightarrow> string" where
  "quote_char c =
     (let k = of_char c :: nat in
      if k = 34 \<or> k = 92 then [CHR 0x5C, c]
      else if k = 7 then CHR 0x5C # ''a''
      else if k = 8 then CHR 0x5C # ''b''
      else if k = 9 then CHR 0x5C # ''t''
      else if k = 10 then CHR 0x5C # ''n''
      else if k = 11 then CHR 0x5C # ''v''
      else if k = 12 then CHR 0x5C # ''f''
      else if k = 13 then CHR 0x5C # ''r''
      else if k < 32 \<or> k = 127 then CHR 0x5C # CHR ''x'' # hex_encode [word_of_nat k]
      else [c])"

definition go_quote :: "string \<Rightarrow> string" where
  "go_quote s = [CHR 0x22] @ concat (map quote_char s) @ [CHR 0x22]"

lemma has_prefix_append [simp]: "has_prefix (p @ s) p"
  by (simp add: has_prefix_def)

lemma cut_prefix_append [simp]: "cut_prefix (p @ s) p = Some s"
  by (simp add: cut_prefix_def)

lemma cut_prefix_Some: "cut_prefix s p = Some r \<longleftrightarrow> s = p @ r"
  by (auto simp: cut_prefix_def has_prefix_def) (metis append_take_drop_id)

lemma split_on_nonempty [simp]: "split_on sep s \<noteq> []"
  by (induction s) (auto split: list.splits)

lemma split_on_no_sep: "w \<in> set (split_on sep s) \<Longrightarrow> sep \<notin> set w"
proof (induction s arbitrary: w)
  case (Cons c s)
  then show ?case by (cases "split_on sep s") (auto split: if_splits)
qed simp

text \<open>Splitting and joining are inverse.\<close>

lemma join_split: "join_with [sep] (split_on sep s) = s"
proof (induction s)
  case (Cons c s)
  then show ?case
    by (cases "split_on sep s"; cases "tl (split_on sep s)") auto
qed simp

lemma trim_right_last: "trim_right P s = [] \<or> \<not> P (last (trim_right P s))"
  using hd_dropWhile [of P "rev s"] by (auto simp: trim_right_def last_rev)

lemma has_prefix_iff: "has_prefix s p \<longleftrightarrow> (\<exists>r. s = p @ r)"
  by (auto simp: has_prefix_def) (metis append_take_drop_id)

lemma strip_none: "find (\<lambda>p. p \<noteq> [] \<and> has_prefix s p) ps = None \<Longrightarrow> strip ps s = s"
  by (subst strip.simps) simp

lemma strip_some: "find (\<lambda>p. p \<noteq> [] \<and> has_prefix s p) ps = Some p \<Longrightarrow> strip ps s = strip ps (drop (length p) s)"
  by (subst strip.simps) simp

lemma strip_suffix: "\<exists>u. s = u @ strip ps s"
proof (induction ps s rule: strip.induct)
  case (1 ps s)
  show ?case
  proof (cases "find (\<lambda>p. p \<noteq> [] \<and> has_prefix s p) ps")
    case None
    then show ?thesis by (simp add: strip_none)
  next
    case (Some p)
    with 1 obtain u where "drop (length p) s = u @ strip ps (drop (length p) s)" by blast
    then have "s = (take (length p) s @ u) @ strip ps s"
      by (metis Some strip_some append.assoc append_take_drop_id)
    then show ?thesis by blast
  qed
qed

lemma strip_prefix: "p \<in> set ps \<Longrightarrow> p \<noteq> [] \<Longrightarrow> \<not> has_prefix (strip ps s) p"
proof (induction ps s rule: strip.induct)
  case (1 ps s)
  show ?case
  proof (cases "find (\<lambda>p. p \<noteq> [] \<and> has_prefix s p) ps")
    case None
    with 1(2,3) have "\<not> has_prefix s p" by (auto simp: find_None_iff)
    with None show ?thesis by (simp add: strip_none)
  next
    case (Some q)
    with 1 show ?thesis by (simp add: strip_some [OF Some])
  qed
qed

lemma strip_id: "list_all (\<lambda>p. \<not> has_prefix s p) ps \<Longrightarrow> strip ps s = s"
  by (rule strip_none) (auto simp: find_None_iff list_all_iff)

text \<open>A trimmed text neither begins nor ends with white space, in particular with that of ASCII.\<close>

definition trimmed :: "string \<Rightarrow> bool" where
  "trimmed s \<longleftrightarrow> list_all (\<lambda>p. \<not> has_prefix s p \<and> \<not> has_prefix (rev s) (rev p)) space_encodings"

lemma space_encodings_ne: "p \<in> set space_encodings \<Longrightarrow> p \<noteq> []"
  by (auto simp: space_encodings_def)

lemma trim_space_trimmed: "trimmed (trim_space s)"
  unfolding trimmed_def list_all_iff
proof (intro ballI conjI)
  fix p assume p: "p \<in> set space_encodings"
  let ?t = "strip space_encodings s"
  obtain u where "rev ?t = u @ strip (map rev space_encodings) (rev ?t)" using strip_suffix by blast
  then have t: "?t = trim_space s @ rev u" by (metis trim_space_def rev_append rev_rev_ident)
  show "\<not> has_prefix (trim_space s) p"
  proof
    assume "has_prefix (trim_space s) p"
    then have "has_prefix ?t p" by (auto simp: t has_prefix_iff)
    with strip_prefix [OF p space_encodings_ne [OF p]] show False by blast
  qed
  have "\<not> has_prefix (strip (map rev space_encodings) (rev ?t)) (rev p)"
    using p space_encodings_ne [OF p] by (intro strip_prefix) auto
  then show "\<not> has_prefix (rev (trim_space s)) (rev p)" by (simp add: trim_space_def)
qed

lemma trim_space_id: "trimmed s \<Longrightarrow> trim_space s = s"
  using strip_id [of s space_encodings] strip_id [of "rev s" "map rev space_encodings"]
  by (simp add: trim_space_def trimmed_def list_all_iff)

lemma is_space_encoding: "is_space c \<Longrightarrow> [c] \<in> set space_encodings"
proof -
  assume "is_space c"
  then have "(of_char c :: nat) \<in> {9, 10, 11, 12, 13, 32}" by (simp add: is_space_def)
  then have "c \<in> char_of ` {9, 10, 11, 12, 13, 32 :: nat}" by (metis char_of_char imageI)
  then show ?thesis by (auto simp: space_encodings_def)
qed

lemma trimmed_ends:
  assumes "trimmed s" and "s \<noteq> []"
  shows "\<not> is_space (hd s)" and "\<not> is_space (last s)"
proof -
  have "has_prefix s [hd s]" using assms(2) by (cases s) (simp_all add: has_prefix_def)
  with assms(1) show "\<not> is_space (hd s)" by (auto simp: trimmed_def list_all_iff dest: is_space_encoding)
  have last: "has_prefix (rev s) (rev [last s])" using assms(2) by (cases s rule: rev_cases) (simp_all add: has_prefix_def)
  show "\<not> is_space (last s)"
  proof
    assume "is_space (last s)"
    then have "[last s] \<in> set space_encodings" by (rule is_space_encoding)
    with assms(1) last show False unfolding trimmed_def list_all_iff by blast
  qed
qed

text \<open>Every encoding is a space of ASCII or begins and ends with bytes above 127.\<close>

lemma ascii_ends_trimmed:
  assumes "s = [] \<or> ((of_char (hd s) :: nat) < 128 \<and> \<not> is_space (hd s) \<and> (of_char (last s) :: nat) < 128 \<and> \<not> is_space (last s))"
  shows "trimmed s"
proof -
  have enc: "list_all (\<lambda>p. p \<noteq> [] \<and> ((is_space (hd p) \<and> is_space (last p)) \<or> (128 \<le> (of_char (hd p) :: nat) \<and> 128 \<le> (of_char (last p) :: nat))))
      space_encodings"
    by code_simp
  have "\<not> has_prefix s p \<and> \<not> has_prefix (rev s) (rev p)" if p: "p \<in> set space_encodings" for p
  proof
    have ne: "p \<noteq> []" and ends: "(is_space (hd p) \<and> is_space (last p)) \<or> (128 \<le> (of_char (hd p) :: nat) \<and> 128 \<le> (of_char (last p) :: nat))"
      using enc p by (auto simp: list_all_iff)
    show "\<not> has_prefix s p"
    proof
      assume "has_prefix s p"
      then obtain r where "s = p @ r" by (auto simp: has_prefix_iff)
      with ne have "s \<noteq> []" "hd s = hd p" by auto
      with assms ends show False by auto
    qed
    show "\<not> has_prefix (rev s) (rev p)"
    proof
      assume "has_prefix (rev s) (rev p)"
      then obtain r where "s = r @ p" unfolding has_prefix_iff by (metis rev_append rev_rev_ident)
      with ne have "s \<noteq> []" "last s = last p" by auto
      with assms ends show False by auto
    qed
  qed
  then show ?thesis by (auto simp: trimmed_def list_all_iff)
qed

end
