(* ===== verification/Ipfs.thy ===== *)
theory Ipfs imports GoTime GoStrings begin

text \<open>
  Fetching SACD documents (internal/exchange/services/ipfs\_service.go).  The HTTP client, URL joining
  and the JSON parser of cloud events are parameters.
\<close>

record http_reply =
  hr_status :: int
  hr_body :: "go_error + bytes"

record ipfs_net =
  ipfs_join_path :: "string \<Rightarrow> string"
  ipfs_new_request :: "string \<Rightarrow> go_error option"
  ipfs_do :: "string \<Rightarrow> go_error + http_reply"

text \<open>The parts of \<open>cloudevent.RawEvent\<close> that the sources read.\<close>

record raw_event =
  re_type :: string
  re_data :: bytes
  re_signature :: string

record event_pkg =
  parse_raw_event :: "bytes \<Rightarrow> go_error + raw_event"
  type_sacd :: string
  type_sacd_template :: string

definition default_ipfs_prefix :: string where
  "default_ipfs_prefix = ''ipfs://''"

definition default_ipfs_timeout :: duration where
  "default_ipfs_timeout = 30 * second"

definition new_ipfs_client ::
  "(string \<Rightarrow> go_error + 'u) \<Rightarrow> (string \<Rightarrow> go_error + duration) \<Rightarrow> string \<Rightarrow> string
   \<Rightarrow> go_error + ('u \<times> duration)" where
  "new_ipfs_client parse_url parse_duration base_url timeout =
     (case parse_url base_url of
        Inl err \<Rightarrow> Inl (Wrap ''invalid IPFS base URL'' err)
      | Inr u \<Rightarrow>
          (case parse_duration timeout of
             Inl err \<Rightarrow> Inl (Wrap ''failed to parse ipfs duration'' err)
           | Inr d \<Rightarrow> Inr (u, if d = 0 then default_ipfs_timeout else d)))"

definition ipfs_fetch :: "ipfs_net \<Rightarrow> string \<Rightarrow> go_error + bytes" where
  "ipfs_fetch net cid =
     (let url = ipfs_join_path net (trim_prefix cid default_ipfs_prefix) in
      case ipfs_new_request net url of
        Some err \<Rightarrow> Inl (Wrap ''failed to create HTTP request'' err)
      | None \<Rightarrow>
          (case ipfs_do net url of
             Inl err \<Rightarrow> Inl (Wrap ''failed to execute request'' err)
           | Inr resp \<Rightarrow>
               (case hr_body resp of
                  Inl err \<Rightarrow> Inl (Wrap ''failed to read response body'' err)
                | Inr body \<Rightarrow>
                    if hr_status resp \<noteq> 200 then Inl (Err ''invalid ipfs status code'') else Inr body)))"

definition get_valid_sacd_doc :: "ipfs_net \<Rightarrow> event_pkg \<Rightarrow> string \<Rightarrow> go_error + raw_event" where
  "get_valid_sacd_doc net pkg source =
     (case ipfs_fetch net source of
        Inl err \<Rightarrow> Inl (Rich 400 (Some (Wrap ''failed to fetch source document from IPFS'' err))
                     ''failed to fetch source document from IPFS'')
      | Inr sacd_doc \<Rightarrow>
          (case parse_raw_event pkg sacd_doc of
             Inl err \<Rightarrow> Inl (Rich 400 (Some (Wrap ''failed to parse sacd data'' err)) ''failed to parse sacd data'')
           | Inr record \<Rightarrow>
               if re_type record \<noteq> type_sacd pkg \<and> re_type record \<noteq> type_sacd_template pkg
               then Inl (Rich 400 None (''invalid type: expected '' @ [CHR 0x27] @ type_sacd pkg @ [CHR 0x27] @ '' or ''
                      @ [CHR 0x27] @ type_sacd_template pkg @ [CHR 0x27] @ '', got '' @ [CHR 0x27] @ re_type record @ [CHR 0x27]))
               else Inr record))"

lemma get_valid_sacd_doc_Inr:
  "get_valid_sacd_doc net pkg source = Inr ev \<longleftrightarrow>
     (\<exists>body. ipfs_fetch net source = Inr body \<and> parse_raw_event pkg body = Inr ev \<and>
        re_type ev \<in> {type_sacd pkg, type_sacd_template pkg})"
  by (auto simp: get_valid_sacd_doc_def split: sum.splits)

lemma get_valid_sacd_doc_Inl:
  "get_valid_sacd_doc net pkg source = Inl e \<Longrightarrow> \<exists>err m. e = Rich 400 err m"
  by (auto simp: get_valid_sacd_doc_def split: sum.splits if_splits)

lemma ipfs_fetch_Inr:
  "ipfs_fetch net cid = Inr body \<longleftrightarrow>
     ipfs_new_request net (ipfs_join_path net (trim_prefix cid ''ipfs://'')) = None \<and>
     (\<exists>resp. ipfs_do net (ipfs_join_path net (trim_prefix cid ''ipfs://'')) = Inr resp \<and>
        hr_status resp = 200 \<and> hr_body resp = Inr body)"
  by (auto simp: ipfs_fetch_def default_ipfs_prefix_def Let_def split: sum.splits option.splits)

section \<open>Properties\<close>

text \<open>
  A document is returned exactly when the request for its CID (with or without the \<open>ipfs://\<close> prefix)
  was answered with status 200 and a body that parses as an event of one of the two SACD types; every
  failure is a client error with status 400.
\<close>

theorem sacd_doc_exact:
  "(get_valid_sacd_doc net pkg source = Inr ev \<longleftrightarrow>
     (\<exists>resp body. ipfs_new_request net (ipfs_join_path net (trim_prefix source ''ipfs://'')) = None \<and>
        ipfs_do net (ipfs_join_path net (trim_prefix source ''ipfs://'')) = Inr resp \<and>
        hr_status resp = 200 \<and> hr_body resp = Inr body \<and> parse_raw_event pkg body = Inr ev \<and>
        re_type ev \<in> {type_sacd pkg, type_sacd_template pkg}))
   \<and> (case get_valid_sacd_doc net pkg source of
        Inl e \<Rightarrow> (\<exists>err m. e = Rich 400 err m) | Inr _ \<Rightarrow> True)"
proof
  show "case get_valid_sacd_doc net pkg source of Inl e \<Rightarrow> (\<exists>err m. e = Rich 400 err m) | Inr _ \<Rightarrow> True"
    by (auto dest: get_valid_sacd_doc_Inl split: sum.split)
qed (auto simp: get_valid_sacd_doc_Inr ipfs_fetch_Inr)

end
