(* ===== verification/GoTimeText.thy ===== *)
theory GoTimeText imports GoTime begin

text \<open>
  \<open>(*time.Time).UnmarshalJSON\<close>: the text between the quotes as \<open>time.Parse\<close> takes it with the layout
  \<open>RFC3339\<close>.  The checks that would hold it to the standard are switched off in Go's library, so that an
  hour of one digit, a fraction after a comma and offsets of 24 hours or 60 minutes pass.
\<close>

definition part :: "string \<Rightarrow> nat \<Rightarrow> nat \<Rightarrow> string" where
  "part s i j = take (j - i) (drop i s)"

text \<open>The local \<open>parseUint\<close>: digits with a value within bounds.\<close>

definition parse_field :: "string \<Rightarrow> nat \<Rightarrow> nat \<Rightarrow> nat option" where
  "parse_field s lo hi =
     (case parse_nat s of None \<Rightarrow> None | Some n \<Rightarrow> if lo \<le> n \<and> n \<le> hi then Some n else None)"

text \<open>The nanoseconds of a fraction, its digits after the ninth dropped, and the text after it.\<close>

definition parse_fraction :: "string \<Rightarrow> int \<times> string" where
  "parse_fraction s =
     (case s of
        c # d # r \<Rightarrow>
          if (c = CHR ''.'' \<or> c = CHR '','') \<and> is_digit d then
            (let ds = takeWhile is_digit (d # r); ns = take 9 ds
             in (foldl (\<lambda>n c. 10 * n + int (digit_val c)) 0 ns * 10 ^ (9 - length ns), drop (length ds) (d # r)))
          else (0, s)
      | _ \<Rightarrow> (0, s))"

text \<open>The seconds that the zone is ahead of UTC.\<close>

definition parse_zone :: "string \<Rightarrow> int option" where
  "parse_zone s =
     (if s = ''Z'' then Some 0
      else if length s \<noteq> 6 then None
      else case (parse_field (part s 1 3) 0 24, parse_field (part s 4 6) 0 60) of
             (Some h, Some m) \<Rightarrow>
               if (s ! 0 = CHR ''-'' \<or> s ! 0 = CHR ''+'') \<and> s ! 3 = CHR '':''
               then (let offset = int ((h * 60 + m) * 60) in Some (if s ! 0 = CHR ''-'' then - offset else offset))
               else None
           | _ \<Rightarrow> None)"

definition parse_date :: "string \<Rightarrow> (int \<times> int \<times> int) option" where
  "parse_date s =
     (case (parse_field (part s 0 4) 0 9999, parse_field (part s 5 7) 1 12) of
        (Some y, Some m) \<Rightarrow>
          (case parse_field (part s 8 10) 1 (nat (month_lengths (int y) ! (m - 1))) of
             None \<Rightarrow> None
           | Some d \<Rightarrow> if s ! 4 = CHR ''-'' \<and> s ! 7 = CHR ''-'' then Some (int y, int m, int d) else None)
      | _ \<Rightarrow> None)"

text \<open>The hour has one digit or two; the seconds since midnight come with the text after them.\<close>

definition parse_clock :: "string \<Rightarrow> (int \<times> string) option" where
  "parse_clock s =
     (let digits = (if 2 \<le> length s \<and> is_digit (s ! 1) then 2 else 1); r = drop digits s
      in if length r < 6 then None
         else case (parse_field (take digits s) 0 23, parse_field (part r 1 3) 0 59, parse_field (part r 4 6) 0 59) of
                (Some h, Some m, Some x) \<Rightarrow>
                  if r ! 0 = CHR '':'' \<and> r ! 3 = CHR '':'' then Some (int (3600 * h + 60 * m + x), drop 6 r) else None
              | _ \<Rightarrow> None)"

definition parse_rfc3339 :: "string \<Rightarrow> instant option" where
  "parse_rfc3339 s =
     (if length s < 11 \<or> s ! 10 \<noteq> CHR ''T'' then None
      else case (parse_date s, parse_clock (drop 11 s)) of
             (Some date, Some (secs, r)) \<Rightarrow>
               (let (ns, z) = parse_fraction r in
                map_option (\<lambda>offset. (86400 * days_of_civil date + secs - offset) * second + ns) (parse_zone z))
           | _ \<Rightarrow> None)"

section \<open>Reading what was printed\<close>

lemma parse_pad: 
  assumes "0 \<le> i" "0 < w"
  shows "parse_nat (pad_int w i) = Some (nat i)"
proof -
  have "list_all is_digit (replicate k (CHR ''0''))" for k by (induction k) (simp_all add: is_digit_def)
  then have "list_all is_digit (pad_nat w (nat i))" "pad_nat w (nat i) \<noteq> []" by (simp_all add: pad_nat_def)
  then show ?thesis using assms by (simp add: pad_int_def parse_nat_def pad_nat_value)
qed

lemma rfc3339_parts:
  fixes r :: string
  assumes "length y = 4" "length m = 2" "length d = 2"
  defines "s \<equiv> y @ ''-'' @ m @ ''-'' @ d @ ''T'' @ r"
  shows "part s 0 4 = y" "part s 5 7 = m" "part s 8 10 = d" "s ! 4 = CHR ''-''" "s ! 7 = CHR ''-''" "s ! 10 = CHR ''T''"
    "drop 11 s = r" "\<not> length s < 11"
  using assms by (simp_all add: part_def nth_append)

lemma clock_parts:
  assumes "length h = 2" "length n = 2" "length x = 2" "is_digit (h ! 1)"
    and "parse_field h 0 23 = Some h'" "parse_field n 0 59 = Some n'" "parse_field x 0 59 = Some x'"
  shows "parse_clock (h @ '':'' @ n @ '':'' @ x @ r) = Some (int (3600 * h' + 60 * n' + x'), r)"
  using assms by (simp add: parse_clock_def part_def nth_append Let_def)

lemma pad_int_digits: "0 \<le> i \<Longrightarrow> list_all is_digit (pad_int w i)"
proof -
  have "list_all is_digit (replicate k (CHR ''0''))" for k by (induction k) (simp_all add: is_digit_def)
  then show "0 \<le> i \<Longrightarrow> ?thesis" by (simp add: pad_int_def pad_nat_def)
qed

lemma civil_date_month:
  assumes "civil_date n = (y, m, d)"
  shows "d \<le> month_lengths y ! nat (m - 1)"
proof -
  obtain y' yd where yy: "year_yday n = (y', yd)" by fastforce
  obtain m' md' where mm: "month_day (month_lengths y') 1 yd = (m', md')" by fastforce
  have eq: "y' = y" "m' = m" "md' = d"
    using assms by (simp_all add: civil_date_def yy mm)
  note y = year_yday_days [OF yy]
  have "yd < sum_list (month_lengths y')"
    using y(3) by (cases "is_leap y'") (simp_all add: month_lengths_def)
  from month_day_sum [OF y(2) this mm] eq show ?thesis by (auto simp: month_lengths_def)
qed

lemma clock_sum:
  fixes s :: int
  shows "3600 * (s div 3600) + 60 * (s mod 3600 div 60) + s mod 60 = s"
proof -
  have "s mod 60 = s mod 3600 mod 60" by (simp add: mod_mod_cancel)
  then show ?thesis
    using mult_div_mod_eq [of 3600 s] mult_div_mod_eq [of 60 "s mod 3600"] by linarith
qed

lemma parse_stamp:
  assumes "0 \<le> y" "y \<le> 9999" "1 \<le> m" "m \<le> 12" "1 \<le> d" "d \<le> month_lengths y ! nat (m - 1)" "d \<le> 31"
    and "0 \<le> h" "h \<le> 23" "0 \<le> n" "n \<le> 59" "0 \<le> x" "x \<le> 59"
  shows "parse_rfc3339 (pad_int 4 y @ ''-'' @ pad_int 2 m @ ''-'' @ pad_int 2 d @ ''T'' @ pad_int 2 h @ '':'' @ pad_int 2 n @ '':''
    @ pad_int 2 x @ ''Z'') = Some ((86400 * days_of_civil (y, m, d) + (3600 * h + 60 * n + x)) * second)"
    (is "parse_rfc3339 ?s = _")
proof -
  have len: "length (pad_int 4 y) = 4" "length (pad_int 2 m) = 2" "length (pad_int 2 d) = 2" "length (pad_int 2 h) = 2"
    "length (pad_int 2 n) = 2" "length (pad_int 2 x) = 2"
    using assms by (simp_all add: length_pad_int)
  note parts = rfc3339_parts [OF len(1-3)]
  have "Suc 0 \<le> nat m" "Suc 0 \<le> nat d" using assms by simp_all
  then have "parse_date ?s = Some (y, m, d)"
    using assms unfolding parse_date_def parts by (simp add: parse_field_def parse_pad nat_diff_distrib' nat_le_iff)
  moreover have "is_digit (pad_int 2 h ! 1)"
    using pad_int_digits [of h 2] assms len(4) by (simp add: list_all_length)
  then have "parse_clock (pad_int 2 h @ '':'' @ pad_int 2 n @ '':'' @ pad_int 2 x @ ''Z'') = Some (3600 * h + 60 * n + x, ''Z'')"
    using assms clock_parts [OF len(4-6), of "nat h" "nat n" "nat x" "''Z''"] by (simp add: parse_field_def parse_pad nat_le_iff)
  ultimately show ?thesis
    unfolding parse_rfc3339_def parts by (simp add: parse_fraction_def parse_zone_def len)
qed

lemma clock_small:
  fixes x :: int
  shows "x < 86400 \<Longrightarrow> x div 3600 \<le> 23" "x < 3600 \<Longrightarrow> x div 60 \<le> 59" "x < 60 \<Longrightarrow> x \<le> 59"
  by linarith+

lemma parse_rfc3339_print:
  assumes "four_digit_year t"
  shows "parse_rfc3339 (rfc3339 t) = Some (t div second * second)"
proof -
  define s where "s = t div second"
  obtain y m d where c: "civil_date (s div 86400) = (y, m, d)" by (rule prod_cases3)
  have "0 \<le> s div 86400" "s div 86400 < 3652059" using day_range [OF assms] by (simp_all add: s_def)
  note yr = civil_date_year [OF c this] and md = civil_date_range [OF c] and ml = civil_date_month [OF c]
  have "parse_rfc3339 (rfc3339 t) = Some ((86400 * days_of_civil (y, m, d) + (3600 * (s mod 86400 div 3600)
      + 60 * (s mod 86400 mod 3600 div 60) + s mod 86400 mod 60)) * second)"
    unfolding rfc3339_def s_def [symmetric] Let_def c prod.case
    by (rule parse_stamp) (rule order_trans [OF _ yr(1)] yr md ml clock_range clock_small pos_mod_bound | simp)+
  also have "\<dots> = Some ((86400 * (s div 86400) + s mod 86400) * second)"
    unfolding clock_sum using civil_date_days [of "s div 86400"] c by simp
  finally show ?thesis by (simp add: s_def)
qed

end
