(* ===== verification/GoDecode.thy ===== *)
theory GoDecode imports GoJson GoTimeText begin

text \<open>
  Reading JSON as \<open>encoding/json\<close> does: the scanner of a value, the unquoting of strings with their
  Unicode escapes, and decoding into structs by field name, over what the struct held before.  A
  \<open>Decoder\<close> reads one value and leaves what follows; \<open>Unmarshal\<close> takes nothing but space after it.
\<close>

section \<open>Values\<close>

definition json_space :: "char \<Rightarrow> bool" where
  "json_space c \<longleftrightarrow> (of_char c :: nat) \<in> {32, 9, 13, 10}"

definition skip_space :: "string \<Rightarrow> string" where
  "skip_space s = dropWhile json_space s"

definition json_hex :: "char \<Rightarrow> bool" where
  "json_hex c \<longleftrightarrow> (let k = of_char c :: nat in is_digit c \<or> (97 \<le> k \<and> k \<le> 102) \<or> (65 \<le> k \<and> k \<le> 70))"

text \<open>What follows an opening quote, up to the closing one.\<close>

fun scan_string :: "string \<Rightarrow> (string \<times> string) option" where
  "scan_string [] = None"
| "scan_string (c # s) =
     (if c = CHR 0x22 then Some ([], s)
      else if c = CHR 0x5C then
        (case s of
           [] \<Rightarrow> None
         | e # s1 \<Rightarrow>
             if e = CHR ''u'' then
               (case s1 of
                  h1 # h2 # h3 # h4 # s2 \<Rightarrow>
                    if list_all json_hex [h1, h2, h3, h4]
                    then map_option (apfst (\<lambda>raw. c # e # h1 # h2 # h3 # h4 # raw)) (scan_string s2)
                    else None
                | _ \<Rightarrow> None)
             else if e \<in> {CHR ''b'', CHR ''f'', CHR ''n'', CHR ''r'', CHR ''t'', CHR 0x5C, CHR 0x2F, CHR 0x22}
             then map_option (apfst (\<lambda>raw. c # e # raw)) (scan_string s1)
             else None)
      else if (of_char c :: nat) < 32 then None
      else map_option (apfst ((#) c)) (scan_string s))"

text \<open>\<open>-\<close>, an integer without leading zeros, a fraction and an exponent, the last two optional.\<close>

definition scan_digits :: "string \<Rightarrow> (string \<times> string) option" where
  "scan_digits s = (let ds = takeWhile is_digit s in if ds = [] then None else Some (ds, dropWhile is_digit s))"

definition scan_integer :: "string \<Rightarrow> (string \<times> string) option" where
  "scan_integer s =
     (case s of
        [] \<Rightarrow> None
      | c # s1 \<Rightarrow> if c = CHR ''0'' then Some ([c], s1) else scan_digits s)"

definition scan_fraction :: "string \<Rightarrow> (string \<times> string) option" where
  "scan_fraction s =
     (case s of
        [] \<Rightarrow> Some ([], [])
      | c # s1 \<Rightarrow> if c = CHR ''.'' then map_option (apfst ((#) c)) (scan_digits s1) else Some ([], s))"

definition scan_exponent :: "string \<Rightarrow> (string \<times> string) option" where
  "scan_exponent s =
     (case s of
        [] \<Rightarrow> Some ([], [])
      | c # s1 \<Rightarrow>
          if c = CHR ''e'' \<or> c = CHR ''E'' then
            (case s1 of
               [] \<Rightarrow> None
             | d # s2 \<Rightarrow>
                 if d = CHR ''+'' \<or> d = CHR ''-'' then map_option (apfst (\<lambda>ds. c # d # ds)) (scan_digits s2)
                 else map_option (apfst ((#) c)) (scan_digits s1))
          else Some ([], s))"

definition scan_unsigned :: "string \<Rightarrow> (string \<times> string) option" where
  "scan_unsigned s =
     (case scan_integer s of
        None \<Rightarrow> None
      | Some (ds, s1) \<Rightarrow>
          (case scan_fraction s1 of
             None \<Rightarrow> None
           | Some (fr, s2) \<Rightarrow> map_option (apfst (\<lambda>ex. ds @ fr @ ex)) (scan_exponent s2)))"

definition scan_number :: "string \<Rightarrow> (string \<times> string) option" where
  "scan_number s =
     (case s of
        [] \<Rightarrow> None
      | c # s1 \<Rightarrow> if c = CHR ''-'' then map_option (apfst ((#) c)) (scan_unsigned s1) else scan_unsigned s)"

definition scan_word :: "string \<Rightarrow> jval \<Rightarrow> string \<Rightarrow> (jval \<times> string) option" where
  "scan_word w v s = (if take (length w) s = w then Some (v, drop (length w) s) else None)"

text \<open>A member name with its colon.\<close>

definition scan_name :: "string \<Rightarrow> (string \<times> string) option" where
  "scan_name s =
     (case skip_space s of
        [] \<Rightarrow> None
      | q # s1 \<Rightarrow>
          if q \<noteq> CHR 0x22 then None
          else case scan_string s1 of
                 None \<Rightarrow> None
               | Some (k, s2) \<Rightarrow>
                   (case skip_space s2 of
                      [] \<Rightarrow> None
                    | c # s3 \<Rightarrow> if c = CHR '':'' then Some (k, s3) else None))"

lemma skip_space_length: "length (skip_space s) \<le> length s"
  by (simp add: skip_space_def length_dropWhile_le)

lemma scan_string_length: "scan_string s = Some (raw, s') \<Longrightarrow> length s' < length s"
proof (induction s arbitrary: raw rule: scan_string.induct)
  case (2 c s)
  then show ?case
    by (fastforce split: if_splits list.splits)
qed simp

lemma scan_name_length:
  assumes "scan_name s = Some (k, s')"
  shows "length s' < length s"
proof -
  from assms obtain q s1 s2 c where s: "skip_space s = q # s1" "scan_string s1 = Some (k, s2)" "skip_space s2 = c # s'"
    by (auto simp: scan_name_def split: list.splits if_splits option.splits)
  from skip_space_length [of s2] skip_space_length [of s] scan_string_length [OF s(2)] show ?thesis
    by (simp add: s)
qed

text \<open>
  A value, the elements of an array and the members of an object, each with the text after it; \<open>d\<close> is how
  many more arrays and objects may be opened (\<open>maxNestingDepth\<close> at first).  The comparisons of lengths only
  serve the termination; they never fail (lemma \<open>scan_value_length\<close>).
\<close>

function (sequential) scan_value :: "nat \<Rightarrow> string \<Rightarrow> (jval \<times> string) option"
  and scan_elems :: "nat \<Rightarrow> string \<Rightarrow> (jval list \<times> string) option"
  and scan_members :: "nat \<Rightarrow> string \<Rightarrow> ((string \<times> jval) list \<times> string) option"
where
  "scan_value d s =
     (case skip_space s of
        [] \<Rightarrow> None
      | c # s1 \<Rightarrow>
          if c = CHR ''{'' then
            (if d = 0 then None
             else case skip_space s1 of
                    [] \<Rightarrow> None
                  | c1 # s2 \<Rightarrow> if c1 = CHR ''}'' then Some (VObj [], s2)
                              else map_option (apfst VObj) (scan_members (d - 1) s1))
          else if c = CHR ''['' then
            (if d = 0 then None
             else case skip_space s1 of
                    [] \<Rightarrow> None
                  | c1 # s2 \<Rightarrow> if c1 = CHR '']'' then Some (VArr [], s2)
                              else map_option (apfst VArr) (scan_elems (d - 1) s1))
          else if c = CHR 0x22 then map_option (apfst VStr) (scan_string s1)
          else if c = CHR ''t'' then scan_word ''true'' (VBool True) (c # s1)
          else if c = CHR ''f'' then scan_word ''false'' (VBool False) (c # s1)
          else if c = CHR ''n'' then scan_word ''null'' VNull (c # s1)
          else map_option (apfst VNum) (scan_number (c # s1)))"
| "scan_elems d s =
     (case scan_value d s of
        None \<Rightarrow> None
      | Some (v, r) \<Rightarrow>
          (case skip_space r of
             [] \<Rightarrow> None
           | c # r1 \<Rightarrow>
               if c = CHR '']'' then Some ([v], r1)
               else if c = CHR '','' \<and> length r1 < length s then map_option (apfst ((#) v)) (scan_elems d r1)
               else None))"
| "scan_members d s =
     (case scan_name s of
        None \<Rightarrow> None
      | Some (k, s1) \<Rightarrow>
          (case scan_value d s1 of
             None \<Rightarrow> None
           | Some (v, r) \<Rightarrow>
               (case skip_space r of
                  [] \<Rightarrow> None
                | c # r1 \<Rightarrow>
                    if c = CHR ''}'' then Some ([(k, v)], r1)
                    else if c = CHR '','' \<and> length r1 < length s then map_option (apfst ((#) (k, v))) (scan_members d r1)
                    else None)))"
  by pat_completeness auto
termination
proof (relation "measure (case_sum (\<lambda>(d, s). 2 * length s) (case_sum (\<lambda>(d, s). 2 * length s + 1) (\<lambda>(d, s). 2 * length s + 1)))",
    goal_cases)
  case (2 d s c s1 c1 s2)
  then show ?case using skip_space_length [of s] by simp
next
  case (3 d s c s1 c1 s2)
  then show ?case using skip_space_length [of s] by simp
qed (auto dest: scan_name_length)

declare scan_value.simps [simp del] scan_elems.simps [simp del] scan_members.simps [simp del]

lemma scan_digits_length: "scan_digits s = Some (ds, r) \<Longrightarrow> length r < length s"
  by (cases s) (auto simp: scan_digits_def Let_def le_imp_less_Suc length_dropWhile_le split: if_splits)

lemma scan_unsigned_length: "scan_unsigned s = Some (ds, r) \<Longrightarrow> length r < length s"
proof -
  assume "scan_unsigned s = Some (ds, r)"
  then obtain i s1 f s2 e where s: "scan_integer s = Some (i, s1)" "scan_fraction s1 = Some (f, s2)" "scan_exponent s2 = Some (e, r)"
    by (auto simp: scan_unsigned_def split: option.splits)
  have "length s1 < length s" using s(1) by (auto simp: scan_integer_def dest: scan_digits_length split: list.splits if_splits)
  moreover have "length s2 \<le> length s1"
    using s(2) by (fastforce simp: scan_fraction_def dest: scan_digits_length split: list.splits if_splits)
  moreover have "length r \<le> length s2"
    using s(3) by (fastforce simp: scan_exponent_def dest: scan_digits_length split: list.splits if_splits)
  ultimately show ?thesis by simp
qed

lemma scan_number_length: "scan_number s = Some (ds, r) \<Longrightarrow> length r < length s"
  by (auto simp: scan_number_def dest: scan_unsigned_length split: list.splits if_splits)

lemma scan_word_length: "scan_word w v s = Some (v', r) \<Longrightarrow> w \<noteq> [] \<Longrightarrow> length r < length s"
  by (cases s) (auto simp: scan_word_def split: if_splits)

lemma scan_value_length:
  "scan_value d s = Some (v, r) \<Longrightarrow> length r < length s"
  "scan_elems d s = Some (vs, r) \<Longrightarrow> length r < length s"
  "scan_members d s = Some (ms, r) \<Longrightarrow> length r < length s"
proof (induction d s and d s and d s arbitrary: v r and vs r and ms r rule: scan_value_scan_elems_scan_members.induct)
  case (1 d s)
  obtain c s1 where s: "skip_space s = c # s1" using 1(3) by (cases "skip_space s") (auto simp: scan_value.simps)
  have le: "length s1 < length s" using skip_space_length [of s] s by simp
  have "length r < Suc (length s1)"
    using 1(3) 1(1) [OF s] 1(2) [OF s] skip_space_length [of s1]
    by (auto simp: scan_value.simps [of d s] s split: if_splits list.splits
        dest!: scan_string_length scan_number_length scan_word_length) (fastforce intro: less_SucI)+
  with le show ?case by simp
next
  case (2 d s)
  from 2(3) obtain v q c r1 where s: "scan_value d s = Some (v, q)" "skip_space q = c # r1"
    by (auto simp: scan_elems.simps [of d s] split: option.splits list.splits)
  from 2(1) [OF s(1)] skip_space_length [of q] s(2) have "length r1 < length s" by simp
  with 2(3) 2(2) [OF s(1) _ s(2)] show ?case
    by (fastforce simp: scan_elems.simps [of d s] s split: if_splits)
next
  case (3 d s)
  from 3(3) obtain k s1 v q c r1 where s: "scan_name s = Some (k, s1)" "scan_value d s1 = Some (v, q)" "skip_space q = c # r1"
    by (auto simp: scan_members.simps [of d s] split: option.splits list.splits)
  from scan_name_length [OF s(1)] 3(1) [OF s(1) _ s(2)] skip_space_length [of q] s(3) have "length r1 < length s" by simp
  with 3(3) 3(2) [OF s(1) _ s(2) _ s(3)] show ?case
    by (fastforce simp: scan_members.simps [of d s] s split: if_splits)
qed

section \<open>Strings\<close>

definition json_unhex :: "char \<Rightarrow> nat" where
  "json_unhex c = (let k = of_char c in if k \<le> 57 then k - 48 else if k \<le> 70 then k - 55 else k - 87)"

definition hex4 :: "char \<Rightarrow> char \<Rightarrow> char \<Rightarrow> char \<Rightarrow> nat" where
  "hex4 a b c d = ((json_unhex a * 16 + json_unhex b) * 16 + json_unhex c) * 16 + json_unhex d"

definition escaped_char :: "char \<Rightarrow> char" where
  "escaped_char e =
     (if e = CHR ''b'' then CHR 0x08 else if e = CHR ''f'' then CHR 0x0C else if e = CHR ''n'' then CHR 0x0A
      else if e = CHR ''r'' then CHR 0x0D else if e = CHR ''t'' then CHR 0x09 else e)"

text \<open>The string behind a scanned one: escapes are read, bytes that are not UTF-8 become U+FFFD.\<close>

fun unquote :: "string \<Rightarrow> string" where
  "unquote [] = []"
| "unquote (c # s) =
     (if c = CHR 0x5C then
        (case s of
           [] \<Rightarrow> []
         | e # s1 \<Rightarrow>
             if e = CHR ''u'' then
               (case s1 of
                  h1 # h2 # h3 # h4 # s2 \<Rightarrow>
                    (let r = hex4 h1 h2 h3 h4 in
                     if surrogate r then
                       (case s2 of
                          b # u # g1 # g2 # g3 # g4 # s3 \<Rightarrow>
                            (let r1 = hex4 g1 g2 g3 g4 in
                             if b = CHR 0x5C \<and> u = CHR ''u'' \<and> r < 0xDC00 \<and> 0xDC00 \<le> r1 \<and> r1 < 0xE000
                             then encode_rune (0x10000 + (r - 0xD800) * 0x400 + (r1 - 0xDC00)) @ unquote s3
                             else encode_rune 0xFFFD @ unquote s2)
                        | _ \<Rightarrow> encode_rune 0xFFFD @ unquote s2)
                     else encode_rune r @ unquote s2)
                | _ \<Rightarrow> [])
             else escaped_char e # unquote s1)
      else if (of_char c :: nat) < 128 then c # unquote s
      else (let (r, n) = decode_rune (c # s) in encode_rune r @ unquote (drop (n - 1) s)))"

section \<open>Structs\<close>

text \<open>
  Decoding a value into a variable gives its new contents and whether an error was saved; decoding goes on
  after such an error.
\<close>

type_synonym 'a decode = "jval \<Rightarrow> 'a \<Rightarrow> 'a \<times> bool"

definition decode_string :: "string decode" where
  "decode_string v old =
     (case v of VNull \<Rightarrow> (old, False) | VStr raw \<Rightarrow> (unquote raw, False) | _ \<Rightarrow> (old, True))"

text \<open>
  A slice is its backing array and its length.  Elements are decoded over those of the backing array, also
  over stale ones that an earlier, longer array left behind.
\<close>

type_synonym 'a slice = "'a list \<times> nat"

definition slice_elems :: "'a slice \<Rightarrow> 'a list" where
  "slice_elems sl = take (snd sl) (fst sl)"

fun decode_elems :: "'a decode \<Rightarrow> 'a \<Rightarrow> jval list \<Rightarrow> 'a list \<Rightarrow> 'a list \<times> bool" where
  "decode_elems d zero [] buf = (buf, False)"
| "decode_elems d zero (v # vs) buf =
     (let (x, e) = d v (case buf of [] \<Rightarrow> zero | b # _ \<Rightarrow> b);
          (rest, e') = decode_elems d zero vs (tl buf)
      in (x # rest, e \<or> e'))"

definition decode_slice :: "'a decode \<Rightarrow> 'a \<Rightarrow> 'a slice decode" where
  "decode_slice d zero v old =
     (case v of
        VNull \<Rightarrow> (([], 0), False)
      | VArr vs \<Rightarrow>
          if vs = [] then (([], 0), False)
          else (let (buf, e) = decode_elems d zero vs (fst old) in ((buf, length vs), e))
      | _ \<Rightarrow> (old, True))"

text \<open>\<open>[]string\<close>\<close>

definition decode_strings :: "string slice decode" where
  "decode_strings = decode_slice decode_string ''''"

text \<open>
  \<open>foldName\<close>: ASCII letters in upper case; of the other runes only the Kelvin sign and the long s fold to
  ASCII, and a name of a field here is ASCII.
\<close>

fun fold_name :: "string \<Rightarrow> string" where
  "fold_name [] = []"
| "fold_name (c # s) =
     (let k = of_char c :: nat in
      if c = CHR 0xE2 \<and> take 2 s = [CHR 0x84, CHR 0xAA] then CHR ''K'' # fold_name (drop 2 s)
      else if c = CHR 0xC5 \<and> take 1 s = [CHR 0xBF] then CHR ''S'' # fold_name (drop 1 s)
      else (if 97 \<le> k \<and> k \<le> 122 then char_of (k - 32) else c) # fold_name s)"

text \<open>The fields of a struct, each with how a value is decoded into it.\<close>

type_synonym 's fields = "(string \<times> 's decode) list"

definition field :: "string \<Rightarrow> ('s \<Rightarrow> 'a) \<Rightarrow> (('a \<Rightarrow> 'a) \<Rightarrow> 's \<Rightarrow> 's) \<Rightarrow> 'a decode \<Rightarrow> string \<times> 's decode" where
  "field name get update d = (name, \<lambda>v s. let (x, e) = d v (get s) in (update (\<lambda>_. x) s, e))"

definition find_field :: "'s fields \<Rightarrow> string \<Rightarrow> 's decode option" where
  "find_field fs key =
     (case map_of fs key of
        Some d \<Rightarrow> Some d
      | None \<Rightarrow> map_of (map (apfst fold_name) fs) (fold_name key))"

text \<open>With \<open>DisallowUnknownFields\<close> (\<open>strict\<close>) a member without a field is an error.\<close>

fun decode_members :: "bool \<Rightarrow> 's fields \<Rightarrow> (string \<times> jval) list \<Rightarrow> 's \<Rightarrow> 's \<times> bool" where
  "decode_members strict fs [] s = (s, False)"
| "decode_members strict fs ((raw, v) # ms) s =
     (let (s1, e) = (case find_field fs (unquote raw) of None \<Rightarrow> (s, strict) | Some d \<Rightarrow> d v s);
          (s2, e') = decode_members strict fs ms s1
      in (s2, e \<or> e'))"

definition decode_struct :: "bool \<Rightarrow> 's fields \<Rightarrow> 's decode" where
  "decode_struct strict fs v s =
     (case v of VNull \<Rightarrow> (s, False) | VObj ms \<Rightarrow> decode_members strict fs ms s | _ \<Rightarrow> (s, True))"

text \<open>A pointer: null is nil, anything else is decoded into what it points to, or into a new zero value.\<close>

definition decode_pointer :: "'a decode \<Rightarrow> 'a \<Rightarrow> 'a option decode" where
  "decode_pointer d zero v old =
     (case v of
        VNull \<Rightarrow> (None, False)
      | _ \<Rightarrow> (let (x, e) = d v (case old of None \<Rightarrow> zero | Some y \<Rightarrow> y) in (Some x, e)))"

text \<open>
  Types that decode themselves: \<open>time.Time\<close> and \<open>*big.Int\<close> of the standard library, and \<open>common.Address\<close>.
\<close>

definition decode_time :: "instant decode" where
  "decode_time v old =
     (case v of
        VNull \<Rightarrow> (old, False)
      | VStr raw \<Rightarrow> (case parse_rfc3339 raw of None \<Rightarrow> (old, True) | Some t \<Rightarrow> (t, False))
      | _ \<Rightarrow> (old, True))"

definition decode_big_int :: "int option decode" where
  "decode_big_int v old =
     (case v of
        VNull \<Rightarrow> (None, False)
      | VNum t \<Rightarrow> (case big_set_string t of None \<Rightarrow> (old, True) | Some i \<Rightarrow> (Some i, False))
      | _ \<Rightarrow> (old, True))"

definition decode_address :: "eth \<Rightarrow> address decode" where
  "decode_address eth v old =
     (case eth_unmarshal_address eth v of Inl _ \<Rightarrow> (old, True) | Inr a \<Rightarrow> (a, False))"

section \<open>Whole inputs\<close>

definition max_nesting_depth :: nat where
  "max_nesting_depth = 10000"

definition string_of :: "bytes \<Rightarrow> string" where
  "string_of bs = map (\<lambda>b. char_of (unat b)) bs"

text \<open>
  \<open>(*Decoder).Decode\<close> on what could be read of a body before its end or, when \<open>partial\<close>, before an error.  An
  array or object is complete with its last bracket; anything else only with the byte after it or the end.
\<close>

fun self_delimiting :: "jval \<Rightarrow> bool" where
  "self_delimiting (VArr vs) = True"
| "self_delimiting (VObj ms) = True"
| "self_delimiting v = False"

definition read_value :: "bytes \<Rightarrow> bool \<Rightarrow> go_error + jval" where
  "read_value body partial =
     (case scan_value max_nesting_depth (string_of body) of
        None \<Rightarrow> Inl (Err ''reading JSON value'')
      | Some (v, rest) \<Rightarrow>
          if self_delimiting v \<or> rest \<noteq> [] \<or> \<not> partial then Inr v else Inl (Err ''http: request body too large''))"

definition decode_into :: "'s decode \<Rightarrow> 's \<Rightarrow> jval \<Rightarrow> go_error + 's" where
  "decode_into d zero v = (let (s, e) = d v zero in if e then Inl (Err ''json: cannot decode'') else Inr s)"

definition json_decode :: "'s decode \<Rightarrow> 's \<Rightarrow> bytes \<times> bool \<Rightarrow> go_error + 's" where
  "json_decode d zero body =
     (case read_value (fst body) (snd body) of Inl err \<Rightarrow> Inl err | Inr v \<Rightarrow> decode_into d zero v)"

text \<open>\<open>json.Unmarshal\<close>\<close>

definition json_unmarshal :: "'s decode \<Rightarrow> 's \<Rightarrow> bytes \<Rightarrow> go_error + 's" where
  "json_unmarshal d zero data =
     (case scan_value max_nesting_depth (string_of data) of
        None \<Rightarrow> Inl (Err ''invalid JSON'')
      | Some (v, rest) \<Rightarrow> if skip_space rest \<noteq> [] then Inl (Err ''invalid JSON'') else decode_into d zero v)"

end
