(* ===== verification/JsonReading.thy ===== *)
theory JsonReading imports GoDecode EthModel begin

text \<open>
  What \<open>GoJson\<close> writes is read back by \<open>GoDecode\<close>: strings through their escapes, numbers up to what
  cannot continue them, and whole documents up to the nesting depth, whatever follows them.
\<close>

section \<open>What a written document scans to\<close>

text \<open>The value that a written document scans to.\<close>

fun scanned :: "json \<Rightarrow> jval" where
  "scanned JNull = VNull"
| "scanned (JBool b) = VBool b"
| "scanned (JInt i) = VNum (show_int i)"
| "scanned (JStr s) = VStr (escaped s)"
| "scanned (JArr js) = VArr (map scanned js)"
| "scanned (JObj fs) = VObj (map (\<lambda>(k, j). (escaped k, scanned j)) fs)"

fun json_depth :: "json \<Rightarrow> nat" where
  "json_depth (JArr js) = Suc (foldr (\<lambda>j m. max (json_depth j) m) js 0)"
| "json_depth (JObj fs) = Suc (foldr (\<lambda>(k, j) m. max (json_depth j) m) fs 0)"
| "json_depth j = 0"

definition ascii :: "string \<Rightarrow> bool" where
  "ascii s \<longleftrightarrow> list_all (\<lambda>c. (of_char c :: nat) < 128) s"

text \<open>Nothing that could continue a number.\<close>

definition ends_number :: "string \<Rightarrow> bool" where
  "ends_number rest \<longleftrightarrow> (case rest of [] \<Rightarrow> True | c # _ \<Rightarrow> \<not> is_digit c \<and> c \<notin> {CHR ''.'', CHR ''e'', CHR ''E''})"

section \<open>Strings\<close>

lemma char_code_iff: "n < 256 \<Longrightarrow> (of_char c :: nat) = n \<longleftrightarrow> c = char_of n"
  by auto

lemma char_of_codes:
  "char_of (34::nat) = CHR 0x22" "char_of (92::nat) = CHR 0x5C" "char_of (8::nat) = CHR 0x08" "char_of (12::nat) = CHR 0x0C"
  "char_of (10::nat) = CHR 0x0A" "char_of (13::nat) = CHR 0x0D" "char_of (9::nat) = CHR 0x09" "char_of (48::nat) = CHR ''0''"
  by (simp_all add: char_of_def bit_0)

lemma json_hex_digit: "n < 16 \<Longrightarrow> json_hex (hex_digit n)"
  by (auto simp: json_hex_def hex_digit_def is_digit_def Let_def)

lemma json_unhex_digit: "n < 16 \<Longrightarrow> json_unhex (hex_digit n) = n"
  by (auto simp: json_unhex_def hex_digit_def Let_def)

lemma apfst_cons: "map_option (apfst ((@) (x # xs))) r = map_option (apfst ((#) x)) (map_option (apfst ((@) xs)) r)"
  by (cases r) auto

lemma escape_control:
  assumes "k < 128"
  shows "CHR 0x5C # ''u00'' @ hex_encode [word_of_nat k] =
    [CHR 0x5C, CHR ''u'', CHR ''0'', CHR ''0'', hex_digit (k div 16), hex_digit (k mod 16)]"
    and "k div 16 < 16" "k mod 16 < 16"
  using assms by (simp_all add: unat_of_nat)

lemma scan_string_escape:
  "scan_string (json_escape c @ t) = map_option (apfst ((@) (json_escape c))) (scan_string t)"
proof -
  have hex: "scan_string ([CHR 0x5C, CHR ''u'', CHR ''0'', CHR ''0'', hex_digit (k div 16), hex_digit (k mod 16)] @ t)
      = map_option (apfst ((@) [CHR 0x5C, CHR ''u'', CHR ''0'', CHR ''0'', hex_digit (k div 16), hex_digit (k mod 16)])) (scan_string t)"
    if "k < 128" for k
    using escape_control(2,3) [OF that]
    by (cases "scan_string t") (simp_all add: json_hex_digit json_hex_def [of "CHR ''0''"] is_digit_def)
  let ?k = "of_char c :: nat"
  consider (quoted) "?k = 34 \<or> ?k = 92" | (short) "?k \<in> {8, 12, 10, 13, 9}"
    | (control) "?k \<notin> {34, 92, 8, 12, 10, 13, 9}" "?k < 32 \<or> ?k = 60 \<or> ?k = 62 \<or> ?k = 38"
    | (plain) "?k \<notin> {34, 92, 8, 12, 10, 13, 9}" "\<not> (?k < 32 \<or> ?k = 60 \<or> ?k = 62 \<or> ?k = 38)"
    by blast
  then show ?thesis
  proof cases
    case quoted
    then have "c = CHR 0x22 \<or> c = CHR 0x5C" by (auto simp: char_code_iff char_of_codes)
    then show ?thesis by (cases "scan_string t") (auto simp: json_escape_def)
  next
    case short
    then have "c \<in> {CHR 0x08, CHR 0x0C, CHR 0x0A, CHR 0x0D, CHR 0x09}" by (auto simp: char_code_iff char_of_codes)
    then show ?thesis by (cases "scan_string t") (auto simp: json_escape_def)
  next
    case control
    then have "json_escape c = CHR 0x5C # ''u00'' @ hex_encode [word_of_nat ?k]" "?k < 128"
      by (auto simp: json_escape_def Let_def)
    with hex [of ?k] escape_control(1) [of ?k] show ?thesis by simp
  next
    case plain
    then have "json_escape c = [c]" by (simp add: json_escape_def Let_def)
    moreover from plain have "c \<noteq> CHR 0x22" "c \<noteq> CHR 0x5C" by auto
    ultimately show ?thesis using plain by (cases "scan_string t") auto
  qed
qed

lemma scan_string_high:
  "list_all (\<lambda>b. 128 \<le> (of_char b :: nat)) w \<Longrightarrow> scan_string (w @ t) = map_option (apfst ((@) w)) (scan_string t)"
proof (induction w)
  case Nil
  then show ?case by (cases "scan_string t") auto
next
  case (Cons c w)
  then have "c \<noteq> CHR 0x22" "c \<noteq> CHR 0x5C" "\<not> (of_char c :: nat) < 32" by auto
  with Cons show ?case by (cases "scan_string t") auto
qed

lemma scan_string_unicode:
  "json_hex a \<Longrightarrow> json_hex b \<Longrightarrow> json_hex c \<Longrightarrow> json_hex d \<Longrightarrow>
   scan_string (CHR 0x5C # CHR ''u'' # a # b # c # d # t) = map_option (apfst ((@) [CHR 0x5C, CHR ''u'', a, b, c, d])) (scan_string t)"
  by (cases "scan_string t") simp_all

lemma scan_escaped: "scan_string (escaped s @ CHR 0x22 # rest) = Some (escaped s, rest)"
proof (induction s rule: escaped.induct)
  case (2 c s)
  show ?case
  proof (cases "(of_char c :: nat) < 128")
    case True
    with 2(1) show ?thesis by (simp add: scan_string_escape escaped.simps(2))
  next
    case False
    obtain r n where rn: "decode_rune (c # s) = (r, n)" by fastforce
    let ?w = "if r = 0xFFFD \<and> n = 1 then CHR 0x5C # ''ufffd''
      else if r = 0x2028 \<or> r = 0x2029 then CHR 0x5C # ''u202'' @ [hex_digit (r mod 16)] else take n (c # s)"
    have "json_hex (CHR ''f'')" "json_hex (CHR ''d'')" "json_hex (CHR ''2'')" "json_hex (CHR ''0'')"
      by (simp_all add: json_hex_def is_digit_def)
    then have "scan_string (?w @ t) = map_option (apfst ((@) ?w)) (scan_string t)" for t
      using scan_string_high [OF decode_rune_bytes(2) [OF rn]] False
      by (simp add: scan_string_unicode json_hex_digit del: scan_string.simps)
    with 2(2) [OF False refl rn [symmetric]] False rn show ?thesis by (simp add: escaped.simps(2) del: scan_string.simps)
  qed
qed simp

lemma unquote_escape:
  assumes "(of_char c :: nat) < 128"
  shows "unquote (json_escape c @ t) = c # unquote t"
proof -
  let ?k = "of_char c :: nat"
  consider (quoted) "?k = 34 \<or> ?k = 92" | (short) "?k \<in> {8, 12, 10, 13, 9}"
    | (control) "?k \<notin> {34, 92, 8, 12, 10, 13, 9}" "?k < 32 \<or> ?k = 60 \<or> ?k = 62 \<or> ?k = 38"
    | (plain) "?k \<notin> {34, 92, 8, 12, 10, 13, 9}" "\<not> (?k < 32 \<or> ?k = 60 \<or> ?k = 62 \<or> ?k = 38)"
    by blast
  then show ?thesis
  proof cases
    case quoted
    then have "c = CHR 0x22 \<or> c = CHR 0x5C" by (auto simp: char_code_iff char_of_codes)
    then show ?thesis by (auto simp: json_escape_def escaped_char_def)
  next
    case short
    then have "c \<in> {CHR 0x08, CHR 0x0C, CHR 0x0A, CHR 0x0D, CHR 0x09}" by (auto simp: char_code_iff char_of_codes)
    then show ?thesis by (auto simp: json_escape_def escaped_char_def)
  next
    case control
    then have "json_escape c = CHR 0x5C # ''u00'' @ hex_encode [word_of_nat ?k]"
      by (auto simp: json_escape_def Let_def)
    moreover have "hex4 (CHR ''0'') (CHR ''0'') (hex_digit (?k div 16)) (hex_digit (?k mod 16)) = ?k"
      using escape_control(2,3) [OF assms] by (simp add: hex4_def json_unhex_digit json_unhex_def [of "CHR ''0''"])
    moreover have "encode_rune ?k = [c]" using assms by (simp add: encode_rune_def)
    ultimately show ?thesis
      using assms escape_control(1) [OF assms] by (simp add: surrogate_def del: hex_encode.simps)
  next
    case plain
    then have "json_escape c = [c]" by (simp add: json_escape_def Let_def)
    moreover from plain have "c \<noteq> CHR 0x5C" by auto
    ultimately show ?thesis using assms by simp
  qed
qed

lemma unquote_escaped: "ascii s \<Longrightarrow> unquote (escaped s) = s"
  by (induction s) (simp_all add: ascii_def unquote_escape escaped.simps(2))

section \<open>Numbers\<close>

lemma scan_digits_append:
  assumes "ds \<noteq> []" "list_all is_digit ds" "ends_number rest"
  shows "scan_digits (ds @ rest) = Some (ds, rest)"
proof -
  from assms have "takeWhile is_digit (ds @ rest) = ds" "dropWhile is_digit (ds @ rest) = rest"
    by (auto simp: ends_number_def list_all_iff takeWhile_append2 dropWhile_append2 takeWhile_eq_Nil_iff dropWhile_eq_self_iff
        split: list.splits)
  with assms(1) show ?thesis by (simp add: scan_digits_def)
qed

lemma scan_ends:
  assumes "ends_number rest"
  shows "scan_fraction rest = Some ([], rest)" and "scan_exponent rest = Some ([], rest)"
  using assms by (auto simp: scan_fraction_def scan_exponent_def ends_number_def split: list.splits)

lemma show_nat_head: "0 < n \<Longrightarrow> hd (show_nat n) \<noteq> CHR ''0''"
proof (induction n rule: show_nat.induct)
  case (1 n)
  show ?case
  proof (cases "n < 10")
    case True
    have "of_char (char_of (48 + n)) = 48 + n" using True by (simp add: of_char_of take_bit_eq_mod)
    moreover have "of_char CHR ''0'' = (48::nat)" by simp
    ultimately have "char_of (48 + n) \<noteq> CHR ''0''" using 1(2) by (metis add_eq_self_zero less_numeral_extra(3))
    with True show ?thesis by (subst show_nat.simps) (simp add: digit_char_def)
  next
    case False
    with 1 have "hd (show_nat (n div 10)) \<noteq> CHR ''0''" by simp
    then show ?thesis using False by (subst show_nat.simps) simp
  qed
qed

lemma scan_show_nat: "ends_number rest \<Longrightarrow> scan_unsigned (show_nat n @ rest) = Some (show_nat n, rest)"
proof -
  assume rest: "ends_number rest"
  have "scan_integer (show_nat n @ rest) = Some (show_nat n, rest)"
  proof (cases "n = 0")
    case True
    then show ?thesis by (simp add: scan_integer_def show_nat.simps digit_char_def char_of_codes)
  next
    case False
    then obtain c cs where s: "show_nat n = c # cs" "c \<noteq> CHR ''0''"
      using show_nat_head [of n] by (cases "show_nat n") auto
    from scan_digits_append [OF _ show_nat_digits rest, of n] s show ?thesis
      by (simp add: scan_integer_def)
  qed
  with scan_ends [OF rest] show ?thesis by (simp add: scan_unsigned_def)
qed

lemma show_nat_cons: obtains c cs where "show_nat n = c # cs" "is_digit c"
  using show_nat_digits [of n] by (cases "show_nat n") auto

lemma scan_show_int: "ends_number rest \<Longrightarrow> scan_number (show_int i @ rest) = Some (show_int i, rest)"
proof (cases "i < 0")
  case False
  assume "ends_number rest"
  obtain c cs where "show_nat (nat i) = c # cs" "is_digit c" by (rule show_nat_cons)
  with scan_show_nat [OF \<open>ends_number rest\<close>, of "nat i"] digit_not_sign [of c] False show ?thesis
    by (simp add: show_int_def scan_number_def)
qed (simp add: show_int_def scan_number_def scan_show_nat)

section \<open>Documents\<close>

lemma json_text_head: "\<exists>c cs. json_text j = c # cs \<and> \<not> json_space c \<and> c \<noteq> CHR '']'' \<and> c \<noteq> CHR ''}''"
proof (cases j)
  case (JInt i)
  obtain c cs where c: "show_nat (nat i) = c # cs" "is_digit c" by (rule show_nat_cons)
  then have "\<not> json_space c" "c \<noteq> CHR '']''" "c \<noteq> CHR ''}''" by (auto simp: is_digit_def json_space_def)
  with c JInt show ?thesis by (cases "i < 0") (simp_all add: show_int_def json_space_def)
qed (simp_all add: json_quote_def json_space_def)

lemma skip_space_none [simp]: "\<not> json_space c \<Longrightarrow> skip_space (c # s) = c # s"
  by (simp add: skip_space_def)

lemma scan_name_text: "scan_name (json_quote k @ CHR '':'' # rest) = Some (escaped k, rest)"
  by (simp add: scan_name_def json_quote_def json_space_def scan_escaped)

lemma scan_elems_text:
  assumes "\<And>j rest. j \<in> set js \<Longrightarrow> ends_number rest \<Longrightarrow> scan_value d (json_text j @ rest) = Some (scanned j, rest)"
    and "js \<noteq> []"
  shows "scan_elems d (join_with '','' (map json_text js) @ CHR '']'' # rest) = Some (map scanned js, rest)"
  using assms
proof (induction js)
  case (Cons j js)
  show ?case
  proof (cases js)
    case Nil
    have "scan_value d (json_text j @ CHR '']'' # rest) = Some (scanned j, CHR '']'' # rest)"
      using Cons(2) by (simp add: ends_number_def is_digit_def)
    then show ?thesis by (simp add: Nil scan_elems.simps json_space_def)
  next
    case (Cons j' js')
    let ?t = "join_with '','' (map json_text js) @ CHR '']'' # rest"
    have "scan_value d (json_text j @ CHR '','' # ?t) = Some (scanned j, CHR '','' # ?t)"
      by (rule Cons.prems) (simp_all add: ends_number_def is_digit_def)
    moreover have "scan_elems d ?t = Some (map scanned js, rest)"
      using Cons.IH Cons.prems(1) Cons by simp
    ultimately show ?thesis
      by (simp add: Cons scan_elems.simps [of d "json_text j @ _"] json_space_def)
  qed
qed simp

lemma scan_members_text:
  assumes "\<And>k j rest. (k, j) \<in> set fs \<Longrightarrow> ends_number rest \<Longrightarrow> scan_value d (json_text j @ rest) = Some (scanned j, rest)"
    and "fs \<noteq> []"
  shows "scan_members d (join_with '','' (map (\<lambda>(k, j). json_quote k @ '':'' @ json_text j) fs) @ CHR ''}'' # rest) =
    Some (map (\<lambda>(k, j). (escaped k, scanned j)) fs, rest)"
  using assms
proof (induction fs)
  case (Cons f fs)
  obtain k j where f: "f = (k, j)" by fastforce
  show ?case
  proof (cases fs)
    case Nil
    have "scan_value d (json_text j @ CHR ''}'' # rest) = Some (scanned j, CHR ''}'' # rest)"
      using Cons(2) [of k j "CHR ''}'' # rest"] by (simp add: ends_number_def is_digit_def f)
    then show ?thesis by (simp add: Nil f scan_members.simps json_space_def scan_name_text)
  next
    case (Cons f' fs')
    let ?t = "join_with '','' (map (\<lambda>(k, j). json_quote k @ '':'' @ json_text j) fs) @ CHR ''}'' # rest"
    have "scan_value d (json_text j @ CHR '','' # ?t) = Some (scanned j, CHR '','' # ?t)"
      by (rule Cons.prems(1) [of k]) (simp_all add: ends_number_def is_digit_def f)
    moreover have "scan_members d ?t = Some (map (\<lambda>(k, j). (escaped k, scanned j)) fs, rest)"
      by (rule Cons.IH) (use Cons.prems(1) Cons in auto)
    ultimately show ?thesis
      by (simp add: Cons f scan_members.simps [of d "json_quote k @ _"] json_space_def scan_name_text)
  qed
qed simp

lemma foldr_max_le: "foldr (\<lambda>x m. max (f x) m) xs 0 \<le> (d :: nat) \<longleftrightarrow> (\<forall>x \<in> set xs. f x \<le> d)"
  by (induction xs) auto

lemma foldr_max_snd_le: "foldr (\<lambda>(k, j) m. max (f j) m) xs 0 \<le> (d :: nat) \<longleftrightarrow> (\<forall>(k, j) \<in> set xs. f j \<le> d)"
  by (induction xs) auto

lemma scan_json_text:
  "json_depth j \<le> d \<Longrightarrow> ends_number rest \<Longrightarrow> scan_value d (json_text j @ rest) = Some (scanned j, rest)"
proof (induction j arbitrary: d rest rule: json_text.induct)
  case (3 i)
  obtain c cs where c: "show_nat (nat i) = c # cs" "is_digit c" by (rule show_nat_cons)
  obtain c' cs' where c': "show_int i = c' # cs'" "c' = CHR ''-'' \<or> is_digit c'"
    using c by (cases "i < 0") (auto simp: show_int_def)
  then have ne: "\<not> json_space c'" "c' \<notin> {CHR ''{'', CHR ''['', CHR 0x22, CHR ''t'', CHR ''f'', CHR ''n''}"
    by (auto simp: is_digit_def json_space_def)
  from scan_show_int [OF 3(2), of i] c' ne show ?case by (simp add: scan_value.simps)
next
  case (4 s)
  then show ?case by (simp add: scan_value.simps json_quote_def json_space_def scan_escaped)
next
  case (5 js)
  then obtain e where e: "d = Suc e" by (cases d) auto
  show ?case
  proof (cases js)
    case Nil
    then show ?thesis by (simp add: e scan_value.simps json_space_def)
  next
    case (Cons j js')
    have "scan_elems e (join_with '','' (map json_text js) @ CHR '']'' # rest) = Some (map scanned js, rest)"
      using 5 Cons by (intro scan_elems_text) (auto simp: e foldr_max_le)
    moreover obtain c cs where "json_text j = c # cs" "\<not> json_space c" "c \<noteq> CHR '']''" using json_text_head by blast
    ultimately show ?thesis using Cons by (cases js') (simp_all add: e scan_value.simps json_space_def)
  qed
next
  case (6 fs)
  then obtain e where e: "d = Suc e" by (cases d) auto
  have ih: "scan_value e (json_text j @ r) = Some (scanned j, r)" if "(k, j) \<in> set fs" "ends_number r" for k j r
    using 6(1) [OF that(1) refl _ that(2)] 6(2) that(1) by (auto simp: e foldr_max_snd_le)
  show ?case
  proof (cases fs)
    case Nil
    then show ?thesis by (simp add: e scan_value.simps json_space_def)
  next
    case (Cons f fs')
    have "scan_members e (join_with '','' (map (\<lambda>(k, j). json_quote k @ '':'' @ json_text j) fs) @ CHR ''}'' # rest) =
      Some (map (\<lambda>(k, j). (escaped k, scanned j)) fs, rest)"
      using ih Cons by (intro scan_members_text) auto
    then show ?thesis using Cons
      by (cases fs'; cases f) (simp_all add: e scan_value.simps [of _ "CHR ''{'' # _"] json_space_def json_quote_def)
  qed
qed (auto simp: scan_value.simps scan_word_def json_space_def)

section \<open>What follows a value\<close>

lemma scan_string_append: "scan_string s = Some (raw, r) \<Longrightarrow> scan_string (s @ x) = Some (raw, r @ x)"
proof (induction s arbitrary: raw rule: scan_string.induct)
  case (2 c s)
  note ih = "2.IH" and run = "2.prems"
  consider (quote) "c = CHR 0x22" | (plain) "c \<noteq> CHR 0x22" "c \<noteq> CHR 0x5C"
    | (unicode) h1 h2 h3 h4 s2 where "c = CHR 0x5C" "s = CHR ''u'' # h1 # h2 # h3 # h4 # s2"
    | (short) e s1 where "c = CHR 0x5C" "s = e # s1" "e \<noteq> CHR ''u''"
    using run by (cases "c = CHR 0x22"; cases "c = CHR 0x5C") (simp_all split: list.splits if_splits)
  then show ?case
  proof cases
    case unicode
    with run obtain raw' where r: "scan_string s2 = Some (raw', r)" by (auto split: if_splits)
    from ih(1) [OF _ _ unicode(2) refl refl refl refl refl _ r] run r unicode show ?thesis
      by (simp split: if_splits)
  next
    case short
    with run obtain raw' where r: "scan_string s1 = Some (raw', r)" by (auto split: if_splits)
    from ih(2) [OF _ _ short(2) short(3) _ r] run r short show ?thesis
      by (auto split: if_splits)
  next
    case plain
    with run obtain raw' where r: "scan_string s = Some (raw', r)" by (auto split: if_splits)
    from ih(3) [OF plain _ r] run r plain show ?thesis
      by (simp split: if_splits)
  qed (use run in simp)
qed simp

lemma skip_space_append: "skip_space s = c # r \<Longrightarrow> skip_space (s @ x) = c # r @ x"
  unfolding skip_space_def by (induction s) (auto split: if_splits)

lemma scan_digits_more: "scan_digits s = Some (ds, r) \<Longrightarrow> r \<noteq> [] \<Longrightarrow> scan_digits (s @ x) = Some (ds, r @ x)"
  by (induction s arbitrary: ds) (auto simp: scan_digits_def Let_def split: if_splits)

lemma scan_unsigned_append:
  assumes "scan_unsigned s = Some (ds, r)" "r \<noteq> []"
  shows "scan_unsigned (s @ x) = Some (ds, r @ x)"
proof -
  from assms obtain i s1 f s2 e where s: "scan_integer s = Some (i, s1)" "scan_fraction s1 = Some (f, s2)" "scan_exponent s2 = Some (e, r)"
    and ds: "ds = i @ f @ e"
    by (auto simp: scan_unsigned_def split: option.splits)
  have e: "scan_exponent (s2 @ x) = Some (e, r @ x)"
    using s(3) assms(2) by (auto simp: scan_exponent_def scan_digits_more scan_digits_more [of "_ # _", simplified] split: list.splits if_splits)
  have "s2 \<noteq> []" using s(3) assms(2) by (auto simp: scan_exponent_def)
  with s(2) have f: "scan_fraction (s1 @ x) = Some (f, s2 @ x)"
    by (auto simp: scan_fraction_def scan_digits_more split: list.splits if_splits)
  have "s1 \<noteq> []" using s(2) \<open>s2 \<noteq> []\<close> by (auto simp: scan_fraction_def)
  with s(1) have "scan_integer (s @ x) = Some (i, s1 @ x)"
    by (auto simp: scan_integer_def scan_digits_more [of "_ # _", simplified] split: list.splits if_splits)
  with e f ds show ?thesis by (simp add: scan_unsigned_def)
qed

lemma scan_number_append: "scan_number s = Some (ds, r) \<Longrightarrow> r \<noteq> [] \<Longrightarrow> scan_number (s @ x) = Some (ds, r @ x)"
  by (auto simp: scan_number_def scan_unsigned_append scan_unsigned_append [of "_ # _", simplified] split: list.splits if_splits)

lemma scan_word_append: "scan_word w v s = Some (v', r) \<Longrightarrow> scan_word w v (s @ x) = Some (v', r @ x)"
proof -
  assume "scan_word w v s = Some (v', r)"
  then have "s = w @ r" "v' = v" by (auto simp: scan_word_def split: if_splits) (metis append_take_drop_id)
  then show ?thesis by (simp add: scan_word_def)
qed

lemma scan_name_append: "scan_name s = Some (k, r) \<Longrightarrow> scan_name (s @ x) = Some (k, r @ x)"
  by (auto simp: scan_name_def skip_space_append scan_string_append split: list.splits if_splits option.splits)

lemma scan_append:
  "scan_value d s = Some (v, r) \<Longrightarrow> r \<noteq> [] \<or> self_delimiting v \<Longrightarrow> scan_value d (s @ x) = Some (v, r @ x)"
  "scan_elems d s = Some (vs, r) \<Longrightarrow> scan_elems d (s @ x) = Some (vs, r @ x)"
  "scan_members d s = Some (ms, r) \<Longrightarrow> scan_members d (s @ x) = Some (ms, r @ x)"
proof (induction d s and d s and d s arbitrary: v r and vs r and ms r rule: scan_value_scan_elems_scan_members.induct)
  case (1 d s)
  obtain c s1 where s: "skip_space s = c # s1" using 1(3) by (cases "skip_space s") (auto simp: scan_value.simps)
  show ?case
    using 1(3,4) 1(1) [OF s] 1(2) [OF s]
    by (auto simp: scan_value.simps [of d s] scan_value.simps [of d "s @ x"] s skip_space_append skip_space_append [OF s]
        scan_string_append scan_number_append [of "_ # _", simplified] scan_word_append [of _ _ "_ # _", simplified]
        split: if_splits list.splits)
next
  case (2 d s)
  from 2(3) obtain v q c r1 where s: "scan_value d s = Some (v, q)" "skip_space q = c # r1"
    by (auto simp: scan_elems.simps [of d s] split: option.splits list.splits)
  then have q: "q \<noteq> []" by (auto simp: skip_space_def)
  from 2(3) 2(1) [OF s(1)] 2(2) [OF s(1) _ s(2)] q show ?case
    by (auto simp: scan_elems.simps [of d s] scan_elems.simps [of d "s @ x"] s skip_space_append [OF s(2)] split: if_splits)
next
  case (3 d s)
  from 3(3) obtain k s1 v q c r1 where s: "scan_name s = Some (k, s1)" "scan_value d s1 = Some (v, q)" "skip_space q = c # r1"
    by (auto simp: scan_members.simps [of d s] split: option.splits list.splits)
  then have q: "q \<noteq> []" by (auto simp: skip_space_def)
  from 3(3) 3(1) [OF s(1) _ s(2)] 3(2) [OF s(1) _ s(2) _ s(3)] q show ?case
    by (auto simp: scan_members.simps [of d s] scan_members.simps [of d "s @ x"] s scan_name_append [OF s(1)]
        skip_space_append [OF s(3)] split: if_splits)
qed

section \<open>Bodies\<close>

lemma scan_cut:
  assumes "json_text (JObj fs) = p @ x" "x \<noteq> []" "json_depth (JObj fs) \<le> d"
  shows "scan_value d p = None"
proof (rule ccontr)
  assume "scan_value d p \<noteq> None"
  then obtain v r where run: "scan_value d p = Some (v, r)" by auto
  then have "p \<noteq> []" by (auto simp: scan_value.simps skip_space_def)
  with assms(1) obtain p' where "p = CHR ''{'' # p'" by (cases p) auto
  with run have "self_delimiting v"
    by (auto simp: scan_value.simps json_space_def split: if_splits list.splits)
  with scan_append(1) [OF run, of x] assms(1) have "scan_value d (json_text (JObj fs)) = Some (v, r @ x)" by simp
  moreover have "scan_value d (json_text (JObj fs)) = Some (scanned (JObj fs), [])"
    using scan_json_text [OF assms(3), of "[]"] by (simp add: ends_number_def)
  ultimately show False using assms(2) by simp
qed

lemma unat_of_char [simp]: "unat (of_char c :: 8 word) = of_char c"
proof -
  have "(of_char c :: 8 word) = word_of_nat (of_char c)" by (cases c) (simp add: of_char_def)
  moreover have "(of_char c :: nat) < 2 ^ 8" by simp
  ultimately show ?thesis by (simp add: unat_of_nat)
qed

lemma string_of_bytes [simp]: "string_of (bytes_of s) = s" and length_bytes_of [simp]: "length (bytes_of s) = length s"
  by (simp_all add: string_of_def bytes_of_def comp_def)

lemma take_string_of: "string_of (take n bs) = take n (string_of bs)"
  by (simp add: string_of_def take_map)

lemma string_of_append: "string_of (a @ b) = string_of a @ string_of b"
  by (simp add: string_of_def)

text \<open>
  An object is read from a limited body exactly when its text ends within the limit; what follows it does not
  matter.
\<close>

lemma read_object:
  assumes "json_depth (JObj fs) \<le> max_nesting_depth"
  shows "read_value (take limit (bytes_of (json_text (JObj fs)) @ rest)) partial =
    (if length (json_text (JObj fs)) \<le> limit then Inr (scanned (JObj fs)) else Inl (Err ''reading JSON value''))"
proof (cases "length (json_text (JObj fs)) \<le> limit")
  case True
  let ?r = "take (limit - length (json_text (JObj fs))) (string_of rest)"
  have "scan_value max_nesting_depth (json_text (JObj fs)) = Some (scanned (JObj fs), [])"
    using scan_json_text [OF assms, of "[]"] by (simp add: ends_number_def)
  from scan_append(1) [OF this, of ?r] True show ?thesis
    by (simp add: read_value_def take_string_of string_of_append del: json_text.simps)
next
  case False
  then have "take limit (json_text (JObj fs) @ string_of rest) = take limit (json_text (JObj fs))" by (simp del: json_text.simps)
  moreover have "scan_value max_nesting_depth (take limit (json_text (JObj fs))) = None"
    using False by (intro scan_cut [OF _ _ assms, of _ "drop limit (json_text (JObj fs))"]) auto
  ultimately show ?thesis using False by (simp add: read_value_def take_string_of string_of_append del: json_text.simps)
qed

section \<open>Decoding what was scanned\<close>

lemma decode_string_scanned: "ascii s \<Longrightarrow> decode_string (VStr (escaped s)) old = (s, False)"
  by (simp add: decode_string_def unquote_escaped)

lemma decode_elems_scanned:
  assumes "\<And>x b. x \<in> set xs \<Longrightarrow> d (f x) zero = (g x, False)"
  shows "decode_elems d zero (map f xs) [] = (map g xs, False)"
  using assms by (induction xs) auto

lemma decode_slice_scanned:
  assumes "\<And>x. x \<in> set xs \<Longrightarrow> d (f x) zero = (g x, False)"
  shows "decode_slice d zero (VArr (map f xs)) ([], 0) = ((map g xs, length xs), False)"
  using decode_elems_scanned [of xs d f zero g, OF assms] by (simp add: decode_slice_def)

lemma slice_elems_all [simp]: "slice_elems (xs, length xs) = xs" "slice_elems (map g ys, length ys) = map g ys"
  by (simp_all add: slice_elems_def)

lemma decode_members_scanned:
  "ascii k \<Longrightarrow> find_field fs k = Some d \<Longrightarrow>
    decode_members strict fs ((escaped k, v) # ms) s =
      (let (s1, e) = d v s; (s2, e') = decode_members strict fs ms s1 in (s2, e \<or> e'))"
  by (simp add: unquote_escaped)

section \<open>Lengths, depths and members\<close>

lemma length_json_quote: "length (json_quote s) \<le> 6 * length s + 2"
proof -
  have one: "length (json_escape c) \<le> 6" for c by (simp add: json_escape_def Let_def)
  have "length (escaped s) \<le> 6 * length s"
  proof (induction s rule: escaped.induct)
    case (2 c s)
    show ?case
    proof (cases "(of_char c :: nat) < 128")
      case True
      with 2(1) one [of c] show ?thesis by (simp add: trans_le_add1 add_mono escaped.simps(2))
    next
      case False
      obtain r n where rn: "decode_rune (c # s) = (r, n)" by fastforce
      have "1 \<le> n" using decode_rune_bytes(1) [OF rn] False by simp
      moreover have "length (escaped (drop (n - 1) s)) \<le> 6 * (length s - (n - 1))"
        using 2(2) [OF False refl rn [symmetric]] by simp
      ultimately show ?thesis using False rn by (auto simp: min_def escaped.simps(2))
    qed
  qed simp
  then show ?thesis by (simp add: json_quote_def)
qed

lemma ascii_append [simp]: "ascii (s @ t) \<longleftrightarrow> ascii s \<and> ascii t" "ascii (c # s) \<longleftrightarrow> (of_char c :: nat) < 128 \<and> ascii s" "ascii []"
  by (simp_all add: ascii_def)

lemma ascii_hex [simp]: "ascii (hex_encode bs)"
proof -
  have "(of_char (hex_digit n) :: nat) < 128" if "n < 16" for n
    using that by (simp add: hex_digit_def Let_def)
  moreover have "unat b div 16 < 16" "unat b mod 16 < 16" for b :: "8 word"
    using unat_byte_bound [of b] by (simp_all add: less_mult_imp_div_less)
  ultimately show ?thesis by (induction bs) simp_all
qed

lemma json_depth_filter: "json_depth (JObj fs) \<le> d \<Longrightarrow> json_depth (JObj (filter P fs)) \<le> d"
  by (cases d) (auto simp: foldr_max_snd_le)

lemma scanned_object:
  "scanned (JObj (filter (\<lambda>(n, v). P n) fs)) = VObj (filter (\<lambda>(raw, v). P (unquote raw)) (map (\<lambda>(n, v). (escaped n, scanned v)) fs))"
  if "\<forall>(n, v) \<in> set fs. ascii n"
  using that by (induction fs) (auto simp: unquote_escaped)

section \<open>Whole documents\<close>

definition json_body :: "json \<Rightarrow> bytes" where
  "json_body j = bytes_of (json_text j)"

lemmas decode_scanned = decode_struct_def find_field_def field_def decode_string_scanned unquote_escaped [unfolded ascii_def]

lemma decode_strings_scanned:
  "list_all ascii ss \<Longrightarrow> decode_strings (scanned (json_strings ss)) ([], 0) = ((ss, length ss), False)"
  using decode_slice_scanned [of ss decode_string "\<lambda>s. VStr (escaped s)" "''''" "\<lambda>s. s"]
  by (simp add: decode_strings_def json_strings_def decode_string_scanned list_all_iff comp_def)

lemma json_depth_strings [simp]: "json_depth (json_strings ss) = 1"
  by (induction ss) (simp_all add: json_strings_def)

lemma json_unmarshal_text:
  "json_depth j \<le> max_nesting_depth \<Longrightarrow> json_unmarshal d zero (json_body j) = decode_into d zero (scanned j)"
  using scan_json_text [of j max_nesting_depth "[]"]
  by (simp add: json_unmarshal_def json_body_def ends_number_def skip_space_def)

section \<open>Text without escapes\<close>

definition plain_char :: "char \<Rightarrow> bool" where
  "plain_char c \<longleftrightarrow> (of_char c :: nat) < 128 \<and> json_escape c = [c]"

lemma escaped_plain: "list_all plain_char s \<Longrightarrow> escaped s = s"
  by (induction s) (simp_all add: plain_char_def escaped.simps(2))

lemma json_escape_digit: "is_digit c \<Longrightarrow> plain_char c"
  by (auto simp: plain_char_def json_escape_def is_digit_def Let_def)

lemma pad_int_plain: "0 \<le> i \<Longrightarrow> list_all plain_char (pad_int w i)"
proof -
  have "list_all is_digit (replicate k (CHR ''0''))" for k by (induction k) (simp_all add: is_digit_def)
  then have "list_all is_digit (pad_nat w n)" for n by (simp add: pad_nat_def)
  then show "0 \<le> i \<Longrightarrow> ?thesis" by (auto simp: pad_int_def list_all_iff json_escape_digit)
qed

lemma escaped_rfc3339: "four_digit_year t \<Longrightarrow> escaped (rfc3339 t) = rfc3339 t"
proof -
  assume t: "four_digit_year t"
  obtain y m d where c: "civil_date (t div second div 86400) = (y, m, d)" "0 \<le> y" "0 \<le> m" "0 \<le> d"
    by (rule rfc3339_fields [OF t])
  have "plain_char c" if "c \<in> {CHR ''-'', CHR ''T'', CHR '':'', CHR ''Z''}" for c
    using that by (auto simp: plain_char_def json_escape_def)
  then show ?thesis
    by (intro escaped_plain) (simp add: rfc3339_def Let_def c pad_int_plain clock_range)
qed

definition whole_second :: "instant \<Rightarrow> bool" where
  "whole_second t \<longleftrightarrow> four_digit_year t \<and> t mod second = 0"

lemma decode_time_scanned: "whole_second t \<Longrightarrow> decode_time (VStr (escaped (rfc3339 t))) old = (t, False)"
proof -
  assume "whole_second t"
  then have t: "four_digit_year t" "t mod second = 0" by (simp_all add: whole_second_def)
  then have "t div second * second = t" by (metis add.right_neutral div_mult_mod_eq)
  with t parse_rfc3339_print [of t] show ?thesis by (simp add: decode_time_def escaped_rfc3339)
qed

lemma escaped_hex: "escaped (hex_encode bs) = hex_encode bs"
proof (rule escaped_plain)
  have "plain_char (hex_digit n)" if "n < 16" for n
    using that by (auto simp: plain_char_def json_escape_def hex_digit_def Let_def)
  moreover have "unat b div 16 < 16" "unat b mod 16 < 16" for b :: "8 word"
    using unat_byte_bound [of b] by (simp_all add: less_mult_imp_div_less)
  ultimately show "list_all plain_char (hex_encode bs)" by (induction bs) simp_all
qed

lemma model_address_unmarshalled [simp]:
  "eth_unmarshal_address eth_model (VStr (escaped (eth_marshal_address eth_model a))) = Inr a"
proof -
  have "escaped (''0x'' @ hex_encode (model_address_bytes a)) = ''0x'' @ hex_encode (model_address_bytes a)"
    using escaped_hex [of "model_address_bytes a"] by (simp add: json_escape_def Let_def escaped.simps(2))
  then show ?thesis
    by (simp add: eth_model_def model_unmarshal_address_def model_hexutil_decode_def hex_encode_digits length_model_address_bytes)
qed

end
