(* ===== verification/Identity.thy ===== *)
theory Identity imports Ipfs EthModel JsonReading begin

text \<open>
  The developer license lookup (internal/exchange/services/identity\_service.go), from the JSON it posts to
  the JSON it reads.  The HTTP client is a parameter; logging is left out.
\<close>

record error_detail =
  ed_message :: string
  ed_path :: "string list"
  ed_code :: string

record developer_license =
  dl_owner :: address

record identity_data =
  ia_developer_license :: "developer_license option"

record identity_response =
  ir_data :: "identity_data option"
  ir_errors :: "error_detail list"

definition identity_not_found :: string where
  "identity_not_found = ''NOT_FOUND''"

definition dev_license_query :: string where
  "dev_license_query = ''query ($clientId: Address!) '' @ nl @ tab @ ''{'' @ nl
     @ tab @ tab @ ''developerLicense( by: { clientId: $clientId }) '' @ nl
     @ tab @ tab @ tab @ ''{'' @ nl @ ''  '' @ tab @ tab @ tab @ tab @ ''owner'' @ nl
     @ tab @ tab @ tab @ ''}'' @ nl @ tab @ ''}''"

text \<open>The body that is posted: a map, whose keys \<open>json.Marshal\<close> sorts.\<close>

definition license_request :: "eth \<Rightarrow> address \<Rightarrow> json" where
  "license_request eth eth_addr =
     JObj [(''query'', JStr dev_license_query), (''variables'', JObj [(''clientId'', JStr (eth_address_hex eth eth_addr))])]"

record license_net =
  ln_new_request :: "bytes \<Rightarrow> go_error option"
  ln_do :: "bytes \<Rightarrow> go_error + http_reply"

section \<open>Reading the reply\<close>

record error_wire =
  er_message :: string
  er_path :: "string slice"
  er_code :: string

record identity_wire =
  iw_data :: "identity_data option"
  iw_errors :: "error_wire slice"

definition license_fields :: "eth \<Rightarrow> developer_license fields" where
  "license_fields eth = [field ''owner'' dl_owner dl_owner_update (decode_address eth)]"

definition data_fields :: "eth \<Rightarrow> identity_data fields" where
  "data_fields eth =
     [field ''developerLicense'' ia_developer_license ia_developer_license_update
        (decode_pointer (decode_struct False (license_fields eth)) \<lparr>dl_owner = 0\<rparr>)]"

definition extensions_fields :: "string fields" where
  "extensions_fields = [field ''code'' (\<lambda>c. c) (\<lambda>f. f) decode_string]"

definition error_fields :: "error_wire fields" where
  "error_fields =
     [field ''message'' er_message er_message_update decode_string,
      field ''path'' er_path er_path_update decode_strings,
      field ''extensions'' er_code er_code_update (decode_struct False extensions_fields)]"

definition empty_error :: error_wire where
  "empty_error = \<lparr>er_message = '''', er_path = ([], 0), er_code = ''''\<rparr>"

definition response_fields :: "eth \<Rightarrow> identity_wire fields" where
  "response_fields eth =
     [field ''data'' iw_data iw_data_update
        (decode_pointer (decode_struct False (data_fields eth)) \<lparr>ia_developer_license = None\<rparr>),
      field ''errors'' iw_errors iw_errors_update (decode_slice (decode_struct False error_fields) empty_error)]"

definition error_of :: "error_wire \<Rightarrow> error_detail" where
  "error_of w = \<lparr>ed_message = er_message w, ed_path = slice_elems (er_path w), ed_code = er_code w\<rparr>"

definition read_identity :: "eth \<Rightarrow> bytes \<Rightarrow> go_error + identity_response" where
  "read_identity eth body =
     (case json_unmarshal (decode_struct False (response_fields eth)) \<lparr>iw_data = None, iw_errors = ([], 0)\<rparr> body of
        Inl err \<Rightarrow> Inl err
      | Inr w \<Rightarrow> Inr \<lparr>ir_data = iw_data w, ir_errors = map error_of (slice_elems (iw_errors w))\<rparr>)"

section \<open>The lookup\<close>

definition execute_query :: "eth \<Rightarrow> license_net \<Rightarrow> json \<Rightarrow> go_error + identity_response" where
  "execute_query eth net request_body =
     (case ln_new_request net (json_body request_body) of
        Some err \<Rightarrow> Inl (Wrap ''error creating request'' err)
      | None \<Rightarrow>
          (case ln_do net (json_body request_body) of
             Inl err \<Rightarrow> Inl (Wrap ''graphql request failed making request'' err)
           | Inr resp \<Rightarrow>
               if hr_status resp \<noteq> 200
               then Inl (Err (''invalid response from identity api '' @ show_int (hr_status resp)))
               else case hr_body resp of
                      Inl err \<Rightarrow> Inl (Wrap ''error reading response body'' err)
                    | Inr body \<Rightarrow>
                        (case read_identity eth body of
                           Inl err \<Rightarrow> Inl (Err ''failed to unmarshal GraphQL response'')
                         | Inr resp_body \<Rightarrow> Inr resp_body)))"

fun other_errors :: "error_detail list \<Rightarrow> string list" where
  "other_errors [] = []"
| "other_errors (e # es) =
     (if ed_code e = identity_not_found then other_errors es else ed_message e # other_errors es)"

definition is_dev_license :: "eth \<Rightarrow> license_net \<Rightarrow> address \<Rightarrow> go_error + bool" where
  "is_dev_license eth net eth_addr =
     (case execute_query eth net (license_request eth eth_addr) of
        Inl err \<Rightarrow> Inl err
      | Inr response \<Rightarrow>
          if length (ir_errors response) \<ge> 1
          then (let errs = other_errors (ir_errors response) in
                if length errs > 0 then Inl (Err (join_with '';'' errs)) else Inr False)
          else Inr True)"

lemma other_errors_Nil: "other_errors es = [] \<longleftrightarrow> list_all (\<lambda>e. ed_code e = ''NOT_FOUND'') es"
  by (induction es) (auto simp: identity_not_found_def)

lemma execute_query_Inr:
  "execute_query eth net q = Inr rb \<longleftrightarrow> ln_new_request net (json_body q) = None \<and>
     (\<exists>resp body. ln_do net (json_body q) = Inr resp \<and> hr_status resp = 200 \<and> hr_body resp = Inr body \<and>
        read_identity eth body = Inr rb)"
  by (auto simp: execute_query_def split: option.splits sum.splits)

text \<open>
  The license itself is not looked at: an answer without one, but without errors either, counts as a
  license.
\<close>

lemma license_not_looked_at:
  "execute_query eth net (license_request eth a) = Inr \<lparr>ir_data = None, ir_errors = []\<rparr> \<Longrightarrow> is_dev_license eth net a = Inr True"
  by (simp add: is_dev_license_def)

section \<open>Replies as the Identity API writes them\<close>

definition license_json :: "eth \<Rightarrow> address \<Rightarrow> json" where
  "license_json eth owner =
     JObj [(''data'', JObj [(''developerLicense'', JObj [(''owner'', JStr (eth_marshal_address eth owner))])])]"

definition error_json :: "error_detail \<Rightarrow> json" where
  "error_json e =
     JObj [(''message'', JStr (ed_message e)), (''path'', json_strings (ed_path e)),
       (''extensions'', JObj [(''code'', JStr (ed_code e))])]"

definition errors_json :: "error_detail list \<Rightarrow> json" where
  "errors_json es = JObj [(''errors'', JArr (map error_json es)), (''data'', JNull)]"

definition ascii_error :: "error_detail \<Rightarrow> bool" where
  "ascii_error e \<longleftrightarrow> ascii (ed_message e) \<and> list_all ascii (ed_path e) \<and> ascii (ed_code e)"

lemma read_license_text:
  assumes "eth_unmarshal_address eth (VStr (escaped (eth_marshal_address eth a))) = Inr a"
  shows "read_identity eth (json_body (license_json eth a)) =
    Inr \<lparr>ir_data = Some \<lparr>ia_developer_license = Some \<lparr>dl_owner = a\<rparr>\<rparr>, ir_errors = []\<rparr>"
  unfolding read_identity_def
  by (subst json_unmarshal_text)
    (simp_all add: license_json_def max_nesting_depth_def decode_into_def response_fields_def data_fields_def
      license_fields_def decode_scanned decode_pointer_def decode_address_def slice_elems_def assms)

definition wire_error :: "error_detail \<Rightarrow> error_wire" where
  "wire_error e = \<lparr>er_message = ed_message e, er_path = (ed_path e, length (ed_path e)), er_code = ed_code e\<rparr>"

lemma error_of_wire [simp]: "error_of (wire_error e) = e"
  by (simp add: error_of_def wire_error_def)

lemma read_errors_text:
  assumes "list_all ascii_error es"
  shows "read_identity eth (json_body (errors_json es)) = Inr \<lparr>ir_data = None, ir_errors = es\<rparr>"
proof -
  have "decode_struct False error_fields (scanned (error_json e)) empty_error = (wire_error e, False)" if "e \<in> set es" for e
    using that assms
    by (auto simp: list_all_iff ascii_error_def error_json_def error_fields_def extensions_fields_def empty_error_def wire_error_def
        decode_scanned decode_strings_scanned)
  note elems = decode_slice_scanned [of es "decode_struct False error_fields" "\<lambda>e. scanned (error_json e)" empty_error wire_error, OF this]
  have "json_depth (error_json e) \<le> 2" for e by (simp add: error_json_def)
  then have depth: "json_depth (errors_json es) \<le> max_nesting_depth"
    by (simp add: errors_json_def max_nesting_depth_def foldr_max_le le_trans [of _ 2])
  show ?thesis
    unfolding read_identity_def json_unmarshal_text [OF depth]
    by (simp add: errors_json_def decode_into_def response_fields_def decode_struct_def [of _ "_ # _"] find_field_def field_def
      unquote_escaped [unfolded ascii_def] decode_pointer_def elems comp_def)
qed

section \<open>Properties\<close>

text \<open>
  An address counts as a developer license exactly when the Identity API answered 200 without any
  error, and as none exactly when it answered 200 and every error, of which there is one at least, is
  \<open>NOT\_FOUND\<close>; anything else is an error, never a yes or no.
\<close>

theorem dev_license_exact:
  "is_dev_license eth net a = Inr b \<longleftrightarrow> ln_new_request net (json_body (license_request eth a)) = None \<and>
     (\<exists>resp body rb. ln_do net (json_body (license_request eth a)) = Inr resp \<and> hr_status resp = 200 \<and>
        hr_body resp = Inr body \<and> read_identity eth body = Inr rb \<and>
        b = (ir_errors rb = []) \<and> list_all (\<lambda>e. ed_code e = ''NOT_FOUND'') (ir_errors rb))"
proof -
  have "is_dev_license eth net a = Inr b \<longleftrightarrow> (\<exists>rb. execute_query eth net (license_request eth a) = Inr rb \<and>
      b = (ir_errors rb = []) \<and> list_all (\<lambda>e. ed_code e = ''NOT_FOUND'') (ir_errors rb))"
    by (auto simp: is_dev_license_def Let_def other_errors_Nil Suc_le_eq split: sum.splits if_splits)
  then show ?thesis by (auto simp: execute_query_Inr)
qed

end
