(* ===== verification/ExchangeMiddleware.thy ===== *)
theory ExchangeMiddleware imports GoJson GoStrings Identity Keyset begin

text \<open>
  The middleware of the exchange (internal/exchange/middleware/auth.go, valid\_dev\_license.go,
  internal/exchange/api/handlers.go) and the shared wrappers (internal/httpmw/middleware.go).  A
  handler maps a request and the server's state to a response and the state; None is a panic.  The JWT
  parser is a parameter.
\<close>

section \<open>Handlers\<close>

datatype body = JsonBody json | TextBody string

record http_response =
  hp_status :: int
  hp_body :: body

text \<open>\<open>http.Error\<close>\<close>

definition http_error :: "string \<Rightarrow> int \<Rightarrow> http_response" where
  "http_error msg code = \<lparr>hp_status = code, hp_body = TextBody (msg @ nl)\<rparr>"

datatype claim_value = ClaimString string | ClaimOther

text \<open>The parsed token: whether it is valid, and its claims if they are \<open>jwt.MapClaims\<close>.\<close>

record jwt_token =
  jt_valid :: bool
  jt_claims :: "(string \<rightharpoonup> claim_value) option"

text \<open>
  A request: the \<open>Authorization\<close> header, the body as far as it can be read, and the two values that
  the middleware puts into its context.
\<close>

record 'b http_request =
  hq_authorization :: string
  hq_body :: 'b
  hq_token :: "jwt_token option"
  hq_response_subject :: "string option"

type_synonym ('b, 't) handler = "'b http_request \<Rightarrow> 't \<Rightarrow> http_response option \<times> 't"

text \<open>\<open>Recover\<close>: a panic becomes a 500.\<close>

definition recover :: "('b, 't) handler \<Rightarrow> ('b, 't) handler" where
  "recover next_handler r t =
     (case next_handler r t of
        (None, t') \<Rightarrow> (Some (http_error ''internal server error'' 500), t')
      | (Some resp, t') \<Rightarrow> (Some resp, t'))"

section \<open>Bearer authentication\<close>

record 'k jwt_lib =
  jl_new_jwk_set :: "string \<Rightarrow> go_error + 'k"
  jl_parse :: "'k \<Rightarrow> string \<Rightarrow> go_error + jwt_token"

definition with_token :: "jwt_token \<Rightarrow> 'b http_request \<Rightarrow> 'b http_request" where
  "with_token tok r = r\<lparr>hq_token := Some tok\<rparr>"

definition token_from_context :: "'b http_request \<Rightarrow> jwt_token option" where
  "token_from_context r = hq_token r"

definition auth_middleware :: "'k jwt_lib \<Rightarrow> 'k \<Rightarrow> ('b, 't) handler \<Rightarrow> ('b, 't) handler" where
  "auth_middleware lib jwks next_handler r t =
     (case cut_prefix (hq_authorization r) ''Bearer '' of
        None \<Rightarrow> (Some (http_error ''authorization header must use the Bearer scheme'' 401), t)
      | Some token_str \<Rightarrow>
          (case jl_parse lib jwks (trim_space token_str) of
             Inl err \<Rightarrow> (Some (http_error ''invalid token'' 401), t)
           | Inr tok \<Rightarrow>
               if \<not> jt_valid tok then (Some (http_error ''invalid token'' 401), t)
               else next_handler (with_token tok r) t))"

definition new_jwt_auth_from_jwks ::
  "'k jwt_lib \<Rightarrow> string \<Rightarrow> go_error + (('b, 't) handler \<Rightarrow> ('b, 't) handler)" where
  "new_jwt_auth_from_jwks lib jwks_json =
     (case jl_new_jwk_set lib jwks_json of
        Inl err \<Rightarrow> Inl (Wrap ''failed to build keyfunc from in-memory JWKS'' err)
      | Inr jwks \<Rightarrow> Inr (auth_middleware lib jwks))"

section \<open>Developer licenses\<close>

definition ethereum_address_claim :: string where
  "ethereum_address_claim = ''ethereum_address''"

definition dev_license_validator ::
  "eth \<Rightarrow> (address \<Rightarrow> go_error + bool) \<Rightarrow> ('b, 't) handler \<Rightarrow> ('b, 't) handler" where
  "dev_license_validator eth dev_license next_handler r t =
     (case token_from_context r of
        None \<Rightarrow> (Some (http_error ''no token in request context'' 401), t)
      | Some tok \<Rightarrow>
          (case jt_claims tok of
             None \<Rightarrow> (Some (http_error ''unexpected token claims type'' 400), t)
           | Some claims \<Rightarrow>
               (let addr_str = (case claims ethereum_address_claim of Some (ClaimString s) \<Rightarrow> s | _ \<Rightarrow> '''') in
                if \<not> eth_is_hex_address eth addr_str
                then (Some (http_error ''no valid ethereum_address claim'' 401), t)
                else
                  (let client_address = eth_hex_to_address eth addr_str in
                   case dev_license client_address of
                     Inl err \<Rightarrow> (Some (http_error ''developer license lookup failed'' 500), t)
                   | Inr valid \<Rightarrow>
                       if \<not> valid
                       then (Some (http_error (''not a dev license: '' @ eth_address_hex eth client_address) 403), t)
                       else next_handler (r\<lparr>hq_response_subject := Some (eth_address_hex eth client_address)\<rparr>) t))))"

definition get_response_subject :: "'b http_request \<Rightarrow> go_error + string" where
  "get_response_subject r =
     (case hq_response_subject r of None \<Rightarrow> Inl (Sentinel ErrNoSubject) | Some s \<Rightarrow> Inr s)"

definition get_user_eth_addr :: "eth \<Rightarrow> 'b http_request \<Rightarrow> go_error + address" where
  "get_user_eth_addr eth r =
     (case token_from_context r of
        None \<Rightarrow> Inl (Sentinel ErrNoEthAddr)
      | Some tok \<Rightarrow>
          (case jt_claims tok of
             None \<Rightarrow> Inl (Sentinel ErrNoEthAddr)
           | Some claims \<Rightarrow>
               (case claims ethereum_address_claim of
                  Some (ClaimString s) \<Rightarrow>
                    if \<not> eth_is_hex_address eth s then Inl (Sentinel ErrNoEthAddr)
                    else Inr (eth_hex_to_address eth s)
                | _ \<Rightarrow> Inl (Sentinel ErrNoEthAddr))))"

section \<open>Lemmas\<close>

lemma http_error_status [simp]: "hp_status (http_error m c) = c"
  by (simp add: http_error_def)

text \<open>A bearer token that the key set accepts, and the address in it.\<close>

definition bearer :: "'k jwt_lib \<Rightarrow> 'k \<Rightarrow> 'b http_request \<Rightarrow> jwt_token \<Rightarrow> bool" where
  "bearer lib jwks r tok \<longleftrightarrow>
     (\<exists>s. hq_authorization r = ''Bearer '' @ s \<and> jl_parse lib jwks (trim_space s) = Inr tok \<and> jt_valid tok)"

definition token_address :: "eth \<Rightarrow> jwt_token \<Rightarrow> address option" where
  "token_address eth tok =
     (case jt_claims tok of
        None \<Rightarrow> None
      | Some claims \<Rightarrow>
          (case claims ''ethereum_address'' of
             Some (ClaimString s) \<Rightarrow> if eth_is_hex_address eth s then Some (eth_hex_to_address eth s) else None
           | _ \<Rightarrow> None))"

lemma auth_middleware_cases:
  assumes "auth_middleware lib jwks nxt r t = (res, t')"
  obtains (refused) "\<nexists>tok. bearer lib jwks r tok" "t' = t" "\<exists>m. res = Some (http_error m 401)"
  | (passed) tok where "bearer lib jwks r tok" "nxt (with_token tok r) t = (res, t')"
proof (cases "\<exists>tok. bearer lib jwks r tok")
  case True
  then obtain tok where "bearer lib jwks r tok" by blast
  with assms show ?thesis
    by (intro passed) (auto simp: auth_middleware_def bearer_def cut_prefix_append [of "''Bearer ''", simplified])
next
  case False
  with assms show ?thesis
    by (intro refused) (auto simp: auth_middleware_def bearer_def cut_prefix_Some split: option.splits sum.splits if_splits)
qed

lemma dev_license_cases:
  assumes "dev_license_validator eth lic nxt r t = (res, t')" and "\<not> eth_is_hex_address eth ''''"
  obtains (refused) "t' = t" "\<exists>m c. res = Some (http_error m c) \<and> c \<in> {400, 401, 403, 500}"
      "\<And>tok a. hq_token r = Some tok \<Longrightarrow> token_address eth tok = Some a \<Longrightarrow> lic a \<noteq> Inr True"
  | (passed) tok a where "hq_token r = Some tok" "token_address eth tok = Some a" "lic a = Inr True"
      "nxt (r\<lparr>hq_response_subject := Some (eth_address_hex eth a)\<rparr>) t = (res, t')"
proof (cases "\<exists>tok a. hq_token r = Some tok \<and> token_address eth tok = Some a \<and> lic a = Inr True")
  case True
  then obtain tok a where p: "hq_token r = Some tok" "token_address eth tok = Some a" "lic a = Inr True" by blast
  with assms(1) show ?thesis
    by (intro passed [OF p])
       (auto simp: dev_license_validator_def token_address_def token_from_context_def ethereum_address_claim_def Let_def
        split: option.splits claim_value.splits if_splits)
next
  case False
  then have no: "lic a \<noteq> Inr True" if "hq_token r = Some tok" "token_address eth tok = Some a" for tok a
    using that by blast
  have "t' = t \<and> (\<exists>m c. res = Some (http_error m c) \<and> c \<in> {400, 401, 403, 500})"
  proof (cases "hq_token r")
    case None
    with assms(1) show ?thesis by (auto simp: dev_license_validator_def token_from_context_def)
  next
    case (Some tok)
    with assms no show ?thesis
      by (auto simp: dev_license_validator_def token_address_def token_from_context_def ethereum_address_claim_def Let_def
          split: option.splits claim_value.splits if_splits sum.splits)
  qed
  with no show ?thesis by (intro refused) auto
qed

lemma get_user_eth_addr_Inr:
  "get_user_eth_addr eth r = Inr a \<longleftrightarrow> (\<exists>tok. hq_token r = Some tok \<and> token_address eth tok = Some a)"
  by (auto simp: get_user_eth_addr_def token_address_def token_from_context_def ethereum_address_claim_def
      split: option.splits claim_value.splits if_splits)

end
