(* ===== verification/TokenClaims.thy ===== *)
theory TokenClaims imports GoText begin

text \<open>
  The permission names and privilege ids of the exchange (pkg/tokenclaims/permissions.go), and the
  claims of a permission token (pkg/tokenclaims/tokenclaims.go).
\<close>

section \<open>Privilege tables\<close>

definition privilege_id_to_name :: "(int64 \<times> string) list" where
  "privilege_id_to_name =
    [(1, ''privilege:GetNonLocationHistory''), (2, ''privilege:ExecuteCommands''),
     (3, ''privilege:GetCurrentLocation''), (4, ''privilege:GetLocationHistory''),
     (5, ''privilege:GetVINCredential''), (6, ''privilege:GetLiveData''),
     (7, ''privilege:GetRawData''), (8, ''privilege:GetApproximateLocation'')]"

definition manufacturer_privilege_id_to_name :: "(int64 \<times> string) list" where
  "manufacturer_privilege_id_to_name =
    [(1, ''privilege:ManufacturerMintDevice''), (2, ''privilege:ManufacturerDistributeDevice''),
     (3, ''privilege:ManufacturerFactoryReset''), (4, ''privilege:ManufacturerDeviceReprovision''),
     (5, ''privilege:ManufacturerDeviceDefinitionInsert''), (6, ''privilege:ManufacturerDeviceLastSeen'')]"

text \<open>
  The inverse tables, built by ranging over the tables.  Go ranges in any order; the names are
  distinct, so the order does not matter.
\<close>

fun invert_table :: "(string \<rightharpoonup> int64) \<Rightarrow> (int64 \<times> string) list \<Rightarrow> (string \<rightharpoonup> int64)" where
  "invert_table m [] = m"
| "invert_table m ((i, nm) # rest) = invert_table (m(nm \<mapsto> i)) rest"

definition privilege_name_to_id :: "string \<rightharpoonup> int64" where
  "privilege_name_to_id = invert_table Map.empty privilege_id_to_name"

definition manufacturer_privilege_name_to_id :: "string \<rightharpoonup> int64" where
  "manufacturer_privilege_name_to_id = invert_table Map.empty manufacturer_privilege_id_to_name"

section \<open>Claims\<close>

record event_claim =
  ev_event_type :: string
  ev_source :: string
  ev_ids :: "string list"
  ev_tags :: "string list"

record custom_claims =
  cc_asset :: string
  cc_permissions :: "string list"
  cc_cloud_events :: "event_claim list option"
  cc_contract_address :: address
  cc_token_id :: string
  cc_privilege_ids :: "int64 list"

section \<open>Lemmas\<close>

lemma invert_table_lookup:
  "distinct (map snd t) \<Longrightarrow>
   invert_table m t nm = (case map_of (map (\<lambda>(i, n). (n, i)) t) nm of None \<Rightarrow> m nm | Some i \<Rightarrow> Some i)"
proof (induction t arbitrary: m)
  case (Cons x t)
  obtain i n where x: "x = (i, n)" by fastforce
  with Cons.prems have "n \<notin> snd ` set t" by simp
  then have "map_of (map (\<lambda>(i, n). (n, i)) t) n = None"
    by (force simp: map_of_eq_None_iff)
  with Cons x show ?case by (auto split: option.splits)
qed simp

lemma invert_table_iff:
  assumes "distinct (map snd t)"
  shows "invert_table Map.empty t nm = Some i \<longleftrightarrow> (i, nm) \<in> set t"
proof -
  have "distinct (map fst (map (\<lambda>(i, n). (n, i)) t))"
    using assms by (simp add: comp_def case_prod_unfold)
  from map_of_eq_Some_iff [OF this, of nm i] show ?thesis
    by (auto simp: invert_table_lookup [OF assms] split: option.splits)
qed

lemma tables_distinct:
  "distinct (map snd privilege_id_to_name)" "distinct (map fst privilege_id_to_name)"
  "distinct (map snd manufacturer_privilege_id_to_name)" "distinct (map fst manufacturer_privilege_id_to_name)"
  by (simp_all add: privilege_id_to_name_def manufacturer_privilege_id_to_name_def)

lemma privilege_id_iff: "privilege_name_to_id nm = Some i \<longleftrightarrow> map_of privilege_id_to_name i = Some nm"
  by (simp add: privilege_name_to_id_def invert_table_iff tables_distinct)

lemma manufacturer_privilege_id_iff:
  "manufacturer_privilege_name_to_id nm = Some i \<longleftrightarrow> map_of manufacturer_privilege_id_to_name i = Some nm"
  by (simp add: manufacturer_privilege_name_to_id_def invert_table_iff tables_distinct)

lemma privilege_bounds:
  "privilege_name_to_id nm = Some i \<Longrightarrow> 0 < sint i \<and> sint i < 9"
  "manufacturer_privilege_name_to_id nm = Some i \<Longrightarrow> 0 < sint i \<and> sint i < 9"
  by (auto simp: privilege_id_iff manufacturer_privilege_id_iff privilege_id_to_name_def
      manufacturer_privilege_id_to_name_def split: if_splits)

lemma tables_disjoint:
  "privilege_name_to_id nm = Some i \<Longrightarrow> manufacturer_privilege_name_to_id nm = None"
  by (auto simp: privilege_id_iff privilege_id_to_name_def manufacturer_privilege_name_to_id_def
      manufacturer_privilege_id_to_name_def split: if_splits)

section \<open>Properties\<close>

text \<open>
  The name table and the id table of privileges are inverse to each other, for vehicles and for
  manufacturers; no permission name is in both, and every id is small enough for a 256-bit mask of
  two bits each.
\<close>

lemma privilege_tables_inverse:
  "(privilege_name_to_id nm = Some i \<longleftrightarrow> map_of privilege_id_to_name i = Some nm) \<and>
   (manufacturer_privilege_name_to_id nm = Some i \<longleftrightarrow> map_of manufacturer_privilege_id_to_name i = Some nm) \<and>
   (privilege_name_to_id nm = None \<or> manufacturer_privilege_name_to_id nm = None) \<and>
   (case privilege_name_to_id nm of None \<Rightarrow> True | Some j \<Rightarrow> 0 < sint j \<and> sint j < 128)"
proof -
  have "privilege_name_to_id nm = None \<or> manufacturer_privilege_name_to_id nm = None"
    by (metis tables_disjoint not_None_eq)
  moreover have "case privilege_name_to_id nm of None \<Rightarrow> True | Some j \<Rightarrow> 0 < sint j \<and> sint j < 128"
    by (fastforce split: option.split dest: privilege_bounds)
  ultimately show ?thesis by (simp add: privilege_id_iff manufacturer_privilege_id_iff)
qed

end
