(* ===== verification/ExchangeModels.thy ===== *)
theory ExchangeModels imports TokenClaims begin

text \<open>
  The data of the exchange (internal/exchange/models): asset DIDs of the two kinds, SACD and
  template documents with their agreements, and event filters.  The DID codec of the cloudevent
  package is a parameter.
\<close>

section \<open>Asset DIDs\<close>

record erc721_did =
  nft_chain_id :: uint64
  nft_contract_address :: address
  nft_token_id :: int

record ethr_did =
  ethr_chain_id :: uint64
  ethr_contract_address :: address

datatype asset_did = Erc721Asset erc721_did | EthrAsset ethr_did

record did_codec =
  decode_erc721_did :: "string \<Rightarrow> go_error + erc721_did"
  decode_ethr_did :: "string \<Rightarrow> go_error + ethr_did"
  erc721_string :: "erc721_did \<Rightarrow> string"
  ethr_string :: "ethr_did \<Rightarrow> string"

fun is_account_level :: "asset_did \<Rightarrow> bool" where
  "is_account_level (Erc721Asset d) = False"
| "is_account_level (EthrAsset d) = True"

fun get_chain_id :: "asset_did \<Rightarrow> uint64" where
  "get_chain_id (Erc721Asset d) = nft_chain_id d"
| "get_chain_id (EthrAsset d) = ethr_chain_id d"

fun get_contract_address :: "asset_did \<Rightarrow> address" where
  "get_contract_address (Erc721Asset d) = nft_contract_address d"
| "get_contract_address (EthrAsset d) = ethr_contract_address d"

text \<open>A \<open>*big.Int\<close> that may be nil.\<close>

fun get_token_id :: "asset_did \<Rightarrow> int option" where
  "get_token_id (Erc721Asset d) = Some (nft_token_id d)"
| "get_token_id (EthrAsset d) = None"

fun asset_string :: "did_codec \<Rightarrow> asset_did \<Rightarrow> string" where
  "asset_string c (Erc721Asset d) = erc721_string c d"
| "asset_string c (EthrAsset d) = ethr_string c d"

definition decode_asset_did :: "did_codec \<Rightarrow> string \<Rightarrow> go_error + asset_did" where
  "decode_asset_did c asset =
     (case decode_erc721_did c asset of
        Inr d \<Rightarrow> Inr (Erc721Asset d)
      | Inl _ \<Rightarrow>
          (case decode_ethr_did c asset of
             Inr d \<Rightarrow> Inr (EthrAsset d)
           | Inl err \<Rightarrow> Inl (Wrap ''invalid asset DID'' err)))"

section \<open>Documents\<close>

definition type_cloud_event :: string where
  [go_defs]: "type_cloud_event = ''cloudevent''"

definition type_permission :: string where
  [go_defs]: "type_permission = ''permission''"

definition global_identifier :: string where
  [go_defs]: "global_identifier = ''*''"

record event_filter =
  ef_event_type :: string
  ef_source :: string
  ef_ids :: "string list"
  ef_tags :: "string list"

record permission =
  pm_name :: string

record doc_address =
  da_address :: string

record template_agreement =
  ta_type :: string
  ta_asset :: string
  ta_permissions :: "permission list"

record template_doc =
  tdoc_owner :: doc_address
  tdoc_agreements :: "template_agreement list"

record agreement =
  ag_type :: string
  ag_event_type :: string
  ag_ids :: "string list"
  ag_tags :: "string list"
  ag_effective_at :: instant
  ag_expires_at :: instant
  ag_source :: string
  ag_asset :: string
  ag_permissions :: "permission list"

record sacd_data =
  sd_grantor :: doc_address
  sd_grantee :: doc_address
  sd_effective_at :: instant
  sd_expires_at :: instant
  sd_asset :: string
  sd_permission_template_id :: string
  sd_agreements :: "agreement list"

text \<open>
  A Go \<open>map[string]bool\<close>, as an association list with distinct keys; a missing key reads as false.
\<close>

type_synonym perm_map = "(string \<times> bool) list"

definition perm_get :: "perm_map \<Rightarrow> string \<Rightarrow> bool" where
  "perm_get m k = (case map_of m k of None \<Rightarrow> False | Some b \<Rightarrow> b)"

fun perm_set :: "string \<Rightarrow> perm_map \<Rightarrow> perm_map" where
  "perm_set k [] = [(k, True)]"
| "perm_set k ((k', b) # m) = (if k' = k then (k, True) # m else (k', b) # perm_set k m)"

lemma perm_get_Nil [simp]: "perm_get [] k = False"
  by (simp add: perm_get_def)

lemma perm_get_Cons [simp]: "perm_get ((a, b) # m) k = (if k = a then b else perm_get m k)"
  by (simp add: perm_get_def)

lemma perm_get_set [simp]: "perm_get (perm_set k m) k' \<longleftrightarrow> k' = k \<or> perm_get m k'"
  by (induction k m rule: perm_set.induct) auto

lemma perm_set_keys [simp]: "fst ` set (perm_set k m) = insert k (fst ` set m)"
proof (induction k m rule: perm_set.induct)
  case (2 k k' b m)
  then show ?case by (cases "k' = k") (simp_all add: insert_commute)
qed simp

definition add_permissions :: "permission list \<Rightarrow> perm_map \<Rightarrow> perm_map" where
  "add_permissions ps m = foldl (\<lambda>m p. perm_set (pm_name p) m) m ps"

lemma add_permissions_get [simp]:
  "perm_get (add_permissions ps m) k \<longleftrightarrow> k \<in> pm_name ` set ps \<or> perm_get m k"
  by (induction ps arbitrary: m) (auto simp: add_permissions_def)

lemma add_permissions_keys [simp]:
  "fst ` set (add_permissions ps m) = pm_name ` set ps \<union> fst ` set m"
proof (induction ps arbitrary: m)
  case (Cons p ps)
  have "add_permissions (p # ps) m = add_permissions ps (perm_set (pm_name p) m)"
    by (simp add: add_permissions_def)
  with Cons show ?case by auto
qed (simp add: add_permissions_def)

text \<open>\<open>template.PermissionsResult\<close>\<close>

record permissions_result =
  pr_permissions :: perm_map
  pr_is_active :: bool

end
