(* ===== verification/AuthEval.thy ===== *)
theory AuthEval imports ExchangeModels begin

text \<open>
  The evaluation of grants (internal/exchange/autheval): what a SACD document grants at the time of
  the request, and whether that covers the requested permissions, privilege bits and cloud events.
\<close>

section \<open>Cloud event agreements\<close>

record cloud_agreement =
  ca_event_type :: string
  ca_source :: string
  ca_ids :: "string set"
  ca_tags :: "string set"

type_synonym cloud_agreements = "cloud_agreement list"

definition agreements_add ::
  "cloud_agreements \<Rightarrow> string \<Rightarrow> string \<Rightarrow> string list \<Rightarrow> string list \<Rightarrow> cloud_agreements" where
  "agreements_add c event_type source ids tags =
     (let tags = (if length tags = 0 then [global_identifier] else tags);
          ids = (if length ids = 0 then [global_identifier] else ids)
      in c @ [\<lparr>ca_event_type = event_type, ca_source = source, ca_ids = set ids, ca_tags = set tags\<rparr>])"

definition agreement_grants :: "cloud_agreement \<Rightarrow> string \<Rightarrow> string \<Rightarrow> string \<Rightarrow> string \<Rightarrow> bool" where
  "agreement_grants a event_type source i tag \<longleftrightarrow>
     (ca_event_type a = event_type \<or> ca_event_type a = global_identifier) \<and>
     (ca_source a = source \<or> ca_source a = global_identifier) \<and>
     (i \<in> ca_ids a \<or> global_identifier \<in> ca_ids a) \<and>
     (tag \<in> ca_tags a \<or> global_identifier \<in> ca_tags a)"

definition agreements_grant :: "cloud_agreements \<Rightarrow> string \<Rightarrow> string \<Rightarrow> string \<Rightarrow> string \<Rightarrow> bool" where
  "agreements_grant c event_type source i tag = list_ex (\<lambda>a. agreement_grants a event_type source i tag) c"

section \<open>Evaluation\<close>

fun evaluate_permissions :: "perm_map \<Rightarrow> string list \<Rightarrow> string list" where
  "evaluate_permissions user_permissions [] = []"
| "evaluate_permissions user_permissions (p # ps) =
     (if \<not> perm_get user_permissions p then p # evaluate_permissions user_permissions ps
      else evaluate_permissions user_permissions ps)"

text \<open>\<open>(*big.Int).Bit\<close> panics on a negative index.\<close>

definition big_bit :: "int \<Rightarrow> int64 \<Rightarrow> bool option" where
  "big_bit x i = (if sint i < 0 then None else Some (bit x (nat (sint i))))"

text \<open>None is a panic.  The indices are computed in 64-bit integers.\<close>

fun evaluate_permissions_bits :: "int64 list \<Rightarrow> int \<Rightarrow> int64 list option" where
  "evaluate_permissions_bits [] permission_bits = Some []"
| "evaluate_permissions_bits (p # ps) permission_bits =
     (case big_bit permission_bits (2 * p) of
        None \<Rightarrow> None
      | Some False \<Rightarrow> map_option (\<lambda>lack. p # lack) (evaluate_permissions_bits ps permission_bits)
      | Some True \<Rightarrow>
          (case big_bit permission_bits (2 * p + 1) of
             None \<Rightarrow> None
           | Some b \<Rightarrow> map_option (\<lambda>lack. if b then lack else p # lack)
               (evaluate_permissions_bits ps permission_bits)))"

fun two_bit_loop :: "int64 list \<Rightarrow> int64 \<Rightarrow> int \<Rightarrow> go_error + int" where
  "two_bit_loop [] len msk = Inr msk"
| "two_bit_loop (i # is) len msk =
     (if sint i < 0 \<or> sint i \<ge> sint len
      then Inl (Err ''invalid index'')
      else two_bit_loop is len (set_bit (nat (sint (i * 2 + 1))) (set_bit (nat (sint (i * 2))) msk)))"

definition int_array_to_2bit_array :: "int64 list \<Rightarrow> int64 \<Rightarrow> go_error + int" where
  "int_array_to_2bit_array indices len = two_bit_loop indices len 0"

text \<open>
  \<open>EvaluateCloudEvents\<close>: the loops over ids and tags of one request, then over the requests; \<open>err\<close>
  joins the failures.
\<close>

fun tags_loop ::
  "cloud_agreements \<Rightarrow> string \<Rightarrow> string \<Rightarrow> string \<Rightarrow> string list \<Rightarrow> go_error option \<Rightarrow> go_error option" where
  "tags_loop c event_type source i [] err = err"
| "tags_loop c event_type source i (tag # tags) err =
     tags_loop c event_type source i tags
       (if \<not> agreements_grant c event_type source i tag
        then join_err err (Err ''lacking grant for requested cloud event'') else err)"

fun ids_loop ::
  "cloud_agreements \<Rightarrow> string \<Rightarrow> string \<Rightarrow> string list \<Rightarrow> string list \<Rightarrow> go_error option \<Rightarrow> go_error option" where
  "ids_loop c event_type source [] tags err = err"
| "ids_loop c event_type source (i # is) tags err =
     ids_loop c event_type source is tags (tags_loop c event_type source i tags err)"

fun requests_loop :: "cloud_agreements \<Rightarrow> event_filter list \<Rightarrow> go_error option \<Rightarrow> go_error option" where
  "requests_loop c [] err = err"
| "requests_loop c (req # reqs) err =
     (let event_type = (if ef_event_type req = '''' then global_identifier else ef_event_type req);
          source = (if ef_source req = '''' then global_identifier else ef_source req);
          ids = (if length (ef_ids req) = 0 then [global_identifier] else ef_ids req);
          tags = (if length (ef_tags req) = 0 then [global_identifier] else ef_tags req)
      in requests_loop c reqs (ids_loop c event_type source ids tags err))"

definition evaluate_cloud_events :: "cloud_agreements \<Rightarrow> event_filter list \<Rightarrow> go_error option" where
  "evaluate_cloud_events c cloud_events = requests_loop c cloud_events None"

text \<open>
  \<open>GetValidAgreements\<close> over nested maps, given as association lists from event type to source to ids.
\<close>

fun merge_grants :: "(string \<times> string set) list \<Rightarrow> (string \<rightharpoonup> string set) \<Rightarrow> (string \<rightharpoonup> string set)" where
  "merge_grants [] m = m"
| "merge_grants ((source, ids) # rest) m =
     merge_grants rest (m(source \<mapsto> (case m source of None \<Rightarrow> {} | Some s \<Rightarrow> s) \<union> ids))"

definition get_valid_agreements ::
  "(string \<times> (string \<times> string set) list) list \<Rightarrow> string \<Rightarrow> (string \<rightharpoonup> string set)" where
  "get_valid_agreements sacd_agreements ce_type =
     (let event_grants = (case map_of sacd_agreements ce_type of None \<Rightarrow> [] | Some g \<Rightarrow> g);
          global_grants = (case map_of sacd_agreements global_identifier of None \<Rightarrow> [] | Some g \<Rightarrow> g)
      in merge_grants global_grants (foldl (\<lambda>m (source, ids). m(source \<mapsto> ids)) Map.empty event_grants))"

section \<open>Grants of a SACD document\<close>

definition match_template_permissions :: "perm_map \<Rightarrow> permissions_result option \<Rightarrow> bool" where
  "match_template_permissions sacd_permissions template_result =
     (case template_result of
        None \<Rightarrow> True
      | Some r \<Rightarrow>
          if pr_is_active r then list_all (\<lambda>(template_perm, _). perm_get sacd_permissions template_perm) (pr_permissions r)
          else False)"

definition in_force :: "instant \<Rightarrow> agreement \<Rightarrow> bool" where
  "in_force now a \<longleftrightarrow>
     \<not> (\<not> go_is_zero (ag_effective_at a) \<and> go_before now (ag_effective_at a)) \<and>
     \<not> (\<not> go_is_zero (ag_expires_at a) \<and> go_after now (ag_expires_at a))"

text \<open>
  The loop of \<open>UserGrantMap\<close>.  The clock is read once per agreement: \<open>clock i\<close> is its reading for
  the \<open>i\<close>-th one.
\<close>

fun grant_loop ::
  "string \<Rightarrow> (nat \<Rightarrow> instant) \<Rightarrow> nat \<Rightarrow> agreement list \<Rightarrow> perm_map \<Rightarrow> cloud_agreements
   \<Rightarrow> go_error + (perm_map \<times> cloud_agreements)" where
  "grant_loop asset clock i [] perms events = Inr (perms, events)"
| "grant_loop asset clock i (a # as) perms events =
     (if \<not> in_force (clock i) a then grant_loop asset clock (Suc i) as perms events
      else if ag_asset a \<noteq> asset then Inl (Err ''asset DID does not match request DID'')
      else if ag_type a = type_cloud_event
      then grant_loop asset clock (Suc i) as perms
             (agreements_add events (ag_event_type a) (ag_source a) (ag_ids a) (ag_tags a))
      else if ag_type a = type_permission
      then grant_loop asset clock (Suc i) as (add_permissions (ag_permissions a) perms) events
      else grant_loop asset clock (Suc i) as perms events)"

definition user_grant_map ::
  "did_codec \<Rightarrow> (string \<Rightarrow> asset_did \<Rightarrow> 't \<Rightarrow> (go_error + permissions_result option) \<times> 't)
   \<Rightarrow> (nat \<Rightarrow> instant) \<Rightarrow> sacd_data \<Rightarrow> asset_did \<Rightarrow> 't
   \<Rightarrow> (go_error + (perm_map \<times> cloud_agreements)) \<times> 't" where
  "user_grant_map codec get_template clock data asset t =
     (case grant_loop (asset_string codec asset) clock 0 (sd_agreements data) [] [] of
        Inl err \<Rightarrow> (Inl err, t)
      | Inr (sacd_permissions, events) \<Rightarrow>
          if sd_permission_template_id data \<noteq> '''' \<and> sd_permission_template_id data \<noteq> ''0''
          then (let (res, t') = get_template (sd_permission_template_id data) asset t in
                case res of
                  Inl err \<Rightarrow> (Inl (Wrap ''failed to get template permissions'' err), t')
                | Inr template_result \<Rightarrow>
                    (Inr (if match_template_permissions sacd_permissions template_result
                          then sacd_permissions else [], events), t'))
          else (Inr (sacd_permissions, events), t))"

section \<open>Lemmas: permissions and bits\<close>

lemma evaluate_permissions_filter: "evaluate_permissions m ps = filter (\<lambda>p. \<not> perm_get m p) ps"
  by (induction ps) auto

lemma evaluate_permissions_Nil: "evaluate_permissions m ps = [] \<longleftrightarrow> list_all (perm_get m) ps"
  by (auto simp: evaluate_permissions_filter filter_empty_conv list_all_iff)

text \<open>Privileges whose bit positions stay in range.\<close>

definition small_privilege :: "int64 \<Rightarrow> bool" where
  "small_privilege p \<longleftrightarrow> 0 \<le> sint p \<and> sint p < 128"

lemma small_double:
  assumes "small_privilege p"
  shows "sint (2 * p) = 2 * sint p" and "sint (2 * p + 1) = 2 * sint p + 1"
proof -
  have p: "0 \<le> sint p" "sint p < 128" using assms by (auto simp: small_privilege_def)
  have "sint (2 * p) = signed_take_bit 63 (2 * sint p)" by (simp add: sint_word_ariths)
  also have "\<dots> = 2 * sint p" by (rule signed_take_bit_int_eq_self) (use p in simp_all)
  finally show two: "sint (2 * p) = 2 * sint p" .
  have "sint (2 * p + 1) = signed_take_bit 63 (sint (2 * p) + 1)" by (simp add: sint_word_ariths)
  also have "\<dots> = 2 * sint p + 1" unfolding two by (rule signed_take_bit_int_eq_self) (use p in simp_all)
  finally show "sint (2 * p + 1) = 2 * sint p + 1" .
qed

definition has_both_bits :: "int \<Rightarrow> int64 \<Rightarrow> bool" where
  "has_both_bits x p \<longleftrightarrow> bit x (2 * nat (sint p)) \<and> bit x (2 * nat (sint p) + 1)"

lemma small_bits:
  assumes "small_privilege p"
  shows "big_bit x (2 * p) = Some (bit x (2 * nat (sint p)))"
    and "big_bit x (2 * p + 1) = Some (bit x (2 * nat (sint p) + 1))"
proof -
  have p: "0 \<le> sint p" using assms by (simp add: small_privilege_def)
  then have "nat (2 * sint p + 1) = Suc (2 * nat (sint p))" and "nat (2 * sint p) = 2 * nat (sint p)" by linarith+
  with p show "big_bit x (2 * p) = Some (bit x (2 * nat (sint p)))"
    and "big_bit x (2 * p + 1) = Some (bit x (2 * nat (sint p) + 1))"
    by (simp_all add: big_bit_def small_double [OF assms])
qed

lemma evaluate_bits_small:
  "list_all small_privilege ps \<Longrightarrow>
   evaluate_permissions_bits ps x = Some (filter (\<lambda>p. \<not> has_both_bits x p) ps)"
  by (induction ps) (auto simp: small_bits has_both_bits_def split: bool.splits)

lemma two_bit_loop_small:
  assumes "list_all small_privilege ps"
  shows "\<exists>m. two_bit_loop ps 128 msk = Inr m \<and>
    (\<forall>n. bit m n \<longleftrightarrow> bit msk n \<or> n div 2 \<in> (\<lambda>p. nat (sint p)) ` set ps)"
  using assms
proof (induction ps arbitrary: msk)
  case (Cons p ps)
  then have p: "small_privilege p" and ps: "list_all small_privilege ps" by auto
  let ?m = "set_bit (nat (sint (p * 2 + 1))) (set_bit (nat (sint (p * 2))) msk)"
  obtain m where m: "two_bit_loop ps 128 ?m = Inr m"
    "\<forall>n. bit m n \<longleftrightarrow> bit ?m n \<or> n div 2 \<in> (\<lambda>p. nat (sint p)) ` set ps"
    using Cons.IH [OF ps] by blast
  have p0: "0 \<le> sint p" "sint p < 128" using p by (auto simp: small_privilege_def)
  then have "nat (2 * sint p + 1) = Suc (2 * nat (sint p))" and "nat (2 * sint p) = 2 * nat (sint p)" by linarith+
  then have "bit ?m n \<longleftrightarrow> bit msk n \<or> n div 2 = nat (sint p)" for n
    by (auto simp: bit_set_bit_iff small_double [OF p] mult.commute [of p])
  with m p0 show ?case by (intro exI [of _ m]) auto
qed simp

lemma two_bit_range: "(\<exists>m. two_bit_loop ps 128 msk = Inr m) \<longleftrightarrow> list_all small_privilege ps"
proof (induction ps arbitrary: msk)
  case (Cons p ps)
  show ?case
  proof (cases "small_privilege p")
    case False
    then show ?thesis by (auto simp: small_privilege_def not_less not_le)
  next
    case True
    then have "\<not> (sint p < 0 \<or> sint p \<ge> sint (128 :: int64))" by (simp add: small_privilege_def)
    with True Cons show ?thesis by simp
  qed
qed simp

lemma mask_covered:
  assumes "list_all small_privilege ps" and "int_array_to_2bit_array ps 128 = Inr m"
  shows "list_all (has_both_bits x) ps \<longleftrightarrow> x AND m = m"
proof -
  have m: "bit m n \<longleftrightarrow> n div 2 \<in> (\<lambda>p. nat (sint p)) ` set ps" for n
    using two_bit_loop_small [OF assms(1), of 0] assms(2) by (auto simp: int_array_to_2bit_array_def)
  have "x AND m = m \<longleftrightarrow> (\<forall>n. bit m n \<longrightarrow> bit x n)"
    by (auto simp: bit_eq_iff bit_and_iff)
  also have "\<dots> \<longleftrightarrow> (\<forall>p \<in> set ps. \<forall>n. n div 2 = nat (sint p) \<longrightarrow> bit x n)"
    unfolding m by blast
  also have "\<dots> \<longleftrightarrow> (\<forall>p \<in> set ps. has_both_bits x p)"
  proof -
    have "(\<forall>n. n div 2 = k \<longrightarrow> bit x n) \<longleftrightarrow> bit x (2 * k) \<and> bit x (2 * k + 1)" for k
    proof -
      have "n div 2 = k \<longleftrightarrow> n = 2 * k \<or> n = 2 * k + 1" for n by linarith
      then show ?thesis by auto
    qed
    then show ?thesis by (simp add: has_both_bits_def)
  qed
  finally show ?thesis by (simp add: list_all_iff)
qed

section \<open>Lemmas: cloud events\<close>

text \<open>A pattern is one name or the wildcard, which is above every name.\<close>

datatype pattern = Any | Only string

definition pattern_of :: "string \<Rightarrow> pattern" where
  "pattern_of s = (if s = ''*'' then Any else Only s)"

instantiation pattern :: order_top
begin

definition less_eq_pattern :: "pattern \<Rightarrow> pattern \<Rightarrow> bool" where
  "p \<le> q \<longleftrightarrow> q = Any \<or> p = (q :: pattern)"

definition less_pattern :: "pattern \<Rightarrow> pattern \<Rightarrow> bool" where
  "p < q \<longleftrightarrow> q = Any \<and> p \<noteq> (Any :: pattern)"

definition top_pattern :: pattern where
  "top_pattern = Any"

instance
  by standard (auto simp: less_eq_pattern_def less_pattern_def top_pattern_def)

end

text \<open>An agreement covers a requested combination: each part of it is below the agreement's.\<close>

definition covers :: "cloud_agreement \<Rightarrow> pattern \<Rightarrow> pattern \<Rightarrow> pattern \<Rightarrow> pattern \<Rightarrow> bool" where
  "covers a t s i g \<longleftrightarrow> t \<le> pattern_of (ca_event_type a) \<and> s \<le> pattern_of (ca_source a) \<and>
     (\<exists>x \<in> ca_ids a. i \<le> pattern_of x) \<and> (\<exists>x \<in> ca_tags a. g \<le> pattern_of x)"

lemma pattern_le: "pattern_of a \<le> pattern_of b \<longleftrightarrow> b = a \<or> b = ''*''"
  by (auto simp: pattern_of_def less_eq_pattern_def)

lemma agreement_grants_covers:
  "agreement_grants a t s i g \<longleftrightarrow> covers a (pattern_of t) (pattern_of s) (pattern_of i) (pattern_of g)"
  by (auto simp: agreement_grants_def covers_def pattern_le go_defs)

text \<open>An empty part of a request stands for the wildcard, an empty list for the wildcard alone.\<close>

definition requested :: "string \<Rightarrow> pattern" where
  "requested s = (if s = '''' then Any else pattern_of s)"

definition requested_list :: "string list \<Rightarrow> pattern list" where
  "requested_list xs = (if xs = [] then [Any] else map pattern_of xs)"

definition request_covered :: "cloud_agreements \<Rightarrow> event_filter \<Rightarrow> bool" where
  "request_covered c req \<longleftrightarrow>
     list_all (\<lambda>i. list_all (\<lambda>g.
       list_ex (\<lambda>a. covers a (requested (ef_event_type req)) (requested (ef_source req)) i g) c)
       (requested_list (ef_tags req))) (requested_list (ef_ids req))"

lemma tags_loop_None:
  "tags_loop c t s i tags err = None \<longleftrightarrow> err = None \<and> list_all (agreements_grant c t s i) tags"
  by (induction tags arbitrary: err) auto

lemma ids_loop_None:
  "ids_loop c t s is tags err = None \<longleftrightarrow>
     err = None \<and> list_all (\<lambda>i. list_all (agreements_grant c t s i) tags) is"
  by (induction "is" arbitrary: err) (auto simp: tags_loop_None)

lemma request_covered_loops:
  "request_covered c req \<longleftrightarrow>
     list_all (\<lambda>i. list_all (agreements_grant c
         (if ef_event_type req = '''' then global_identifier else ef_event_type req)
         (if ef_source req = '''' then global_identifier else ef_source req) i)
       (if length (ef_tags req) = 0 then [global_identifier] else ef_tags req))
     (if length (ef_ids req) = 0 then [global_identifier] else ef_ids req)"
proof -
  have "requested s = pattern_of (if s = '''' then global_identifier else s)" for s
    by (simp add: requested_def pattern_of_def go_defs)
  moreover have "requested_list xs = map pattern_of (if length xs = 0 then [global_identifier] else xs)" for xs
    by (simp add: requested_list_def pattern_of_def go_defs)
  moreover have "agreements_grant c t s i = (\<lambda>g. list_ex (\<lambda>a. covers a (pattern_of t) (pattern_of s)
      (pattern_of i) (pattern_of g)) c)" for t s i
    by (simp add: fun_eq_iff agreements_grant_def agreement_grants_covers)
  ultimately show ?thesis
    unfolding request_covered_def by (simp only: list.pred_map comp_def)
qed

lemma requests_loop_None:
  "requests_loop c reqs err = None \<longleftrightarrow> err = None \<and> list_all (request_covered c) reqs"
  by (induction reqs arbitrary: err) (auto simp: ids_loop_None request_covered_loops Let_def)

lemma evaluate_cloud_events_None:
  "evaluate_cloud_events c reqs = None \<longleftrightarrow> list_all (request_covered c) reqs"
  by (simp add: evaluate_cloud_events_def requests_loop_None)

section \<open>Lemmas: grants\<close>

text \<open>The agreements in force, each at its own reading of the clock.\<close>

definition agreements_in_force :: "(nat \<Rightarrow> instant) \<Rightarrow> nat \<Rightarrow> agreement list \<Rightarrow> agreement list" where
  "agreements_in_force clock k as =
     map snd (filter (\<lambda>(i, a). in_force (clock i) a) (zip [k..<k + length as] as))"

lemma agreements_in_force_simps [simp]:
  "agreements_in_force clock k [] = []"
  "agreements_in_force clock k (a # as) =
     (if in_force (clock k) a then a # agreements_in_force clock (Suc k) as
      else agreements_in_force clock (Suc k) as)"
  by (simp_all add: agreements_in_force_def upt_conv_Cons del: upt_Suc)

definition cloud_grants :: "agreement list \<Rightarrow> cloud_agreements" where
  "cloud_grants as = map (\<lambda>a. \<lparr>ca_event_type = ag_event_type a, ca_source = ag_source a,
      ca_ids = set (if ag_ids a = [] then [''*''] else ag_ids a),
      ca_tags = set (if ag_tags a = [] then [''*''] else ag_tags a)\<rparr>)
    (filter (\<lambda>a. ag_type a = ''cloudevent'') as)"

definition permission_grants :: "agreement list \<Rightarrow> string set" where
  "permission_grants as = (\<Union>a \<in> {a \<in> set as. ag_type a = ''permission''}. pm_name ` set (ag_permissions a))"

lemma grant_loop_Inr:
  "grant_loop asset clock k as perms events = Inr (perms', events') \<Longrightarrow>
     list_all (\<lambda>a. ag_asset a = asset) (agreements_in_force clock k as) \<and>
     events' = events @ cloud_grants (agreements_in_force clock k as) \<and>
     (\<forall>nm. perm_get perms' nm \<longleftrightarrow> perm_get perms nm \<or> nm \<in> permission_grants (agreements_in_force clock k as))"
proof (induction as arbitrary: k perms events)
  case (Cons a as)
  show ?case
  proof (cases "in_force (clock k) a \<and> ag_asset a = asset")
    case True
    with Cons show ?thesis
      by (fastforce simp: cloud_grants_def permission_grants_def agreements_add_def Let_def type_cloud_event_def
          type_permission_def global_identifier_def split: if_splits)
  qed (use Cons in \<open>auto split: if_splits\<close>)
qed (simp add: cloud_grants_def permission_grants_def)

lemma grant_loop_total:
  "(\<exists>r. grant_loop asset clock k as perms events = Inr r) \<longleftrightarrow>
     list_all (\<lambda>a. ag_asset a = asset) (agreements_in_force clock k as)"
  by (induction as arbitrary: k perms events) simp_all

lemma match_template_iff:
  "match_template_permissions m x \<longleftrightarrow> (case x of None \<Rightarrow> True
     | Some r \<Rightarrow> pr_is_active r \<and> set (map fst (pr_permissions r)) \<subseteq> Collect (perm_get m))"
  by (auto simp: match_template_permissions_def list_all_iff split: option.split)

text \<open>Whether the template that a document names, if any, lets its permissions stand.\<close>

definition template_lets ::
  "(string \<Rightarrow> asset_did \<Rightarrow> 't \<Rightarrow> (go_error + permissions_result option) \<times> 't)
   \<Rightarrow> sacd_data \<Rightarrow> asset_did \<Rightarrow> 't \<Rightarrow> string set \<Rightarrow> bool" where
  "template_lets get_template data asset t granted \<longleftrightarrow>
     sd_permission_template_id data = '''' \<or> sd_permission_template_id data = ''0'' \<or>
     (case fst (get_template (sd_permission_template_id data) asset t) of
        Inl err \<Rightarrow> False
      | Inr None \<Rightarrow> True
      | Inr (Some r) \<Rightarrow> pr_is_active r \<and> set (map fst (pr_permissions r)) \<subseteq> granted)"

lemma user_grant_map_Inr:
  assumes "user_grant_map codec get_template clock data asset t = (Inr (perms, events), t')"
    and "act = agreements_in_force clock 0 (sd_agreements data)"
  shows "list_all (\<lambda>a. ag_asset a = asset_string codec asset) act" and "events = cloud_grants act"
    and "perm_get perms nm \<longleftrightarrow>
      nm \<in> permission_grants act \<and> template_lets get_template data asset t (permission_grants act)"
proof -
  from assms(1) obtain perms0 where loop:
    "grant_loop (asset_string codec asset) clock 0 (sd_agreements data) [] [] = Inr (perms0, events)"
    and perms: "perms = (if template_lets get_template data asset t (Collect (perm_get perms0)) then perms0 else [])"
    by (auto simp: user_grant_map_def template_lets_def match_template_iff Let_def
        split: sum.splits if_splits prod.splits option.splits)
  note g = grant_loop_Inr [OF loop, folded assms(2)]
  then have "Collect (perm_get perms0) = permission_grants act" by auto
  with g perms show "list_all (\<lambda>a. ag_asset a = asset_string codec asset) act" "events = cloud_grants act"
    "perm_get perms nm \<longleftrightarrow> nm \<in> permission_grants act \<and> template_lets get_template data asset t (permission_grants act)"
    by (auto simp: cloud_grants_def)
qed

lemma user_grant_map_total:
  "(\<exists>r t'. user_grant_map codec get_template clock data asset t = (Inr r, t')) \<longleftrightarrow>
     list_all (\<lambda>a. ag_asset a = asset_string codec asset) (agreements_in_force clock 0 (sd_agreements data)) \<and>
     (sd_permission_template_id data = '''' \<or> sd_permission_template_id data = ''0'' \<or>
      (\<exists>r. fst (get_template (sd_permission_template_id data) asset t) = Inr r))"
  unfolding grant_loop_total [of "asset_string codec asset" clock 0 "sd_agreements data" "[]" "[]", symmetric]
  by (cases "grant_loop (asset_string codec asset) clock 0 (sd_agreements data) [] []")
     (auto simp: user_grant_map_def Let_def split: sum.splits prod.splits)

lemma merge_grants_lookup:
  "distinct (map fst g) \<Longrightarrow> merge_grants g m s =
     (case map_of g s of None \<Rightarrow> m s | Some ids \<Rightarrow> Some ((case m s of None \<Rightarrow> {} | Some x \<Rightarrow> x) \<union> ids))"
proof (induction g arbitrary: m)
  case (Cons x g)
  obtain source ids where x: "x = (source, ids)" by fastforce
  with Cons.prems have "map_of g source = None" by (auto simp: map_of_eq_None_iff)
  with Cons x show ?case by (auto split: option.split)
qed simp

lemma fold_grants_lookup:
  "distinct (map fst g) \<Longrightarrow>
   foldl (\<lambda>m (source, ids). m(source \<mapsto> ids)) m g s = (case map_of g s of None \<Rightarrow> m s | Some ids \<Rightarrow> Some ids)"
proof (induction g arbitrary: m)
  case (Cons x g)
  obtain source ids where x: "x = (source, ids)" by fastforce
  with Cons.prems have "map_of g source = None" by (auto simp: map_of_eq_None_iff)
  with Cons x show ?case by (auto split: option.splits)
qed simp

section \<open>The template service, as UserGrantMap relies on it\<close>

text \<open>
  The interface \<open>TemplateService\<close> with the laws of its provider: a call keeps the service's state good,
  and in a good state an answer is one that the service \<open>offers\<close> for the template and the asset.
\<close>

locale template_source =
  fixes get_template :: "string \<Rightarrow> asset_did \<Rightarrow> 't \<Rightarrow> (go_error + permissions_result option) \<times> 't"
    and good :: "'t \<Rightarrow> bool"
    and offers :: "string \<Rightarrow> asset_did \<Rightarrow> permissions_result option \<Rightarrow> bool"
  assumes get_keeps: "good t \<Longrightarrow> good (snd (get_template tid asset t))"
    and get_sound: "good t \<Longrightarrow> fst (get_template tid asset t) = Inr r \<Longrightarrow> offers tid asset r"
begin

lemma user_grant_map_keeps: "good t \<Longrightarrow> good (snd (user_grant_map codec get_template clock data asset t))"
  using get_keeps [of t "sd_permission_template_id data" asset]
  by (auto simp: user_grant_map_def Let_def split: sum.split prod.split)

lemma template_lets_offered:
  assumes "good t" and "template_lets get_template data asset t granted"
    and "sd_permission_template_id data \<notin> {'''', ''0''}"
  shows "\<exists>r. offers (sd_permission_template_id data) asset r \<and>
    (case r of None \<Rightarrow> True | Some x \<Rightarrow> pr_is_active x \<and> set (map fst (pr_permissions x)) \<subseteq> granted)"
proof -
  from assms(2,3) obtain r where r: "fst (get_template (sd_permission_template_id data) asset t) = Inr r"
    "case r of None \<Rightarrow> True | Some x \<Rightarrow> pr_is_active x \<and> set (map fst (pr_permissions x)) \<subseteq> granted"
    by (auto simp: template_lets_def split: sum.splits option.splits)
  with get_sound [OF assms(1) r(1)] show ?thesis by blast
qed

end

section \<open>Properties\<close>

text \<open>
  Privilege masks.  The mask can be built exactly when every privilege is at least 0 and below 128,
  and then the holder of the bits \<open>x\<close> lacks none of the privileges exactly when \<open>x\<close> has every bit of the
  mask; the check does not panic.
\<close>

theorem privilege_bits_covered:
  assumes "int_array_to_2bit_array ps 128 = Inr m"
  shows "list_all small_privilege ps \<and>
    (\<exists>lack. evaluate_permissions_bits ps x = Some lack \<and> set lack \<subseteq> set ps \<and> (lack = [] \<longleftrightarrow> x AND m = m))"
proof -
  have small: "list_all small_privilege ps"
    using assms two_bit_range [of ps 0] by (auto simp: int_array_to_2bit_array_def)
  show ?thesis
    using evaluate_bits_small [OF small, of x] mask_covered [OF small assms, of x] small
    by (auto simp: filter_empty_conv list_all_iff)
qed

theorem privilege_bits_covered_witness:
  "list_all small_privilege [1, 8] \<and>
    (\<exists>lack. evaluate_permissions_bits [1, 8] 12 = Some lack \<and> set lack \<subseteq> set [1, 8] \<and>
      (lack = [] \<longleftrightarrow> (12 :: int) AND 196620 = 196620))"
proof (rule privilege_bits_covered)
  have "set_bit 17 (set_bit 16 (set_bit 3 (set_bit 2 (0 :: int)))) = 196620"
    by (simp add: set_bit_eq_or)
  then show "int_array_to_2bit_array [1, 8] 128 = Inr 196620"
    by (simp add: int_array_to_2bit_array_def)
qed

text \<open>
  C26: Cloud events.  The evaluation succeeds exactly when, for every request and every combination of
  its ids and tags, one single agreement is above the request in type, source, id and tag, where the
  wildcard is above every name and an omitted part of a request asks for the wildcard.
\<close>

theorem cloud_events_covered_iff:
  "evaluate_cloud_events c reqs = None \<longleftrightarrow>
     list_all (\<lambda>req. list_all (\<lambda>i. list_all (\<lambda>g.
       list_ex (\<lambda>a. covers a (requested (ef_event_type req)) (requested (ef_source req)) i g) c)
       (requested_list (ef_tags req))) (requested_list (ef_ids req))) reqs"
  unfolding evaluate_cloud_events_None request_covered_def ..

text \<open>
  C25: What a document grants.  If the grants can be computed, every agreement in force names the
  requested asset; the cloud event grants are those of the agreements in force, in order; and a
  permission is granted exactly when an agreement in force names it and the document's template, if it
  has one, is active and asks for nothing the document does not grant.
\<close>

theorem user_grants_exact:
  assumes "user_grant_map codec get_template clock data asset t = (Inr (perms, events), t')"
  shows "list_all (\<lambda>a. ag_asset a = asset_string codec asset) (agreements_in_force clock 0 (sd_agreements data)) \<and>
    events = cloud_grants (agreements_in_force clock 0 (sd_agreements data)) \<and>
    (perm_get perms nm \<longleftrightarrow> nm \<in> permission_grants (agreements_in_force clock 0 (sd_agreements data)) \<and>
       template_lets get_template data asset t (permission_grants (agreements_in_force clock 0 (sd_agreements data))))"
  using user_grant_map_Inr [OF assms refl] by blast

definition sample_agreement :: agreement where
  "sample_agreement = \<lparr>ag_type = ''permission'', ag_event_type = '''', ag_ids = [], ag_tags = [],
     ag_effective_at = 0, ag_expires_at = 100, ag_source = '''', ag_asset = ''did:x'',
     ag_permissions = [\<lparr>pm_name = ''privilege:GetVINCredential''\<rparr>]\<rparr>"

definition sample_data :: sacd_data where
  "sample_data = \<lparr>sd_grantor = \<lparr>da_address = ''a''\<rparr>, sd_grantee = \<lparr>da_address = ''b''\<rparr>, sd_effective_at = 0,
     sd_expires_at = 0, sd_asset = '''', sd_permission_template_id = ''0'',
     sd_agreements = [sample_agreement, sample_agreement\<lparr>ag_expires_at := 40, ag_asset := ''other''\<rparr>]\<rparr>"

definition sample_codec :: did_codec where
  "sample_codec = \<lparr>decode_erc721_did = (\<lambda>s. if s = ''did:x'' then Inr \<lparr>nft_chain_id = 137, nft_contract_address = 9,
       nft_token_id = 5\<rparr> else Inl (Err ''bad'')), decode_ethr_did = (\<lambda>s. Inl (Err ''bad'')),
     erc721_string = (\<lambda>d. ''did:x''), ethr_string = (\<lambda>d. ''did:y'')\<rparr>"

definition sample_asset :: asset_did where
  "sample_asset = Erc721Asset \<lparr>nft_chain_id = 137, nft_contract_address = 9, nft_token_id = 5\<rparr>"

lemma sample_grants:
  "user_grant_map sample_codec (\<lambda>i d t. (Inl (Err ''none''), t)) (\<lambda>i. 50) sample_data sample_asset ()
     = (Inr ([(''privilege:GetVINCredential'', True)], []), ())"
  by (simp add: user_grant_map_def sample_data_def sample_agreement_def sample_codec_def sample_asset_def
      in_force_def go_defs add_permissions_def)

theorem user_grants_exact_witness:
  "perm_get [(''privilege:GetVINCredential'', True)] ''privilege:GetVINCredential'' \<longleftrightarrow>
     ''privilege:GetVINCredential'' \<in> permission_grants (agreements_in_force (\<lambda>i. 50) 0 (sd_agreements sample_data)) \<and>
     template_lets (\<lambda>i d t. (Inl (Err ''none''), t)) sample_data sample_asset ()
       (permission_grants (agreements_in_force (\<lambda>i. 50) 0 (sd_agreements sample_data)))"
  using user_grants_exact [OF sample_grants] by blast

text \<open>
  \<open>GetValidAgreements\<close> gives, per source, the union of the ids granted for the event type and the
  ids granted for all events, and has a source exactly when one of the two has it.
\<close>

lemma valid_agreements_union:
  assumes "map_of agreements ce_type = Some g" and "distinct (map fst g)"
    and "map_of agreements ''*'' = Some all" and "distinct (map fst all)"
  shows "get_valid_agreements agreements ce_type source =
    (case (map_of g source, map_of all source) of
       (None, None) \<Rightarrow> None
     | (Some ids, None) \<Rightarrow> Some ids
     | (None, Some ids) \<Rightarrow> Some ids
     | (Some ids, Some ids') \<Rightarrow> Some (ids \<union> ids'))"
  using assms
  by (auto simp: get_valid_agreements_def global_identifier_def merge_grants_lookup fold_grants_lookup
      split: option.splits)

end
