(* ===== verification/SacdProxy.thy ===== *)
theory SacdProxy imports Contracts ExchangeModels Ipfs EthModel JsonReading begin

text \<open>
  The permission source of the exchange (internal/exchange/services/sacdproxy/sacdproxy.go): for
  vehicles the Identity API, asked and answering in JSON, for every other asset the SACD contract.  The
  HTTP client is a parameter; the metrics counter is left out.
\<close>

section \<open>The interface the access service calls\<close>

text \<open>\<open>SACDInterface\<close>\<close>

record sacd_interface =
  si_account_permission_records :: "address \<Rightarrow> address \<Rightarrow> go_error + sacd_record"
  si_current_permission_record :: "address \<Rightarrow> int option \<Rightarrow> address \<Rightarrow> go_error + sacd_record"
  si_get_account_permissions :: "address \<Rightarrow> address \<Rightarrow> int \<Rightarrow> go_error + int"
  si_get_permissions :: "address \<Rightarrow> int option \<Rightarrow> address \<Rightarrow> int \<Rightarrow> go_error + int"

section \<open>The Identity API\<close>

record vehicle_sacd =
  vs_permissions :: string
  vs_source :: string
  vs_expires_at :: instant
  vs_template :: "int option option"

record vehicle =
  vh_owner :: address
  vh_sacd :: "vehicle_sacd option"

record gql_error =
  ge_message :: string
  ge_path :: "string list"
  ge_code :: string

record query_response =
  qr_vehicle :: vehicle
  qr_errors :: "gql_error list"

definition vehicle_query :: string where
  "vehicle_query = nl @ ''query ($tokenId: Int!, $grantee: Address!) {'' @ nl
     @ tab @ ''vehicle(tokenId: $tokenId) {'' @ nl @ tab @ tab @ ''owner'' @ nl
     @ tab @ tab @ ''sacd(grantee: $grantee) {'' @ nl @ tab @ tab @ tab @ ''permissions'' @ nl
     @ tab @ tab @ tab @ ''source'' @ nl @ tab @ tab @ tab @ ''expiresAt'' @ nl
     @ tab @ tab @ tab @ ''template {'' @ nl @ tab @ tab @ tab @ tab @ ''tokenId'' @ nl
     @ tab @ tab @ tab @ ''}'' @ nl @ tab @ tab @ ''}'' @ nl @ tab @ ''}'' @ nl @ ''}'' @ nl"

text \<open>\<open>queryRequest\<close>; the keys of the map of variables are sorted.\<close>

definition query_request :: "eth \<Rightarrow> int \<Rightarrow> address \<Rightarrow> json" where
  "query_request eth token_id grantee =
     JObj [(''query'', JStr vehicle_query),
       (''variables'', JObj [(''grantee'', JStr (eth_marshal_address eth grantee)), (''tokenId'', JInt token_id)])]"

record identity_net =
  id_new_request :: "bytes \<Rightarrow> go_error option"
  id_do :: "bytes \<Rightarrow> go_error + http_reply"

section \<open>Reading the reply\<close>

record gql_error_wire =
  gw_message :: string
  gw_path :: "string slice"
  gw_code :: string

record query_wire =
  qw_vehicle :: vehicle
  qw_errors :: "gql_error_wire slice"

definition sacd_template_fields :: "int option fields" where
  "sacd_template_fields = [field ''tokenId'' (\<lambda>t. t) (\<lambda>f. f) decode_big_int]"

definition vehicle_sacd_fields :: "vehicle_sacd fields" where
  "vehicle_sacd_fields =
     [field ''permissions'' vs_permissions vs_permissions_update decode_string,
      field ''source'' vs_source vs_source_update decode_string,
      field ''expiresAt'' vs_expires_at vs_expires_at_update decode_time,
      field ''template'' vs_template vs_template_update (decode_pointer (decode_struct False sacd_template_fields) None)]"

definition vehicle_fields :: "eth \<Rightarrow> vehicle fields" where
  "vehicle_fields eth =
     [field ''owner'' vh_owner vh_owner_update (decode_address eth),
      field ''sacd'' vh_sacd vh_sacd_update
        (decode_pointer (decode_struct False vehicle_sacd_fields)
          \<lparr>vs_permissions = '''', vs_source = '''', vs_expires_at = 0, vs_template = None\<rparr>)]"

definition query_data_fields :: "eth \<Rightarrow> vehicle fields" where
  "query_data_fields eth = [field ''vehicle'' (\<lambda>v. v) (\<lambda>f. f) (decode_struct False (vehicle_fields eth))]"

definition gql_extensions_fields :: "string fields" where
  "gql_extensions_fields = [field ''code'' (\<lambda>c. c) (\<lambda>f. f) decode_string]"

definition gql_error_fields :: "gql_error_wire fields" where
  "gql_error_fields =
     [field ''message'' gw_message gw_message_update decode_string,
      field ''path'' gw_path gw_path_update decode_strings,
      field ''extensions'' gw_code gw_code_update (decode_struct False gql_extensions_fields)]"

definition query_fields :: "eth \<Rightarrow> query_wire fields" where
  "query_fields eth =
     [field ''data'' qw_vehicle qw_vehicle_update (decode_struct False (query_data_fields eth)),
      field ''errors'' qw_errors qw_errors_update
        (decode_slice (decode_struct False gql_error_fields) \<lparr>gw_message = '''', gw_path = ([], 0), gw_code = ''''\<rparr>)]"

definition gql_error_of :: "gql_error_wire \<Rightarrow> gql_error" where
  "gql_error_of w = \<lparr>ge_message = gw_message w, ge_path = slice_elems (gw_path w), ge_code = gw_code w\<rparr>"

definition read_query :: "eth \<Rightarrow> bytes \<Rightarrow> go_error + query_response" where
  "read_query eth body =
     (case json_unmarshal (decode_struct False (query_fields eth))
             \<lparr>qw_vehicle = \<lparr>vh_owner = 0, vh_sacd = None\<rparr>, qw_errors = ([], 0)\<rparr> body of
        Inl err \<Rightarrow> Inl err
      | Inr w \<Rightarrow> Inr \<lparr>qr_vehicle = qw_vehicle w, qr_errors = map gql_error_of (slice_elems (qw_errors w))\<rparr>)"

section \<open>Asking\<close>

record proxy =
  px_contract :: bound_contract
  px_contract_address_vehicle :: address
  px_http :: identity_net

definition blank_resp :: sacd_record where
  "blank_resp = \<lparr>sr_permissions = 0, sr_expiration = 0, sr_source = '''', sr_template_id = Some 0\<rparr>"

definition convert_token_id :: "int option \<Rightarrow> go_error + int" where
  "convert_token_id token_id =
     (case token_id of
        None \<Rightarrow> Inl (Err ''nil pointer'')
      | Some t \<Rightarrow>
          if t \<le> 0 then Inl (Err ''value not positive'')
          else if \<not> (- (2 ^ 63) \<le> t \<and> t < 2 ^ 63) then Inl (Err ''outside of int64 range'')
          else if t > 2147483647 then Inl (Err ''outside of int32 range'')
          else Inr t)"

definition get_vehicle_sacd :: "eth \<Rightarrow> proxy \<Rightarrow> int option \<Rightarrow> address \<Rightarrow> go_error + vehicle" where
  "get_vehicle_sacd eth p token_id grantee =
     (case convert_token_id token_id of
        Inl err \<Rightarrow> Inl err
      | Inr token_id_parsed \<Rightarrow>
          (let qb = json_body (query_request eth token_id_parsed grantee) in
           case id_new_request (px_http p) qb of
             Some err \<Rightarrow> Inl (Wrap ''couldn't create HTTP request'' err)
           | None \<Rightarrow>
           (case id_do (px_http p) qb of
             Inl err \<Rightarrow> Inl (Wrap ''request failed'' err)
           | Inr res \<Rightarrow>
           (case hr_body res of
             Inl err \<Rightarrow> Inl (Wrap ''request failed'' err)
           | Inr bb \<Rightarrow>
               if hr_status res \<noteq> 200 then Inl (Err ''unexpected status code'')
               else case read_query eth bb of
                      Inl err \<Rightarrow> Inl (Wrap ''couldn't unmarshal GraphQL response'' err)
                    | Inr raw \<Rightarrow>
                        (case qr_errors raw of
                           gql_err # _ \<Rightarrow>
                             if ge_path gql_err = [''vehicle''] \<and> ge_code gql_err = ''NOT_FOUND''
                             then Inl (Sentinel ErrVehicleNotFound)
                             else Inl (Err ''returned GraphQL errors'')
                         | [] \<Rightarrow> Inr (qr_vehicle raw))))))"

section \<open>The proxy\<close>

definition proxy_account_permission_records ::
  "proxy \<Rightarrow> address \<Rightarrow> address \<Rightarrow> go_error + sacd_record" where
  "proxy_account_permission_records p grantor grantee =
     account_permission_records (px_contract p) grantor grantee"

definition proxy_current_permission_record ::
  "eth \<Rightarrow> proxy \<Rightarrow> address \<Rightarrow> int option \<Rightarrow> address \<Rightarrow> go_error + sacd_record" where
  "proxy_current_permission_record eth p asset token_id grantee =
     (if asset = px_contract_address_vehicle p
      then case get_vehicle_sacd eth p token_id grantee of
             Inl err \<Rightarrow> if errors_is err ErrVehicleNotFound then Inr blank_resp else Inl err
           | Inr v \<Rightarrow>
               (case vh_sacd v of
                  None \<Rightarrow> Inr blank_resp
                | Some sacd \<Rightarrow>
                    (case eth_hexutil_decode_big eth (vs_permissions sacd) of
                       Inl err \<Rightarrow> Inl (Wrap ''couldn't parse permissions hex'' err)
                     | Inr perms \<Rightarrow>
                         Inr \<lparr>sr_permissions = perms, sr_expiration = unix_seconds (vs_expires_at sacd),
                              sr_source = vs_source sacd,
                              sr_template_id = (case vs_template sacd of None \<Rightarrow> Some 0 | Some t \<Rightarrow> t)\<rparr>))
      else current_permission_record (px_contract p) asset token_id grantee)"

definition proxy_get_account_permissions ::
  "proxy \<Rightarrow> address \<Rightarrow> address \<Rightarrow> int \<Rightarrow> go_error + int" where
  "proxy_get_account_permissions p grantor grantee permissions =
     get_account_permissions (px_contract p) grantor grantee permissions"

definition proxy_get_permissions ::
  "eth \<Rightarrow> proxy \<Rightarrow> address \<Rightarrow> int option \<Rightarrow> address \<Rightarrow> int \<Rightarrow> go_error + int" where
  "proxy_get_permissions eth p asset token_id grantee permissions =
     (if asset = px_contract_address_vehicle p
      then case get_vehicle_sacd eth p token_id grantee of
             Inl err \<Rightarrow> if errors_is err ErrVehicleNotFound then Inr 0 else Inl err
           | Inr v \<Rightarrow>
               if vh_owner v = grantee then Inr permissions
               else (case vh_sacd v of
                       None \<Rightarrow> Inr 0
                     | Some sacd \<Rightarrow>
                         (case eth_hexutil_decode_big eth (vs_permissions sacd) of
                            Inl err \<Rightarrow> Inl (Wrap ''couldn't parse permissions hex'' err)
                          | Inr ident_perms \<Rightarrow> Inr (ident_perms AND permissions)))
      else get_permissions (px_contract p) asset token_id grantee permissions)"

definition proxy_interface :: "eth \<Rightarrow> proxy \<Rightarrow> sacd_interface" where
  "proxy_interface eth p =
     \<lparr>si_account_permission_records = proxy_account_permission_records p,
      si_current_permission_record = proxy_current_permission_record eth p,
      si_get_account_permissions = proxy_get_account_permissions p,
      si_get_permissions = proxy_get_permissions eth p\<rparr>"

section \<open>Lemmas\<close>

lemma convert_token_id_iff:
  "convert_token_id t = Inr n \<longleftrightarrow> t = Some n \<and> 0 < n \<and> n < 2 ^ 31"
  by (auto simp: convert_token_id_def split: option.splits)

lemma read_query_Inl: "read_query eth b = Inl e \<Longrightarrow> \<not> errors_is e s"
  by (auto simp: read_query_def json_unmarshal_def decode_into_def split: option.splits if_splits prod.splits sum.splits)

lemma get_vehicle_sacd_not_found:
  assumes "\<And>qb e. id_new_request (px_http p) qb = Some e \<Longrightarrow> \<not> errors_is e ErrVehicleNotFound"
    and "\<And>qb e. id_do (px_http p) qb = Inl e \<Longrightarrow> \<not> errors_is e ErrVehicleNotFound"
    and "\<And>qb r e. id_do (px_http p) qb = Inr r \<Longrightarrow> hr_body r = Inl e \<Longrightarrow> \<not> errors_is e ErrVehicleNotFound"
    and "get_vehicle_sacd eth p t g = Inl err" and "errors_is err ErrVehicleNotFound"
  shows "err = Sentinel ErrVehicleNotFound"
  using assms(4,5)
  by (auto simp: get_vehicle_sacd_def convert_token_id_def Let_def
      dest: assms(1-3) read_query_Inl split: option.splits sum.splits list.splits if_splits)

lemma get_vehicle_sacd_Inr:
  assumes "get_vehicle_sacd eth p t g = Inr v"
  obtains n res bb raw where "convert_token_id t = Inr n" "id_do (px_http p)
      (json_body (query_request eth n g)) = Inr res"
    "hr_status res = 200" "hr_body res = Inr bb" "read_query eth bb = Inr raw"
    "qr_errors raw = []" "qr_vehicle raw = v"
  using assms by (auto simp: get_vehicle_sacd_def Let_def split: option.splits sum.splits list.splits if_splits)

section \<open>Replies as the Identity API writes them\<close>

definition template_id_json :: "int option \<Rightarrow> json" where
  "template_id_json t = JObj [(''tokenId'', case t of None \<Rightarrow> JNull | Some i \<Rightarrow> JInt i)]"

definition vehicle_sacd_json :: "vehicle_sacd \<Rightarrow> json" where
  "vehicle_sacd_json s =
     JObj [(''permissions'', JStr (vs_permissions s)), (''source'', JStr (vs_source s)),
       (''expiresAt'', JStr (rfc3339 (vs_expires_at s))),
       (''template'', case vs_template s of None \<Rightarrow> JNull | Some t \<Rightarrow> template_id_json t)]"

definition vehicle_json :: "eth \<Rightarrow> vehicle \<Rightarrow> json" where
  "vehicle_json eth v =
     JObj [(''data'', JObj [(''vehicle'', JObj [(''owner'', JStr (eth_marshal_address eth (vh_owner v))),
       (''sacd'', case vh_sacd v of None \<Rightarrow> JNull | Some s \<Rightarrow> vehicle_sacd_json s)])])]"

definition writable_vehicle :: "vehicle \<Rightarrow> bool" where
  "writable_vehicle v \<longleftrightarrow>
     (case vh_sacd v of None \<Rightarrow> True | Some s \<Rightarrow> ascii (vs_permissions s) \<and> ascii (vs_source s) \<and> whole_second (vs_expires_at s))"

lemma decode_big_int_scanned [simp]: "decode_big_int (VNum (show_int i)) old = (Some i, False)"
  by (simp add: decode_big_int_def big_set_string_show_int)

lemma decode_template_id_scanned:
  "decode_struct False sacd_template_fields (scanned (template_id_json t)) None = (t, False)"
  by (cases t) (simp_all add: template_id_json_def sacd_template_fields_def decode_scanned decode_big_int_def big_set_string_show_int)

lemma template_id_object: "\<exists>ms. scanned (template_id_json t) = VObj ms" "\<exists>ms. scanned (vehicle_sacd_json s) = VObj ms"
  by (simp_all add: template_id_json_def vehicle_sacd_json_def)

lemma decode_pointer_object: "\<exists>ms. v = VObj ms \<Longrightarrow> decode_pointer d zero v None = map_prod Some id (d v zero)"
  by (auto simp: decode_pointer_def split: prod.splits)

lemma decode_vehicle_sacd_scanned:
  assumes "ascii (vs_permissions s)" "ascii (vs_source s)" "whole_second (vs_expires_at s)"
  shows "decode_struct False vehicle_sacd_fields (scanned (vehicle_sacd_json s))
      \<lparr>vs_permissions = '''', vs_source = '''', vs_expires_at = 0, vs_template = None\<rparr> = (s, False)"
  using assms
  by (cases "vs_template s")
    (simp_all add: vehicle_sacd_json_def vehicle_sacd_fields_def decode_struct_def [of _ "_ # _"] find_field_def field_def
      decode_string_scanned unquote_escaped [unfolded ascii_def] decode_time_scanned decode_pointer_object [OF template_id_object(1)]
      decode_template_id_scanned, simp_all add: decode_pointer_def)

lemma read_query_text:
  assumes law: "\<And>a. eth_unmarshal_address eth (VStr (escaped (eth_marshal_address eth a))) = Inr a"
    and "writable_vehicle v"
  shows "read_query eth (json_body (vehicle_json eth v)) = Inr \<lparr>qr_vehicle = v, qr_errors = []\<rparr>"
proof -
  have depth: "json_depth (vehicle_json eth v) \<le> max_nesting_depth"
    by (auto simp: vehicle_json_def vehicle_sacd_json_def template_id_json_def max_nesting_depth_def split: option.splits)
  show ?thesis
    unfolding read_query_def json_unmarshal_text [OF depth]
    using assms(2) unfolding writable_vehicle_def
    by (cases "vh_sacd v")
      (simp_all add: vehicle_json_def decode_into_def query_fields_def query_data_fields_def vehicle_fields_def
        decode_struct_def [of _ "_ # _"] find_field_def field_def unquote_escaped [unfolded ascii_def] decode_address_def law
        decode_pointer_object [OF template_id_object(2)] decode_vehicle_sacd_scanned slice_elems_def, simp_all add: decode_pointer_def slice_elems_def)
qed

section \<open>Properties\<close>

text \<open>
  Soundness of vehicle permissions.  A bit of the answer is a bit of the requested mask, and it is
  there because the Identity API, asked with status 200 and no errors about a vehicle with a positive
  32-bit id and this grantee, named the grantee as the owner or listed the bit in the grantee's SACD.
\<close>

theorem vehicle_permissions_sound:
  assumes "proxy_get_permissions eth p (px_contract_address_vehicle p) t g msk = Inr r" and "bit r k"
  shows "bit msk k \<and> (\<exists>n res bb raw v. t = Some n \<and> 0 < n \<and> n < 2 ^ 31 \<and>
     id_do (px_http p) (json_body (query_request eth n g)) = Inr res \<and>
     hr_status res = 200 \<and> hr_body res = Inr bb \<and> read_query eth bb = Inr raw \<and>
     qr_errors raw = [] \<and> qr_vehicle raw = v \<and>
     (vh_owner v = g \<or> (\<exists>s perms. vh_sacd v = Some s \<and>
        eth_hexutil_decode_big eth (vs_permissions s) = Inr perms \<and> bit perms k)))"
proof (cases "get_vehicle_sacd eth p t g")
  case (Inl err)
  with assms show ?thesis by (auto simp: proxy_get_permissions_def split: if_splits)
next
  case (Inr v)
  then obtain n res bb raw where "convert_token_id t = Inr n" "id_do (px_http p)
      (json_body (query_request eth n g)) = Inr res"
    "hr_status res = 200" "hr_body res = Inr bb" "read_query eth bb = Inr raw"
    "qr_errors raw = []" "qr_vehicle raw = v"
    by (rule get_vehicle_sacd_Inr)
  moreover have "bit msk k \<and> (vh_owner v = g \<or> (\<exists>s perms. vh_sacd v = Some s \<and>
        eth_hexutil_decode_big eth (vs_permissions s) = Inr perms \<and> bit perms k))"
    using assms Inr
    by (auto simp: proxy_get_permissions_def bit_and_iff split: if_splits option.splits sum.splits)
  ultimately show ?thesis by (auto simp: convert_token_id_iff)
qed

text \<open>A network in which every vehicle belongs to account 7.\<close>

definition sample_vehicle_reply :: json where
  "sample_vehicle_reply = vehicle_json eth_model \<lparr>vh_owner = 7, vh_sacd = None\<rparr>"

definition sample_net :: identity_net where
  "sample_net = \<lparr>id_new_request = (\<lambda>q. None),
     id_do = (\<lambda>q. Inr \<lparr>hr_status = 200, hr_body = Inr (json_body sample_vehicle_reply)\<rparr>)\<rparr>"

lemma sample_reply_read:
  "read_query eth_model (json_body sample_vehicle_reply) = Inr \<lparr>qr_vehicle = \<lparr>vh_owner = 7, vh_sacd = None\<rparr>, qr_errors = []\<rparr>"
  by (simp add: sample_vehicle_reply_def read_query_text writable_vehicle_def)

definition sample_proxy :: "chain \<Rightarrow> proxy" where
  "sample_proxy ch = \<lparr>px_contract = \<lparr>bc_address = 1, bc_chain = ch\<rparr>, px_contract_address_vehicle = 9, px_http = sample_net\<rparr>"

theorem vehicle_permissions_sound_witness:
  "bit (12 :: int) 2 \<and> (\<exists>n res. Some 5 = Some n \<and> 0 < n \<and> n < 2 ^ 31 \<and>
     id_do sample_net (json_body (query_request eth_model n 7)) = Inr res \<and> hr_status res = 200)"
proof -
  have "proxy_get_permissions eth_model (sample_proxy ch) (px_contract_address_vehicle (sample_proxy ch)) (Some 5) 7 12 = Inr 12" for ch
    by (simp add: proxy_get_permissions_def sample_proxy_def get_vehicle_sacd_def convert_token_id_def sample_net_def sample_reply_read)
  from vehicle_permissions_sound [OF this, of 2] show ?thesis by (auto simp: sample_proxy_def bit_iff_odd)
qed

text \<open>
  A vehicle's token id is usable exactly when it is given and within the positive range of a GraphQL
  integer; for a vehicle that is not known the record is blank and no permission is held.
\<close>

lemma vehicle_token_id_exact:
  "(convert_token_id t = Inr n \<longleftrightarrow> t = Some n \<and> 0 < n \<and> n \<le> 2147483647) \<and>
   (get_vehicle_sacd eth p t g = Inl (Sentinel ErrVehicleNotFound) \<longrightarrow>
      proxy_current_permission_record eth p (px_contract_address_vehicle p) t g = Inr blank_resp \<and>
      proxy_get_permissions eth p (px_contract_address_vehicle p) t g msk = Inr 0)"
  by (auto simp: convert_token_id_iff proxy_current_permission_record_def proxy_get_permissions_def)

end
