(* ===== verification/Documents.thy ===== *)
theory Documents imports ExchangeModels JsonReading begin

text \<open>
  The documents that grants and templates are written in (internal/exchange/models/permission\_record.go),
  read with \<open>json.Unmarshal\<close> as evaluateSacdDoc and GetTemplatePermissions do it.
\<close>

section \<open>Fields\<close>

definition address_fields :: "doc_address fields" where
  "address_fields = [field ''address'' da_address da_address_update decode_string]"

definition permission_fields :: "permission fields" where
  "permission_fields = [field ''name'' pm_name pm_name_update decode_string]"

definition decode_permissions :: "permission slice decode" where
  "decode_permissions = decode_slice (decode_struct False permission_fields) \<lparr>pm_name = ''''\<rparr>"

section \<open>Grants\<close>

record agreement_wire =
  aw_type :: string
  aw_event_type :: string
  aw_ids :: "string slice"
  aw_tags :: "string slice"
  aw_effective_at :: instant
  aw_expires_at :: instant
  aw_source :: string
  aw_asset :: string
  aw_permissions :: "permission slice"

record sacd_wire =
  sw_grantor :: doc_address
  sw_grantee :: doc_address
  sw_effective_at :: instant
  sw_expires_at :: instant
  sw_asset :: string
  sw_permission_template_id :: string
  sw_agreements :: "agreement_wire slice"

definition empty_agreement :: agreement_wire where
  "empty_agreement = \<lparr>aw_type = '''', aw_event_type = '''', aw_ids = ([], 0), aw_tags = ([], 0), aw_effective_at = 0,
     aw_expires_at = 0, aw_source = '''', aw_asset = '''', aw_permissions = ([], 0)\<rparr>"

definition empty_sacd :: sacd_wire where
  "empty_sacd = \<lparr>sw_grantor = \<lparr>da_address = ''''\<rparr>, sw_grantee = \<lparr>da_address = ''''\<rparr>, sw_effective_at = 0, sw_expires_at = 0,
     sw_asset = '''', sw_permission_template_id = '''', sw_agreements = ([], 0)\<rparr>"

definition agreement_fields :: "agreement_wire fields" where
  "agreement_fields =
     [field ''type'' aw_type aw_type_update decode_string,
      field ''eventType'' aw_event_type aw_event_type_update decode_string,
      field ''ids'' aw_ids aw_ids_update decode_strings,
      field ''tags'' aw_tags aw_tags_update decode_strings,
      field ''effectiveAt'' aw_effective_at aw_effective_at_update decode_time,
      field ''expiresAt'' aw_expires_at aw_expires_at_update decode_time,
      field ''source'' aw_source aw_source_update decode_string,
      field ''asset'' aw_asset aw_asset_update decode_string,
      field ''permissions'' aw_permissions aw_permissions_update decode_permissions]"

definition decode_agreements :: "agreement_wire slice decode" where
  "decode_agreements = decode_slice (decode_struct False agreement_fields) empty_agreement"

definition sacd_fields :: "sacd_wire fields" where
  "sacd_fields =
     [field ''grantor'' sw_grantor sw_grantor_update (decode_struct False address_fields),
      field ''grantee'' sw_grantee sw_grantee_update (decode_struct False address_fields),
      field ''effectiveAt'' sw_effective_at sw_effective_at_update decode_time,
      field ''expiresAt'' sw_expires_at sw_expires_at_update decode_time,
      field ''asset'' sw_asset sw_asset_update decode_string,
      field ''permissionTemplateId'' sw_permission_template_id sw_permission_template_id_update decode_string,
      field ''agreements'' sw_agreements sw_agreements_update decode_agreements]"

definition agreement_of :: "agreement_wire \<Rightarrow> agreement" where
  "agreement_of w =
     \<lparr>ag_type = aw_type w, ag_event_type = aw_event_type w, ag_ids = slice_elems (aw_ids w),
      ag_tags = slice_elems (aw_tags w), ag_effective_at = aw_effective_at w, ag_expires_at = aw_expires_at w,
      ag_source = aw_source w, ag_asset = aw_asset w, ag_permissions = slice_elems (aw_permissions w)\<rparr>"

definition sacd_of :: "sacd_wire \<Rightarrow> sacd_data" where
  "sacd_of w =
     \<lparr>sd_grantor = sw_grantor w, sd_grantee = sw_grantee w, sd_effective_at = sw_effective_at w,
      sd_expires_at = sw_expires_at w, sd_asset = sw_asset w, sd_permission_template_id = sw_permission_template_id w,
      sd_agreements = map agreement_of (slice_elems (sw_agreements w))\<rparr>"

definition read_sacd :: "bytes \<Rightarrow> go_error + sacd_data" where
  "read_sacd data =
     (case json_unmarshal (decode_struct False sacd_fields) empty_sacd data of
        Inl err \<Rightarrow> Inl err
      | Inr w \<Rightarrow> Inr (sacd_of w))"

section \<open>Templates\<close>

record template_agreement_wire =
  tw_type :: string
  tw_asset :: string
  tw_permissions :: "permission slice"

record template_wire =
  dw_owner :: doc_address
  dw_agreements :: "template_agreement_wire slice"

definition template_agreement_fields :: "template_agreement_wire fields" where
  "template_agreement_fields =
     [field ''type'' tw_type tw_type_update decode_string,
      field ''asset'' tw_asset tw_asset_update decode_string,
      field ''permissions'' tw_permissions tw_permissions_update decode_permissions]"

definition template_fields :: "template_wire fields" where
  "template_fields =
     [field ''owner'' dw_owner dw_owner_update (decode_struct False address_fields),
      field ''agreements'' dw_agreements dw_agreements_update
        (decode_slice (decode_struct False template_agreement_fields) \<lparr>tw_type = '''', tw_asset = '''', tw_permissions = ([], 0)\<rparr>)]"

definition template_agreement_of :: "template_agreement_wire \<Rightarrow> template_agreement" where
  "template_agreement_of w =
     \<lparr>ta_type = tw_type w, ta_asset = tw_asset w, ta_permissions = slice_elems (tw_permissions w)\<rparr>"

definition read_template :: "bytes \<Rightarrow> go_error + template_doc" where
  "read_template data =
     (case json_unmarshal (decode_struct False template_fields) \<lparr>dw_owner = \<lparr>da_address = ''''\<rparr>, dw_agreements = ([], 0)\<rparr> data of
        Inl err \<Rightarrow> Inl err
      | Inr w \<Rightarrow>
          Inr \<lparr>tdoc_owner = dw_owner w, tdoc_agreements = map template_agreement_of (slice_elems (dw_agreements w))\<rparr>)"

section \<open>Documents as they are written\<close>

definition address_json :: "doc_address \<Rightarrow> json" where
  "address_json a = JObj [(''address'', JStr (da_address a))]"

definition permission_json :: "permission \<Rightarrow> json" where
  "permission_json p = JObj [(''name'', JStr (pm_name p))]"

definition agreement_json :: "agreement \<Rightarrow> json" where
  "agreement_json a =
     JObj [(''type'', JStr (ag_type a)), (''eventType'', JStr (ag_event_type a)), (''ids'', json_strings (ag_ids a)),
       (''tags'', json_strings (ag_tags a)), (''effectiveAt'', JStr (rfc3339 (ag_effective_at a))),
       (''expiresAt'', JStr (rfc3339 (ag_expires_at a))), (''source'', JStr (ag_source a)), (''asset'', JStr (ag_asset a)),
       (''permissions'', JArr (map permission_json (ag_permissions a)))]"

definition sacd_json :: "sacd_data \<Rightarrow> json" where
  "sacd_json d =
     JObj [(''grantor'', address_json (sd_grantor d)), (''grantee'', address_json (sd_grantee d)),
       (''effectiveAt'', JStr (rfc3339 (sd_effective_at d))), (''expiresAt'', JStr (rfc3339 (sd_expires_at d))),
       (''asset'', JStr (sd_asset d)), (''permissionTemplateId'', JStr (sd_permission_template_id d)),
       (''agreements'', JArr (map agreement_json (sd_agreements d)))]"

definition template_agreement_json :: "template_agreement \<Rightarrow> json" where
  "template_agreement_json a =
     JObj [(''type'', JStr (ta_type a)), (''asset'', JStr (ta_asset a)),
       (''permissions'', JArr (map permission_json (ta_permissions a)))]"

definition template_json :: "template_doc \<Rightarrow> json" where
  "template_json d =
     JObj [(''owner'', address_json (tdoc_owner d)), (''agreements'', JArr (map template_agreement_json (tdoc_agreements d)))]"

text \<open>What such a document can say: ASCII text, and times of whole seconds in the years 1 to 9999.\<close>

definition writable_agreement :: "agreement \<Rightarrow> bool" where
  "writable_agreement a \<longleftrightarrow> ascii (ag_type a) \<and> ascii (ag_event_type a) \<and> list_all ascii (ag_ids a) \<and> list_all ascii (ag_tags a) \<and>
     whole_second (ag_effective_at a) \<and> whole_second (ag_expires_at a) \<and> ascii (ag_source a) \<and> ascii (ag_asset a) \<and>
     list_all (\<lambda>p. ascii (pm_name p)) (ag_permissions a)"

definition writable_sacd :: "sacd_data \<Rightarrow> bool" where
  "writable_sacd d \<longleftrightarrow> ascii (da_address (sd_grantor d)) \<and> ascii (da_address (sd_grantee d)) \<and>
     whole_second (sd_effective_at d) \<and> whole_second (sd_expires_at d) \<and> ascii (sd_asset d) \<and>
     ascii (sd_permission_template_id d) \<and> list_all writable_agreement (sd_agreements d)"

definition writable_template :: "template_doc \<Rightarrow> bool" where
  "writable_template d \<longleftrightarrow> ascii (da_address (tdoc_owner d)) \<and>
     list_all (\<lambda>a. ascii (ta_type a) \<and> ascii (ta_asset a) \<and> list_all (\<lambda>p. ascii (pm_name p)) (ta_permissions a)) (tdoc_agreements d)"

section \<open>Reading what was written\<close>

lemma decode_permissions_scanned:
  "list_all (\<lambda>p. ascii (pm_name p)) ps \<Longrightarrow>
    decode_permissions (scanned (JArr (map permission_json ps))) ([], 0) = ((ps, length ps), False)"
  using decode_slice_scanned [of ps "decode_struct False permission_fields" "\<lambda>p. scanned (permission_json p)" "\<lparr>pm_name = ''''\<rparr>" "\<lambda>p. p"]
  by (simp add: decode_permissions_def permission_json_def permission_fields_def decode_scanned list_all_iff comp_def)

lemma decode_address_scanned:
  "ascii (da_address a) \<Longrightarrow> decode_struct False address_fields (scanned (address_json a)) \<lparr>da_address = ''''\<rparr> = (a, False)"
  by (simp add: address_fields_def address_json_def decode_scanned)

definition wire_agreement :: "agreement \<Rightarrow> agreement_wire" where
  "wire_agreement a = \<lparr>aw_type = ag_type a, aw_event_type = ag_event_type a, aw_ids = (ag_ids a, length (ag_ids a)),
     aw_tags = (ag_tags a, length (ag_tags a)), aw_effective_at = ag_effective_at a, aw_expires_at = ag_expires_at a,
     aw_source = ag_source a, aw_asset = ag_asset a, aw_permissions = (ag_permissions a, length (ag_permissions a))\<rparr>"

lemma agreement_of_wire [simp]: "agreement_of (wire_agreement a) = a"
  by (simp add: agreement_of_def wire_agreement_def)

lemma decode_agreement_scanned:
  assumes "writable_agreement a"
  shows "decode_struct False agreement_fields (scanned (agreement_json a)) empty_agreement = (wire_agreement a, False)"
  using assms decode_permissions_scanned [of "ag_permissions a"] unfolding writable_agreement_def
  by (simp add: agreement_json_def agreement_fields_def empty_agreement_def wire_agreement_def decode_scanned decode_strings_scanned
      decode_time_scanned)

lemma decode_sacd_scanned:
  assumes "writable_sacd d"
  shows "decode_struct False sacd_fields (scanned (sacd_json d)) empty_sacd =
    (\<lparr>sw_grantor = sd_grantor d, sw_grantee = sd_grantee d, sw_effective_at = sd_effective_at d, sw_expires_at = sd_expires_at d,
      sw_asset = sd_asset d, sw_permission_template_id = sd_permission_template_id d,
      sw_agreements = (map wire_agreement (sd_agreements d), length (sd_agreements d))\<rparr>, False)"
proof -
  have "decode_agreements (scanned (JArr (map agreement_json (sd_agreements d)))) ([], 0) =
      ((map wire_agreement (sd_agreements d), length (sd_agreements d)), False)"
    using decode_slice_scanned [of "sd_agreements d" "decode_struct False agreement_fields" "\<lambda>a. scanned (agreement_json a)"
        empty_agreement wire_agreement] assms
    by (simp add: decode_agreements_def writable_sacd_def list_all_iff decode_agreement_scanned comp_def)
  moreover note decode_address_scanned [of "sd_grantor d"] decode_address_scanned [of "sd_grantee d"]
  ultimately show ?thesis
    using assms unfolding writable_sacd_def sacd_fields_def
    by (simp add: sacd_json_def empty_sacd_def decode_struct_def [of _ "_ # _"] find_field_def field_def decode_string_scanned
      unquote_escaped [unfolded ascii_def] decode_time_scanned)
qed

lemma json_depth_map: "(\<And>x. json_depth (f x) \<le> d) \<Longrightarrow> json_depth (JArr (map f xs)) \<le> Suc d"
  by (simp add: foldr_max_le)

lemma json_depth_sacd: "json_depth (sacd_json d) \<le> max_nesting_depth"
proof -
  have "json_depth (permission_json p) = 1" "json_depth (address_json a) = 1" for p a
    by (simp_all add: permission_json_def address_json_def)
  then have "json_depth (agreement_json a) \<le> 3" for a
    using json_depth_map [of permission_json 1 "ag_permissions a"] by (simp add: agreement_json_def del: json_depth.simps(1))
  from json_depth_map [of agreement_json 3, OF this] show ?thesis
    by (simp add: sacd_json_def address_json_def max_nesting_depth_def le_trans [of _ 4] del: json_depth.simps(1))
qed

lemma read_sacd_text: "writable_sacd d \<Longrightarrow> read_sacd (json_body (sacd_json d)) = Inr d"
  by (simp add: read_sacd_def json_unmarshal_text json_depth_sacd decode_into_def decode_sacd_scanned sacd_of_def comp_def)

definition wire_template_agreement :: "template_agreement \<Rightarrow> template_agreement_wire" where
  "wire_template_agreement a =
     \<lparr>tw_type = ta_type a, tw_asset = ta_asset a, tw_permissions = (ta_permissions a, length (ta_permissions a))\<rparr>"

lemma template_agreement_of_wire [simp]: "template_agreement_of (wire_template_agreement a) = a"
  by (simp add: template_agreement_of_def wire_template_agreement_def)

lemma decode_template_scanned:
  assumes "writable_template d"
  shows "decode_struct False template_fields (scanned (template_json d)) \<lparr>dw_owner = \<lparr>da_address = ''''\<rparr>, dw_agreements = ([], 0)\<rparr> =
    (\<lparr>dw_owner = tdoc_owner d, dw_agreements = (map wire_template_agreement (tdoc_agreements d), length (tdoc_agreements d))\<rparr>, False)"
proof -
  have "decode_struct False template_agreement_fields (scanned (template_agreement_json a))
      \<lparr>tw_type = '''', tw_asset = '''', tw_permissions = ([], 0)\<rparr> = (wire_template_agreement a, False)"
    if "a \<in> set (tdoc_agreements d)" for a
    using that assms decode_permissions_scanned [of "ta_permissions a"]
    by (auto simp: writable_template_def list_all_iff template_agreement_json_def template_agreement_fields_def
        wire_template_agreement_def decode_scanned)
  from decode_slice_scanned [of "tdoc_agreements d" "decode_struct False template_agreement_fields"
      "\<lambda>a. scanned (template_agreement_json a)" _ wire_template_agreement, OF this] decode_address_scanned [of "tdoc_owner d"] assms
  show ?thesis
    unfolding writable_template_def
    by (simp add: template_json_def template_fields_def decode_struct_def [of _ "_ # _"] find_field_def field_def comp_def
      unquote_escaped [unfolded ascii_def])
qed

lemma json_depth_template: "json_depth (template_json d) \<le> max_nesting_depth"
proof -
  have "json_depth (permission_json p) = 1" "json_depth (address_json a) = 1" for p a
    by (simp_all add: permission_json_def address_json_def)
  then have "json_depth (template_agreement_json a) \<le> 3" for a
    using json_depth_map [of permission_json 1 "ta_permissions a"] by (simp add: template_agreement_json_def del: json_depth.simps(1))
  from json_depth_map [of template_agreement_json 3, OF this] show ?thesis
    by (simp add: template_json_def address_json_def max_nesting_depth_def le_trans [of _ 4] del: json_depth.simps(1))
qed

lemma read_template_text: "writable_template d \<Longrightarrow> read_template (json_body (template_json d)) = Inr d"
  by (simp add: read_template_def json_unmarshal_text json_depth_template decode_into_def decode_template_scanned comp_def)

end
