(* ===== verification/TemplateService.thy ===== *)
theory TemplateService imports Contracts AuthEval Ipfs EthModel Documents begin

text \<open>
  The template service (internal/exchange/services/template/template.go): the permissions a template
  asks for, with a cache of the templates whose owner's signature was checked.  A call takes the
  services it uses as they are at that moment, and the cache.
\<close>

section \<open>The service\<close>

type_synonym template_cache = "string \<rightharpoonup> template_agreement list"

record template_env =
  te_templates :: "int \<Rightarrow> go_error + template_data"
  te_is_active :: "int \<Rightarrow> go_error + bool"
  te_get_doc :: "string \<Rightarrow> go_error + raw_event"
  te_validate :: "bytes \<Rightarrow> string \<Rightarrow> address \<Rightarrow> go_error + bool"

definition asset_ethr_did :: "eth \<Rightarrow> asset_did \<Rightarrow> string" where
  "asset_ethr_did eth asset =
     ''did:ethr:'' @ show_nat (unat (get_chain_id asset)) @ '':'' @ eth_address_hex eth (get_contract_address asset)"

fun extract_permissions_loop :: "string \<Rightarrow> template_agreement list \<Rightarrow> perm_map \<Rightarrow> perm_map" where
  "extract_permissions_loop did [] m = m"
| "extract_permissions_loop did (a # as) m =
     (if ta_asset a \<noteq> did then extract_permissions_loop did as m
      else if ta_type a = ''permission''
      then extract_permissions_loop did as (add_permissions (ta_permissions a) m)
      else extract_permissions_loop did as m)"

definition extract_permissions :: "eth \<Rightarrow> template_agreement list \<Rightarrow> asset_did \<Rightarrow> perm_map" where
  "extract_permissions eth agreements asset = extract_permissions_loop (asset_ethr_did eth asset) agreements []"

definition permissions_and_status ::
  "eth \<Rightarrow> template_env \<Rightarrow> string \<Rightarrow> template_agreement list \<Rightarrow> asset_did \<Rightarrow> go_error + permissions_result option" where
  "permissions_and_status eth env tid agreements asset =
     (let template_permissions = extract_permissions eth agreements asset in
      if length template_permissions = 0 then Inr (Some \<lparr>pr_permissions = [], pr_is_active = False\<rparr>)
      else case big_set_string tid of
             None \<Rightarrow> Inl (Err ''could not convert template ID string to big.Int'')
           | Some template_id \<Rightarrow>
               (case te_is_active env template_id of
                  Inl err \<Rightarrow> Inl (Rich 500 (Some (Wrap ''failed to get template status'' err)) ''Failed to get template status'')
                | Inr active \<Rightarrow> Inr (Some \<lparr>pr_permissions = template_permissions, pr_is_active = active\<rparr>)))"

definition get_template_permissions ::
  "eth \<Rightarrow> template_env \<Rightarrow> string \<Rightarrow> asset_did \<Rightarrow> template_cache
   \<Rightarrow> (go_error + permissions_result option) \<times> template_cache" where
  "get_template_permissions eth env tid asset cache =
     (case cache tid of
        Some cached \<Rightarrow> (permissions_and_status eth env tid cached asset, cache)
      | None \<Rightarrow>
          (case big_set_string tid of
             None \<Rightarrow> (Inl (Err ''could not convert template ID string to big.Int''), cache)
           | Some template_id \<Rightarrow>
          (case te_templates env template_id of
             Inl err \<Rightarrow> (Inl (Rich 500 (Some err) ''Failed to get template data''), cache)
           | Inr td \<Rightarrow>
          (case te_get_doc env (td_source td) of
             Inl err \<Rightarrow> (Inl err, cache)
           | Inr raw \<Rightarrow>
          (case read_template (re_data raw) of
             Inl err \<Rightarrow> (Inl (Rich 400 (Some err) ''failed to parse template data''), cache)
           | Inr data \<Rightarrow>
          (case te_validate env (re_data raw) (re_signature raw) (eth_hex_to_address eth (da_address (tdoc_owner data))) of
             Inl err \<Rightarrow> (Inl (Rich 400 (Some err) ''failed to validate template owner signature''), cache)
           | Inr valid \<Rightarrow>
               if \<not> valid then (Inl (Rich 403 None ''invalid template owner signature''), cache)
               else (permissions_and_status eth env tid (tdoc_agreements data) asset,
                     cache(tid \<mapsto> tdoc_agreements data))))))))"

definition clear_cache :: "template_cache \<Rightarrow> template_cache" where
  "clear_cache cache = Map.empty"

definition get_cache_size :: "template_cache \<Rightarrow> nat" where
  "get_cache_size cache = card (dom cache)"

section \<open>Lemmas\<close>

text \<open>
  The environment vouches for a template's agreements: they are those of the document the chain names
  for the id, signed by the owner the document states.
\<close>

definition vouches :: "eth \<Rightarrow> template_env \<Rightarrow> string \<Rightarrow> template_agreement list \<Rightarrow> bool" where
  "vouches eth env tid agreements \<longleftrightarrow>
     (\<exists>n td raw doc. big_set_string tid = Some n \<and> te_templates env n = Inr td \<and>
        te_get_doc env (td_source td) = Inr raw \<and> read_template (re_data raw) = Inr doc \<and>
        te_validate env (re_data raw) (re_signature raw) (eth_hex_to_address eth (da_address (tdoc_owner doc))) = Inr True \<and>
        agreements = tdoc_agreements doc)"

lemma get_template_cases:
  assumes "get_template_permissions eth env tid asset cache = (r, cache')"
  obtains (hit) ags where "cache tid = Some ags" "cache' = cache" "r = permissions_and_status eth env tid ags asset"
  | (fetched) ags where "cache tid = None" "vouches eth env tid ags" "cache' = cache(tid \<mapsto> ags)"
      "r = permissions_and_status eth env tid ags asset"
  | (failed) e where "cache tid = None" "\<nexists>ags. vouches eth env tid ags" "cache' = cache" "r = Inl e"
proof (cases "cache tid")
  case (Some ags)
  with assms show ?thesis by (intro hit) (auto simp: get_template_permissions_def)
next
  case None
  show ?thesis
  proof (cases "\<exists>ags. vouches eth env tid ags")
    case True
    then obtain ags where v: "vouches eth env tid ags" by blast
    with assms None have "cache' = cache(tid \<mapsto> ags) \<and> r = permissions_and_status eth env tid ags asset"
      by (auto simp: get_template_permissions_def vouches_def)
    with None v show ?thesis by (intro fetched) auto
  next
    case False
    with assms None have "cache' = cache \<and> (\<exists>e. r = Inl e)"
      by (auto simp: get_template_permissions_def vouches_def split: option.splits sum.splits if_splits)
    with None False show ?thesis by (auto intro: failed)
  qed
qed

text \<open>A lookup adds at most its own template and drops none; clearing drops them all.\<close>

lemma cache_size_after_lookup:
  assumes "get_template_permissions eth env tid asset cache = (r, cache')" and "finite (dom cache)"
  shows "finite (dom cache')" and "get_cache_size cache' = get_cache_size cache + (if cache tid = None \<and> cache' tid \<noteq> None then 1 else 0)"
  using assms(1)
  by (cases rule: get_template_cases; use assms(2) in \<open>simp add: get_cache_size_def card_insert_if domIff\<close>)+

lemma cache_size_cleared: "get_cache_size (clear_cache cache) = 0"
  by (simp add: get_cache_size_def clear_cache_def)

lemma vouches_unique: "vouches eth env tid a \<Longrightarrow> vouches eth env tid b \<Longrightarrow> a = b"
  by (auto simp: vouches_def)

lemma extract_loop_keys:
  "fst ` set (extract_permissions_loop did as m) =
     fst ` set m \<union> (\<Union>a \<in> {a \<in> set as. ta_asset a = did \<and> ta_type a = ''permission''}. pm_name ` set (ta_permissions a))"
  by (induction as arbitrary: m) auto

lemma extract_loop_get:
  "perm_get (extract_permissions_loop did as m) nm \<longleftrightarrow> perm_get m nm \<or>
     (\<exists>a \<in> set as. ta_asset a = did \<and> ta_type a = ''permission'' \<and> nm \<in> pm_name ` set (ta_permissions a))"
  by (induction as arbitrary: m) auto

definition template_asks :: "eth \<Rightarrow> template_agreement list \<Rightarrow> asset_did \<Rightarrow> string set" where
  "template_asks eth ags asset =
     (\<Union>a \<in> {a \<in> set ags. ta_asset a = asset_ethr_did eth asset \<and> ta_type a = ''permission''}. pm_name ` set (ta_permissions a))"

lemma extract_permissions_keys: "fst ` set (extract_permissions eth ags asset) = template_asks eth ags asset"
  by (simp add: extract_permissions_def extract_loop_keys template_asks_def)

text \<open>A sequence of calls on one service, each with the world as it is at that call.\<close>

fun template_calls ::
  "eth \<Rightarrow> (template_env \<times> string \<times> asset_did) list \<Rightarrow> template_cache \<Rightarrow> template_cache" where
  "template_calls eth [] cache = cache"
| "template_calls eth ((env, tid, asset) # cs) cache =
     template_calls eth cs (snd (get_template_permissions eth env tid asset cache))"

lemma template_calls_cache:
  "template_calls eth cs cache tid = Some ags \<Longrightarrow>
     cache tid = Some ags \<or> (\<exists>env asset. (env, tid, asset) \<in> set cs \<and> vouches eth env tid ags)"
proof (induction cs arbitrary: cache)
  case (Cons c cs)
  obtain env t asset where c: "c = (env, t, asset)" by (cases c) auto
  obtain r cache' where g: "get_template_permissions eth env t asset cache = (r, cache')" by fastforce
  with Cons c have "cache' tid = Some ags \<or> (\<exists>env asset. (env, tid, asset) \<in> set cs \<and> vouches eth env tid ags)"
    by auto
  moreover have "cache' tid = Some ags \<Longrightarrow> cache tid = Some ags \<or> (t = tid \<and> vouches eth env tid ags)"
    using g by (cases rule: get_template_cases) (auto split: if_splits)
  ultimately show ?case using c by auto
qed simp

text \<open>
  The service provides the interface: good is a cache whose entries one of the environments \<open>E\<close> vouches
  for, and it offers what a vouched template asks for, active only if the contract says so now.
\<close>

definition cache_vouched :: "eth \<Rightarrow> template_env set \<Rightarrow> template_cache \<Rightarrow> bool" where
  "cache_vouched eth E cache \<longleftrightarrow> (\<forall>tid ags. cache tid = Some ags \<longrightarrow> (\<exists>env \<in> E. vouches eth env tid ags))"

definition template_offers :: "eth \<Rightarrow> template_env set \<Rightarrow> template_env \<Rightarrow> string \<Rightarrow> asset_did \<Rightarrow> permissions_result option \<Rightarrow> bool" where
  "template_offers eth E env tid asset r \<longleftrightarrow>
     (\<exists>x ags. r = Some x \<and> (\<exists>e \<in> E. vouches eth e tid ags) \<and>
        (pr_is_active x \<longrightarrow> (\<exists>n. big_set_string tid = Some n \<and> te_is_active env n = Inr True) \<and>
           set (map fst (pr_permissions x)) = template_asks eth ags asset \<and> template_asks eth ags asset \<noteq> {}))"

lemma permissions_and_status_Inr:
  assumes "permissions_and_status eth env tid ags asset = Inr r"
  obtains x where "r = Some x"
    "pr_is_active x \<Longrightarrow> (\<exists>n. big_set_string tid = Some n \<and> te_is_active env n = Inr True) \<and>
       set (map fst (pr_permissions x)) = template_asks eth ags asset \<and> template_asks eth ags asset \<noteq> {}"
proof -
  have "template_asks eth ags asset = {} \<longleftrightarrow> extract_permissions eth ags asset = []"
    unfolding extract_permissions_keys [symmetric] by simp
  with assms that extract_permissions_keys [of eth ags asset] show thesis
    by (auto simp: permissions_and_status_def Let_def split: if_splits option.splits sum.splits)
qed

interpretation templates: template_source "get_template_permissions eth env" "cache_vouched eth (insert env E)"
  "template_offers eth (insert env E) env" for eth env E
proof
  fix cache tid asset
  obtain r c' where g: "get_template_permissions eth env tid asset cache = (r, c')" by fastforce
  assume good: "cache_vouched eth (insert env E) cache"
  show "cache_vouched eth (insert env E) (snd (get_template_permissions eth env tid asset cache))"
    by (cases rule: get_template_cases [OF g]) (use good in \<open>auto simp: cache_vouched_def g\<close>)
  fix x
  assume x: "fst (get_template_permissions eth env tid asset cache) = Inr x"
  have "\<exists>ags. permissions_and_status eth env tid ags asset = Inr x \<and> (\<exists>e \<in> insert env E. vouches eth e tid ags)"
    using g
  proof (cases rule: get_template_cases)
    case (hit ags)
    with good x g show ?thesis unfolding cache_vouched_def by (intro exI [of _ ags]) auto
  qed (use x g in auto)
  then obtain ags where ags: "permissions_and_status eth env tid ags asset = Inr x"
    "\<exists>e \<in> insert env E. vouches eth e tid ags" by blast
  from ags(1) show "template_offers eth (insert env E) env tid asset x"
    by (rule permissions_and_status_Inr) (use ags(2) in \<open>unfold template_offers_def, blast\<close>)
qed

section \<open>Properties\<close>

text \<open>
  C37: Only checked templates are cached.  Whatever calls were made, an entry of the cache stems from one
  of them, and at that call the chain named a document for the id, the document's stated owner had
  signed it, and the entry is that document's agreements.
\<close>

theorem cached_templates_vouched:
  assumes "template_calls eth cs Map.empty tid = Some ags"
  shows "\<exists>env asset n td raw doc. (env, tid, asset) \<in> set cs \<and> big_set_string tid = Some n \<and>
    te_templates env n = Inr td \<and> te_get_doc env (td_source td) = Inr raw \<and> read_template (re_data raw) = Inr doc \<and>
    te_validate env (re_data raw) (re_signature raw) (eth_hex_to_address eth (da_address (tdoc_owner doc))) = Inr True \<and>
    ags = tdoc_agreements doc"
  using template_calls_cache [OF assms] by (auto simp: vouches_def)

text \<open>
  The cache is transparent: if what it holds for an id is what the world still vouches for, a call
  answers exactly as it would with an empty cache.
\<close>

theorem template_cache_transparent:
  assumes "case cache tid of None \<Rightarrow> True | Some ags \<Rightarrow> vouches eth env tid ags"
  shows "fst (get_template_permissions eth env tid asset cache)
    = fst (get_template_permissions eth env tid asset Map.empty)"
proof -
  obtain r c' where g: "get_template_permissions eth env tid asset cache = (r, c')" by fastforce
  obtain r0 c0 where g0: "get_template_permissions eth env tid asset Map.empty = (r0, c0)" by fastforce
  show ?thesis
  proof (cases "cache tid")
    case None
    then show ?thesis by (auto simp: get_template_permissions_def split: option.splits sum.splits)
  next
    case (Some ags)
    with assms have v: "vouches eth env tid ags" by simp
    from g0 have "r0 = permissions_and_status eth env tid ags asset"
      by (cases rule: get_template_cases) (use v in \<open>auto dest: vouches_unique [OF v]\<close>)
    moreover have "r = permissions_and_status eth env tid ags asset"
      using g Some by (simp add: get_template_permissions_def)
    ultimately show ?thesis using g g0 by simp
  qed
qed

text \<open>
  What a template answer says.  It is active only if the contract says so now, even on a cache hit,
  and then the permissions it lists are exactly those its agreements name for this contract address on
  this chain, of which there is at least one.
\<close>

theorem template_answer_exact:
  assumes "get_template_permissions eth env tid asset cache = (Inr (Some r), cache')" and "pr_is_active r"
  shows "\<exists>ags n. cache' tid = Some ags \<and> big_set_string tid = Some n \<and> te_is_active env n = Inr True \<and>
    set (map fst (pr_permissions r)) = template_asks eth ags asset \<and> pr_permissions r \<noteq> []"
proof -
  obtain ags where "cache' tid = Some ags" and "permissions_and_status eth env tid ags asset = Inr (Some r)"
    using assms(1) by (cases rule: get_template_cases) auto
  moreover from this(2) assms(2) obtain n where "big_set_string tid = Some n" "te_is_active env n = Inr True"
    "pr_permissions r = extract_permissions eth ags asset" "extract_permissions eth ags asset \<noteq> []"
    by (auto simp: permissions_and_status_def Let_def split: if_splits option.splits sum.splits)
  moreover have "set (map fst (extract_permissions eth ags asset)) = template_asks eth ags asset"
    by (simp add: extract_permissions_keys)
  ultimately show ?thesis by metis
qed

section \<open>A concrete template\<close>

definition sample_vehicle :: asset_did where
  "sample_vehicle = Erc721Asset \<lparr>nft_chain_id = 137, nft_contract_address = 9, nft_token_id = 5\<rparr>"

definition sample_template_agreements :: "template_agreement list" where
  "sample_template_agreements = [\<lparr>ta_type = ''permission'', ta_asset = asset_ethr_did eth_model sample_vehicle,
     ta_permissions = [\<lparr>pm_name = ''privilege:GetVINCredential''\<rparr>]\<rparr>]"

definition sample_template :: template_doc where
  "sample_template = \<lparr>tdoc_owner = \<lparr>da_address = ''0x0''\<rparr>, tdoc_agreements = sample_template_agreements\<rparr>"

lemma sample_template_agreements [simp]: "tdoc_agreements sample_template = sample_template_agreements"
  by (simp add: sample_template_def)

lemma sample_template_read: "read_template (json_body (template_json sample_template)) = Inr sample_template"
proof (rule read_template_text)
  show "writable_template sample_template" by code_simp
qed

definition sample_env :: template_env where
  "sample_env = \<lparr>te_templates = (\<lambda>n. Inr \<lparr>td_asset = 9, td_permissions = 0, td_source = ''cid'', td_is_active = True\<rparr>),
     te_is_active = (\<lambda>n. Inr True),
     te_get_doc = (\<lambda>s. Inr \<lparr>re_type = ''dimo.sacd.template'', re_data = json_body (template_json sample_template), re_signature = ''0x00''\<rparr>),
     te_validate = (\<lambda>d s a. Inr True)\<rparr>"

definition sample_result :: permissions_result where
  "sample_result = \<lparr>pr_permissions = [(''privilege:GetVINCredential'', True)], pr_is_active = True\<rparr>"

lemma sample_status: "permissions_and_status eth_model sample_env ''3'' sample_template_agreements sample_vehicle
    = Inr (Some sample_result)"
  by (simp add: permissions_and_status_def extract_permissions_def sample_template_agreements_def add_permissions_def
      sample_env_def sample_result_def big_set_string_def parse_nat_def is_digit_def)

lemma sample_template_call:
  "get_template_permissions eth_model sample_env ''3'' sample_vehicle Map.empty
     = (Inr (Some sample_result), [''3'' \<mapsto> sample_template_agreements])"
  using sample_status
  by (simp add: get_template_permissions_def sample_env_def sample_template_read big_set_string_def parse_nat_def is_digit_def)

lemma sample_vouches: "vouches eth_model sample_env ''3'' sample_template_agreements"
  by (simp add: vouches_def sample_env_def sample_template_read big_set_string_def parse_nat_def is_digit_def)

theorem cached_templates_vouched_witness:
  "\<exists>env asset n. (env, ''3'', asset) \<in> set [(sample_env, ''3'', sample_vehicle)] \<and> big_set_string ''3'' = Some n"
  using cached_templates_vouched [of eth_model "[(sample_env, ''3'', sample_vehicle)]" "''3''" sample_template_agreements]
  by (auto simp: sample_template_call)

theorem template_cache_transparent_witness:
  "fst (get_template_permissions eth_model sample_env ''3'' sample_vehicle [''3'' \<mapsto> sample_template_agreements])
    = Inr (Some sample_result)"
  using template_cache_transparent [where cache = "[''3'' \<mapsto> sample_template_agreements]" and tid = "''3''"
      and eth = eth_model and env = sample_env and asset = sample_vehicle]
  by (simp add: sample_vouches sample_template_call)

theorem template_answer_exact_witness:
  "\<exists>ags n. big_set_string ''3'' = Some n \<and> te_is_active sample_env n = Inr True \<and>
    {''privilege:GetVINCredential''} = template_asks eth_model ags sample_vehicle"
  using template_answer_exact [OF sample_template_call] by (auto simp: sample_result_def)

end
