(* ===== verification/Access.thy ===== *)
theory Access imports AuthEval SacdProxy TemplateService Documents begin

text \<open>
  The access decision (internal/exchange/services/access/access.go): first by the signed SACD document
  that the permission record names, then, if no cloud events are asked for, by the permission bits.
\<close>

section \<open>The service\<close>

record access_request =
  ar_asset :: asset_did
  ar_permissions :: "string list"
  ar_event_filters :: "event_filter list"

text \<open>
  What the service holds: the permission source, the document client, the signature validator and the
  manufacturer contract; \<open>richerrors.IsRichError\<close> is a parameter.
\<close>

record access_service =
  as_sacd :: sacd_interface
  as_get_doc :: "string \<Rightarrow> go_error + raw_event"
  as_validate :: "bytes \<Rightarrow> string \<Rightarrow> address \<Rightarrow> go_error + bool"
  as_is_rich :: "go_error \<Rightarrow> bool"
  as_manufacturer :: address

type_synonym 't template_getter = "string \<Rightarrow> asset_did \<Rightarrow> 't \<Rightarrow> (go_error + permissions_result option) \<times> 't"

datatype outcome = Granted | Denied go_error | Panicked

definition missing_permissions_error :: "eth \<Rightarrow> did_codec \<Rightarrow> address \<Rightarrow> asset_did \<Rightarrow> string \<Rightarrow> go_error" where
  "missing_permissions_error eth codec eth_addr asset lack =
     Rich 403 None (''Address '' @ eth_address_hex eth eth_addr @ '' lacks permissions '' @ lack
       @ '' for asset '' @ asset_string codec asset @ ''.'')"

definition evaluate_sacd_doc ::
  "eth \<Rightarrow> did_codec \<Rightarrow> access_service \<Rightarrow> 't template_getter \<Rightarrow> (nat \<Rightarrow> instant) \<Rightarrow> raw_event
   \<Rightarrow> access_request \<Rightarrow> address \<Rightarrow> 't \<Rightarrow> outcome \<times> 't" where
  "evaluate_sacd_doc eth codec s get_template clock record req grantee t =
     (case read_sacd (re_data record) of
        Inl err \<Rightarrow> (Denied (Rich 400 (Some err) ''failed to parse agreement data''), t)
      | Inr data \<Rightarrow>
          if da_address (sd_grantee data) \<noteq> eth_address_hex eth grantee
          then (Denied (Rich 403 None ''Grantee address in permission record doesn't match requester''), t)
          else case as_validate s (re_data record) (re_signature record)
                      (eth_hex_to_address eth (da_address (sd_grantor data))) of
            Inl err \<Rightarrow>
              (Denied (if as_is_rich s err then Wrap ''failed to validate grant signature'' err
                       else Rich 500 (Some err) ''failed to validate grant signature''), t)
          | Inr valid \<Rightarrow>
              if \<not> valid then (Denied (Rich 403 None ''invalid grant signature''), t)
              else (let (grants, t') = user_grant_map codec get_template clock data (ar_asset req) t in
                    case grants of
                      Inl err \<Rightarrow> (Denied (Rich 500 (Some err) ''failed to generate user grant map''), t')
                    | Inr (perms, events) \<Rightarrow>
                        (case evaluate_cloud_events events (ar_event_filters req) of
                           Some err \<Rightarrow> (Denied (Rich 403 (Some err) ''failed to evaluate cloudevents''), t')
                         | None \<Rightarrow>
                             (let lacks = evaluate_permissions perms (ar_permissions req) in
                              if length lacks > 0
                              then (Denied (missing_permissions_error eth codec grantee (ar_asset req) (fmt_strings lacks)), t')
                              else (Granted, t')))))"

definition permission_record :: "access_service \<Rightarrow> asset_did \<Rightarrow> address \<Rightarrow> go_error + sacd_record" where
  "permission_record s asset eth_addr =
     (if is_account_level asset
      then si_account_permission_records (as_sacd s) (get_contract_address asset) eth_addr
      else si_current_permission_record (as_sacd s) (get_contract_address asset) (get_token_id asset) eth_addr)"

definition validate_access_via_source_doc ::
  "eth \<Rightarrow> did_codec \<Rightarrow> access_service \<Rightarrow> 't template_getter \<Rightarrow> (nat \<Rightarrow> instant) \<Rightarrow> access_request \<Rightarrow> address
   \<Rightarrow> 't \<Rightarrow> outcome \<times> 't" where
  "validate_access_via_source_doc eth codec s get_template clock req eth_addr t =
     (case permission_record s (ar_asset req) eth_addr of
        Inl err \<Rightarrow> (Denied (Rich 500 (Some err) ''Failed to get permission record''), t)
      | Inr res \<Rightarrow>
          (case as_get_doc s (sr_source res) of
             Inl err \<Rightarrow> (Denied err, t)
           | Inr record \<Rightarrow> evaluate_sacd_doc eth codec s get_template clock record req eth_addr t))"

definition access_permissions_bits ::
  "eth \<Rightarrow> did_codec \<Rightarrow> access_service \<Rightarrow> asset_did \<Rightarrow> int64 list \<Rightarrow> address \<Rightarrow> outcome" where
  "access_permissions_bits eth codec s asset permissions eth_addr =
     (case int_array_to_2bit_array permissions 128 of
        Inl err \<Rightarrow> Denied (Rich 400 (Some err) ''Failed to convert privileges to 2-bit array'')
      | Inr msk \<Rightarrow>
          (case (if is_account_level asset
                 then si_get_account_permissions (as_sacd s) (get_contract_address asset) eth_addr msk
                 else si_get_permissions (as_sacd s) (get_contract_address asset) (get_token_id asset) eth_addr msk) of
             Inl err \<Rightarrow> Denied (Rich 500 (Some err) ''Failed to get permissions'')
           | Inr ret \<Rightarrow>
               (case evaluate_permissions_bits permissions ret of
                  None \<Rightarrow> Panicked
                | Some lack \<Rightarrow>
                    if length lack \<noteq> 0
                    then Denied (missing_permissions_error eth codec eth_addr asset (fmt_int64s lack))
                    else Granted)))"

text \<open>The loop over the requested names: their ids (0 for an unknown one) and the unknown names.\<close>

fun lookup_privileges :: "(string \<rightharpoonup> int64) \<Rightarrow> string list \<Rightarrow> int64 list \<times> string list" where
  "lookup_privileges priv_map [] = ([], [])"
| "lookup_privileges priv_map (p # ps) =
     (let (perm_bits, missing) = lookup_privileges priv_map ps in
      case priv_map p of
        Some i \<Rightarrow> (i # perm_bits, missing)
      | None \<Rightarrow> (0 # perm_bits, p # missing))"

definition validate_access_via_record ::
  "eth \<Rightarrow> did_codec \<Rightarrow> access_service \<Rightarrow> access_request \<Rightarrow> address \<Rightarrow> outcome" where
  "validate_access_via_record eth codec s req eth_addr =
     (let priv_map = (if get_contract_address (ar_asset req) = as_manufacturer s
                      then manufacturer_privilege_name_to_id else privilege_name_to_id);
          (perm_bits, missing) = lookup_privileges priv_map (ar_permissions req)
      in if length missing > 0
         then Denied (missing_permissions_error eth codec eth_addr (ar_asset req) (fmt_strings missing))
         else access_permissions_bits eth codec s (ar_asset req) perm_bits eth_addr)"

definition validate_access ::
  "eth \<Rightarrow> did_codec \<Rightarrow> access_service \<Rightarrow> 't template_getter \<Rightarrow> (nat \<Rightarrow> instant) \<Rightarrow> access_request \<Rightarrow> address
   \<Rightarrow> 't \<Rightarrow> outcome \<times> 't" where
  "validate_access eth codec s get_template clock req eth_addr t =
     (let (res, t') = validate_access_via_source_doc eth codec s get_template clock req eth_addr t in
      case res of
        Granted \<Rightarrow> (Granted, t')
      | Panicked \<Rightarrow> (Panicked, t')
      | Denied err \<Rightarrow>
          if length (ar_event_filters req) \<noteq> 0 then (Denied err, t')
          else (validate_access_via_record eth codec s req eth_addr, t'))"

section \<open>Lemmas: the source document\<close>

text \<open>A grant document: named by the permission record, made out to the requester, signed by its grantor.\<close>

definition grant_document ::
  "eth \<Rightarrow> access_service \<Rightarrow> asset_did \<Rightarrow> address \<Rightarrow> sacd_data \<Rightarrow> bool" where
  "grant_document eth s asset grantee data \<longleftrightarrow>
     (\<exists>res record. permission_record s asset grantee = Inr res \<and> as_get_doc s (sr_source res) = Inr record \<and>
        read_sacd (re_data record) = Inr data \<and> da_address (sd_grantee data) = eth_address_hex eth grantee \<and>
        as_validate s (re_data record) (re_signature record)
          (eth_hex_to_address eth (da_address (sd_grantor data))) = Inr True)"

text \<open>What such a document grants at the time of the request.\<close>

definition document_covers ::
  "did_codec \<Rightarrow> 't template_getter \<Rightarrow> (nat \<Rightarrow> instant) \<Rightarrow> sacd_data \<Rightarrow> access_request \<Rightarrow> 't \<Rightarrow> bool" where
  "document_covers codec get_template clock data req t \<longleftrightarrow>
     (let act = agreements_in_force clock 0 (sd_agreements data) in
      list_all (\<lambda>a. ag_asset a = asset_string codec (ar_asset req)) act \<and>
      (sd_permission_template_id data = '''' \<or> sd_permission_template_id data = ''0'' \<or>
        (\<exists>r. fst (get_template (sd_permission_template_id data) (ar_asset req) t) = Inr r)) \<and>
      list_all (request_covered (cloud_grants act)) (ar_event_filters req) \<and>
      set (ar_permissions req) \<subseteq> permission_grants act \<and>
      (ar_permissions req = [] \<or> template_lets get_template data (ar_asset req) t (permission_grants act)))"

lemma evaluate_sacd_doc_Granted:
  "fst (evaluate_sacd_doc eth codec s get_template clock record req grantee t) = Granted \<longleftrightarrow>
     (\<exists>data. read_sacd (re_data record) = Inr data \<and> da_address (sd_grantee data) = eth_address_hex eth grantee \<and>
        as_validate s (re_data record) (re_signature record)
          (eth_hex_to_address eth (da_address (sd_grantor data))) = Inr True \<and>
        document_covers codec get_template clock data req t)"
proof -
  have step: "fst (evaluate_sacd_doc eth codec s get_template clock record req grantee t) = Granted \<longleftrightarrow>
     (\<exists>data. read_sacd (re_data record) = Inr data \<and> da_address (sd_grantee data) = eth_address_hex eth grantee \<and>
        as_validate s (re_data record) (re_signature record)
          (eth_hex_to_address eth (da_address (sd_grantor data))) = Inr True \<and>
        (\<exists>perms events t'. user_grant_map codec get_template clock data (ar_asset req) t = (Inr (perms, events), t') \<and>
           evaluate_cloud_events events (ar_event_filters req) = None \<and>
           evaluate_permissions perms (ar_permissions req) = []))"
    by (auto simp: evaluate_sacd_doc_def Let_def split: sum.splits prod.splits option.splits if_splits)
  have "(\<exists>perms events t'. user_grant_map codec get_template clock data (ar_asset req) t = (Inr (perms, events), t') \<and>
           evaluate_cloud_events events (ar_event_filters req) = None \<and>
           evaluate_permissions perms (ar_permissions req) = [])
      \<longleftrightarrow> document_covers codec get_template clock data req t" for data
  proof (cases "\<exists>r t'. user_grant_map codec get_template clock data (ar_asset req) t = (Inr r, t')")
    case True
    then obtain perms events t' where g: "user_grant_map codec get_template clock data (ar_asset req) t = (Inr (perms, events), t')"
      by auto
    note facts = user_grant_map_Inr [OF g refl] True [unfolded user_grant_map_total]
    have "list_all (perm_get perms) (ar_permissions req) \<longleftrightarrow>
        set (ar_permissions req) \<subseteq> permission_grants (agreements_in_force clock 0 (sd_agreements data)) \<and>
        (ar_permissions req = [] \<or> template_lets get_template data (ar_asset req) t
          (permission_grants (agreements_in_force clock 0 (sd_agreements data))))"
      by (cases "ar_permissions req") (auto simp: list_all_iff facts(3))
    with g facts(1,2,4) show ?thesis
      by (auto simp: document_covers_def Let_def evaluate_cloud_events_None evaluate_permissions_Nil)
  next
    case False
    then show ?thesis
      using user_grant_map_total [of codec get_template clock data "ar_asset req" t]
      by (auto simp: document_covers_def Let_def)
  qed
  with step show ?thesis by simp
qed

lemma source_doc_Granted:
  "fst (validate_access_via_source_doc eth codec s get_template clock req eth_addr t) = Granted \<longleftrightarrow>
     (\<exists>data. grant_document eth s (ar_asset req) eth_addr data \<and> document_covers codec get_template clock data req t)"
  by (auto simp: validate_access_via_source_doc_def grant_document_def evaluate_sacd_doc_Granted split: sum.splits)

lemma source_doc_no_panic:
  "fst (validate_access_via_source_doc eth codec s get_template clock req eth_addr t) \<noteq> Panicked"
  by (auto simp: validate_access_via_source_doc_def evaluate_sacd_doc_def Let_def
      split: sum.splits prod.splits option.splits)

section \<open>Lemmas: the permission bits\<close>

lemma lookup_privileges_spec:
  "snd (lookup_privileges pm ps) = filter (\<lambda>p. pm p = None) ps"
  "snd (lookup_privileges pm ps) = [] \<Longrightarrow> map Some (fst (lookup_privileges pm ps)) = map pm ps"
  by (induction ps) (auto simp: Let_def split: prod.splits option.splits if_splits)

definition privilege_map :: "access_service \<Rightarrow> asset_did \<Rightarrow> (string \<rightharpoonup> int64)" where
  "privilege_map s asset = (if get_contract_address asset = as_manufacturer s
     then manufacturer_privilege_name_to_id else privilege_name_to_id)"

lemma privilege_map_small: "privilege_map s asset nm = Some i \<Longrightarrow> small_privilege i"
  using privilege_bounds [of nm i] by (auto simp: privilege_map_def small_privilege_def split: if_splits)

definition held_permissions :: "access_service \<Rightarrow> asset_did \<Rightarrow> address \<Rightarrow> int \<Rightarrow> go_error + int" where
  "held_permissions s asset eth_addr msk =
     (if is_account_level asset
      then si_get_account_permissions (as_sacd s) (get_contract_address asset) eth_addr msk
      else si_get_permissions (as_sacd s) (get_contract_address asset) (get_token_id asset) eth_addr msk)"

lemma via_record_cases:
  obtains (unknown) "\<exists>p \<in> set (ar_permissions req). privilege_map s (ar_asset req) p = None"
    and "\<exists>m. validate_access_via_record eth codec s req eth_addr = Denied (Rich 403 None m)"
  | (known) ids msk where "map Some ids = map (privilege_map s (ar_asset req)) (ar_permissions req)"
    and "list_all small_privilege ids" and "int_array_to_2bit_array ids 128 = Inr msk"
    and "validate_access_via_record eth codec s req eth_addr =
      (case held_permissions s (ar_asset req) eth_addr msk of
         Inl err \<Rightarrow> Denied (Rich 500 (Some err) ''Failed to get permissions'')
       | Inr ret \<Rightarrow> if ret AND msk = msk then Granted
           else Denied (missing_permissions_error eth codec eth_addr (ar_asset req)
             (fmt_int64s (filter (\<lambda>p. \<not> has_both_bits ret p) ids))))"
proof -
  let ?pm = "privilege_map s (ar_asset req)"
  obtain ids missing where l: "lookup_privileges ?pm (ar_permissions req) = (ids, missing)" by fastforce
  have rec: "validate_access_via_record eth codec s req eth_addr =
      (if missing \<noteq> [] then Denied (missing_permissions_error eth codec eth_addr (ar_asset req) (fmt_strings missing))
       else access_permissions_bits eth codec s (ar_asset req) ids eth_addr)"
    using l by (simp add: validate_access_via_record_def privilege_map_def)
  have missing: "missing = filter (\<lambda>p. ?pm p = None) (ar_permissions req)"
    using lookup_privileges_spec(1) [of ?pm "ar_permissions req"] l by simp
  show ?thesis
  proof (cases "missing = []")
    case False
    then have "\<exists>p \<in> set (ar_permissions req). ?pm p = None"
      unfolding missing by (auto simp: filter_empty_conv)
    with False rec show ?thesis by (intro unknown) (auto simp: missing_permissions_error_def)
  next
    case True
    then have ids: "map Some ids = map ?pm (ar_permissions req)"
      using lookup_privileges_spec(2) [of ?pm "ar_permissions req"] l by simp
    have small: "list_all small_privilege ids"
      unfolding list_all_iff
    proof
      fix i assume "i \<in> set ids"
      then have "Some i \<in> set (map Some ids)" by simp
      then obtain p where "?pm p = Some i" unfolding ids by auto
      then show "small_privilege i" by (rule privilege_map_small)
    qed
    then obtain msk where m: "int_array_to_2bit_array ids 128 = Inr msk"
      using two_bit_range [of ids 0] by (auto simp: int_array_to_2bit_array_def)
    have "filter (\<lambda>p. \<not> has_both_bits ret p) ids = [] \<longleftrightarrow> ret AND msk = msk" for ret
      using mask_covered [OF small m, of ret] by (auto simp: filter_empty_conv list_all_iff)
    with True rec m show ?thesis
      by (intro known [OF ids small m])
         (auto simp: access_permissions_bits_def held_permissions_def evaluate_bits_small [OF small] split: sum.splits)
  qed
qed

lemma via_record_Granted:
  "validate_access_via_record eth codec s req eth_addr = Granted \<longleftrightarrow>
     (\<exists>ids msk ret. map Some ids = map (privilege_map s (ar_asset req)) (ar_permissions req) \<and>
        int_array_to_2bit_array ids 128 = Inr msk \<and>
        held_permissions s (ar_asset req) eth_addr msk = Inr ret \<and> ret AND msk = msk)"
proof (cases rule: via_record_cases [of req s eth codec eth_addr])
  case unknown
  then have "None \<in> set (map (privilege_map s (ar_asset req)) (ar_permissions req))"
    by (metis image_eqI set_map)
  moreover have "None \<notin> set (map Some ids)" for ids :: "int64 list" by auto
  ultimately have "map Some ids \<noteq> map (privilege_map s (ar_asset req)) (ar_permissions req)" for ids
    by metis
  with unknown(2) show ?thesis by auto
next
  case (known ids msk)
  have same: "ids' = ids" if "map Some ids' = map (privilege_map s (ar_asset req)) (ar_permissions req)" for ids'
  proof -
    have "map Some ids' = map Some ids" using that known(1) by (simp only:)
    then show ?thesis by (simp add: inj_map_eq_map)
  qed
  show ?thesis (is "_ \<longleftrightarrow> ?R")
  proof
    assume "validate_access_via_record eth codec s req eth_addr = Granted"
    then obtain ret where "held_permissions s (ar_asset req) eth_addr msk = Inr ret" "ret AND msk = msk"
      unfolding known(4) by (auto split: sum.splits if_splits)
    with known(1,3) show ?R by blast
  next
    assume ?R
    then obtain ids' msk' ret where r: "map Some ids' = map (privilege_map s (ar_asset req)) (ar_permissions req)"
      "int_array_to_2bit_array ids' 128 = Inr msk'"
      "held_permissions s (ar_asset req) eth_addr msk' = Inr ret" "ret AND msk' = msk'" by blast
    with same [OF r(1)] known(3) show "validate_access_via_record eth codec s req eth_addr = Granted"
      unfolding known(4) by simp
  qed
qed

lemma via_record_no_panic: "validate_access_via_record eth codec s req eth_addr \<noteq> Panicked"
  by (cases rule: via_record_cases [of req s eth codec eth_addr]) (auto split: sum.splits)

lemma validate_access_Granted:
  "fst (validate_access eth codec s get_template clock req eth_addr t) = Granted \<longleftrightarrow>
     fst (validate_access_via_source_doc eth codec s get_template clock req eth_addr t) = Granted \<or>
     (ar_event_filters req = [] \<and> validate_access_via_record eth codec s req eth_addr = Granted)"
  using source_doc_no_panic [of eth codec s get_template clock req eth_addr t]
  by (auto simp: validate_access_def split: prod.splits outcome.splits)

text \<open>A decision leaves the template service in a good state.\<close>

context template_source begin

lemma validate_access_keeps:
  "good t \<Longrightarrow> good (snd (validate_access eth codec s get_template clock req eth_addr t))"
proof -
  assume t: "good t"
  have "good (snd (evaluate_sacd_doc eth codec s get_template clock doc req eth_addr t))" for doc
  proof (cases "read_sacd (re_data doc)")
    case (Inr data)
    then show ?thesis
      using user_grant_map_keeps [OF t, of codec clock data "ar_asset req"] t
      by (auto simp: evaluate_sacd_doc_def Let_def split: sum.split prod.splits option.split)
  qed (simp add: evaluate_sacd_doc_def t)
  then have "good (snd (validate_access_via_source_doc eth codec s get_template clock req eth_addr t))"
    using t by (simp add: validate_access_via_source_doc_def split: sum.split)
  then show ?thesis
    by (auto simp: validate_access_def split: prod.split outcome.split)
qed

end

section \<open>Properties\<close>

text \<open>
  C8: Access by document.  It is granted exactly when the permission record for asset and requester
  names a fetched document that is made out to the requester and validly signed by its grantor, and
  that document, by its agreements in force, names only the requested asset, covers every requested
  cloud event and, unless its template stops it, grants every requested permission.
\<close>

theorem source_doc_access_iff:
  "fst (validate_access_via_source_doc eth codec s get_template clock req eth_addr t) = Granted \<longleftrightarrow>
     (\<exists>data res record. permission_record s (ar_asset req) eth_addr = Inr res \<and> as_get_doc s (sr_source res) = Inr record \<and>
        read_sacd (re_data record) = Inr data \<and> da_address (sd_grantee data) = eth_address_hex eth eth_addr \<and>
        as_validate s (re_data record) (re_signature record)
          (eth_hex_to_address eth (da_address (sd_grantor data))) = Inr True \<and>
        document_covers codec get_template clock data req t)"
  unfolding source_doc_Granted grant_document_def by blast

text \<open>
  C9: Access by permission bits.  It is granted exactly when every requested permission has a privilege
  id (of the manufacturer table for the manufacturer contract) and the permissions held, as the
  permission source reports them for the mask of those ids, include the whole mask.  The check never
  panics.
\<close>

theorem record_access_iff:
  "(validate_access_via_record eth codec s req eth_addr = Granted \<longleftrightarrow>
     (\<exists>ids msk ret. map Some ids = map (privilege_map s (ar_asset req)) (ar_permissions req) \<and>
        int_array_to_2bit_array ids 128 = Inr msk \<and>
        held_permissions s (ar_asset req) eth_addr msk = Inr ret \<and> ret AND msk = msk))
   \<and> validate_access_via_record eth codec s req eth_addr \<noteq> Panicked"
  using via_record_Granted [of eth codec s req eth_addr] via_record_no_panic [of eth codec s req eth_addr]
  by blast

text \<open>
  C7: The two ways in.  Access is granted exactly when the document grants it or, for a request without
  event filters, the permission bits do; a request with event filters never falls back to the bits and
  is answered with the document's own refusal; no request panics.
\<close>

theorem validate_access_iff:
  "(fst (validate_access eth codec s get_template clock req eth_addr t) = Granted \<longleftrightarrow>
     fst (validate_access_via_source_doc eth codec s get_template clock req eth_addr t) = Granted \<or>
     (ar_event_filters req = [] \<and> validate_access_via_record eth codec s req eth_addr = Granted))
   \<and> (ar_event_filters req = [] \<or>
      fst (validate_access eth codec s get_template clock req eth_addr t)
        = fst (validate_access_via_source_doc eth codec s get_template clock req eth_addr t))
   \<and> fst (validate_access eth codec s get_template clock req eth_addr t) \<noteq> Panicked"
proof -
  obtain r t' where r: "validate_access_via_source_doc eth codec s get_template clock req eth_addr t = (r, t')"
    by fastforce
  then have "r \<noteq> Panicked"
    using source_doc_no_panic [of eth codec s get_template clock req eth_addr t] by simp
  moreover have "validate_access_via_record eth codec s req eth_addr \<noteq> Panicked"
    by (cases rule: via_record_cases [of req s eth codec eth_addr]) (auto split: sum.splits)
  ultimately show ?thesis using r by (cases r) (auto simp: validate_access_def)
qed

text \<open>
  C27: End to end for vehicles.  If the permission source is the proxy and the bits grant a request for a
  vehicle, then the Identity API, asked about this vehicle and requester, named the requester as the
  owner, or the requester's SACD there has both bits of every requested permission.
\<close>

theorem vehicle_access_sound:
  assumes "as_sacd s = proxy_interface eth p"
    and "ar_asset req = Erc721Asset d" and "nft_contract_address d = px_contract_address_vehicle p"
    and "validate_access_via_record eth codec s req eth_addr = Granted"
    and "nm \<in> set (ar_permissions req)"
  shows "\<exists>i v. privilege_map s (ar_asset req) nm = Some i \<and> get_vehicle_sacd eth p (Some (nft_token_id d)) eth_addr = Inr v \<and>
    (vh_owner v = eth_addr \<or> (\<exists>sacd perms. vh_sacd v = Some sacd \<and>
       eth_hexutil_decode_big eth (vs_permissions sacd) = Inr perms \<and> has_both_bits perms i))"
proof (cases rule: via_record_cases [of req s eth codec eth_addr])
  case unknown
  with assms(4) show ?thesis by auto
next
  case (known ids msk)
  then obtain ret where ret: "held_permissions s (ar_asset req) eth_addr msk = Inr ret" "ret AND msk = msk"
    using assms(4) by (auto split: sum.splits if_splits)
  have "privilege_map s (ar_asset req) nm \<in> set (map Some ids)"
    unfolding known(1) using assms(5) by simp
  then obtain i where i: "privilege_map s (ar_asset req) nm = Some i" "i \<in> set ids" by auto
  have both: "list_all (has_both_bits x) ids \<longleftrightarrow> x AND msk = msk" for x
    by (rule mask_covered [OF known(2,3)])
  have "has_both_bits ret i" "has_both_bits msk i"
    using both [of ret] both [of msk] ret(2) i(2) by (auto simp: list_all_iff)
  moreover have "proxy_get_permissions eth p (px_contract_address_vehicle p) (Some (nft_token_id d)) eth_addr msk = Inr ret"
    using ret(1) assms(1-3) by (simp add: held_permissions_def proxy_interface_def)
  ultimately show ?thesis
    using i(1) by (auto simp: proxy_get_permissions_def has_both_bits_def bit_and_iff
        split: sum.splits option.splits if_splits)
qed

text \<open>
  A request for nothing.  With neither permissions nor event filters, the bits grant access to any
  requester whose permissions the source can report at all, whatever they are.
\<close>

lemma empty_request_granted:
  assumes "ar_permissions req = []" and "ar_event_filters req = []"
    and "held_permissions s (ar_asset req) eth_addr 0 = Inr ret"
  shows "fst (validate_access eth codec s get_template clock req eth_addr t) = Granted"
proof -
  have "validate_access_via_record eth codec s req eth_addr = Granted"
    using assms
    by (simp add: validate_access_via_record_def access_permissions_bits_def held_permissions_def
        int_array_to_2bit_array_def)
  with source_doc_no_panic [of eth codec s get_template clock req eth_addr t] assms(2) show ?thesis
    by (auto simp: validate_access_def split: prod.split outcome.split)
qed

section \<open>A concrete service\<close>

definition sample_service :: access_service where
  "sample_service = \<lparr>as_sacd = proxy_interface eth_model (sample_proxy \<lparr>chain_code_at = (\<lambda>a. Inr []),
       chain_bytes4 = (\<lambda>a m args. Inr []), chain_uint = (\<lambda>a m args. Inr 0), chain_bool = (\<lambda>a m args. Inr False),
       chain_record = (\<lambda>a m args. Inl (Err ''reverted'')), chain_template = (\<lambda>a m args. Inl (Err ''reverted''))\<rparr>),
     as_get_doc = (\<lambda>s. Inl (Rich 400 None ''no document'')), as_validate = (\<lambda>d s a. Inr False),
     as_is_rich = (\<lambda>e. False), as_manufacturer = 3\<rparr>"

definition sample_request :: "string list \<Rightarrow> access_request" where
  "sample_request ps = \<lparr>ar_asset = sample_asset, ar_permissions = ps, ar_event_filters = []\<rparr>"

lemma sample_held: "held_permissions sample_service sample_asset 7 msk = Inr msk"
  by (simp add: held_permissions_def sample_service_def sample_asset_def proxy_interface_def proxy_get_permissions_def
      sample_proxy_def get_vehicle_sacd_def convert_token_id_def sample_net_def sample_reply_read)

lemma sample_granted:
  "validate_access_via_record eth_model sample_codec sample_service (sample_request [''privilege:GetVINCredential'']) 7 = Granted"
proof (cases rule: via_record_cases [of "sample_request [''privilege:GetVINCredential'']" sample_service eth_model sample_codec 7])
  case unknown
  then show ?thesis
    by (simp add: sample_request_def privilege_map_def sample_asset_def sample_service_def
        privilege_name_to_id_def privilege_id_to_name_def)
next
  case (known ids msk)
  then show ?thesis by (simp add: sample_request_def sample_held)
qed

theorem vehicle_access_sound_witness:
  "\<exists>i. privilege_map sample_service sample_asset ''privilege:GetVINCredential'' = Some i"
proof -
  have "nft_contract_address \<lparr>nft_chain_id = 137, nft_contract_address = 9, nft_token_id = 5\<rparr>
      = px_contract_address_vehicle (sample_proxy ch)" for ch
    by (simp add: sample_proxy_def)
  from vehicle_access_sound [OF _ _ this sample_granted, where nm = "''privilege:GetVINCredential''"]
  show ?thesis by (auto simp: sample_service_def sample_request_def sample_asset_def)
qed

end
