(* ===== verification/TokenSigner.thy ===== *)
theory TokenSigner imports Keyset SiweToken ExchangeModels begin

text \<open>
  Permission tokens (internal/exchange/services/signer.go).
\<close>

record privilege_token_dto =
  pt_asset :: asset_did
  pt_permissions :: "string list"
  pt_event_filters :: "event_filter list"
  pt_audience :: "string list"
  pt_response_subject :: string

record registered_claims =
  rc_issuer :: string
  rc_subject :: string
  rc_audience :: "string list"
  rc_issued_at :: numeric_date
  rc_not_before :: numeric_date
  rc_expires_at :: numeric_date
  rc_id :: string

record permission_token =
  tk_registered :: registered_claims
  tk_custom :: custom_claims

record token_signer =
  tg_keys :: key_set
  tg_issuer :: string
  tg_ttl :: duration

definition new_token_signer :: "key_set \<Rightarrow> string \<Rightarrow> duration \<Rightarrow> token_signer" where
  "new_token_signer keys iss ttl = \<lparr>tg_keys = keys, tg_issuer = iss, tg_ttl = ttl\<rparr>"

text \<open>The deprecated ids: a permission without an id in the vehicle table keeps the zero of \<open>make\<close>.\<close>

fun privilege_ids :: "string list \<Rightarrow> int64 list" where
  "privilege_ids [] = []"
| "privilege_ids (perm # perms) =
     (case privilege_name_to_id perm of Some i \<Rightarrow> i | None \<Rightarrow> 0) # privilege_ids perms"

text \<open>\<open>(*big.Int).String\<close>, which renders nil.\<close>

definition big_string :: "int option \<Rightarrow> string" where
  "big_string n = (case n of None \<Rightarrow> ''<nil>'' | Some i \<Rightarrow> show_int i)"

definition event_claim_of :: "event_filter \<Rightarrow> event_claim" where
  "event_claim_of e = \<lparr>ev_event_type = ef_event_type e, ev_source = ef_source e, ev_ids = ef_ids e, ev_tags = ef_tags e\<rparr>"

definition permission_token_of ::
  "did_codec \<Rightarrow> token_signer \<Rightarrow> instant \<Rightarrow> string \<Rightarrow> privilege_token_dto \<Rightarrow> permission_token" where
  "permission_token_of codec s now uuid req =
     \<lparr>tk_registered = \<lparr>rc_issuer = tg_issuer s, rc_subject = pt_response_subject req, rc_audience = pt_audience req,
        rc_issued_at = NewNumericDate now, rc_not_before = NewNumericDate now,
        rc_expires_at = NewNumericDate (now + tg_ttl s), rc_id = uuid\<rparr>,
      tk_custom = \<lparr>cc_asset = asset_string codec (pt_asset req), cc_permissions = pt_permissions req,
        cc_cloud_events = Some (map event_claim_of (pt_event_filters req)),
        cc_contract_address = get_contract_address (pt_asset req),
        cc_token_id = big_string (get_token_id (pt_asset req)),
        cc_privilege_ids = privilege_ids (pt_permissions req)\<rparr>\<rparr>"

definition sign_privilege_payload ::
  "did_codec \<Rightarrow> (rsa_private \<Rightarrow> string \<Rightarrow> permission_token \<Rightarrow> go_error + string) \<Rightarrow> token_signer \<Rightarrow> instant \<Rightarrow> string
   \<Rightarrow> privilege_token_dto \<Rightarrow> go_error + string" where
  "sign_privilege_payload codec signed_string s now uuid req =
     (case keyset_sign signed_string (tg_keys s) (permission_token_of codec s now uuid req) of
        Inl err \<Rightarrow> Inl (Wrap ''failed to sign permission token'' err)
      | Inr tok \<Rightarrow> Inr tok)"

lemma privilege_ids_map:
  "privilege_ids ps = map (\<lambda>p. case privilege_name_to_id p of Some i \<Rightarrow> i | None \<Rightarrow> 0) ps"
  by (induction ps) auto

section \<open>Properties\<close>

text \<open>
  The deprecated privilege ids of a token tell the permissions apart: position by position, a vehicle
  permission has its own id, and every other name, manufacturer permissions included, has 0, which is
  no privilege's id.
\<close>

lemma privilege_ids_exact:
  assumes "k < length (pt_permissions req)"
  shows "\<exists>i. cc_privilege_ids (tk_custom (permission_token_of codec s now uuid req)) ! k = i \<and>
    (if i = 0 then privilege_name_to_id (pt_permissions req ! k) = None
     else map_of privilege_id_to_name i = Some (pt_permissions req ! k)) \<and>
    length (cc_privilege_ids (tk_custom (permission_token_of codec s now uuid req))) = length (pt_permissions req)"
proof -
  have zero: "map_of privilege_id_to_name 0 = None" by (simp add: privilege_id_to_name_def)
  show ?thesis
  proof (cases "privilege_name_to_id (pt_permissions req ! k)")
    case None
    then show ?thesis using assms by (simp add: permission_token_of_def privilege_ids_map)
  next
    case (Some i)
    then have "map_of privilege_id_to_name i = Some (pt_permissions req ! k)" by (simp add: privilege_id_iff)
    moreover from this zero have "i \<noteq> 0" by auto
    ultimately show ?thesis using assms Some by (simp add: permission_token_of_def privilege_ids_map)
  qed
qed

text \<open>
  An account-level asset has no token id, and the token's deprecated token id then reads \<open><nil>\<close>; for
  every other asset it is the decimal text of the id, from which the id can be read back.
\<close>

lemma token_id_text:
  "case pt_asset req of
     EthrAsset d \<Rightarrow> cc_token_id (tk_custom (permission_token_of codec s now uuid req)) = ''<nil>''
   | Erc721Asset d \<Rightarrow> big_set_string (cc_token_id (tk_custom (permission_token_of codec s now uuid req)))
       = Some (nft_token_id d)"
  by (simp add: permission_token_of_def big_string_def big_set_string_show_int split: asset_did.split)

end
