(* ===== verification/ExchangeController.thy ===== *)
theory ExchangeController imports ExchangeMiddleware Access TokenSigner begin

text \<open>
  The exchange endpoint (internal/exchange/controllers/httpcontroller/exchange.go), from the decoded
  request to the signed token, and its whole handler chain.  The access service and the signer are
  arguments, as they are interfaces in the code; \<open>err\_text\<close> stands for the text of an error value.
\<close>

section \<open>The controller\<close>

record exchange_request =
  xq_asset :: string
  xq_cloud_events :: "event_filter list"
  xq_permissions :: "string list"
  xq_audience :: "string list"
  xq_token_id :: int64
  xq_privileges :: "int64 list"
  xq_nft_contract_address :: string

record controller =
  xc_chain_id :: uint64
  xc_manufacturer :: address

definition default_audience :: "string list" where
  "default_audience = [''dimo.zone'']"

definition bad_request :: "string \<Rightarrow> go_error" where
  "bad_request msg = Rich 400 (Some (Err msg)) msg"

definition write_error_response :: "go_error \<Rightarrow> http_response" where
  "write_error_response err =
     (let (code, message) =
        (case errors_as_rich err of
           None \<Rightarrow> (500, ''Internal error.'')
         | Some (c, _, external_msg) \<Rightarrow> (if c \<noteq> 0 then c else 500, external_msg))
      in \<lparr>hp_status = code, hp_body = JsonBody (JObj [(''code'', JInt code), (''message'', JStr message)])\<rparr>)"

definition token_reply :: "string \<Rightarrow> http_response" where
  "token_reply tk = \<lparr>hp_status = 200, hp_body = JsonBody (JObj [(''token'', JStr tk)])\<rparr>"

definition asset_did_from_token_req ::
  "eth \<Rightarrow> did_codec \<Rightarrow> (go_error \<Rightarrow> string) \<Rightarrow> exchange_request \<Rightarrow> uint64 \<Rightarrow> go_error + asset_did" where
  "asset_did_from_token_req eth codec err_text req chain_id =
     (if xq_asset req \<noteq> ''''
      then case decode_asset_did codec (xq_asset req) of
             Inl err \<Rightarrow> Inl (bad_request (''Invalid asset DID '' @ go_quote (xq_asset req) @ '': '' @ err_text err @ ''.''))
           | Inr asset \<Rightarrow> Inr asset
      else if \<not> eth_is_hex_address eth (xq_nft_contract_address req)
      then Inl (bad_request (''Invalid NFT contract address '' @ go_quote (xq_nft_contract_address req) @ ''.''))
      else Inr (Erc721Asset \<lparr>nft_chain_id = chain_id,
             nft_contract_address = eth_hex_to_address eth (xq_nft_contract_address req),
             nft_token_id = sint (xq_token_id req)\<rparr>))"

text \<open>The loop over the privilege ids: the names (empty for an unknown id) and the unknown ids.\<close>

fun lookup_names :: "(int64 \<times> string) list \<Rightarrow> int64 list \<Rightarrow> string list \<times> int64 list" where
  "lookup_names priv_map [] = ([], [])"
| "lookup_names priv_map (i # is) =
     (let (perm_names, unknown) = lookup_names priv_map is in
      case map_of priv_map i of
        None \<Rightarrow> ('''' # perm_names, i # unknown)
      | Some nm \<Rightarrow> (nm # perm_names, unknown))"

definition permissions_from_privileges :: "controller \<Rightarrow> int64 list \<Rightarrow> address \<Rightarrow> go_error + string list" where
  "permissions_from_privileges c privileges contract_address =
     (let priv_map = (if contract_address = xc_manufacturer c then manufacturer_privilege_id_to_name
                      else privilege_id_to_name);
          (perm_names, unknown) = lookup_names priv_map privileges
      in if length unknown > 0
         then Inl (Rich 400 (Some (Err (''unknown privileges '' @ fmt_int64s unknown)))
                (''unknown privileges '' @ fmt_int64s unknown))
         else Inr perm_names)"

definition token_req_to_access_req ::
  "eth \<Rightarrow> did_codec \<Rightarrow> (go_error \<Rightarrow> string) \<Rightarrow> controller \<Rightarrow> exchange_request \<Rightarrow> go_error + access_request" where
  "token_req_to_access_req eth codec err_text c req =
     (case asset_did_from_token_req eth codec err_text req (xc_chain_id c) of
        Inl err \<Rightarrow> Inl err
      | Inr asset \<Rightarrow>
          (case (if length (xq_permissions req) = 0
                 then permissions_from_privileges c (xq_privileges req) (get_contract_address asset)
                 else Inr (xq_permissions req)) of
             Inl err \<Rightarrow> Inl err
           | Inr permissions \<Rightarrow>
               Inr \<lparr>ar_asset = asset, ar_permissions = permissions, ar_event_filters = xq_cloud_events req\<rparr>))"

definition default_filter :: "event_filter \<Rightarrow> event_filter" where
  "default_filter e =
     \<lparr>ef_event_type = (if ef_event_type e = '''' then global_identifier else ef_event_type e),
      ef_source = (if ef_source e = '''' then global_identifier else ef_source e),
      ef_ids = (if length (ef_ids e) = 0 then [global_identifier] else ef_ids e),
      ef_tags = (if length (ef_tags e) = 0 then [global_identifier] else ef_tags e)\<rparr>"

definition add_default_identifiers :: "access_request \<Rightarrow> access_request" where
  "add_default_identifiers req = req\<lparr>ar_event_filters := map default_filter (ar_event_filters req)\<rparr>"

definition create_and_return_token ::
  "(privilege_token_dto \<Rightarrow> go_error + string) \<Rightarrow> 'b http_request \<Rightarrow> string list \<Rightarrow> access_request \<Rightarrow> http_response" where
  "create_and_return_token sign r aud req =
     (let aud = (if length aud = 0 then default_audience else aud) in
      case get_response_subject r of
        Inl err \<Rightarrow> write_error_response err
      | Inr resp_sub \<Rightarrow>
          (case sign \<lparr>pt_asset = ar_asset req, pt_permissions = ar_permissions req,
                      pt_event_filters = ar_event_filters req, pt_audience = aud, pt_response_subject = resp_sub\<rparr> of
             Inl err \<Rightarrow> write_error_response (Wrap ''failed to sign privilege payload'' err)
           | Inr tk \<Rightarrow> token_reply tk))"

text \<open>
  \<open>ExchangeToken\<close>: the body of the request is the outcome of decoding it.
\<close>

definition exchange_token ::
  "eth \<Rightarrow> did_codec \<Rightarrow> (go_error \<Rightarrow> string) \<Rightarrow> controller
   \<Rightarrow> (access_request \<Rightarrow> address \<Rightarrow> 't \<Rightarrow> outcome \<times> 't) \<Rightarrow> (privilege_token_dto \<Rightarrow> go_error + string)
   \<Rightarrow> (go_error + exchange_request, 't) handler" where
  "exchange_token eth codec err_text c validate sign r t =
     (case hq_body r of
        Inl _ \<Rightarrow> (Some (write_error_response (bad_request ''Couldn't parse request body.'')), t)
      | Inr token_req \<Rightarrow>
          (case token_req_to_access_req eth codec err_text c token_req of
             Inl err \<Rightarrow> (Some (write_error_response err), t)
           | Inr access_req \<Rightarrow>
               if length (ar_permissions access_req) = 0 \<and> length (ar_event_filters access_req) = 0
               then (Some (write_error_response (bad_request ''Please provide at least one privilege or cloudevent'')), t)
               else
                 (let access_req = add_default_identifiers access_req in
                  case get_user_eth_addr eth r of
                    Inl err \<Rightarrow> (Some (write_error_response (Rich 401 (Some err) ''no valid ethereum_address claim'')), t)
                  | Inr eth_addr \<Rightarrow>
                      (let (res, t') = validate access_req eth_addr t in
                       case res of
                         Panicked \<Rightarrow> (None, t')
                       | Denied err \<Rightarrow> (Some (write_error_response (Wrap ''failed to validate access'' err)), t')
                       | Granted \<Rightarrow>
                           (Some (create_and_return_token sign r (xq_audience token_req) access_req), t')))))"

text \<open>The chain that serves \<open>POST /exchange/tokens/exchange\<close>, as createHTTPServer and main build it.\<close>

definition exchange_chain ::
  "eth \<Rightarrow> 'k jwt_lib \<Rightarrow> 'k \<Rightarrow> (address \<Rightarrow> go_error + bool) \<Rightarrow> (go_error + exchange_request, 't) handler
   \<Rightarrow> (go_error + exchange_request, 't) handler" where
  "exchange_chain eth lib jwks dev_license h =
     recover (auth_middleware lib jwks (dev_license_validator eth dev_license h))"

section \<open>Lemmas\<close>

lemma write_error_response_status:
  "hp_status (write_error_response err) =
     (case errors_as_rich err of None \<Rightarrow> 500 | Some (c, e, m) \<Rightarrow> if c \<noteq> 0 then c else 500)"
  by (auto simp: write_error_response_def Let_def split: option.splits)

lemma default_filter_idem: "default_filter (default_filter e) = default_filter e"
  by (simp add: default_filter_def global_identifier_def)

lemma request_covered_default: "request_covered c (default_filter e) \<longleftrightarrow> request_covered c e"
proof -
  have "requested (if s = '''' then global_identifier else s) = requested s" for s
    by (simp add: requested_def pattern_of_def global_identifier_def)
  moreover have "requested_list (if length xs = 0 then [global_identifier] else xs) = requested_list xs" for xs
    by (simp add: requested_list_def pattern_of_def global_identifier_def)
  ultimately show ?thesis by (simp only: request_covered_def default_filter_def event_filter.simps)
qed

lemma lookup_names_spec:
  "snd (lookup_names t is) = filter (\<lambda>i. map_of t i = None) is"
  "snd (lookup_names t is) = [] \<Longrightarrow> map Some (fst (lookup_names t is)) = map (map_of t) is"
  by (induction "is") (auto simp: Let_def split: prod.splits option.splits if_splits)

text \<open>The access request that a token request asks for.\<close>

definition asks_for :: "eth \<Rightarrow> did_codec \<Rightarrow> (go_error \<Rightarrow> string) \<Rightarrow> controller \<Rightarrow> exchange_request \<Rightarrow> access_request \<Rightarrow> bool" where
  "asks_for eth codec err_text c req acc \<longleftrightarrow>
     (\<exists>a. token_req_to_access_req eth codec err_text c req = Inr a \<and>
        (ar_permissions a \<noteq> [] \<or> ar_event_filters a \<noteq> []) \<and> acc = add_default_identifiers a)"

lemma create_token_reply:
  "create_and_return_token sign r aud acc = token_reply tk \<longleftrightarrow>
     (\<exists>sub. get_response_subject r = Inr sub \<and>
        sign \<lparr>pt_asset = ar_asset acc, pt_permissions = ar_permissions acc, pt_event_filters = ar_event_filters acc,
          pt_audience = (if aud = [] then [''dimo.zone''] else aud), pt_response_subject = sub\<rparr> = Inr tk)"
  by (auto simp: create_and_return_token_def token_reply_def write_error_response_def default_audience_def Let_def
      split: sum.splits prod.splits option.splits)

lemma exchange_token_reply:
  "fst (exchange_token eth codec err_text c validate sign r t) = Some (token_reply tk) \<longleftrightarrow>
     (\<exists>req acc a. hq_body r = Inr req \<and> asks_for eth codec err_text c req acc \<and> get_user_eth_addr eth r = Inr a \<and>
        fst (validate acc a t) = Granted \<and>
        create_and_return_token sign r (xq_audience req) acc = token_reply tk)"
proof -
  have err: "write_error_response e \<noteq> token_reply tk" for e
    by (auto simp: write_error_response_def token_reply_def split: prod.splits)
  show ?thesis
    by (auto simp: exchange_token_def asks_for_def Let_def err split: sum.splits prod.splits outcome.splits if_splits)
qed

lemma recover_Some: "fst (recover h r t) \<noteq> None"
  by (auto simp: recover_def split: prod.splits option.splits)

lemma recover_cases:
  "recover h r t = (Some resp, t') \<longleftrightarrow>
     h r t = (Some resp, t') \<or> (h r t = (None, t') \<and> resp = http_error ''internal server error'' 500)"
  by (auto simp: recover_def split: prod.splits option.splits)

lemma auth_middleware_passed:
  assumes "bearer lib jwks r tok"
  shows "auth_middleware lib jwks nxt r t = nxt (with_token tok r) t"
  using assms by (auto simp: auth_middleware_def bearer_def cut_prefix_append [of "''Bearer ''", simplified])

lemma exchange_chain_passed:
  assumes "bearer lib jwks r tok" and "token_address eth tok = Some a" and "lic a = Inr True"
  shows "exchange_chain eth lib jwks lic h r t =
    recover h (r\<lparr>hq_token := Some tok, hq_response_subject := Some (eth_address_hex eth a)\<rparr>) t"
proof -
  have "dev_license_validator eth lic h (with_token tok r) t =
      h (r\<lparr>hq_token := Some tok, hq_response_subject := Some (eth_address_hex eth a)\<rparr>) t"
    using assms(2,3)
    by (auto simp: dev_license_validator_def token_address_def token_from_context_def with_token_def
        ethereum_address_claim_def Let_def split: option.splits claim_value.splits if_splits)
  then show ?thesis by (simp add: exchange_chain_def recover_def auth_middleware_passed [OF assms(1)])
qed

lemma exchange_chain_refused:
  assumes "\<not> eth_is_hex_address eth ''''"
    and "\<nexists>tok a. bearer lib jwks r tok \<and> token_address eth tok = Some a \<and> lic a = Inr True"
  shows "\<exists>m c. exchange_chain eth lib jwks lic h r t = (Some (http_error m c), t) \<and> c \<in> {400, 401, 403, 500}"
proof -
  obtain res t' where res: "auth_middleware lib jwks (dev_license_validator eth lic h) r t = (res, t')" by fastforce
  then have "t' = t \<and> (\<exists>m c. res = Some (http_error m c) \<and> c \<in> {400, 401, 403, 500})"
  proof (cases rule: auth_middleware_cases)
    case refused
    then show ?thesis by blast
  next
    case (passed tok)
    from passed(2) assms(1) show ?thesis
    proof (cases rule: dev_license_cases)
      case refused
      then show ?thesis by blast
    next
      case (passed tok' a)
      with \<open>bearer lib jwks r tok\<close> assms(2) show ?thesis by (auto simp: with_token_def)
    qed
  qed
  then obtain m c where m: "t' = t" "res = Some (http_error m c)" "c \<in> {400, 401, 403, 500}" by blast
  have "exchange_chain eth lib jwks lic h r t = (Some (http_error m c), t)"
    by (simp add: exchange_chain_def recover_def res m(1,2))
  with m(3) show ?thesis by blast
qed

lemma exchange_chain_reply:
  assumes "\<not> eth_is_hex_address eth ''''"
  shows "fst (exchange_chain eth lib jwks lic (exchange_token eth codec err_text ctl validate sign) r t) = Some (token_reply tk)
    \<longleftrightarrow> (\<exists>tok a req acc. bearer lib jwks r tok \<and> token_address eth tok = Some a \<and> lic a = Inr True \<and>
          hq_body r = Inr req \<and> asks_for eth codec err_text ctl req acc \<and> fst (validate acc a t) = Granted \<and>
          sign \<lparr>pt_asset = ar_asset acc, pt_permissions = ar_permissions acc, pt_event_filters = ar_event_filters acc,
            pt_audience = (if xq_audience req = [] then [''dimo.zone''] else xq_audience req),
            pt_response_subject = eth_address_hex eth a\<rparr> = Inr tk)"
proof (cases "\<exists>tok a. bearer lib jwks r tok \<and> token_address eth tok = Some a \<and> lic a = Inr True")
  case False
  with exchange_chain_refused [OF assms False, of "exchange_token eth codec err_text ctl validate sign" t]
  show ?thesis by (auto simp: http_error_def token_reply_def)
next
  case True
  then obtain tok a where p: "bearer lib jwks r tok" "token_address eth tok = Some a" "lic a = Inr True" by blast
  let ?h = "exchange_token eth codec err_text ctl validate sign"
  let ?r = "r\<lparr>hq_token := Some tok, hq_response_subject := Some (eth_address_hex eth a)\<rparr>"
  have tok: "tok' = tok" if "bearer lib jwks r tok'" for tok'
    using p(1) that by (auto simp: bearer_def)
  have addr: "a' = a" if "bearer lib jwks r tok'" "token_address eth tok' = Some a'" for tok' a'
    using tok [OF that(1)] that(2) p(2) by simp
  have "fst (exchange_chain eth lib jwks lic ?h r t) = Some (token_reply tk) \<longleftrightarrow> fst (?h ?r t) = Some (token_reply tk)"
    unfolding exchange_chain_passed [of lib jwks r tok eth a lic ?h t, OF p]
    by (auto simp: recover_def token_reply_def http_error_def split: prod.splits option.splits)
  also have "\<dots> \<longleftrightarrow> (\<exists>req acc. hq_body r = Inr req \<and> asks_for eth codec err_text ctl req acc \<and> fst (validate acc a t) = Granted \<and>
          sign \<lparr>pt_asset = ar_asset acc, pt_permissions = ar_permissions acc, pt_event_filters = ar_event_filters acc,
            pt_audience = (if xq_audience req = [] then [''dimo.zone''] else xq_audience req),
            pt_response_subject = eth_address_hex eth a\<rparr> = Inr tk)"
    using p(2) by (simp add: exchange_token_reply get_user_eth_addr_Inr create_token_reply get_response_subject_def)
  finally show ?thesis using p addr by blast
qed

section \<open>Properties\<close>

text \<open>
  The gate.  Without a bearer token that the sign-in key set accepts and whose address is a licensed
  developer's, no handler behind the chain is reached: the answer is an error text with status 400,
  401, 403 or 500 and the state is untouched.
\<close>

theorem exchange_gate:
  assumes "\<not> eth_is_hex_address eth ''''"
    and "\<nexists>tok a. bearer lib jwks r tok \<and> token_address eth tok = Some a \<and> lic a = Inr True"
  shows "\<exists>m c. exchange_chain eth lib jwks lic (exchange_token eth codec err_text ctl validate sign) r t
    = (Some (http_error m c), t) \<and> c \<in> {400, 401, 403, 500}"
  using assms by (rule exchange_chain_refused)

text \<open>
  C10: When the exchange answers with a token: exactly when the bearer token is accepted, its address is a
  licensed developer's, the body decodes to a request for at least one permission or cloud event, the
  access service grants that request, with its defaults filled in, to this very address, and the signer
  signs it for this address as the subject and for the requested audience or else the default one.
\<close>

theorem exchange_token_iff:
  assumes "\<not> eth_is_hex_address eth ''''"
  shows "fst (exchange_chain eth lib jwks lic (exchange_token eth codec err_text ctl validate sign) r t) = Some (token_reply tk)
    \<longleftrightarrow> (\<exists>tok a req acc. bearer lib jwks r tok \<and> token_address eth tok = Some a \<and> lic a = Inr True \<and>
          hq_body r = Inr req \<and> asks_for eth codec err_text ctl req acc \<and> fst (validate acc a t) = Granted \<and>
          sign \<lparr>pt_asset = ar_asset acc, pt_permissions = ar_permissions acc, pt_event_filters = ar_event_filters acc,
            pt_audience = (if xq_audience req = [] then [''dimo.zone''] else xq_audience req),
            pt_response_subject = eth_address_hex eth a\<rparr> = Inr tk)"
  using assms by (rule exchange_chain_reply)

text \<open>
  Filled-in defaults ask for the same.  Filling them in twice changes nothing more, and a source
  document grants the request with its defaults exactly when it grants it as it came; the state of the
  template cache ends up the same.
\<close>

lemma defaults_ask_the_same:
  "add_default_identifiers (add_default_identifiers acc) = add_default_identifiers acc \<and>
   (fst (validate_access_via_source_doc eth codec s get_template clock (add_default_identifiers acc) a t) = Granted \<longleftrightarrow>
      fst (validate_access_via_source_doc eth codec s get_template clock acc a t) = Granted) \<and>
   snd (validate_access_via_source_doc eth codec s get_template clock (add_default_identifiers acc) a t)
     = snd (validate_access_via_source_doc eth codec s get_template clock acc a t)"
proof -
  have "document_covers codec get_template clock data (add_default_identifiers acc) t
      = document_covers codec get_template clock data acc t" for data
    by (simp add: document_covers_def add_default_identifiers_def list.pred_map comp_def request_covered_default Let_def)
  then have "fst (validate_access_via_source_doc eth codec s get_template clock (add_default_identifiers acc) a t) = Granted \<longleftrightarrow>
      fst (validate_access_via_source_doc eth codec s get_template clock acc a t) = Granted"
    by (simp add: source_doc_Granted) (simp add: add_default_identifiers_def)
  moreover have "snd (validate_access_via_source_doc eth codec s get_template clock (add_default_identifiers acc) a t)
     = snd (validate_access_via_source_doc eth codec s get_template clock acc a t)"
    by (simp add: validate_access_via_source_doc_def evaluate_sacd_doc_def add_default_identifiers_def Let_def
        split: sum.split prod.split option.split)
  ultimately show ?thesis
    by (simp add: add_default_identifiers_def default_filter_idem)
qed

lemma permissions_from_privileges_Inr:
  "permissions_from_privileges c is a = Inr ps \<longleftrightarrow>
     map Some ps = map (map_of (if a = xc_manufacturer c then manufacturer_privilege_id_to_name else privilege_id_to_name)) is"
  (is "_ \<longleftrightarrow> map Some ps = map (map_of ?t) is")
proof -
  obtain ns unknown where l: "lookup_names ?t is = (ns, unknown)" by fastforce
  have res: "permissions_from_privileges c is a = Inr ps \<longleftrightarrow> unknown = [] \<and> ns = ps"
    using l by (auto simp: permissions_from_privileges_def Let_def)
  have unk: "unknown = filter (\<lambda>i. map_of ?t i = None) is"
    using lookup_names_spec(1) [of ?t "is"] l by simp
  have ns: "unknown = [] \<Longrightarrow> map Some ns = map (map_of ?t) is"
    using lookup_names_spec(2) [of ?t "is"] l by simp
  have "unknown = []" if "map Some ps = map (map_of ?t) is"
  proof -
    have "None \<notin> set (map (map_of ?t) is)" unfolding that [symmetric] by auto
    then show ?thesis unfolding unk filter_empty_conv by (metis image_eqI set_map)
  qed
  with ns show ?thesis unfolding res by (metis inj_map_eq_map inj_Some)
qed

text \<open>
  Requests by privilege id.  The ids of a request are turned into permission names exactly when all of
  them are known, and the access service then checks the bits of the very same ids: looking the names up
  again, in the table that it uses for the asset, gives the ids back.
\<close>

theorem privileges_round_trip:
  assumes "permissions_from_privileges c is (get_contract_address asset) = Inr ps"
    and "as_manufacturer s = xc_manufacturer c"
  shows "lookup_privileges (privilege_map s asset) ps = (is, [])"
proof -
  let ?t = "if get_contract_address asset = xc_manufacturer c then manufacturer_privilege_id_to_name else privilege_id_to_name"
  have inv: "privilege_map s asset p = Some i \<longleftrightarrow> map_of ?t i = Some p" for p i
    using assms(2) by (simp add: privilege_map_def privilege_id_iff manufacturer_privilege_id_iff)
  from assms(1) have "map Some ps = map (map_of ?t) is" by (simp only: permissions_from_privileges_Inr)
  then show ?thesis
  proof (induction "is" arbitrary: ps)
    case (Cons i "is")
    then obtain p ps' where ps: "ps = p # ps'" "Some p = map_of ?t i" "map Some ps' = map (map_of ?t) is"
      by (cases ps) auto
    with Cons.IH have "lookup_privileges (privilege_map s asset) ps' = (is, [])" by blast
    moreover from ps(2) inv have "privilege_map s asset p = Some i" by metis
    ultimately show ?case by (simp add: ps(1))
  qed simp
qed

definition sample_controller :: controller where
  "sample_controller = \<lparr>xc_chain_id = 137, xc_manufacturer = 3\<rparr>"

theorem privileges_round_trip_witness:
  "lookup_privileges (privilege_map sample_service sample_asset)
     [''privilege:GetVINCredential'', ''privilege:ExecuteCommands''] = ([5, 2], [])"
proof (rule privileges_round_trip)
  show "permissions_from_privileges sample_controller [5, 2] (get_contract_address sample_asset)
      = Inr [''privilege:GetVINCredential'', ''privilege:ExecuteCommands'']"
    by (simp add: permissions_from_privileges_def privilege_id_to_name_def sample_controller_def sample_asset_def)
  show "as_manufacturer sample_service = xc_manufacturer sample_controller"
    by (simp add: sample_service_def sample_controller_def)
qed

section \<open>A concrete exchange\<close>

definition sample_lib :: "unit jwt_lib" where
  "sample_lib = \<lparr>jl_new_jwk_set = (\<lambda>s. Inr ()),
     jl_parse = (\<lambda>k s. if s = ''tok'' then Inr \<lparr>jt_valid = True, jt_claims = Some
       [''ethereum_address'' \<mapsto> ClaimString (eth_address_hex eth_model 7)]\<rparr> else Inl (Err ''bad''))\<rparr>"

definition sample_exchange_request :: "string \<Rightarrow> (go_error + exchange_request) http_request" where
  "sample_exchange_request auth = \<lparr>hq_authorization = auth, hq_body = Inr \<lparr>xq_asset = ''did:x'', xq_cloud_events = [],
     xq_permissions = [''privilege:GetVINCredential''], xq_audience = [], xq_token_id = 0, xq_privileges = [],
     xq_nft_contract_address = ''''\<rparr>, hq_token = None, hq_response_subject = None\<rparr>"

abbreviation sample_validate :: "access_request \<Rightarrow> address \<Rightarrow> unit \<Rightarrow> outcome \<times> unit" where
  "sample_validate \<equiv> validate_access eth_model sample_codec sample_service (\<lambda>i d t. (Inr None, t)) (\<lambda>i. 50)"

definition sample_signer :: token_signer where
  "sample_signer = \<lparr>tg_keys = \<lparr>ks_all = [\<lparr>sk_kid = ''k2'', sk_priv = toy_key 66\<rparr>]\<rparr>, tg_issuer = ''iss'', tg_ttl = 600\<rparr>"

abbreviation sample_sign :: "privilege_token_dto \<Rightarrow> go_error + string" where
  "sample_sign \<equiv> sign_privilege_payload sample_codec (\<lambda>priv kid pt. Inr (kid @ ''.'' @ rc_subject (tk_registered pt)))
     sample_signer 1000 ''uuid''"

lemma empty_not_address: "\<not> eth_is_hex_address eth_model ''''"
  by (simp add: eth_model_def model_is_hex_address_def strip_0x_def)

lemma sample_bearer:
  "bearer sample_lib () (sample_exchange_request ''Bearer tok'')
     \<lparr>jt_valid = True, jt_claims = Some [''ethereum_address'' \<mapsto> ClaimString (eth_address_hex eth_model 7)]\<rparr>"
  unfolding bearer_def
  by (intro exI [of _ "''tok''"])
     (simp add: sample_exchange_request_def sample_lib_def trim_space_id ascii_ends_trimmed is_space_def)

lemma sample_token_address:
  "token_address eth_model \<lparr>jt_valid = True, jt_claims = Some [''ethereum_address'' \<mapsto> ClaimString (eth_address_hex eth_model 7)]\<rparr>
     = Some 7"
  by (simp add: token_address_def model_decode_address)

lemma sample_asks:
  "asks_for eth_model sample_codec (\<lambda>e. '''') sample_controller
     \<lparr>xq_asset = ''did:x'', xq_cloud_events = [], xq_permissions = [''privilege:GetVINCredential''], xq_audience = [],
       xq_token_id = 0, xq_privileges = [], xq_nft_contract_address = ''''\<rparr> (sample_request [''privilege:GetVINCredential''])"
  by (simp add: asks_for_def token_req_to_access_req_def asset_did_from_token_req_def decode_asset_did_def sample_codec_def
      sample_request_def sample_asset_def add_default_identifiers_def)

lemma sample_validate_granted:
  "fst (sample_validate (sample_request [''privilege:GetVINCredential'']) 7 ()) = Granted"
proof -
  have "validate_access_via_source_doc eth_model sample_codec sample_service gt ck
      (sample_request [''privilege:GetVINCredential'']) 7 t = (Denied e, t') \<Longrightarrow>
    fst (validate_access eth_model sample_codec sample_service gt ck (sample_request [''privilege:GetVINCredential'']) 7 t) = Granted"
    for gt ck e and t t' :: unit
    using sample_granted by (simp add: validate_access_def sample_request_def)
  then show ?thesis
    using source_doc_no_panic [of eth_model sample_codec sample_service "\<lambda>i d t. (Inr None, t)" "\<lambda>i. 50"
        "sample_request [''privilege:GetVINCredential'']" 7 "()"]
    by (cases "validate_access_via_source_doc eth_model sample_codec sample_service (\<lambda>i d t. (Inr None, t)) (\<lambda>i. 50)
        (sample_request [''privilege:GetVINCredential'']) 7 ()"; cases "fst (validate_access_via_source_doc eth_model
        sample_codec sample_service (\<lambda>i d t. (Inr None, t)) (\<lambda>i. 50) (sample_request [''privilege:GetVINCredential'']) 7 ())")
       (auto simp: validate_access_def)
qed

lemma sample_signed:
  "sample_sign \<lparr>pt_asset = a, pt_permissions = ps, pt_event_filters = es, pt_audience = aud, pt_response_subject = sub\<rparr>
     = Inr (''k2.'' @ sub)"
  by (simp add: sign_privilege_payload_def keyset_sign_def sample_signer_def permission_token_of_def)

theorem exchange_token_iff_witness:
  "fst (exchange_chain eth_model sample_lib () (\<lambda>a. Inr (a = 7))
      (exchange_token eth_model sample_codec (\<lambda>e. '''') sample_controller sample_validate sample_sign)
      (sample_exchange_request ''Bearer tok'') ()) = Some (token_reply (''k2.'' @ eth_address_hex eth_model 7))"
  unfolding exchange_token_iff [OF empty_not_address]
  by (intro exI conjI, rule sample_bearer, rule sample_token_address, simp, simp add: sample_exchange_request_def,
      rule sample_asks, rule sample_validate_granted, rule sample_signed)

theorem exchange_gate_witness:
  "\<exists>m c. exchange_chain eth_model sample_lib () (\<lambda>a. Inr (a = 7))
      (exchange_token eth_model sample_codec (\<lambda>e. '''') sample_controller sample_validate sample_sign)
      (sample_exchange_request ''tok'') () = (Some (http_error m c), ()) \<and> c \<in> {400, 401, 403, 500}"
  by (rule exchange_gate [OF empty_not_address]) (simp add: bearer_def sample_exchange_request_def)

end
