(* ===== verification/GrpcMessages.thy ===== *)
theory GrpcMessages imports Prelude begin

text \<open>
  The messages of the token exchange service as the generated package declares them
  (pkg/grpc/token-exchange-api.pb.go).  A message reaches the code as a pointer, which is an
  option here: the generated getters answer the zero value for a nil pointer.  The bookkeeping
  fields of the protobuf runtime (message state, unknown fields, size cache) and the reflection
  methods are left out.
\<close>

section \<open>Messages\<close>

record rpc_event =
  re_event_type :: string
  re_source :: string
  re_ids :: "string list"

record access_check_request =
  aq_grantee :: string
  aq_asset :: string
  aq_privileges :: "string list"
  aq_events :: "rpc_event option list"

record rich_error =
  rr_code :: "32 word"
  rr_external_msg :: string
  rr_err :: string

record access_check_response =
  ac_has_access :: bool
  ac_reason :: string
  ac_rich_error :: "rich_error option"

section \<open>New and reset messages\<close>

definition reset_access_check_request :: access_check_request where
  "reset_access_check_request = \<lparr>aq_grantee = '''', aq_asset = '''', aq_privileges = [], aq_events = []\<rparr>"

definition reset_event_filter :: rpc_event where
  "reset_event_filter = \<lparr>re_event_type = '''', re_source = '''', re_ids = []\<rparr>"

definition reset_access_check_response :: access_check_response where
  "reset_access_check_response = \<lparr>ac_has_access = False, ac_reason = '''', ac_rich_error = None\<rparr>"

definition reset_rich_error :: rich_error where
  "reset_rich_error = \<lparr>rr_code = 0, rr_external_msg = '''', rr_err = ''''\<rparr>"

section \<open>Getters\<close>

fun get_grantee :: "access_check_request option \<Rightarrow> string" where
  "get_grantee (Some x) = aq_grantee x"
| "get_grantee None = ''''"

fun get_asset :: "access_check_request option \<Rightarrow> string" where
  "get_asset (Some x) = aq_asset x"
| "get_asset None = ''''"

fun get_privileges :: "access_check_request option \<Rightarrow> string list" where
  "get_privileges (Some x) = aq_privileges x"
| "get_privileges None = []"

fun get_events :: "access_check_request option \<Rightarrow> rpc_event option list" where
  "get_events (Some x) = aq_events x"
| "get_events None = []"

fun get_event_type :: "rpc_event option \<Rightarrow> string" where
  "get_event_type (Some x) = re_event_type x"
| "get_event_type None = ''''"

fun get_source :: "rpc_event option \<Rightarrow> string" where
  "get_source (Some x) = re_source x"
| "get_source None = ''''"

fun get_ids :: "rpc_event option \<Rightarrow> string list" where
  "get_ids (Some x) = re_ids x"
| "get_ids None = []"

fun get_has_access :: "access_check_response option \<Rightarrow> bool" where
  "get_has_access (Some x) = ac_has_access x"
| "get_has_access None = False"

fun get_reason :: "access_check_response option \<Rightarrow> string" where
  "get_reason (Some x) = ac_reason x"
| "get_reason None = ''''"

fun get_rich_error :: "access_check_response option \<Rightarrow> rich_error option" where
  "get_rich_error (Some x) = ac_rich_error x"
| "get_rich_error None = None"

fun get_code :: "rich_error option \<Rightarrow> 32 word" where
  "get_code (Some x) = rr_code x"
| "get_code None = 0"

fun get_external_msg :: "rich_error option \<Rightarrow> string" where
  "get_external_msg (Some x) = rr_external_msg x"
| "get_external_msg None = ''''"

fun get_err :: "rich_error option \<Rightarrow> string" where
  "get_err (Some x) = rr_err x"
| "get_err None = ''''"

text \<open>A nil message reads as a reset one.\<close>

lemma nil_reads_as_reset:
  "get_grantee None = get_grantee (Some reset_access_check_request)"
  "get_asset None = get_asset (Some reset_access_check_request)"
  "get_privileges None = get_privileges (Some reset_access_check_request)"
  "get_events None = get_events (Some reset_access_check_request)"
  "get_event_type None = get_event_type (Some reset_event_filter)"
  "get_source None = get_source (Some reset_event_filter)"
  "get_ids None = get_ids (Some reset_event_filter)"
  "get_has_access None = get_has_access (Some reset_access_check_response)"
  "get_reason None = get_reason (Some reset_access_check_response)"
  "get_rich_error None = get_rich_error (Some reset_access_check_response)"
  "get_code None = get_code (Some reset_rich_error)"
  "get_external_msg None = get_external_msg (Some reset_rich_error)"
  "get_err None = get_err (Some reset_rich_error)"
  by (simp_all add: reset_access_check_request_def reset_event_filter_def reset_access_check_response_def reset_rich_error_def)

end
