(* ===== verification/Rpc.thy ===== *)
theory Rpc imports Access GrpcMessages begin

text \<open>
  The gRPC surface (internal/exchange/controllers/rpc/rpc.go) with its panic recovery
  (createGRPCServer in internal/exchange/app/app.go).  Messages are read through the generated getters, so a nil
  event filter reads as an empty one; \<open>as\_rich\<close> stands for \<open>richerrors.AsRichError\<close> and \<open>err\_text\<close> for the text of an error.
\<close>

section \<open>AccessCheck\<close>

fun event_filters_of :: "rpc_event option list \<Rightarrow> event_filter list" where
  "event_filters_of [] = []"
| "event_filters_of (e # es) =
     \<lparr>ef_event_type = get_event_type e, ef_source = get_source e, ef_ids = get_ids e, ef_tags = []\<rparr> # event_filters_of es"

text \<open>\<open>fmt.Sprintf("%v", err)\<close>\<close>

definition err_value :: "(go_error \<Rightarrow> string) \<Rightarrow> go_error option \<Rightarrow> string" where
  "err_value err_text e = (case e of None \<Rightarrow> ''<nil>'' | Some err \<Rightarrow> err_text err)"

text \<open>The outer option is None when the handler panics.\<close>

definition access_check ::
  "eth \<Rightarrow> did_codec \<Rightarrow> (go_error \<Rightarrow> string) \<Rightarrow> (go_error \<Rightarrow> (int \<times> go_error option \<times> string) option)
   \<Rightarrow> (access_request \<Rightarrow> address \<Rightarrow> 't \<Rightarrow> outcome \<times> 't)
   \<Rightarrow> access_check_request \<Rightarrow> 't \<Rightarrow> (go_error + access_check_response) option \<times> 't" where
  "access_check eth codec err_text as_rich validate req t =
     (case decode_asset_did codec (get_asset (Some req)) of
        Inl err \<Rightarrow> (Some (Inl (Wrap ''failed to decode asset DID'' err)), t)
      | Inr asset \<Rightarrow>
          (let events = event_filters_of (get_events (Some req));
               access_req = \<lparr>ar_asset = asset, ar_permissions = get_privileges (Some req), ar_event_filters = events\<rparr>
           in if get_grantee (Some req) = '''' then (Some (Inl (Err ''grantee is required'')), t)
              else case validate access_req (eth_hex_to_address eth (get_grantee (Some req))) t of
                (Panicked, t') \<Rightarrow> (None, t')
              | (Denied err, t') \<Rightarrow>
                  (let (code, inner, external_msg) =
                     (case as_rich err of None \<Rightarrow> (500, Some err, '''') | Some r \<Rightarrow> r)
                   in (Some (Inr \<lparr>ac_has_access = False, ac_reason = err_text err,
                         ac_rich_error = Some \<lparr>rr_code = word_of_int code, rr_external_msg = external_msg,
                           rr_err = err_value err_text inner\<rparr>\<rparr>), t'))
              | (Granted, t') \<Rightarrow>
                  (Some (Inr \<lparr>ac_has_access = True, ac_reason = '''', ac_rich_error = None\<rparr>), t')))"

text \<open>The recovery interceptor: a panic becomes an Internal status.\<close>

definition recover_panic :: "('q \<Rightarrow> 't \<Rightarrow> (go_error + 'r) option \<times> 't) \<Rightarrow> 'q \<Rightarrow> 't \<Rightarrow> (go_error + 'r) \<times> 't" where
  "recover_panic h q t = (case h q t of (None, t') \<Rightarrow> (Inl (Err ''panic''), t') | (Some r, t') \<Rightarrow> (r, t'))"

section \<open>Properties\<close>

lemma event_filters_of_map:
  "event_filters_of es = map (\<lambda>e. \<lparr>ef_event_type = get_event_type e, ef_source = get_source e, ef_ids = get_ids e,
     ef_tags = []\<rparr>) es"
  by (induction es) auto

lemma validate_access_no_panic:
  "fst (validate_access eth codec s get_template clock req a t) \<noteq> Panicked"
  using source_doc_no_panic [of eth codec s get_template clock req a t] via_record_no_panic [of eth codec s req a]
  by (auto simp: validate_access_def split: prod.splits outcome.splits)

text \<open>
  C40: The gRPC access check over the access service.  The call itself fails exactly when the asset does
  not decode or no grantee is given; otherwise the response reports access exactly when the service
  grants the request to the grantee's address, a refusal comes with a reason and a rich error, and the
  service is left in the state of that one decision.
\<close>

theorem access_check_iff:
  "((\<exists>e. fst (recover_panic (access_check eth codec err_text as_rich
        (validate_access eth codec s get_template clock)) req t) = Inl e)
      \<longleftrightarrow> (\<exists>e. decode_asset_did codec (aq_asset req) = Inl e) \<or> aq_grantee req = '''') \<and>
   ((\<exists>resp. fst (recover_panic (access_check eth codec err_text as_rich
        (validate_access eth codec s get_template clock)) req t) = Inr resp \<and> ac_has_access resp)
      \<longleftrightarrow> (\<exists>asset. decode_asset_did codec (aq_asset req) = Inr asset \<and> aq_grantee req \<noteq> '''' \<and>
            fst (validate_access eth codec s get_template clock \<lparr>ar_asset = asset, ar_permissions = aq_privileges req,
              ar_event_filters = event_filters_of (aq_events req)\<rparr> (eth_hex_to_address eth (aq_grantee req)) t) = Granted)) \<and>
   (case fst (recover_panic (access_check eth codec err_text as_rich
        (validate_access eth codec s get_template clock)) req t) of
      Inl e \<Rightarrow> True | Inr resp \<Rightarrow> ac_has_access resp = (ac_rich_error resp = None))"
proof (cases "decode_asset_did codec (aq_asset req)")
  case (Inl e)
  then show ?thesis by (simp add: recover_panic_def access_check_def)
next
  case (Inr asset)
  let ?a = "\<lparr>ar_asset = asset, ar_permissions = aq_privileges req, ar_event_filters = event_filters_of (aq_events req)\<rparr>"
  let ?g = "eth_hex_to_address eth (aq_grantee req)"
  obtain o' t' where v: "validate_access eth codec s get_template clock ?a ?g t = (o', t')" by fastforce
  then have "o' \<noteq> Panicked" using validate_access_no_panic [of eth codec s get_template clock ?a ?g t] by simp
  with Inr v show ?thesis
    by (cases o'; cases "aq_grantee req = ''''")
       (auto simp: recover_panic_def access_check_def Let_def split: prod.split)
qed

text \<open>
  A check that names neither privileges nor events is answered with access whenever the permission
  source can report the grantee's permissions at all: unlike the HTTP endpoint, the gRPC one does not
  refuse an empty request.
\<close>

lemma empty_check_has_access:
  assumes "decode_asset_did codec (aq_asset req) = Inr asset" and "aq_grantee req \<noteq> ''''"
    and "aq_privileges req = []" and "aq_events req = []"
    and "held_permissions s asset (eth_hex_to_address eth (aq_grantee req)) 0 = Inr ret"
  shows "\<exists>resp. fst (recover_panic (access_check eth codec err_text as_rich
    (validate_access eth codec s get_template clock)) req t) = Inr resp \<and> ac_has_access resp"
proof -
  let ?g = "eth_hex_to_address eth (aq_grantee req)"
  have "validate_access_via_record eth codec s \<lparr>ar_asset = asset, ar_permissions = [], ar_event_filters = []\<rparr> ?g = Granted"
    using assms(5) unfolding via_record_Granted by (simp add: int_array_to_2bit_array_def)
  then have "fst (validate_access eth codec s get_template clock
      \<lparr>ar_asset = asset, ar_permissions = [], ar_event_filters = []\<rparr> ?g t) = Granted"
    by (simp add: validate_access_Granted)
  with assms(1-4) show ?thesis
    by (auto simp: recover_panic_def access_check_def Let_def split: prod.split outcome.split)
qed

end
