(* ===== verification/GrpcStubs.thy ===== *)
theory GrpcStubs imports Rpc begin

text \<open>
  The generated client and server stubs of the token exchange service
  (pkg/grpc/token-exchange-api\_grpc.pb.go), the server that implements it (rpc.go) and the gRPC
  server around it (createGRPCServer in internal/exchange/app/app.go).  The gRPC runtime and its
  middleware are the record \<open>grpc\_library\<close>; what they document is \<open>documented\_grpc\<close>.
  \<open>'t\<close> is the state the implementation threads; None as the answer of a call is a panic.
\<close>

section \<open>Handlers and descriptors\<close>

type_synonym 't answer = "(go_error + access_check_response) option \<times> 't"

text \<open>\<open>grpc.UnaryServerInterceptor\<close>: the request, the full method name, the handler to go on with.\<close>

type_synonym 't interceptor =
  "access_check_request \<Rightarrow> string \<Rightarrow> (access_check_request \<Rightarrow> 't \<Rightarrow> 't answer) \<Rightarrow> 't \<Rightarrow> 't answer"

text \<open>
  An implementation of \<open>TokenExchangeServiceServer\<close>: its method, and how it embeds the generated
  \<open>UnimplementedTokenExchangeServiceServer\<close> (None when it does not have the promoted test method).
\<close>

datatype embedding = ByValue | NilPointer

record 't token_exchange_server =
  sv_access_check :: "access_check_request \<Rightarrow> 't \<Rightarrow> 't answer"
  sv_embedding :: "embedding option"

text \<open>\<open>grpc.ServiceDesc\<close>; \<open>dec\<close> fills a new request from the wire.\<close>

type_synonym 't method_handler =
  "'t token_exchange_server \<Rightarrow> (access_check_request \<Rightarrow> go_error + access_check_request)
   \<Rightarrow> 't interceptor option \<Rightarrow> 't \<Rightarrow> 't answer"

record 't service_desc =
  sd_service_name :: string
  sd_methods :: "(string \<times> 't method_handler) list"
  sd_streams :: "string list"
  sd_metadata :: string

definition access_check_full_method_name :: string where
  "access_check_full_method_name = ''/grpc.TokenExchangeService/AccessCheck''"

definition unimplemented_access_check :: "access_check_request \<Rightarrow> 't \<Rightarrow> 't answer" where
  "unimplemented_access_check req t = (Some (Inl (Err ''method AccessCheck not implemented'')), t)"

definition access_check_handler :: "'t method_handler" where
  "access_check_handler srv dec interceptor t =
     (case dec reset_access_check_request of
        Inl err \<Rightarrow> (Some (Inl err), t)
      | Inr req \<Rightarrow>
          (case interceptor of
             None \<Rightarrow> sv_access_check srv req t
           | Some i \<Rightarrow> i req access_check_full_method_name (\<lambda>req t. sv_access_check srv req t) t))"

definition token_exchange_service_desc :: "'t service_desc" where
  "token_exchange_service_desc = \<lparr>sd_service_name = ''grpc.TokenExchangeService'',
     sd_methods = [(''AccessCheck'', access_check_handler)], sd_streams = [], sd_metadata = ''token-exchange-api.proto''\<rparr>"

text \<open>None when the test of the embedded value panics.\<close>

definition register_token_exchange_server ::
  "('t service_desc \<Rightarrow> 't token_exchange_server \<Rightarrow> 'g \<Rightarrow> 'g) \<Rightarrow> 'g \<Rightarrow> 't token_exchange_server \<Rightarrow> 'g option" where
  "register_token_exchange_server register_service s srv =
     (if sv_embedding srv = Some NilPointer then None else Some (register_service token_exchange_service_desc srv s))"

section \<open>The client\<close>

text \<open>
  \<open>grpc.ClientConnInterface.Invoke\<close> takes the method, the request, the message to fill and the call
  options; it answers an error or nil and leaves the message filled.
\<close>

type_synonym ('o, 't) client_conn =
  "string \<Rightarrow> access_check_request \<Rightarrow> access_check_response \<Rightarrow> 'o list \<Rightarrow> 't \<Rightarrow> (go_error option \<times> access_check_response) \<times> 't"

record ('o, 't) token_exchange_client =
  tc_conn :: "('o, 't) client_conn"

definition new_token_exchange_client :: "('o, 't) client_conn \<Rightarrow> ('o, 't) token_exchange_client" where
  "new_token_exchange_client cc = \<lparr>tc_conn = cc\<rparr>"

definition client_access_check ::
  "'o \<Rightarrow> ('o, 't) token_exchange_client \<Rightarrow> access_check_request \<Rightarrow> 'o list \<Rightarrow> 't \<Rightarrow> (go_error + access_check_response) \<times> 't" where
  "client_access_check static_method c req opts t =
     (case tc_conn c access_check_full_method_name req reset_access_check_response (static_method # opts) t of
        ((Some err, _), t') \<Rightarrow> (Inl err, t')
      | ((None, out), t') \<Rightarrow> (Inr out, t'))"

section \<open>The server of the exchange\<close>

definition new_token_exchange_server ::
  "eth \<Rightarrow> did_codec \<Rightarrow> (go_error \<Rightarrow> string) \<Rightarrow> (go_error \<Rightarrow> (int \<times> go_error option \<times> string) option)
   \<Rightarrow> (access_request \<Rightarrow> address \<Rightarrow> 't \<Rightarrow> outcome \<times> 't) \<Rightarrow> 't token_exchange_server" where
  "new_token_exchange_server eth codec err_text as_rich validate =
     \<lparr>sv_access_check = access_check eth codec err_text as_rich validate, sv_embedding = Some ByValue\<rparr>"

text \<open>
  The runtime: a new server with an interceptor, registration, what a server does with a call of a
  full method name, and the middleware of the server.
\<close>

record ('t, 'g) grpc_library =
  gl_new_server :: "'t interceptor \<Rightarrow> 'g"
  gl_register :: "'t service_desc \<Rightarrow> 't token_exchange_server \<Rightarrow> 'g \<Rightarrow> 'g"
  gl_serve :: "'g \<Rightarrow> string \<Rightarrow> (access_check_request \<Rightarrow> go_error + access_check_request) \<Rightarrow> 't \<Rightarrow> 't answer"
  gl_chain :: "'t interceptor list \<Rightarrow> 't interceptor"
  gl_ctxtags :: "'t interceptor"
  gl_prometheus :: "'t interceptor"
  gl_recovery :: "go_error \<Rightarrow> 't interceptor"

text \<open>The service has no streams, so the interceptor for them is left out.\<close>

definition create_grpc_server :: "('t, 'g) grpc_library \<Rightarrow> 't token_exchange_server \<Rightarrow> 'g option" where
  "create_grpc_server lib rpc_ctrl =
     (let recover_error = Err ''panic'';
          server = gl_new_server lib (gl_chain lib [gl_ctxtags lib, gl_prometheus lib, gl_recovery lib recover_error])
      in register_token_exchange_server (gl_register lib) server rpc_ctrl)"

section \<open>What the runtime documents\<close>

text \<open>
  A chain runs its interceptors from the first to the last and then the handler; the tags and the
  metrics leave the call alone; the recovery turns a panic into its error; a server hands a call of
  \<open>/service/method\<close> to the registered handler with its interceptor and refuses any other method.
\<close>

definition full_method :: "'t service_desc \<Rightarrow> string \<times> 't method_handler \<Rightarrow> string" where
  "full_method desc m = ''/'' @ sd_service_name desc @ ''/'' @ fst m"

definition find_method :: "'t service_desc \<Rightarrow> string \<Rightarrow> 't method_handler option" where
  "find_method desc name = map_of (map (\<lambda>m. (full_method desc m, snd m)) (sd_methods desc)) name"

definition run_chain :: "'t interceptor list \<Rightarrow> 't interceptor" where
  "run_chain is req m h = foldr (\<lambda>i h req. i req m h) is h req"

definition pass_through :: "'t interceptor" where
  "pass_through req m h = h req"

definition recover_with :: "go_error \<Rightarrow> 't interceptor" where
  "recover_with e req m h t = (case h req t of (None, t') \<Rightarrow> (Some (Inl e), t') | r \<Rightarrow> r)"

definition documented_grpc :: "('t, 'g) grpc_library \<Rightarrow> bool" where
  "documented_grpc lib \<longleftrightarrow>
     gl_chain lib = run_chain \<and> gl_ctxtags lib = pass_through \<and> gl_prometheus lib = pass_through \<and>
     gl_recovery lib = recover_with \<and>
     (\<forall>i desc srv name dec t. gl_serve lib (gl_register lib desc srv (gl_new_server lib i)) name dec t =
        (case find_method desc name of
           None \<Rightarrow> (Some (Inl (Err ''unknown method'')), t)
         | Some h \<Rightarrow> h srv dec (Some i) t))"

text \<open>
  A connection delivers the request to the server; the client sees the response, or the status of
  the error (\<open>status\<close>), and a server that went down as an error of its own.
\<close>

definition connected :: "('t, 'g) grpc_library \<Rightarrow> 'g \<Rightarrow> (go_error \<Rightarrow> go_error) \<Rightarrow> ('o, 't) client_conn \<Rightarrow> bool" where
  "connected lib g status cc \<longleftrightarrow>
     (\<forall>m req out opts t. cc m req out opts t =
        (case gl_serve lib g m (\<lambda>_. Inr req) t of
           (Some (Inr resp), t') \<Rightarrow> ((None, resp), t')
         | (Some (Inl e), t') \<Rightarrow> ((Some (status e), out), t')
         | (None, t') \<Rightarrow> ((Some (Err ''unavailable''), out), t')))"

section \<open>Calls\<close>

lemma find_access_check [simp]:
  "find_method token_exchange_service_desc access_check_full_method_name = Some access_check_handler"
  by (simp add: find_method_def full_method_def token_exchange_service_desc_def access_check_full_method_name_def)

lemma create_grpc_server_serves:
  assumes "documented_grpc lib" and "create_grpc_server lib srv = Some g"
  shows "gl_serve lib g access_check_full_method_name dec t =
    (case dec reset_access_check_request of
       Inl err \<Rightarrow> (Some (Inl err), t)
     | Inr req \<Rightarrow> apfst Some (recover_panic (sv_access_check srv) req t))"
  using assms
  by (auto simp: documented_grpc_def create_grpc_server_def register_token_exchange_server_def Let_def access_check_handler_def
      run_chain_def pass_through_def recover_with_def recover_panic_def split: sum.split prod.split option.split if_splits)

text \<open>The embedded value of the exchange's server passes the test, so registration does not panic.\<close>

lemma exchange_server_registers:
  "create_grpc_server lib (new_token_exchange_server eth codec err_text as_rich validate) \<noteq> None"
  by (simp add: create_grpc_server_def register_token_exchange_server_def new_token_exchange_server_def Let_def)

lemma client_call:
  assumes "documented_grpc lib" and "create_grpc_server lib srv = Some g" and "connected lib g status cc"
  shows "client_access_check static_method (new_token_exchange_client cc) req opts t =
    (case recover_panic (sv_access_check srv) req t of
       (Inl err, t') \<Rightarrow> (Inl (status err), t')
     | (Inr resp, t') \<Rightarrow> (Inr resp, t'))"
  using assms(3) create_grpc_server_serves [OF assms(1,2)]
  by (simp add: client_access_check_def new_token_exchange_client_def connected_def split: prod.split sum.split)

text \<open>
  C38: A check called through the generated client over a connection to the exchange's gRPC server
  answers what the access check of the exchange answers to that request under panic recovery, an
  error of it as its status, and leaves the service in the same state: the stubs agree on the method
  name, every interceptor hands the request on, and no check takes the server down.
\<close>

theorem client_sees_access_check:
  assumes "documented_grpc lib"
    and "create_grpc_server lib (new_token_exchange_server eth codec err_text as_rich validate) = Some g"
    and "connected lib g status cc"
  shows "client_access_check static_method (new_token_exchange_client cc) req opts t =
    (case recover_panic (access_check eth codec err_text as_rich validate) req t of
       (Inl err, t') \<Rightarrow> (Inl (status err), t')
     | (Inr resp, t') \<Rightarrow> (Inr resp, t'))"
  using client_call [OF assms] by (simp add: new_token_exchange_server_def)

section \<open>A runtime that does what is documented\<close>

definition sample_runtime ::
  "(nat, nat interceptor \<times> (nat service_desc \<times> nat token_exchange_server) option) grpc_library" where
  "sample_runtime = \<lparr>gl_new_server = (\<lambda>i. (i, None)), gl_register = (\<lambda>desc srv (i, _). (i, Some (desc, srv))),
     gl_serve = (\<lambda>(i, reg) name dec t.
       (case reg of
          None \<Rightarrow> (Some (Inl (Err ''no service'')), t)
        | Some (desc, srv) \<Rightarrow>
            (case find_method desc name of
               None \<Rightarrow> (Some (Inl (Err ''unknown method'')), t)
             | Some h \<Rightarrow> h srv dec (Some i) t))),
     gl_chain = run_chain, gl_ctxtags = pass_through, gl_prometheus = pass_through, gl_recovery = recover_with\<rparr>"

definition sample_connection ::
  "nat interceptor \<times> (nat service_desc \<times> nat token_exchange_server) option \<Rightarrow> (unit, nat) client_conn" where
  "sample_connection g m req out opts t =
     (case gl_serve sample_runtime g m (\<lambda>_. Inr req) t of
        (Some (Inr resp), t') \<Rightarrow> ((None, resp), t')
      | (Some (Inl e), t') \<Rightarrow> ((Some (Wrap ''rpc error'' e), out), t')
      | (None, t') \<Rightarrow> ((Some (Err ''unavailable''), out), t'))"

lemma sample_runtime_documented:
  "documented_grpc sample_runtime" "connected sample_runtime g (Wrap ''rpc error'') (sample_connection g)"
  by (simp_all add: documented_grpc_def sample_runtime_def connected_def sample_connection_def)

lemma client_sees_access_check_witness:
  "\<exists>g h. client_access_check () (new_token_exchange_client (sample_connection g))
      \<lparr>aq_grantee = ''0x09'', aq_asset = ''did:x'', aq_privileges = [], aq_events = [None]\<rparr> [] 5 =
        (Inr \<lparr>ac_has_access = True, ac_reason = '''', ac_rich_error = None\<rparr>, 5) \<and>
     client_access_check () (new_token_exchange_client (sample_connection h))
      \<lparr>aq_grantee = ''0x09'', aq_asset = ''did:x'', aq_privileges = [], aq_events = []\<rparr> [] 5 =
        (Inl (Wrap ''rpc error'' (Err ''panic'')), 5)"
proof -
  let ?srv = "\<lambda>outcome. new_token_exchange_server eth_model sample_codec (\<lambda>_. []) (\<lambda>_. None) (\<lambda>r a (t::nat). (outcome, t))"
  obtain g where g: "create_grpc_server sample_runtime (?srv Granted) = Some g"
    by (metis exchange_server_registers not_None_eq)
  obtain h where h: "create_grpc_server sample_runtime (?srv Panicked) = Some h"
    by (metis exchange_server_registers not_None_eq)
  show ?thesis
    using client_sees_access_check [OF sample_runtime_documented(1) g sample_runtime_documented(2)]
      client_sees_access_check [OF sample_runtime_documented(1) h sample_runtime_documented(2)]
    by (intro exI [of _ g] exI [of _ h]) (simp add: recover_panic_def access_check_def decode_asset_did_def sample_codec_def)
qed

end
