(* ===== verification/ExchangeSystem.thy ===== *)
theory ExchangeSystem imports ExchangeController GrpcStubs begin

text \<open>
  The exchange as a running service: HTTP requests and gRPC checks served one after the other over the
  one piece of state that outlives a request, the template cache.  Each request meets the world (the
  permission source, the documents, the template contract, the developer licenses, the clock) as it is
  at that moment.  The cache is locked for a lookup and for an insertion; since an insertion depends on
  no other entry, serving requests one at a time gives the contents that interleaved requests give.
\<close>

section \<open>Steps and runs\<close>

text \<open>What does not change while the process runs.\<close>

record 'k exchange_server =
  xs_eth :: eth
  xs_codec :: did_codec
  xs_err_text :: "go_error \<Rightarrow> string"
  xs_as_rich :: "go_error \<Rightarrow> (int \<times> go_error option \<times> string) option"
  xs_lib :: "'k jwt_lib"
  xs_jwks :: 'k
  xs_controller :: controller
  xs_signer :: token_signer
  xs_signed_string :: "rsa_private \<Rightarrow> string \<Rightarrow> permission_token \<Rightarrow> go_error + string"

text \<open>The world as one request meets it.\<close>

record world =
  w_service :: access_service
  w_templates :: template_env
  w_dev_license :: "address \<Rightarrow> go_error + bool"
  w_clock :: "nat \<Rightarrow> instant"
  w_now :: instant
  w_uuid :: string

datatype exchange_event =
    ExchangeServed world "(go_error + exchange_request) http_request" http_response
  | CheckServed world access_check_request "go_error + access_check_response"
  | CacheCleared

definition exchange_validate ::
  "'k exchange_server \<Rightarrow> world \<Rightarrow> access_request \<Rightarrow> address \<Rightarrow> template_cache \<Rightarrow> outcome \<times> template_cache" where
  "exchange_validate x w = validate_access (xs_eth x) (xs_codec x) (w_service w)
     (get_template_permissions (xs_eth x) (w_templates w)) (w_clock w)"

definition serve_exchange ::
  "'k exchange_server \<Rightarrow> world \<Rightarrow> (go_error + exchange_request, template_cache) handler" where
  "serve_exchange x w = exchange_chain (xs_eth x) (xs_lib x) (xs_jwks x) (w_dev_license w)
     (exchange_token (xs_eth x) (xs_codec x) (xs_err_text x) (xs_controller x) (exchange_validate x w)
       (sign_privilege_payload (xs_codec x) (xs_signed_string x) (xs_signer x) (w_now w) (w_uuid w)))"

definition serve_check ::
  "'k exchange_server \<Rightarrow> world \<Rightarrow> access_check_request \<Rightarrow> template_cache
   \<Rightarrow> (go_error + access_check_response) \<times> template_cache" where
  "serve_check x w = recover_panic
     (access_check (xs_eth x) (xs_codec x) (xs_err_text x) (xs_as_rich x) (exchange_validate x w))"

text \<open>A check that reaches the process over gRPC is this one.\<close>

lemma serve_check_over_grpc:
  assumes "documented_grpc lib" and "connected lib g status cc"
    and "create_grpc_server lib (new_token_exchange_server (xs_eth x) (xs_codec x) (xs_err_text x) (xs_as_rich x)
      (exchange_validate x w)) = Some g"
  shows "client_access_check static_method (new_token_exchange_client cc) req opts t =
    (case serve_check x w req t of (Inl err, t') \<Rightarrow> (Inl (status err), t') | (Inr resp, t') \<Rightarrow> (Inr resp, t'))"
  using client_call [OF assms(1,3,2)] by (simp add: serve_check_def new_token_exchange_server_def)

inductive exchange_step :: "'k exchange_server \<Rightarrow> template_cache \<Rightarrow> exchange_event \<Rightarrow> template_cache \<Rightarrow> bool" for x where
  exchange: "serve_exchange x w r c = (Some resp, c') \<Longrightarrow> exchange_step x c (ExchangeServed w r resp) c'"
| check: "serve_check x w q c = (resp, c') \<Longrightarrow> exchange_step x c (CheckServed w q resp) c'"
| clear: "exchange_step x c CacheCleared (clear_cache c)"

inductive_simps exchange_step_simps:
  "exchange_step x c (ExchangeServed w r resp) c'"
  "exchange_step x c (CheckServed w q resp) c'"
  "exchange_step x c CacheCleared c'"

inductive exchange_run :: "'k exchange_server \<Rightarrow> exchange_event list \<Rightarrow> template_cache \<Rightarrow> bool" for x where
  start: "exchange_run x [] Map.empty"
| step: "exchange_run x tr c \<Longrightarrow> exchange_step x c ev c' \<Longrightarrow> exchange_run x (tr @ [ev]) c'"

section \<open>The cache invariant\<close>

fun event_envs :: "exchange_event \<Rightarrow> template_env set" where
  "event_envs (ExchangeServed w r resp) = {w_templates w}"
| "event_envs (CheckServed w q resp) = {w_templates w}"
| "event_envs CacheCleared = {}"

definition run_envs :: "exchange_event list \<Rightarrow> template_env set" where
  "run_envs tr = (\<Union>ev \<in> set tr. event_envs ev)"

lemma run_envs_simps [simp]:
  "run_envs [] = {}" "run_envs (tr @ [ev]) = event_envs ev \<union> run_envs tr"
  by (auto simp: run_envs_def)

lemma cache_vouched_mono: "cache_vouched eth E c \<Longrightarrow> E \<subseteq> F \<Longrightarrow> cache_vouched eth F c"
  unfolding cache_vouched_def by blast

lemma exchange_validate_keeps:
  assumes "cache_vouched (xs_eth x) (insert (w_templates w) E) c"
  shows "cache_vouched (xs_eth x) (insert (w_templates w) E) (snd (exchange_validate x w acc a c))"
  unfolding exchange_validate_def using assms by (rule templates.validate_access_keeps)

lemma exchange_token_state:
  "snd (exchange_token eth codec et ctl validate sign r t) = t \<or>
   (\<exists>acc a. snd (exchange_token eth codec et ctl validate sign r t) = snd (validate acc a t))"
  by (auto simp: exchange_token_def Let_def split: sum.split prod.split outcome.split) (metis snd_conv)+

lemma recover_state: "snd (recover h r t) = snd (h r t)"
  by (auto simp: recover_def split: prod.split option.split)

lemma exchange_chain_state:
  "snd (exchange_chain eth lib jwks lic h r t) = t \<or> (\<exists>r'. snd (exchange_chain eth lib jwks lic h r t) = snd (h r' t))"
proof -
  have "snd (dev_license_validator eth lic h q t) = t \<or> (\<exists>r'. snd (dev_license_validator eth lic h q t) = snd (h r' t))" for q
    by (auto simp: dev_license_validator_def Let_def split: option.split sum.split)
  then show ?thesis
    unfolding exchange_chain_def recover_state auth_middleware_def
    by (auto split: option.split sum.split)
qed

lemma access_check_state:
  "snd (recover_panic (access_check eth codec et ar validate) q t) = t \<or>
   (\<exists>acc a. snd (recover_panic (access_check eth codec et ar validate) q t) = snd (validate acc a t))"
  by (auto simp: recover_panic_def access_check_def Let_def split: sum.split prod.split outcome.split option.split)
     (metis snd_conv)+

lemma exchange_step_keeps:
  assumes "exchange_step x c ev c'" and "cache_vouched (xs_eth x) E c"
  shows "cache_vouched (xs_eth x) (event_envs ev \<union> E) c'"
proof (cases ev)
  case (ExchangeServed w r resp)
  with assms(1) have c': "c' = snd (serve_exchange x w r c)" by (simp add: exchange_step_simps)
  have good: "cache_vouched (xs_eth x) (insert (w_templates w) E) c" using assms(2) by (rule cache_vouched_mono) auto
  from exchange_chain_state exchange_token_state have "c' = c \<or> (\<exists>acc a. c' = snd (exchange_validate x w acc a c))"
    unfolding c' serve_exchange_def by metis
  with good exchange_validate_keeps [OF good] show ?thesis using ExchangeServed by auto
next
  case (CheckServed w q resp)
  with assms(1) have c': "c' = snd (serve_check x w q c)" by (simp add: exchange_step_simps)
  have good: "cache_vouched (xs_eth x) (insert (w_templates w) E) c" using assms(2) by (rule cache_vouched_mono) auto
  from access_check_state have "c' = c \<or> (\<exists>acc a. c' = snd (exchange_validate x w acc a c))"
    unfolding c' serve_check_def by metis
  with good exchange_validate_keeps [OF good] show ?thesis using CheckServed by auto
next
  case CacheCleared
  with assms(1) show ?thesis by (simp add: exchange_step_simps clear_cache_def cache_vouched_def)
qed

lemma exchange_run_vouched: "exchange_run x tr c \<Longrightarrow> cache_vouched (xs_eth x) (run_envs tr) c"
proof (induction rule: exchange_run.induct)
  case start
  then show ?case by (simp add: cache_vouched_def)
next
  case (step tr c ev c')
  then show ?case using exchange_step_keeps [of x c ev c' "run_envs tr"] by simp
qed

lemma exchange_run_event:
  "exchange_run x tr c \<Longrightarrow> ev \<in> set tr \<Longrightarrow>
     \<exists>pre c0 c1. exchange_run x pre c0 \<and> exchange_step x c0 ev c1 \<and> insert ev (set pre) \<subseteq> set tr"
proof (induction rule: exchange_run.induct)
  case (step tr c ev' c')
  then show ?case by (cases "ev = ev'") (use step in \<open>fastforce\<close>)+
qed simp

end
