(* ===== verification/ExchangeSpec.thy ===== *)
theory ExchangeSpec imports ExchangeSystem SiweToken begin

text \<open>
  Properties of the exchange surface as a whole: the handler chain over the access service and the token
  signer of the program, and the sign-in tokens of the siwe surface presented to it.
\<close>

section \<open>What a permission token rests on\<close>

lemma sign_payload_Inr:
  "sign_privilege_payload codec sg g now uuid dto = Inr tk \<longleftrightarrow>
     keyset_sign sg (tg_keys g) (permission_token_of codec g now uuid dto) = Inr tk"
  by (auto simp: sign_privilege_payload_def split: sum.splits)

lemma permission_token_backed:
  assumes "\<not> eth_is_hex_address eth ''''"
    and "fst (exchange_chain eth lib jwks lic (exchange_token eth codec err_text ctl
           (validate_access eth codec s get_template clock) (sign_privilege_payload codec sg g now uuid)) r t)
         = Some (token_reply tk)"
  shows "\<exists>tok a req acc pt. bearer lib jwks r tok \<and> token_address eth tok = Some a \<and> lic a = Inr True \<and>
    hq_body r = Inr req \<and> asks_for eth codec err_text ctl req acc \<and>
    keyset_sign sg (tg_keys g) pt = Inr tk \<and> rc_subject (tk_registered pt) = eth_address_hex eth a \<and>
    rc_expires_at (tk_registered pt) = NewNumericDate (now + tg_ttl g) \<and>
    cc_asset (tk_custom pt) = asset_string codec (ar_asset acc) \<and>
    cc_permissions (tk_custom pt) = ar_permissions acc \<and>
    cc_cloud_events (tk_custom pt) = Some (map event_claim_of (ar_event_filters acc)) \<and>
    ((\<exists>data. grant_document eth s (ar_asset acc) a data \<and> document_covers codec get_template clock data acc t) \<or>
     (ar_event_filters acc = [] \<and>
      (\<exists>ids msk ret. map Some ids = map (privilege_map s (ar_asset acc)) (ar_permissions acc) \<and>
        int_array_to_2bit_array ids 128 = Inr msk \<and>
        held_permissions s (ar_asset acc) a msk = Inr ret \<and> ret AND msk = msk)))"
proof -
  from assms(2) obtain tok a req acc where x: "bearer lib jwks r tok" "token_address eth tok = Some a" "lic a = Inr True"
    "hq_body r = Inr req" "asks_for eth codec err_text ctl req acc"
    "fst (validate_access eth codec s get_template clock acc a t) = Granted"
    "sign_privilege_payload codec sg g now uuid \<lparr>pt_asset = ar_asset acc, pt_permissions = ar_permissions acc,
       pt_event_filters = ar_event_filters acc, pt_audience = (if xq_audience req = [] then [''dimo.zone''] else xq_audience req),
       pt_response_subject = eth_address_hex eth a\<rparr> = Inr tk" (is "sign_privilege_payload _ _ _ _ _ ?dto = _")
    unfolding exchange_chain_reply [OF assms(1)] by (elim exE conjE) (rule that; assumption)
  let ?pt = "permission_token_of codec g now uuid ?dto"
  have "keyset_sign sg (tg_keys g) ?pt = Inr tk" using x(7) by (simp only: sign_payload_Inr)
  moreover have "(\<exists>data. grant_document eth s (ar_asset acc) a data \<and> document_covers codec get_template clock data acc t) \<or>
     (ar_event_filters acc = [] \<and> validate_access_via_record eth codec s acc a = Granted)"
    using x(6) by (simp only: validate_access_Granted source_doc_Granted)
  moreover have "rc_subject (tk_registered ?pt) = eth_address_hex eth a"
    "rc_expires_at (tk_registered ?pt) = NewNumericDate (now + tg_ttl g)"
    "cc_asset (tk_custom ?pt) = asset_string codec (ar_asset acc)" "cc_permissions (tk_custom ?pt) = ar_permissions acc"
    "cc_cloud_events (tk_custom ?pt) = Some (map event_claim_of (ar_event_filters acc))"
    by (simp_all add: permission_token_of_def)
  ultimately show ?thesis
    using x(1-5) by (intro exI [of _ tok] exI [of _ a] exI [of _ req] exI [of _ acc] exI [of _ ?pt]) (auto simp: via_record_Granted)
qed

lemma document_covers_vouched:
  assumes "cache_vouched eth (insert env E) cache"
    and "document_covers codec (get_template_permissions eth env) clock data acc cache"
    and "insert env E \<subseteq> F" and "act = agreements_in_force clock 0 (sd_agreements data)"
  shows "list_all (\<lambda>g. ag_asset g = asset_string codec (ar_asset acc)) act"
    and "list_all (request_covered (cloud_grants act)) (ar_event_filters acc)"
    and "set (ar_permissions acc) \<subseteq> permission_grants act"
    and "ar_permissions acc = [] \<or> sd_permission_template_id data \<in> {'''', ''0''} \<or>
      (\<exists>e \<in> F. \<exists>ags n. vouches eth e (sd_permission_template_id data) ags \<and>
         big_set_string (sd_permission_template_id data) = Some n \<and> te_is_active env n = Inr True \<and>
         template_asks eth ags (ar_asset acc) \<subseteq> permission_grants act)"
proof -
  show "list_all (\<lambda>g. ag_asset g = asset_string codec (ar_asset acc)) act"
    "list_all (request_covered (cloud_grants act)) (ar_event_filters acc)"
    "set (ar_permissions acc) \<subseteq> permission_grants act"
    using assms(2,4) by (auto simp: document_covers_def Let_def)
  show "ar_permissions acc = [] \<or> sd_permission_template_id data \<in> {'''', ''0''} \<or>
      (\<exists>e \<in> F. \<exists>ags n. vouches eth e (sd_permission_template_id data) ags \<and>
         big_set_string (sd_permission_template_id data) = Some n \<and> te_is_active env n = Inr True \<and>
         template_asks eth ags (ar_asset acc) \<subseteq> permission_grants act)"
  proof (cases "ar_permissions acc = [] \<or> sd_permission_template_id data \<in> {'''', ''0''}")
    case False
    with assms(2,4) have lets: "template_lets (get_template_permissions eth env) data (ar_asset acc) cache (permission_grants act)"
      by (simp add: document_covers_def Let_def)
    from False have "sd_permission_template_id data \<notin> {'''', ''0''}" by blast
    from templates.template_lets_offered [OF assms(1) lets this]
    obtain r where r: "template_offers eth (insert env E) env (sd_permission_template_id data) (ar_asset acc) r"
      "case r of None \<Rightarrow> True | Some x \<Rightarrow> pr_is_active x \<and> set (map fst (pr_permissions x)) \<subseteq> permission_grants act"
      by blast
    from r(1) obtain x ags e where x: "r = Some x" "e \<in> insert env E" "vouches eth e (sd_permission_template_id data) ags"
      "pr_is_active x \<longrightarrow> (\<exists>n. big_set_string (sd_permission_template_id data) = Some n \<and> te_is_active env n = Inr True) \<and>
         set (map fst (pr_permissions x)) = template_asks eth ags (ar_asset acc) \<and> template_asks eth ags (ar_asset acc) \<noteq> {}"
      unfolding template_offers_def by blast
    from r(2) x(1) have "pr_is_active x" "set (map fst (pr_permissions x)) \<subseteq> permission_grants act" by simp_all
    with x(4) obtain n where "big_set_string (sd_permission_template_id data) = Some n" "te_is_active env n = Inr True"
      "template_asks eth ags (ar_asset acc) \<subseteq> permission_grants act" by metis
    moreover from x(2) assms(3) have "e \<in> F" by blast
    ultimately show ?thesis using x(3) by blast
  qed blast
qed

text \<open>
  What an account holds for a request: a signed document that covers it, whose template, if any, was checked
  in one of the environments \<open>E\<close> against the chain and its owner's signature, or the permission bits.
\<close>

definition grant_held ::
  "'k exchange_server \<Rightarrow> world \<Rightarrow> template_env set \<Rightarrow> access_request \<Rightarrow> address \<Rightarrow> bool" where
  "grant_held x w E acc a \<longleftrightarrow>
     (\<exists>data act. grant_document (xs_eth x) (w_service w) (ar_asset acc) a data \<and>
        act = agreements_in_force (w_clock w) 0 (sd_agreements data) \<and>
        list_all (\<lambda>g. ag_asset g = asset_string (xs_codec x) (ar_asset acc)) act \<and>
        list_all (request_covered (cloud_grants act)) (ar_event_filters acc) \<and>
        set (ar_permissions acc) \<subseteq> permission_grants act \<and>
        (ar_permissions acc = [] \<or> sd_permission_template_id data \<in> {'''', ''0''} \<or>
          (\<exists>env \<in> E. \<exists>ags n. vouches (xs_eth x) env (sd_permission_template_id data) ags \<and>
             big_set_string (sd_permission_template_id data) = Some n \<and> te_is_active (w_templates w) n = Inr True \<and>
             template_asks (xs_eth x) ags (ar_asset acc) \<subseteq> permission_grants act))) \<or>
     (ar_event_filters acc = [] \<and>
      (\<exists>ids msk ret. map Some ids = map (privilege_map (w_service w) (ar_asset acc)) (ar_permissions acc) \<and>
        int_array_to_2bit_array ids 128 = Inr msk \<and>
        held_permissions (w_service w) (ar_asset acc) a msk = Inr ret \<and> ret AND msk = msk))"

lemma document_covers_held:
  assumes "cache_vouched (xs_eth x) (insert (w_templates w) E) c" and "insert (w_templates w) E \<subseteq> F"
    and "grant_document (xs_eth x) (w_service w) (ar_asset acc) a data"
    and "document_covers (xs_codec x) (get_template_permissions (xs_eth x) (w_templates w)) (w_clock w) data acc c"
  shows "grant_held x w F acc a"
  unfolding grant_held_def
  by (rule disjI1, intro exI conjI, rule assms(3), rule refl)
    (rule document_covers_vouched [OF assms(1,4,2) refl])+

lemma served_token_backed:
  assumes "\<not> eth_is_hex_address (xs_eth x) ''''" and "exchange_run x tr c0"
    and "exchange_step x c0 (ExchangeServed w r (token_reply tk)) c1"
    and "insert (w_templates w) (run_envs tr) \<subseteq> F"
  shows "\<exists>tok a req acc pt. bearer (xs_lib x) (xs_jwks x) r tok \<and> token_address (xs_eth x) tok = Some a \<and>
    w_dev_license w a = Inr True \<and>
    hq_body r = Inr req \<and> asks_for (xs_eth x) (xs_codec x) (xs_err_text x) (xs_controller x) req acc \<and>
    keyset_sign (xs_signed_string x) (tg_keys (xs_signer x)) pt = Inr tk \<and>
    rc_subject (tk_registered pt) = eth_address_hex (xs_eth x) a \<and>
    rc_expires_at (tk_registered pt) = NewNumericDate (w_now w + tg_ttl (xs_signer x)) \<and>
    cc_asset (tk_custom pt) = asset_string (xs_codec x) (ar_asset acc) \<and>
    cc_permissions (tk_custom pt) = ar_permissions acc \<and>
    cc_cloud_events (tk_custom pt) = Some (map event_claim_of (ar_event_filters acc)) \<and>
    grant_held x w F acc a"
proof -
  have good: "cache_vouched (xs_eth x) (insert (w_templates w) (run_envs tr)) c0"
    using exchange_run_vouched [OF assms(2)] by (rule cache_vouched_mono) auto
  have held: "grant_held x w F acc a" if "(\<exists>data. grant_document (xs_eth x) (w_service w) (ar_asset acc) a data \<and>
      document_covers (xs_codec x) (get_template_permissions (xs_eth x) (w_templates w)) (w_clock w) data acc c0) \<or>
    (ar_event_filters acc = [] \<and>
      (\<exists>ids msk ret. map Some ids = map (privilege_map (w_service w) (ar_asset acc)) (ar_permissions acc) \<and>
        int_array_to_2bit_array ids 128 = Inr msk \<and>
        held_permissions (w_service w) (ar_asset acc) a msk = Inr ret \<and> ret AND msk = msk))" for acc a
    using that
  proof
    assume "\<exists>data. grant_document (xs_eth x) (w_service w) (ar_asset acc) a data \<and>
      document_covers (xs_codec x) (get_template_permissions (xs_eth x) (w_templates w)) (w_clock w) data acc c0"
    then show ?thesis by (elim exE conjE) (rule document_covers_held [OF good assms(4)])
  qed (unfold grant_held_def, rule disjI2)
  have served: "fst (exchange_chain (xs_eth x) (xs_lib x) (xs_jwks x) (w_dev_license w)
      (exchange_token (xs_eth x) (xs_codec x) (xs_err_text x) (xs_controller x) (validate_access (xs_eth x) (xs_codec x)
        (w_service w) (get_template_permissions (xs_eth x) (w_templates w)) (w_clock w))
       (sign_privilege_payload (xs_codec x) (xs_signed_string x) (xs_signer x) (w_now w) (w_uuid w))) r c0)
      = Some (token_reply tk)"
    using assms(3) by (simp add: exchange_step_simps serve_exchange_def exchange_validate_def [abs_def])
  from permission_token_backed [OF assms(1) served] show ?thesis
    by (elim exE conjE) (intro exI conjI, assumption+, erule held)
qed

text \<open>
  C4: No permission token without a grant.  In any run of the exchange, a token that was served is signed with
  the exchange's key for the licensed developer who presented the bearer token, expires after the
  configured time, and names the asset, the permissions and the cloud events that the request asks for.
  The requester holds them either by a document that the permission record names, made out to the
  requester and validly signed, whose agreements in force name only this asset and cover every event and
  permission asked for, and whose permission template, if it has one, is active and was checked in the
  run against the chain and its owner's signature and asks for no more than the document grants; or, if
  the token names no cloud events, by the permission bits of all its permissions.
\<close>

theorem exchange_run_backed:
  assumes "\<not> eth_is_hex_address (xs_eth x) ''''"
    and "exchange_run x tr c" and "ExchangeServed w r (token_reply tk) \<in> set tr"
  shows "\<exists>tok a req acc pt. bearer (xs_lib x) (xs_jwks x) r tok \<and> token_address (xs_eth x) tok = Some a \<and>
    w_dev_license w a = Inr True \<and>
    hq_body r = Inr req \<and> asks_for (xs_eth x) (xs_codec x) (xs_err_text x) (xs_controller x) req acc \<and>
    keyset_sign (xs_signed_string x) (tg_keys (xs_signer x)) pt = Inr tk \<and>
    rc_subject (tk_registered pt) = eth_address_hex (xs_eth x) a \<and>
    rc_expires_at (tk_registered pt) = NewNumericDate (w_now w + tg_ttl (xs_signer x)) \<and>
    cc_asset (tk_custom pt) = asset_string (xs_codec x) (ar_asset acc) \<and>
    cc_permissions (tk_custom pt) = ar_permissions acc \<and>
    cc_cloud_events (tk_custom pt) = Some (map event_claim_of (ar_event_filters acc)) \<and>
    ((\<exists>data act. grant_document (xs_eth x) (w_service w) (ar_asset acc) a data \<and>
        act = agreements_in_force (w_clock w) 0 (sd_agreements data) \<and>
        list_all (\<lambda>g. ag_asset g = asset_string (xs_codec x) (ar_asset acc)) act \<and>
        list_all (request_covered (cloud_grants act)) (ar_event_filters acc) \<and>
        set (ar_permissions acc) \<subseteq> permission_grants act \<and>
        (ar_permissions acc = [] \<or> sd_permission_template_id data \<in> {'''', ''0''} \<or>
          (\<exists>env \<in> run_envs tr. \<exists>ags n. vouches (xs_eth x) env (sd_permission_template_id data) ags \<and>
             big_set_string (sd_permission_template_id data) = Some n \<and> te_is_active (w_templates w) n = Inr True \<and>
             template_asks (xs_eth x) ags (ar_asset acc) \<subseteq> permission_grants act))) \<or>
     (ar_event_filters acc = [] \<and>
      (\<exists>ids msk ret. map Some ids = map (privilege_map (w_service w) (ar_asset acc)) (ar_permissions acc) \<and>
        int_array_to_2bit_array ids 128 = Inr msk \<and>
        held_permissions (w_service w) (ar_asset acc) a msk = Inr ret \<and> ret AND msk = msk)))"
proof -
  obtain pre c0 c1 where ev: "exchange_run x pre c0" "exchange_step x c0 (ExchangeServed w r (token_reply tk)) c1"
    "insert (ExchangeServed w r (token_reply tk)) (set pre) \<subseteq> set tr"
    using exchange_run_event [OF assms(2,3)] by blast
  have "run_envs pre \<subseteq> run_envs tr" using ev(3) unfolding run_envs_def by (intro UN_mono) auto
  moreover have "w_templates w \<in> run_envs tr" unfolding run_envs_def by (rule UN_I [OF assms(3)]) simp
  ultimately have "insert (w_templates w) (run_envs pre) \<subseteq> run_envs tr" by simp
  from served_token_backed [OF assms(1) ev(1,2) this] show ?thesis unfolding grant_held_def .
qed

definition sample_server :: "unit exchange_server" where
  "sample_server = \<lparr>xs_eth = eth_model, xs_codec = sample_codec, xs_err_text = (\<lambda>e. ''''), xs_as_rich = (\<lambda>e. None),
     xs_lib = sample_lib, xs_jwks = (), xs_controller = sample_controller, xs_signer = sample_signer,
     xs_signed_string = (\<lambda>priv kid pt. Inr (kid @ ''.'' @ rc_subject (tk_registered pt)))\<rparr>"

definition sample_world :: world where
  "sample_world = \<lparr>w_service = sample_service, w_templates = sample_env, w_dev_license = (\<lambda>a. Inr (a = 7)),
     w_clock = (\<lambda>i. 50), w_now = 1000, w_uuid = ''uuid''\<rparr>"

lemma sample_served:
  "fst (serve_exchange sample_server sample_world (sample_exchange_request ''Bearer tok'') Map.empty)
     = Some (token_reply (''k2.'' @ eth_address_hex eth_model 7))"
proof -
  have v: "fst (exchange_validate sample_server sample_world (sample_request [''privilege:GetVINCredential'']) 7 Map.empty) = Granted"
    using sample_granted unfolding exchange_validate_def validate_access_Granted
    by (simp add: sample_server_def sample_world_def sample_request_def)
  show ?thesis
    unfolding serve_exchange_def sample_server_def exchange_server.simps exchange_chain_reply [OF empty_not_address]
    by (intro exI conjI, rule sample_bearer, rule sample_token_address, simp add: sample_world_def,
        simp add: sample_exchange_request_def, rule sample_asks, rule v [unfolded sample_server_def],
        simp add: sample_world_def sign_privilege_payload_def keyset_sign_def sample_signer_def permission_token_of_def)
qed

theorem exchange_run_backed_witness:
  "\<exists>tok (acc :: access_request) (pt :: permission_token). token_address eth_model tok = Some 7 \<and>
     rc_subject (tk_registered pt) = eth_address_hex eth_model 7 \<and>
     cc_permissions (tk_custom pt) = ar_permissions acc \<and> rc_expires_at (tk_registered pt) = NewNumericDate 1600"
proof -
  let ?r = "sample_exchange_request ''Bearer tok''" and ?reply = "token_reply (''k2.'' @ eth_address_hex eth_model 7)"
  obtain c where "serve_exchange sample_server sample_world ?r Map.empty = (Some ?reply, c)"
    using sample_served by (metis prod.collapse)
  then have "exchange_run sample_server ([] @ [ExchangeServed sample_world ?r ?reply]) c"
    by (intro exchange_run.step [OF exchange_run.start] exchange_step.exchange)
  from exchange_run_backed [OF _ this, of sample_world ?r "''k2.'' @ eth_address_hex eth_model 7"] empty_not_address
  obtain tok a and acc :: access_request and pt :: permission_token where
    "token_address eth_model tok = Some a" "w_dev_license sample_world a = Inr True"
    "rc_subject (tk_registered pt) = eth_address_hex eth_model a" "cc_permissions (tk_custom pt) = ar_permissions acc"
    "rc_expires_at (tk_registered pt) = NewNumericDate (w_now sample_world + tg_ttl sample_signer)"
    by (auto simp: sample_server_def)
  then show ?thesis by (auto simp: sample_world_def sample_signer_def)
qed

section \<open>From the sign-in surface to the exchange\<close>

text \<open>
  The JWT library, as its documentation states it, at the time \<open>now\<close> of the request: a compact token
  signed with the active key of a key set, with its not-before time not after \<open>now\<close> and its expiry at
  least a second (the library's precision) after it, parses as valid with the set that the key set's own
  JWKS gives, and its \<open>ethereum_address\<close> claim reads as signed.
\<close>

definition jwt_round_trip :: "claims_signer \<Rightarrow> 'k jwt_lib \<Rightarrow> instant \<Rightarrow> bool" where
  "jwt_round_trip sg lib now \<longleftrightarrow>
     (\<forall>ks jwks cl tok nb ex. jl_new_jwk_set lib (keyset_jwks ks) = Inr jwks \<longrightarrow> keyset_sign sg ks cl = Inr tok \<longrightarrow>
        cl_not_before cl = NewNumericDate nb \<longrightarrow> cl_expires_at cl = NewNumericDate ex \<longrightarrow>
        nb \<le> now \<longrightarrow> now + second \<le> ex \<longrightarrow>
        (\<exists>jt m. jl_parse lib jwks (trim_space tok) = Inr jt \<and> jt_valid jt \<and> jt_claims jt = Some m \<and>
           m ''ethereum_address'' = Some (ClaimString (cl_ethereum_address cl))))"

text \<open>
  C22: A sign-in token opens the exchange for its own account and no other.  Presented as a bearer token, at
  least a second before it expires, to the validator built from the sign-in surface's JWKS, a token issued
  for an account passes it, and, if the account has a developer license, the exchange handler runs with
  this account as the requester and its text as the response subject.
\<close>

theorem sign_in_token_accepted:
  assumes "jwt_round_trip sg lib t1"
    and "eth_is_hex_address eth (eth_address_hex eth a)" and "eth_hex_to_address eth (eth_address_hex eth a) = a"
    and "issue eth sg i now uuid a aud = Inr (tok, exp)" and "now \<le> t1" and "t1 + second \<le> exp"
    and "new_jwt_auth_from_jwks lib (keyset_jwks (is_keys i)) = Inr jwt_auth"
    and "hq_authorization r = ''Bearer '' @ tok" and "lic a = Inr True"
  shows "\<exists>r'. recover (jwt_auth (dev_license_validator eth lic (exchange_token eth codec err_text ctl validate sign))) r t
      = recover (exchange_token eth codec err_text ctl validate sign) r' t \<and>
    get_user_eth_addr eth r' = Inr a \<and> get_response_subject r' = Inr (eth_address_hex eth a) \<and>
    hq_body r' = hq_body r"
proof -
  from assms(7) obtain jwks where jwks: "jl_new_jwk_set lib (keyset_jwks (is_keys i)) = Inr jwks"
    "jwt_auth = auth_middleware lib jwks"
    by (auto simp: new_jwt_auth_from_jwks_def split: sum.splits)
  from assms(4) have s: "keyset_sign sg (is_keys i) (issue_claims eth i now uuid a aud) = Inr tok" "exp = now + is_ttl i"
    by (simp_all add: issue_Inr)
  have "cl_not_before (issue_claims eth i now uuid a aud) = NewNumericDate now"
    by (simp add: issue_claims_def Let_def)
  from assms(1) [unfolded jwt_round_trip_def, rule_format, OF jwks(1) s(1) this issue_claims_simps(5) assms(5)]
  obtain jt m where jt: "jl_parse lib jwks (trim_space tok) = Inr jt" "jt_valid jt" "jt_claims jt = Some m"
    "m ''ethereum_address'' = Some (ClaimString (eth_address_hex eth a))"
    using assms(6) s(2) by auto
  have "bearer lib jwks r jt" using jt(1,2) assms(8) by (auto simp: bearer_def)
  moreover have addr: "token_address eth jt = Some a" using jt(3,4) assms(2,3) by (simp add: token_address_def)
  ultimately show ?thesis
    using assms(9) exchange_chain_passed [of lib jwks r jt eth a lic]
    by (intro exI [of _ "r\<lparr>hq_token := Some jt, hq_response_subject := Some (eth_address_hex eth a)\<rparr>"])
      (simp add: exchange_chain_def jwks(2) get_user_eth_addr_Inr get_response_subject_def)
qed

text \<open>A library that fulfils the contract: the token is the claim's text in hexadecimal.\<close>

definition sample_claims_signer :: claims_signer where
  "sample_claims_signer priv kid cl = Inr (''t'' @ hex_encode (bytes_of (cl_ethereum_address cl)))"

definition sample_jwt :: "unit jwt_lib" where
  "sample_jwt = \<lparr>jl_new_jwk_set = (\<lambda>s. Inr ()), jl_parse = (\<lambda>k s. Inr \<lparr>jt_valid = True,
     jt_claims = Some [''ethereum_address'' \<mapsto> ClaimString (map (\<lambda>b. char_of (unat b)) (hex_decode (drop 1 s)))]\<rparr>)\<rparr>"

lemma hex_digit_ascii: "is_hex_digit c \<Longrightarrow> (of_char c :: nat) < 128 \<and> \<not> is_space c"
  by (auto simp: is_hex_digit_def is_digit_def is_space_def)

lemma char_of_byte [simp]: "char_of (unat (of_char c :: 8 word)) = c"
proof -
  have "(of_char c :: nat) < 256" by (simp add: of_char_def)
  moreover have "(of_char c :: 8 word) = word_of_nat (of_char c)" by (simp add: of_char_word)
  ultimately have "unat (of_char c :: 8 word) = of_char c" by (simp add: unat_of_nat)
  then show ?thesis by simp
qed

lemma sample_parse:
  "jl_parse sample_jwt k (trim_space (''t'' @ hex_encode (bytes_of s))) =
     Inr \<lparr>jt_valid = True, jt_claims = Some [''ethereum_address'' \<mapsto> ClaimString s]\<rparr>"
proof -
  have "trim_space (''t'' @ hex_encode bs) = ''t'' @ hex_encode bs" for bs
    using hex_encode_digits [of bs] hex_digit_ascii
    by (intro trim_space_id [OF ascii_ends_trimmed]) (auto simp: list_all_iff is_space_def)
  then show ?thesis by (simp add: sample_jwt_def bytes_of_def comp_def)
qed

lemma sample_round_trip: "jwt_round_trip sample_claims_signer sample_jwt t1"
  using sample_parse by (simp add: jwt_round_trip_def sample_claims_signer_def keyset_sign_def Let_def)

theorem sign_in_token_accepted_witness:
  "\<exists>r'. get_user_eth_addr eth_model r' = Inr 7 \<and> get_response_subject r' = Inr (eth_address_hex eth_model 7)
    \<and> hq_body r' = hq_body (sample_exchange_request '''')"
proof -
  let ?i = "\<lparr>is_keys = \<lparr>ks_all = [\<lparr>sk_kid = ''k1'', sk_priv = toy_key 65\<rparr>]\<rparr>, is_issuer = ''iss'', is_audience = [''dimo''],
    is_ttl = 600 * second\<rparr>"
  let ?tok = "''t'' @ hex_encode (bytes_of (eth_address_hex eth_model 7))"
  have issued: "issue eth_model sample_claims_signer ?i 0 ''uuid'' 7 [] = Inr (?tok, 600 * second)"
    by (simp add: issue_def keyset_sign_def sample_claims_signer_def)
  have auth: "new_jwt_auth_from_jwks sample_jwt (keyset_jwks (is_keys ?i)) = Inr (auth_middleware sample_jwt ())"
    by (simp add: new_jwt_auth_from_jwks_def sample_jwt_def)
  show ?thesis
    using sign_in_token_accepted [OF sample_round_trip model_decode_address issued _ _ auth, of 1
        "sample_exchange_request (''Bearer '' @ ?tok)" "\<lambda>a. Inr (a = 7)" sample_codec "\<lambda>e. ''''" sample_controller
        sample_validate sample_sign "()"]
    by (auto simp: sample_exchange_request_def second_def)
qed

section \<open>What others write\<close>

definition sample_grant :: sacd_data where
  "sample_grant = \<lparr>sd_grantor = \<lparr>da_address = ''0x07''\<rparr>, sd_grantee = \<lparr>da_address = ''0x08''\<rparr>,
     sd_effective_at = 0, sd_expires_at = 63900000000 * second, sd_asset = ''did:x'', sd_permission_template_id = ''3'',
     sd_agreements = [\<lparr>ag_type = ''permission'', ag_event_type = '''', ag_ids = [], ag_tags = [''a'', ''b''], ag_effective_at = 0,
       ag_expires_at = 63900000000 * second, ag_source = '''', ag_asset = ''did:x'',
       ag_permissions = [\<lparr>pm_name = ''privilege:GetVINCredential''\<rparr>]\<rparr>]\<rparr>"

text \<open>
  C16: What the exchange reads from others is what they wrote: grants and templates as their documents
  state them, with times of whole seconds in RFC 3339, and the replies of the Identity API for a vehicle
  with its SACD, for a developer license, and with errors.  The law assumed of \<open>common.Address\<close> is that it
  reads back the text it marshals to.
\<close>

theorem written_documents_read:
  assumes "\<And>a. eth_unmarshal_address eth (VStr (escaped (eth_marshal_address eth a))) = Inr a"
  shows "(writable_sacd d \<longrightarrow> read_sacd (json_body (sacd_json d)) = Inr d) \<and>
    (writable_template t \<longrightarrow> read_template (json_body (template_json t)) = Inr t) \<and>
    (writable_vehicle v \<longrightarrow> read_query eth (json_body (vehicle_json eth v)) = Inr \<lparr>qr_vehicle = v, qr_errors = []\<rparr>) \<and>
    read_identity eth (json_body (license_json eth a)) =
      Inr \<lparr>ir_data = Some \<lparr>ia_developer_license = Some \<lparr>dl_owner = a\<rparr>\<rparr>, ir_errors = []\<rparr> \<and>
    (list_all ascii_error es \<longrightarrow> read_identity eth (json_body (errors_json es)) = Inr \<lparr>ir_data = None, ir_errors = es\<rparr>)"
  using assms by (simp add: read_sacd_text read_template_text read_query_text read_license_text read_errors_text)

theorem written_documents_read_witness:
  "read_sacd (json_body (sacd_json sample_grant)) = Inr sample_grant \<and>
   read_query eth_model (json_body (vehicle_json eth_model
     \<lparr>vh_owner = 7, vh_sacd = Some \<lparr>vs_permissions = ''0x0c'', vs_source = ''ipfs://doc'', vs_expires_at = 63900000000 * second,
        vs_template = Some (Some 3)\<rparr>\<rparr>)) =
     Inr \<lparr>qr_vehicle = \<lparr>vh_owner = 7, vh_sacd = Some \<lparr>vs_permissions = ''0x0c'', vs_source = ''ipfs://doc'',
        vs_expires_at = 63900000000 * second, vs_template = Some (Some 3)\<rparr>\<rparr>, qr_errors = []\<rparr>"
  using written_documents_read [OF model_address_unmarshalled, of sample_grant _ "\<lparr>vh_owner = 7, vh_sacd = Some \<lparr>vs_permissions = ''0x0c'',
      vs_source = ''ipfs://doc'', vs_expires_at = 63900000000 * second, vs_template = Some (Some 3)\<rparr>\<rparr>"]
  by (simp add: writable_sacd_def writable_agreement_def writable_vehicle_def sample_grant_def whole_second_def four_digit_year_def
      second_def ascii_def)

end
