(* ===== verification/GoConv.thy ===== *)
theory GoConv imports GoStrings GoTime begin

text \<open>
  Numbers and durations read from text: \<open>strconv.Atoi\<close>, \<open>strconv.ParseUint\<close> and
  \<open>time.ParseDuration\<close> of Go's standard library, the last with its float64 step for fractions.
\<close>

section \<open>Integers\<close>

definition go_atoi :: "string \<Rightarrow> go_error + int64" where
  "go_atoi s =
     (case big_set_string s of
        None \<Rightarrow> Inl (Err ''invalid syntax'')
      | Some i \<Rightarrow>
          if - (2 ^ 63) \<le> i \<and> i < 2 ^ 63 then Inr (word_of_int i) else Inl (Err ''value out of range''))"

definition go_parse_uint :: "string \<Rightarrow> go_error + uint64" where
  "go_parse_uint s =
     (case parse_nat s of
        None \<Rightarrow> Inl (Err ''invalid syntax'')
      | Some n \<Rightarrow> if n < 2 ^ 64 then Inr (word_of_nat n) else Inl (Err ''value out of range''))"

section \<open>float64\<close>

text \<open>
  The one float64 computation: \<open>uint64(float64(f) * (float64(unit) / scale))\<close>.  A positive float64 of
  normal size is a fraction with a 53-bit significand; every operation rounds to the nearest one, ties
  to even.  A float is given here as numerator and denominator.
\<close>

fun num_bits :: "nat \<Rightarrow> nat" where
  "num_bits n = (if n = 0 then 0 else Suc (num_bits (n div 2)))"

declare num_bits.simps [simp del]

definition round_div :: "nat \<Rightarrow> nat \<Rightarrow> nat" where
  "round_div p q =
     (let d = p div q; r = p mod q in
      if 2 * r < q \<or> (2 * r = q \<and> even d) then d else d + 1)"

definition scaled :: "nat \<Rightarrow> nat \<Rightarrow> int \<Rightarrow> nat \<times> nat" where
  "scaled p q e = (if 0 \<le> e then (p, q * 2 ^ nat e) else (p * 2 ^ nat (- e), q))"

definition float_round :: "nat \<times> nat \<Rightarrow> nat \<times> nat" where
  "float_round = (\<lambda>(p, q).
     if p = 0 then (0, 1)
     else (let e0 = int (num_bits p) - int (num_bits q) - 53;
               (a, b) = scaled p q e0;
               e = (if a < 2 ^ 53 * b then e0 else e0 + 1);
               (a, b) = scaled p q e;
               m = round_div a b
           in if 0 \<le> e then (m * 2 ^ nat e, 1) else (m, 2 ^ nat (- e))))"

definition float_mul :: "nat \<times> nat \<Rightarrow> nat \<times> nat \<Rightarrow> nat \<times> nat" where
  "float_mul = (\<lambda>(a, b) (c, d). float_round (a * c, b * d))"

definition float_div :: "nat \<times> nat \<Rightarrow> nat \<times> nat \<Rightarrow> nat \<times> nat" where
  "float_div = (\<lambda>(a, b) (c, d). float_round (a * d, b * c))"

definition float_trunc :: "nat \<times> nat \<Rightarrow> nat" where
  "float_trunc = (\<lambda>(a, b). a div b)"

definition fraction_of_unit :: "nat \<Rightarrow> nat \<Rightarrow> nat \<Rightarrow> nat" where
  "fraction_of_unit f unit scale =
     float_trunc (float_mul (float_round (f, 1)) (float_div (float_round (unit, 1)) (float_round (scale, 1))))"

section \<open>Durations\<close>

text \<open>\<open>leadingInt\<close> and \<open>leadingFraction\<close> on the digits in front.\<close>

fun leading_int :: "nat \<Rightarrow> string \<Rightarrow> nat option" where
  "leading_int x [] = Some x"
| "leading_int x (c # cs) =
     (if x > 2 ^ 63 div 10 then None
      else (let x = x * 10 + digit_val c in if x > 2 ^ 63 then None else leading_int x cs))"

fun leading_fraction :: "nat \<Rightarrow> nat \<Rightarrow> string \<Rightarrow> nat \<times> nat" where
  "leading_fraction x scale [] = (x, scale)"
| "leading_fraction x scale (c # cs) =
     (if x > (2 ^ 63 - 1) div 10 then (x, scale)
      else (let y = x * 10 + digit_val c in
            if y > 2 ^ 63 then (x, scale) else leading_fraction y (scale * 10) cs))"

definition unit_map :: "string \<Rightarrow> nat option" where
  "unit_map = map_of [(''ns'', 1), (''us'', 1000), ([CHR 0xC2, CHR 0xB5, CHR ''s''], 1000),
     ([CHR 0xCE, CHR 0xBC, CHR ''s''], 1000), (''ms'', 1000000), (''s'', 1000000000),
     (''m'', 60000000000), (''h'', 3600000000000)]"

definition is_dot_or_digit :: "char \<Rightarrow> bool" where
  "is_dot_or_digit c \<longleftrightarrow> c = CHR ''.'' \<or> is_digit c"

text \<open>
  One round of the loop: the value in nanoseconds of the first number and unit, and the rest.  The guards
  keep every uint64 below 2^64, except the sum over the rounds, which wraps.
\<close>

definition duration_part :: "string \<Rightarrow> (nat \<times> string) option" where
  "duration_part s =
     (if \<not> is_dot_or_digit (hd s) then None
      else case leading_int 0 (takeWhile is_digit s) of
             None \<Rightarrow> None
           | Some v \<Rightarrow>
               (let pre = takeWhile is_digit s \<noteq> []; s = dropWhile is_digit s;
                    dot = s \<noteq> [] \<and> hd s = CHR ''.'';
                    digits = (if dot then takeWhile is_digit (tl s) else []);
                    (f, scale) = leading_fraction 0 1 digits;
                    post = digits \<noteq> [];
                    s = (if dot then dropWhile is_digit (tl s) else s);
                    u = takeWhile (\<lambda>c. \<not> is_dot_or_digit c) s;
                    s = dropWhile (\<lambda>c. \<not> is_dot_or_digit c) s
                in if \<not> pre \<and> \<not> post then None
                   else if u = [] then None
                   else case unit_map u of
                          None \<Rightarrow> None
                        | Some unit \<Rightarrow>
                            if v > 2 ^ 63 div unit then None
                            else (let v = v * unit; v = (if f > 0 then v + fraction_of_unit f unit scale else v)
                                  in if v > 2 ^ 63 then None else Some (v, s))))"

lemma dropWhile_length_less: "takeWhile P s \<noteq> [] \<Longrightarrow> length (dropWhile P s) < length s"
  by (cases s) (auto split: if_splits intro: le_imp_less_Suc length_dropWhile_le)

lemma duration_part_shorter:
  assumes "duration_part s = Some (v, s')"
  shows "length s' < length s"
proof -
  let ?d = "dropWhile is_digit s"
  let ?r = "if ?d \<noteq> [] \<and> hd ?d = CHR ''.'' then dropWhile is_digit (tl ?d) else ?d"
  from assms have "s' = dropWhile (\<lambda>c. \<not> is_dot_or_digit c) ?r" "takeWhile (\<lambda>c. \<not> is_dot_or_digit c) ?r \<noteq> []"
    by (auto simp: duration_part_def Let_def split: if_splits option.splits prod.splits)
  then have "length s' < length ?r" using dropWhile_length_less by blast
  also have "length ?r \<le> length ?d"
    using length_dropWhile_le [of is_digit "tl ?d"] by (auto intro: le_trans)
  also have "\<dots> \<le> length s" by (rule length_dropWhile_le)
  finally show ?thesis .
qed

function duration_loop :: "nat \<Rightarrow> string \<Rightarrow> nat option" where
  "duration_loop d s =
     (if s = [] then Some d
      else case duration_part s of
             None \<Rightarrow> None
           | Some (v, s') \<Rightarrow>
               (let d = (d + v) mod 2 ^ 64 in if d > 2 ^ 63 then None else duration_loop d s'))"
  by pat_completeness auto
termination by (relation "measure (\<lambda>(d, s). length s)") (auto simp: duration_part_shorter)

declare duration_loop.simps [simp del]


definition parse_duration :: "string \<Rightarrow> go_error + duration" where
  "parse_duration s =
     (let neg = (s \<noteq> [] \<and> hd s = CHR ''-'');
          s = (if s \<noteq> [] \<and> (hd s = CHR ''-'' \<or> hd s = CHR ''+'') then tl s else s)
      in if s = ''0'' then Inr 0
         else if s = '''' then Inl (Err ''time: invalid duration'')
         else case duration_loop 0 s of
                None \<Rightarrow> Inl (Err ''time: invalid duration'')
              | Some d \<Rightarrow>
                  if neg then Inr (- int d)
                  else if d > 2 ^ 63 - 1 then Inl (Err ''time: invalid duration'') else Inr (int d))"

section \<open>Lemmas\<close>

lemma duration_loop_bound: "duration_loop d s = Some r \<Longrightarrow> d \<le> 2 ^ 63 \<Longrightarrow> r \<le> 2 ^ 63"
proof (induction d s rule: duration_loop.induct)
  case (1 d s)
  show ?case
  proof (cases "s = []")
    case True
    with 1(2,3) show ?thesis by (simp add: duration_loop.simps [of d])
  next
    case False
    with 1(2) obtain v s' where v: "duration_part s = Some (v, s')"
      by (auto simp: duration_loop.simps [of d] split: option.splits)
    with False 1(2) have "\<not> (d + v) mod 2 ^ 64 > 2 ^ 63" "duration_loop ((d + v) mod 2 ^ 64) s' = Some r"
      by (auto simp: duration_loop.simps [of d s] Let_def simp del: power_numeral split: if_splits)
    with 1(1) [OF False v refl refl] show ?thesis by linarith
  qed
qed

text \<open>A parsed duration is an int64.\<close>

lemma parse_duration_bounds:
  assumes "parse_duration s = Inr d"
  shows "- (2 ^ 63) \<le> d \<and> d < 2 ^ 63"
proof -
  have "r \<le> 2 ^ 63" if "duration_loop 0 t = Some r" for t r
    using duration_loop_bound [OF that] by simp
  then have "int r \<le> 2 ^ 63" if "duration_loop 0 t = Some r" for t r
    using that by fastforce
  with assms show ?thesis
    by (fastforce simp: parse_duration_def Let_def split: if_splits option.splits)
qed

text \<open>Whole numbers of a unit are read back exactly, up to the largest int64.\<close>

lemma digits_fold_ge: "(y :: nat) \<le> foldl (\<lambda>n c. 10 * n + digit_val c) y s"
proof (induction s arbitrary: y)
  case (Cons c s)
  have "y \<le> 10 * y + digit_val c" by simp
  also have "\<dots> \<le> foldl (\<lambda>n c. 10 * n + digit_val c) (10 * y + digit_val c) s" by (rule Cons.IH)
  finally show ?case by simp
qed simp

lemma leading_int_fold:
  "foldl (\<lambda>n c. 10 * n + digit_val c) x s \<le> 2 ^ 63 \<Longrightarrow>
     leading_int x s = Some (foldl (\<lambda>n c. 10 * n + digit_val c) x s)"
proof (induction s arbitrary: x)
  case (Cons c s)
  have "10 * x + digit_val c \<le> 2 ^ 63"
    using Cons.prems digits_fold_ge [of "10 * x + digit_val c" s] by simp
  then have "x \<le> 2 ^ 63 div 10" "x * 10 + digit_val c \<le> 2 ^ 63" by simp_all
  with Cons show ?case by (simp add: mult.commute)
qed simp

lemma digits_then_unit:
  assumes "list_all is_digit ds" and "u \<noteq> []" and "list_all (\<lambda>c. \<not> is_dot_or_digit c) u"
  shows "takeWhile is_digit (ds @ u) = ds" and "dropWhile is_digit (ds @ u) = u"
    and "takeWhile (\<lambda>c. \<not> is_dot_or_digit c) u = u" and "dropWhile (\<lambda>c. \<not> is_dot_or_digit c) u = []"
    and "hd u \<noteq> CHR ''.''"
proof -
  have u: "\<not> is_digit (hd u)" "hd u \<noteq> CHR ''.''"
    using assms(2,3) by (cases u; auto simp: is_dot_or_digit_def)+
  then show "hd u \<noteq> CHR ''.''" by simp
  have "takeWhile is_digit u = []" "dropWhile is_digit u = u" using u(1) assms(2) by (cases u; simp)+
  then show "takeWhile is_digit (ds @ u) = ds" "dropWhile is_digit (ds @ u) = u"
    using assms(1) by (simp_all add: list_all_iff)
  show "takeWhile (\<lambda>c. \<not> is_dot_or_digit c) u = u" "dropWhile (\<lambda>c. \<not> is_dot_or_digit c) u = []"
    using assms(3) by (auto simp: list_all_iff takeWhile_eq_all_conv)
qed

lemma duration_part_whole:
  assumes "unit_map u = Some unit" and "u \<noteq> []" and "list_all (\<lambda>c. \<not> is_dot_or_digit c) u" and "n * unit \<le> 2 ^ 63"
  shows "duration_part (show_nat n @ u) = Some (n * unit, [])"
proof -
  have pos: "0 < unit" using assms(1) by (auto simp: unit_map_def split: if_splits)
  have n: "n \<le> 2 ^ 63 div unit" using assms(4) pos by (simp only: less_eq_div_iff_mult_less_eq)
  also have "2 ^ 63 div unit \<le> (2 ^ 63 :: nat)" by (rule div_le_dividend)
  finally have int: "leading_int 0 (show_nat n) = Some n"
    using leading_int_fold [of 0 "show_nat n"] by (simp only: show_nat_fold)
  have hd: "is_dot_or_digit (hd (show_nat n @ u))"
    using show_nat_digits [of n] by (cases "show_nat n") (auto simp: is_dot_or_digit_def)
  note d = digits_then_unit [OF show_nat_digits [of n] assms(2,3)]
  from n have "\<not> 2 ^ 63 div unit < n" by simp
  moreover from assms(4) have "\<not> 2 ^ 63 < n * unit" by simp
  ultimately show ?thesis
    unfolding duration_part_def Let_def d(1,2) int using hd assms(1,2) d(5)
    by (simp add: d(3,4) del: power_numeral takeWhile_eq_all_conv dropWhile_eq_Nil_conv)
qed

lemma parse_duration_whole:
  assumes "unit_map u = Some unit" and "u \<noteq> []" and "list_all (\<lambda>c. \<not> is_dot_or_digit c) u" and "n * unit < 2 ^ 63"
  shows "parse_duration (show_nat n @ u) = Inr (int (n * unit))"
proof -
  have le: "n * unit \<le> 2 ^ 63" using assms(4) by simp
  have "(n * unit) mod 2 ^ 64 = n * unit" using assms(4) by (intro mod_less) simp
  then have loop: "duration_loop 0 (show_nat n @ u) = Some (n * unit)"
    using duration_part_whole [OF assms(1-3) le] le
    by (simp add: duration_loop.simps [of 0] duration_loop.simps [of "n * unit" "[]"] Let_def del: power_numeral)
  obtain b bs where s: "show_nat n = b # bs" by (cases "show_nat n") auto
  have "is_digit b" using show_nat_digits [of n] s by simp
  then have "b \<noteq> CHR ''-''" "b \<noteq> CHR ''+''" using digit_not_sign by blast+
  moreover have "show_nat n @ u \<noteq> ''0''" using s assms(2) by (cases bs) auto
  moreover from assms(4) have "\<not> n * unit > 2 ^ 63 - 1" by simp
  ultimately show ?thesis
    unfolding parse_duration_def Let_def using loop s assms(2) by (simp del: power_numeral)
qed

end
