(* ===== verification/Envx.thy ===== *)
theory Envx imports GoConv begin

text \<open>
  Reading the configuration from the environment (internal/envx/envx.go).  The environment is a finite
  list of variables with values, as the process gets it; a variable that is not set reads as the empty
  string.
\<close>

section \<open>The environment\<close>

type_synonym environ = "(string \<times> string) list"

definition getenv :: "environ \<Rightarrow> string \<Rightarrow> string" where
  "getenv env key = (case map_of env key of None \<Rightarrow> '''' | Some v \<Rightarrow> v)"

definition env_string :: "environ \<Rightarrow> string \<Rightarrow> string \<Rightarrow> string" where
  "env_string env key def_value = (let v = getenv env key in if v \<noteq> '''' then v else def_value)"

definition env_int :: "environ \<Rightarrow> string \<Rightarrow> int64 \<Rightarrow> go_error + int64" where
  "env_int env key def_value =
     (let v = getenv env key in
      if v = '''' then Inr def_value
      else case go_atoi v of
             Inl err \<Rightarrow> Inl (Wrap (''parsing '' @ key) err)
           | Inr n \<Rightarrow> Inr n)"

definition env_uint :: "environ \<Rightarrow> string \<Rightarrow> uint64 \<Rightarrow> go_error + uint64" where
  "env_uint env key def_value =
     (let v = getenv env key in
      if v = '''' then Inr def_value
      else case go_parse_uint v of
             Inl err \<Rightarrow> Inl (Wrap (''parsing '' @ key) err)
           | Inr n \<Rightarrow> Inr n)"

definition env_duration :: "environ \<Rightarrow> string \<Rightarrow> duration \<Rightarrow> go_error + duration" where
  "env_duration env key def_value =
     (let v = getenv env key in
      if v = '''' then Inr def_value
      else case parse_duration v of
             Inl err \<Rightarrow> Inl (Wrap (''parsing '' @ key) err)
           | Inr d \<Rightarrow> Inr d)"

text \<open>
  \<open>Numbered\<close>: the loop ends because only finitely many variables are set and the names it asks for are
  all different.
\<close>

definition numbered_left :: "environ \<Rightarrow> string \<Rightarrow> nat \<Rightarrow> nat set" where
  "numbered_left env prefix i = {j. i \<le> j \<and> prefix @ show_nat j \<in> fst ` set env}"

lemma finite_numbered_left: "finite (numbered_left env prefix i)"
proof (rule finite_imageD)
  show "finite ((\<lambda>j. prefix @ show_nat j) ` numbered_left env prefix i)"
    by (rule finite_subset [of _ "fst ` set env"]) (auto simp: numbered_left_def)
  show "inj_on (\<lambda>j. prefix @ show_nat j) (numbered_left env prefix i)"
    by (auto simp: inj_on_def show_nat_inject)
qed

lemma getenv_set: "getenv env key \<noteq> '''' \<Longrightarrow> key \<in> fst ` set env"
  by (force simp: getenv_def split: option.splits dest: map_of_SomeD)

lemma numbered_left_less:
  assumes "getenv env (prefix @ show_nat i) \<noteq> ''''"
  shows "card (numbered_left env prefix (Suc i)) < card (numbered_left env prefix i)"
proof (rule psubset_card_mono [OF finite_numbered_left])
  have "i \<in> numbered_left env prefix i" using getenv_set [OF assms] by (simp add: numbered_left_def)
  moreover have "i \<notin> numbered_left env prefix (Suc i)" by (simp add: numbered_left_def)
  moreover have "numbered_left env prefix (Suc i) \<subseteq> numbered_left env prefix i" by (auto simp: numbered_left_def)
  ultimately show "numbered_left env prefix (Suc i) \<subset> numbered_left env prefix i" by blast
qed

function numbered_loop :: "environ \<Rightarrow> string \<Rightarrow> nat \<Rightarrow> string list" where
  "numbered_loop env prefix i =
     (let v = getenv env (prefix @ show_nat i) in
      if v = '''' then [] else v # numbered_loop env prefix (Suc i))"
  by pat_completeness auto
termination
  by (relation "measure (\<lambda>(env, prefix, i). card (numbered_left env prefix i))") (auto simp: numbered_left_less)

declare numbered_loop.simps [simp del]

definition numbered :: "environ \<Rightarrow> string \<Rightarrow> string list" where
  "numbered env prefix = numbered_loop env prefix 1"

definition env_list :: "string \<Rightarrow> string list" where
  "env_list v =
     (if v = '''' then []
      else filter (\<lambda>p. p \<noteq> '''') (map trim_space (split_on (CHR '','') v)))"

section \<open>Lemmas\<close>

definition succeeds :: "'a + 'b \<Rightarrow> bool" where
  "succeeds r = (case r of Inl _ \<Rightarrow> False | Inr _ \<Rightarrow> True)"

lemma succeeds_simps [simp]: "succeeds (Inr b)" "\<not> succeeds (Inl a)"
  by (simp_all add: succeeds_def)

lemma succeeds_iff: "succeeds r \<longleftrightarrow> (\<exists>x. r = Inr x)"
  by (cases r) auto

lemma numbered_loop_spec:
  "\<exists>n. numbered_loop env prefix i = map (\<lambda>j. getenv env (prefix @ show_nat j)) [i..<i + n] \<and>
     getenv env (prefix @ show_nat (i + n)) = '''' \<and> '''' \<notin> set (numbered_loop env prefix i)"
proof (induction env prefix i rule: numbered_loop.induct)
  case (1 env prefix i)
  show ?case
  proof (cases "getenv env (prefix @ show_nat i) = ''''")
    case True
    then show ?thesis by (intro exI [of _ 0]) (simp add: numbered_loop.simps [of env prefix i])
  next
    case False
    from 1 [OF refl False] obtain n where n:
      "numbered_loop env prefix (Suc i) = map (\<lambda>j. getenv env (prefix @ show_nat j)) [Suc i..<Suc i + n]"
      "getenv env (prefix @ show_nat (Suc i + n)) = ''''" "'''' \<notin> set (numbered_loop env prefix (Suc i))" by blast
    have "[i..<i + Suc n] = i # [Suc i..<Suc i + n]" by (simp add: upt_conv_Cons del: upt_Suc)
    with n False show ?thesis
      by (intro exI [of _ "Suc n"]) (simp add: numbered_loop.simps [of env prefix i] del: upt_Suc)
  qed
qed

lemma numbered_length: "length (numbered env prefix) \<le> length env"
proof -
  have "length (numbered_loop env prefix i) \<le> card (numbered_left env prefix i)" for i
  proof (induction env prefix i rule: numbered_loop.induct)
    case (1 env prefix i)
    then show ?case
      using numbered_left_less [of env prefix i] by (fastforce simp: numbered_loop.simps [of env prefix i] Let_def)
  qed
  also have "card (numbered_left env prefix 1) \<le> card (fst ` set env)"
  proof (rule card_inj_on_le)
    show "inj_on (\<lambda>j. prefix @ show_nat j) (numbered_left env prefix 1)"
      by (auto simp: inj_on_def show_nat_inject)
  qed (auto simp: numbered_left_def)
  also have "\<dots> \<le> length env" by (meson List.finite_set card_image_le card_length le_trans)
  finally show ?thesis by (simp add: numbered_def)
qed

lemma numbered_Nil: "numbered env prefix = [] \<longleftrightarrow> getenv env (prefix @ ''1'') = ''''"
proof -
  have "show_nat 1 = ''1''" by code_simp
  then show ?thesis by (subst numbered_def, subst numbered_loop.simps) (simp add: Let_def)
qed

lemma env_list_items:
  assumes "w \<in> set (env_list v)"
  shows "w \<noteq> ''''" and "trimmed w" and "\<not> is_space (hd w)" and "\<not> is_space (last w)"
proof -
  from assms obtain u where "w = trim_space u" "w \<noteq> ''''" by (auto simp: env_list_def split: if_splits)
  then show "w \<noteq> ''''" "trimmed w" by (simp_all add: trim_space_trimmed)
  then show "\<not> is_space (hd w)" "\<not> is_space (last w)" using trimmed_ends by blast+
qed

section \<open>Properties\<close>

text \<open>
  C33: \<open>Numbered\<close> ends, whatever the environment, after at most as many rounds as there are variables, and
  returns the values of the variables numbered from 1 up to the first gap, in order, none of them empty.
\<close>

theorem numbered_exact:
  "\<exists>n. numbered env prefix = map (\<lambda>j. getenv env (prefix @ show_nat j)) [1..<Suc n] \<and> n \<le> length env \<and>
     getenv env (prefix @ show_nat (Suc n)) = '''' \<and> '''' \<notin> set (numbered env prefix)"
proof -
  from numbered_loop_spec [of env prefix 1] obtain n where n:
    "numbered env prefix = map (\<lambda>j. getenv env (prefix @ show_nat j)) [1..<1 + n]"
    "getenv env (prefix @ show_nat (1 + n)) = ''''" "'''' \<notin> set (numbered env prefix)"
    unfolding numbered_def by blast
  moreover have "n \<le> length env"
    using numbered_length [of env prefix] unfolding n(1) by (simp del: upt_Suc)
  ultimately show ?thesis by (intro exI [of _ n]) simp
qed

end
