(* ===== verification/ExchangeConfig.thy ===== *)
theory ExchangeConfig imports Envx EthModel "HOL-Library.Multiset" begin

text \<open>
  The configuration of the exchange surface (internal/exchange/config/config.go).
\<close>

record exchange_config =
  xg_environment :: string
  xg_log_level :: string
  xg_service_name :: string
  xg_grpc_port :: int64
  xg_enable_pprof :: bool
  xg_issuer :: string
  xg_token_expiration :: string
  xg_blockchain_node_url :: string
  xg_contract_address_sacd :: address
  xg_contract_address_template :: address
  xg_contract_address_manufacturer :: address
  xg_contract_address_vehicle :: address
  xg_identity_url :: string
  xg_ipfs_base_url :: string
  xg_ipfs_timeout :: string
  xg_dimo_registry_chain_id :: uint64

definition required :: "exchange_config \<Rightarrow> (string \<times> string) list" where
  "required s = [(''EXCHANGE_ISSUER'', xg_issuer s), (''BLOCKCHAIN_NODE_URL'', xg_blockchain_node_url s),
     (''IDENTITY_URL'', xg_identity_url s), (''IPFS_BASE_URL'', xg_ipfs_base_url s)]"

fun check_required :: "(string \<times> string) list \<Rightarrow> go_error option" where
  "check_required [] = None"
| "check_required ((name, val) # rest) = (if val = '''' then Some (Err (name @ '' is required'')) else check_required rest)"

text \<open>The fields that are set before anything can fail.\<close>

definition exchange_config_start :: "eth \<Rightarrow> environ \<Rightarrow> exchange_config" where
  "exchange_config_start eth env =
     \<lparr>xg_environment = env_string env ''ENVIRONMENT'' ''local'', xg_log_level = env_string env ''LOG_LEVEL'' ''info'',
      xg_service_name = env_string env ''SERVICE_NAME'' ''token-exchange-api'', xg_grpc_port = 0,
      xg_enable_pprof = (getenv env ''ENABLE_PPROF'' = ''true''), xg_issuer = getenv env ''EXCHANGE_ISSUER'',
      xg_token_expiration = env_string env ''TOKEN_EXPIRATION'' ''10m'',
      xg_blockchain_node_url = getenv env ''BLOCKCHAIN_NODE_URL'',
      xg_contract_address_sacd = eth_hex_to_address eth (getenv env ''CONTRACT_ADDRESS_SACD''),
      xg_contract_address_template = eth_hex_to_address eth (getenv env ''CONTRACT_ADDRESS_TEMPLATE''),
      xg_contract_address_manufacturer = eth_hex_to_address eth (getenv env ''CONTRACT_ADDRESS_MANUFACTURER''),
      xg_contract_address_vehicle = eth_hex_to_address eth (getenv env ''CONTRACT_ADDRESS_VEHICLE''),
      xg_identity_url = getenv env ''IDENTITY_URL'', xg_ipfs_base_url = getenv env ''IPFS_BASE_URL'',
      xg_ipfs_timeout = env_string env ''IPFS_TIMEOUT'' ''30s'', xg_dimo_registry_chain_id = 0\<rparr>"

text \<open>
  The loop over the map \<open>required(s)\<close> takes its entries in an order that Go leaves open: \<open>map\_order\<close>
  gives the order of this run.
\<close>

definition exchange_load ::
  "eth \<Rightarrow> ((string \<times> string) list \<Rightarrow> (string \<times> string) list) \<Rightarrow> environ \<Rightarrow> go_error + exchange_config" where
  "exchange_load eth map_order env =
     (let s = exchange_config_start eth env
      in case env_int env ''GRPC_PORT'' 8086 of
           Inl err \<Rightarrow> Inl err
         | Inr port \<Rightarrow>
             (let s = s\<lparr>xg_grpc_port := port\<rparr> in
              case env_uint env ''DIMO_REGISTRY_CHAIN_ID'' 137 of
                Inl err \<Rightarrow> Inl err
              | Inr chain_id \<Rightarrow>
                  (let s = s\<lparr>xg_dimo_registry_chain_id := chain_id\<rparr> in
                   case check_required (map_order (required s)) of
                     Some err \<Rightarrow> Inl err
                   | None \<Rightarrow> Inr s)))"

definition exchange_signing_keys :: "environ \<Rightarrow> string list" where
  "exchange_signing_keys env = numbered env ''EXCHANGE_SIGNING_KEY_''"

section \<open>Properties\<close>

lemma check_required_None: "check_required xs = None \<longleftrightarrow> '''' \<notin> snd ` set xs"
  by (induction xs rule: check_required.induct) auto

lemma check_required_Some:
  "check_required xs = Some err \<Longrightarrow> \<exists>name. (name, '''') \<in> set xs \<and> err = Err (name @ '' is required'')"
  by (induction xs rule: check_required.induct) (auto split: if_splits)

text \<open>
  The order in which Go walks the map of required variables does not matter for whether and how the
  exchange configuration loads: it loads exactly when the two numbers are unset or well formed and the
  four required variables are set, and every order gives the same configuration.
\<close>

theorem exchange_load_order:
  assumes "\<And>xs. mset (ord1 xs) = mset xs" and "\<And>xs. mset (ord2 xs) = mset xs"
  shows "(succeeds (exchange_load eth ord1 env) \<longleftrightarrow>
       succeeds (env_int env ''GRPC_PORT'' 8086) \<and> succeeds (env_uint env ''DIMO_REGISTRY_CHAIN_ID'' 137) \<and>
       '''' \<notin> getenv env ` {''EXCHANGE_ISSUER'', ''BLOCKCHAIN_NODE_URL'', ''IDENTITY_URL'', ''IPFS_BASE_URL''}) \<and>
    (exchange_load eth ord1 env = Inr s \<longleftrightarrow> exchange_load eth ord2 env = Inr s)"
proof -
  let ?c = "required (exchange_config_start eth env)"
  have "set (ord1 ?c) = set ?c" "set (ord2 ?c) = set ?c"
    using assms by (blast dest: mset_eq_setD)+
  then have none: "check_required (ord1 ?c) = None \<longleftrightarrow>
      '''' \<notin> getenv env ` {''EXCHANGE_ISSUER'', ''BLOCKCHAIN_NODE_URL'', ''IDENTITY_URL'', ''IPFS_BASE_URL''}"
    and same: "check_required (ord2 ?c) = None \<longleftrightarrow> check_required (ord1 ?c) = None"
    by (simp_all add: check_required_None required_def exchange_config_start_def)
  have upd: "required (exchange_config_start eth env\<lparr>xg_grpc_port := p, xg_dimo_registry_chain_id := n\<rparr>) = ?c" for p n
    by (simp add: required_def)
  note d = exchange_load_def Let_def upd
  have "exchange_load eth ord1 env = Inr s \<longleftrightarrow> exchange_load eth ord2 env = Inr s"
    using same by (cases "check_required (ord1 ?c)"; cases "check_required (ord2 ?c)") (simp_all add: d split: sum.split)
  moreover have "succeeds (exchange_load eth ord1 env) \<longleftrightarrow>
       succeeds (env_int env ''GRPC_PORT'' 8086) \<and> succeeds (env_uint env ''DIMO_REGISTRY_CHAIN_ID'' 137) \<and>
       check_required (ord1 ?c) = None"
    by (cases "env_int env ''GRPC_PORT'' 8086"; cases "env_uint env ''DIMO_REGISTRY_CHAIN_ID'' 137";
        cases "check_required (ord1 ?c)") (simp_all add: d)
  ultimately show ?thesis unfolding none by blast
qed

definition sample_environ :: environ where
  "sample_environ = [(''EXCHANGE_ISSUER'', ''i''), (''BLOCKCHAIN_NODE_URL'', ''n''), (''IDENTITY_URL'', ''u''), (''GRPC_PORT'', ''90'')]"

theorem exchange_load_order_witness:
  "\<not> succeeds (exchange_load eth_model rev sample_environ)"
  using exchange_load_order [where ?ord1.0 = rev and ?ord2.0 = "\<lambda>xs. xs" and eth = eth_model and env = sample_environ]
  by (simp add: sample_environ_def getenv_def)

end
