(* ===== verification/GoMux.thy ===== *)
theory GoMux imports GoStrings EthModel "HOL-Library.Char_ord" "HOL-Library.List_Lexorder" begin

text \<open>
  \<open>http.ServeMux\<close> and \<open>http.StripPrefix\<close> of Go's net/http, as far as the sources use them: patterns
  with an optional method and without a host, whose path is made of literal segments and ends in a
  literal, in a slash (a whole subtree) or in \<open>{$}\<close> (the slash itself).  A request's path is its
  escaped path, \<open>r.URL.EscapedPath()\<close>; segments are unescaped one by one, as the routing tree does, so
  that an escaped slash does not separate segments.
\<close>

section \<open>Paths\<close>

text \<open>\<open>url.PathUnescape\<close>, None for a malformed escape; \<open>path_unescape\<close> then keeps the text.\<close>

definition url_hex :: "char \<Rightarrow> bool" where
  "url_hex c \<longleftrightarrow> is_hex_digit c \<or> (65 \<le> (of_char c :: nat) \<and> (of_char c :: nat) \<le> 70)"

definition url_unhex :: "char \<Rightarrow> nat" where
  "url_unhex c = (let k = of_char c in if k \<le> 57 then k - 48 else if k \<le> 70 then k - 55 else k - 87)"

fun unescape :: "string \<Rightarrow> string option" where
  "unescape [] = Some []"
| "unescape (c # h # l # s) =
     (if c = CHR ''%''
      then if url_hex h \<and> url_hex l
           then map_option ((#) (char_of (16 * url_unhex h + url_unhex l))) (unescape s) else None
      else map_option ((#) c) (unescape (h # l # s)))"
| "unescape (c # s) = (if c = CHR ''%'' then None else map_option ((#) c) (unescape s))"

definition path_unescape :: "string \<Rightarrow> string" where
  "path_unescape s = (case unescape s of None \<Rightarrow> s | Some t \<Rightarrow> t)"

text \<open>\<open>firstSegment\<close> and the segments it takes off a path one after the other.\<close>

definition first_segment :: "string \<Rightarrow> string \<times> string" where
  "first_segment path =
     (if path = ''/'' then (''/'', '''')
      else (path_unescape (takeWhile (\<lambda>c. c \<noteq> CHR ''/'') (tl path)), dropWhile (\<lambda>c. c \<noteq> CHR ''/'') (tl path)))"

lemma first_segment_shorter:
  "path \<noteq> '''' \<Longrightarrow> first_segment path = (seg, rest) \<Longrightarrow> length rest < length path"
  using length_dropWhile_le [of "\<lambda>c. c \<noteq> CHR ''/''" "tl path"]
  by (cases path) (auto simp: first_segment_def less_Suc_eq_le split: if_splits)

function path_segments :: "string \<Rightarrow> string list" where
  "path_segments path =
     (if path = '''' then [] else let (seg, rest) = first_segment path in seg # path_segments rest)"
  by pat_completeness auto
termination by (relation "measure length") (auto dest: first_segment_shorter [OF _ sym])

declare path_segments.simps [simp del]

text \<open>\<open>path.Clean\<close> of a rooted path, and \<open>cleanPath\<close>.\<close>

fun clean_segments :: "string list \<Rightarrow> string list \<Rightarrow> string list" where
  "clean_segments done_rev [] = rev done_rev"
| "clean_segments done_rev (w # ws) =
     (if w = '''' \<or> w = ''.'' then clean_segments done_rev ws
      else if w = ''..'' then clean_segments (drop 1 done_rev) ws
      else clean_segments (w # done_rev) ws)"

definition path_clean :: "string \<Rightarrow> string" where
  "path_clean p = ''/'' @ join_with ''/'' (clean_segments [] (split_on (CHR ''/'') p))"

definition ends_in_slash :: "string \<Rightarrow> bool" where
  "ends_in_slash p \<longleftrightarrow> p \<noteq> '''' \<and> last p = CHR ''/''"

definition clean_path :: "string \<Rightarrow> string" where
  "clean_path p =
     (if p = '''' then ''/''
      else let p = (if hd p \<noteq> CHR ''/'' then CHR ''/'' # p else p); np = path_clean p
           in if ends_in_slash p \<and> np \<noteq> ''/'' then np @ ''/'' else np)"

section \<open>Patterns and routes\<close>

datatype pattern_seg = Literal string | Multi

record 'h route =
  rt_method :: string
  rt_segs :: "pattern_seg list"
  rt_handler :: 'h

fun pattern_segs :: "string list \<Rightarrow> pattern_seg list" where
  "pattern_segs [] = []"
| "pattern_segs (w # ws) =
     (if ws = [] \<and> w = '''' then [Multi]
      else if ws = [] \<and> w = ''{$}'' then [Literal ''/'']
      else Literal (path_unescape w) # pattern_segs ws)"

text \<open>\<open>mux.Handle(pattern, handler)\<close>: a pattern is a path, or a method, a blank and a path.\<close>

definition handle :: "string \<Rightarrow> 'h \<Rightarrow> 'h route" where
  "handle pattern h =
     (let (m, path) = (if CHR '' '' \<in> set pattern
            then (takeWhile (\<lambda>c. c \<noteq> CHR '' '') pattern, tl (dropWhile (\<lambda>c. c \<noteq> CHR '' '') pattern))
            else ('''', pattern))
      in \<lparr>rt_method = m, rt_segs = pattern_segs (split_on (CHR ''/'') (tl path)), rt_handler = h\<rparr>)"

section \<open>The routing tree\<close>

text \<open>
  A node of the tree is the routes below it, each with the segments that are left of its pattern.
\<close>

type_synonym 'h node = "(pattern_seg list \<times> 'h route) list"

fun child :: "string \<Rightarrow> 'h node \<Rightarrow> 'h node" where
  "child seg [] = []"
| "child seg ((ps, r) # node) =
     (case ps of Literal s # ps' \<Rightarrow> if s = seg then (ps', r) # child seg node else child seg node
      | _ \<Rightarrow> child seg node)"

fun route_with :: "pattern_seg list \<Rightarrow> 'h node \<Rightarrow> 'h route option" where
  "route_with ps [] = None"
| "route_with ps ((qs, r) # node) = (if qs = ps then Some r else route_with ps node)"

fun match_path :: "'h node \<Rightarrow> string list \<Rightarrow> 'h route option" where
  "match_path node [] = route_with [] node"
| "match_path node (seg # segs) =
     (case match_path (child seg node) segs of Some r \<Rightarrow> Some r | None \<Rightarrow> route_with [Multi] node)"

definition method_node :: "'h route list \<Rightarrow> string \<Rightarrow> 'h node" where
  "method_node routes m = map (\<lambda>r. (rt_segs r, r)) (filter (\<lambda>r. rt_method r = m) routes)"

text \<open>The method itself, GET for HEAD, then the patterns without a method.\<close>

definition match_route :: "'h route list \<Rightarrow> string \<Rightarrow> string \<Rightarrow> 'h route option" where
  "match_route routes m path =
     (let segs = path_segments path in
      case match_path (method_node routes m) segs of
        Some r \<Rightarrow> Some r
      | None \<Rightarrow>
          (case (if m = ''HEAD'' then match_path (method_node routes ''GET'') segs else None) of
             Some r \<Rightarrow> Some r
           | None \<Rightarrow> match_path (method_node routes '''') segs))"

definition exact_match :: "'h route option \<Rightarrow> string \<Rightarrow> bool" where
  "exact_match n path =
     (case n of
        None \<Rightarrow> False
      | Some r \<Rightarrow>
          if last (rt_segs r) \<noteq> Multi then True
          else if path \<noteq> '''' \<and> last path \<noteq> CHR ''/'' then False
          else length (rt_segs r) = length (filter (\<lambda>c. c = CHR ''/'') path))"

definition methods_at :: "'h route list \<Rightarrow> string \<Rightarrow> string list" where
  "methods_at routes path =
     (let ms = filter (\<lambda>m. match_path (method_node routes m) (path_segments path) \<noteq> None)
                 (remdups (filter (\<lambda>m. m \<noteq> '''') (map rt_method routes)))
      in if ''GET'' \<in> set ms then ''HEAD'' # ms else ms)"

definition matching_methods :: "'h route list \<Rightarrow> string \<Rightarrow> string list" where
  "matching_methods routes path =
     sort (remdups (methods_at routes path @
       (if ends_in_slash path then [] else methods_at routes (path @ ''/''))))"

section \<open>Answers\<close>

text \<open>
  A redirect carries the path of its location before it is escaped again.
\<close>

datatype 'h mux_answer = Serve 'h | RedirectTo string | MethodNotAllowed "string list" | NotFound

definition find_handler :: "'h route list \<Rightarrow> string \<Rightarrow> string \<Rightarrow> 'h mux_answer" where
  "find_handler routes m escaped_path =
     (let path = (if m = ''CONNECT'' then escaped_path else clean_path escaped_path);
          n = match_route routes m path
      in if \<not> exact_match n path \<and> \<not> ends_in_slash path \<and>
            exact_match (match_route routes m (path @ ''/'')) (path @ ''/'')
         then RedirectTo (clean_path (path_unescape escaped_path) @ ''/'')
         else if path \<noteq> escaped_path then RedirectTo path
         else case n of
                Some r \<Rightarrow> Serve (rt_handler r)
              | None \<Rightarrow>
                  (case matching_methods routes path of
                     [] \<Rightarrow> NotFound | ms \<Rightarrow> MethodNotAllowed ms))"

text \<open>
  \<open>http.StripPrefix\<close>: the prefix is cut off the path and off the escaped path, or the request is not
  found.  The prefixes of the sources hold no character that is ever escaped, so that one test is enough.
\<close>

definition strip_prefix :: "string \<Rightarrow> (string \<Rightarrow> 'a mux_answer) \<Rightarrow> string \<Rightarrow> 'a mux_answer" where
  "strip_prefix prefix next_handler escaped_path =
     (case cut_prefix escaped_path prefix of None \<Rightarrow> NotFound | Some p \<Rightarrow> next_handler p)"

section \<open>Lemmas\<close>

text \<open>The segments of a rooted path are those between its slashes, unescaped; a slash at the end is one.\<close>

fun segments_of :: "string list \<Rightarrow> string list" where
  "segments_of [] = []"
| "segments_of (w # ws) = (if ws = [] \<and> w = '''' then [''/''] else path_unescape w # segments_of ws)"

lemma split_on_cons:
  "split_on sep s = (case dropWhile (\<lambda>c. c \<noteq> sep) s of
     [] \<Rightarrow> [takeWhile (\<lambda>c. c \<noteq> sep) s] | c # r \<Rightarrow> takeWhile (\<lambda>c. c \<noteq> sep) s # split_on sep r)"
proof (induction s)
  case (Cons c s)
  then show ?case
    by (cases "c = sep"; cases "dropWhile (\<lambda>c. c \<noteq> sep) s") (simp_all del: dropWhile_eq_Nil_conv)
qed simp

lemma path_segments_rooted: "path_segments (CHR ''/'' # s) = segments_of (split_on (CHR ''/'') s)"
proof (induction s rule: length_induct)
  case (1 s)
  let ?w = "takeWhile (\<lambda>c. c \<noteq> CHR ''/'') s"
  show ?case
  proof (cases "dropWhile (\<lambda>c. c \<noteq> CHR ''/'') s")
    case Nil
    then have w: "?w = s" by (metis append_Nil2 takeWhile_dropWhile_id)
    have "path_segments '''' = []" by (simp add: path_segments.simps)
    moreover have "split_on (CHR ''/'') s = [s]" by (simp add: split_on_cons [of _ s] Nil w)
    ultimately show ?thesis
      by (subst path_segments.simps) (simp add: first_segment_def Nil w del: dropWhile_eq_Nil_conv)
  next
    case (Cons c r)
    then have c: "c = CHR ''/''" using hd_dropWhile [of "\<lambda>c. c \<noteq> CHR ''/''" s] by simp
    have "length r < length s" using length_dropWhile_le [of "\<lambda>c. c \<noteq> CHR ''/''" s] Cons by simp
    then have "path_segments (CHR ''/'' # r) = segments_of (split_on (CHR ''/'') r)" using 1 by blast
    moreover from Cons have "s \<noteq> ''''" by auto
    moreover have "split_on (CHR ''/'') s = ?w # split_on (CHR ''/'') r" by (simp add: split_on_cons [of _ s] Cons)
    ultimately show ?thesis
      using Cons c by (simp add: path_segments.simps [of "CHR ''/'' # s"] first_segment_def)
  qed
qed

text \<open>A path of plain segments is clean.\<close>

lemma split_on_no: "sep \<notin> set s \<Longrightarrow> split_on sep s = [s]"
  by (induction s) auto

lemma split_on_append: "sep \<notin> set w \<Longrightarrow> split_on sep (w @ sep # s) = w # split_on sep s"
  by (induction w) auto

lemma split_join: "ws \<noteq> [] \<Longrightarrow> \<forall>w \<in> set ws. sep \<notin> set w \<Longrightarrow> split_on sep (join_with [sep] ws) = ws"
proof (induction ws)
  case (Cons w ws)
  then show ?case by (cases ws) (simp_all add: split_on_no split_on_append)
qed simp

definition plain_segment :: "string \<Rightarrow> bool" where
  "plain_segment w \<longleftrightarrow> w \<notin> {'''', ''.'', ''..''} \<and> CHR ''/'' \<notin> set w"

lemma clean_segments_plain: "list_all plain_segment ws \<Longrightarrow> clean_segments acc ws = rev acc @ ws"
  by (induction ws arbitrary: acc) (auto simp: plain_segment_def)

lemma last_join_plain:
  "ws \<noteq> [] \<Longrightarrow> list_all plain_segment ws \<Longrightarrow> join_with sep ws \<noteq> '''' \<and> last (join_with sep ws) \<noteq> CHR ''/''"
proof (induction ws)
  case (Cons w ws)
  then have w: "w \<noteq> ''''" "CHR ''/'' \<notin> set w" by (auto simp: plain_segment_def)
  then have "last w \<noteq> CHR ''/''" by (metis last_in_set)

  moreover note w(1)
  ultimately show ?case using Cons by (cases ws) auto
qed simp

lemma clean_path_plain:
  assumes "ws \<noteq> []" and "list_all plain_segment ws"
  shows "clean_path (''/'' @ join_with ''/'' ws) = ''/'' @ join_with ''/'' ws"
    and "\<not> ends_in_slash (''/'' @ join_with ''/'' ws)"
proof -
  have "split_on (CHR ''/'') (join_with ''/'' ws) = ws"
    using assms by (intro split_join) (auto simp: list_all_iff plain_segment_def)
  with assms show "clean_path (''/'' @ join_with ''/'' ws) = ''/'' @ join_with ''/'' ws"
    by (simp add: clean_path_def path_clean_def clean_segments_plain ends_in_slash_def last_join_plain)
  show "\<not> ends_in_slash (''/'' @ join_with ''/'' ws)"
    using last_join_plain [OF assms, of "''/''"] by (simp add: ends_in_slash_def)
qed

lemma clean_path_rooted: "\<exists>s. clean_path p = CHR ''/'' # s"
  by (auto simp: clean_path_def path_clean_def Let_def)

lemma segments_of_join:
  "ws \<noteq> [] \<Longrightarrow> list_all plain_segment ws \<Longrightarrow>
   path_segments (''/'' @ join_with ''/'' ws) = map path_unescape ws"
proof -
  assume ws: "ws \<noteq> []" "list_all plain_segment ws"
  then have "split_on (CHR ''/'') (join_with ''/'' ws) = ws"
    by (intro split_join) (auto simp: list_all_iff plain_segment_def)
  moreover have "segments_of ws = map path_unescape ws"
    using ws(2) by (induction ws) (auto simp: plain_segment_def)
  ultimately show ?thesis by (simp add: path_segments_rooted)
qed

text \<open>The other way round: a rooted path with given segments.\<close>

lemma segments_of_cases:
  assumes "segments_of ws = ks" and "''/'' \<notin> set ks"
  shows "map path_unescape ws = ks"
  using assms by (induction ws arbitrary: ks) (auto split: if_splits)

lemma path_unescape_plain: "CHR ''/'' \<notin> set w \<Longrightarrow> path_unescape w \<notin> {'''', ''.'', ''..''} \<Longrightarrow> plain_segment w"
  by (auto simp: plain_segment_def path_unescape_def)

lemma path_segments_plain:
  assumes "path_segments (CHR ''/'' # s) = ks" and "list_all (\<lambda>k. k \<notin> {'''', ''.'', ''..'', ''/''}) ks"
  shows "\<exists>ws. ws \<noteq> [] \<and> s = join_with ''/'' ws \<and> list_all plain_segment ws \<and> map path_unescape ws = ks"
proof -
  let ?ws = "split_on (CHR ''/'') s"
  have ks: "map path_unescape ?ws = ks"
    using assms by (intro segments_of_cases) (auto simp: path_segments_rooted list_all_iff)
  have "plain_segment w" if "w \<in> set ?ws" for w
  proof (rule path_unescape_plain)
    show "CHR ''/'' \<notin> set w" using that by (rule split_on_no_sep)
    have "path_unescape w \<in> set ks" using that ks by force
    with assms(2) show "path_unescape w \<notin> {'''', ''.'', ''..''}" by (auto simp: list_all_iff)
  qed
  with ks show ?thesis by (intro exI [of _ ?ws]) (simp add: join_split list_all_iff)
qed

text \<open>When a pattern matches the segments of a path.\<close>

fun seg_match :: "pattern_seg list \<Rightarrow> string list \<Rightarrow> bool" where
  "seg_match [] segs = (segs = [])"
| "seg_match (Multi # ps) segs = (ps = [] \<and> segs \<noteq> [])"
| "seg_match (Literal s # ps) segs = (\<exists>segs'. segs = s # segs' \<and> seg_match ps segs')"

fun_cases seg_match_NilE: "seg_match ps []"
fun_cases seg_match_ConsE: "seg_match ps (seg # segs)"

lemma child_iff: "(ps, r) \<in> set (child seg node) \<longleftrightarrow> (Literal seg # ps, r) \<in> set node"
  by (induction seg node rule: child.induct) (auto split: list.splits pattern_seg.splits)

lemma route_with_Some: "route_with ps node = Some r \<Longrightarrow> (ps, r) \<in> set node"
  by (induction ps node rule: route_with.induct) (auto split: if_splits)

lemma match_path_Some: "match_path node segs = Some r \<Longrightarrow> \<exists>ps. (ps, r) \<in> set node \<and> seg_match ps segs"
proof (induction node segs rule: match_path.induct)
  case (2 node seg segs)
  then show ?case
    by (force simp: child_iff split: option.splits dest!: route_with_Some)
qed (auto dest: route_with_Some)

lemma route_with_found: "(ps, r) \<in> set node \<Longrightarrow> route_with ps node \<noteq> None"
  by (induction ps node rule: route_with.induct) auto

lemma match_path_found: "(ps, r) \<in> set node \<Longrightarrow> seg_match ps segs \<Longrightarrow> match_path node segs \<noteq> None"
proof (induction node segs arbitrary: ps rule: match_path.induct)
  case (1 node)
  then show ?case by (auto elim!: seg_match_NilE dest: route_with_found)
next
  case (2 node seg segs)
  from 2(3) consider "ps = [Multi]" | ps' where "ps = Literal seg # ps'" "seg_match ps' segs"
    by (rule seg_match_ConsE) blast+
  then show ?case
    by cases (use 2(1) [of "tl ps"] 2(2) in \<open>auto simp: child_iff split: option.split dest: route_with_found\<close>)
qed

lemma match_route_found:
  "r \<in> set routes \<Longrightarrow> rt_method r \<in> {m, ''''} \<Longrightarrow> seg_match (rt_segs r) (path_segments p) \<Longrightarrow>
   match_route routes m p \<noteq> None"
  using match_path_found [of "rt_segs r" r "method_node routes (rt_method r)" "path_segments p"]
  by (auto simp: match_route_def method_node_def Let_def split: option.split)

lemma match_route_Some:
  assumes "match_route routes m p = Some r"
  shows "r \<in> set routes" and "rt_method r \<in> {m, ''''} \<or> m = ''HEAD'' \<and> rt_method r = ''GET''"
    and "seg_match (rt_segs r) (path_segments p)"
  using assms
  by (auto simp: match_route_def Let_def method_node_def split: option.splits if_splits dest!: match_path_Some)

lemma find_handler_Serve:
  "find_handler routes m p = Serve h \<longleftrightarrow>
     (m = ''CONNECT'' \<or> clean_path p = p) \<and> (\<exists>r. match_route routes m p = Some r \<and> rt_handler r = h) \<and>
     (exact_match (match_route routes m p) p \<or> ends_in_slash p \<or>
      \<not> exact_match (match_route routes m (p @ ''/'')) (p @ ''/''))"
  by (auto simp: find_handler_def Let_def split: option.splits list.splits)

end
