(* ===== verification/Routes.thy ===== *)
theory Routes imports GoMux begin

text \<open>
  The routes of the process: the sign-in surface (internal/siwe/server/server.go), the exchange surface
  (internal/exchange/app/app.go), the public handler that mounts both (cmd/dauth/main.go) and the
  operational server (internal/ops/ops.go).
\<close>

section \<open>Route tables\<close>

datatype siwe_target = ToChallenge | ToToken | SiweDiscovery | SiweKeys | SiweSwagger

definition siwe_mux :: "siwe_target route list" where
  "siwe_mux =
     [handle ''POST /challenge'' ToChallenge,
      handle ''POST /token'' ToToken,
      handle ''GET /.well-known/openid-configuration'' SiweDiscovery,
      handle ''GET /keys'' SiweKeys,
      handle ''GET /.well-known/jwks.json'' SiweKeys,
      handle ''GET /swagger/'' SiweSwagger]"

datatype exchange_target = ExchangeSwagger | ExchangeKeys | ExchangeDiscovery | ToExchange

definition exchange_mux :: "exchange_target route list" where
  "exchange_mux =
     [handle ''GET /swagger/'' ExchangeSwagger,
      handle ''GET /keys'' ExchangeKeys,
      handle ''GET /.well-known/jwks.json'' ExchangeKeys,
      handle ''GET /.well-known/openid-configuration'' ExchangeDiscovery,
      handle ''POST /tokens/exchange'' ToExchange]"

datatype mount = HealthMount | SiweMount | ExchangeMount

definition public_mux :: "mount route list" where
  "public_mux =
     [handle ''GET /{$}'' HealthMount,
      handle ''/siwe/'' SiweMount,
      handle ''/exchange/'' ExchangeMount]"

datatype public_target = HealthCheck | Siwe siwe_target | Exchange exchange_target

definition public_dispatch :: "string \<Rightarrow> string \<Rightarrow> public_target mux_answer" where
  "public_dispatch m path =
     (case find_handler public_mux m path of
        Serve HealthMount \<Rightarrow> Serve HealthCheck
      | Serve SiweMount \<Rightarrow> strip_prefix ''/siwe'' (\<lambda>p. map_mux_answer Siwe (find_handler siwe_mux m p)) path
      | Serve ExchangeMount \<Rightarrow> strip_prefix ''/exchange'' (\<lambda>p. map_mux_answer Exchange (find_handler exchange_mux m p)) path
      | RedirectTo to \<Rightarrow> RedirectTo to
      | MethodNotAllowed ms \<Rightarrow> MethodNotAllowed ms
      | NotFound \<Rightarrow> NotFound)"

datatype ops_target = Ping | Ready | Metrics | PprofIndex | PprofCmdline | PprofProfile | PprofSymbol | PprofTrace

record ops_config =
  op_addr :: string
  op_enable_pprof :: bool

definition default_ops_addr :: string where
  "default_ops_addr = '':8081''"

definition ops_mux :: "ops_config \<Rightarrow> ops_target route list" where
  "ops_mux cfg =
     [handle ''/ping'' Ping, handle ''/ready'' Ready, handle ''/metrics'' Metrics]
     @ (if op_enable_pprof cfg
        then [handle ''/debug/pprof/'' PprofIndex, handle ''/debug/pprof/cmdline'' PprofCmdline,
              handle ''/debug/pprof/profile'' PprofProfile, handle ''/debug/pprof/symbol'' PprofSymbol,
              handle ''/debug/pprof/trace'' PprofTrace]
        else [])"

text \<open>\<open>NewServer\<close>: the address listened on and the routes.\<close>

definition ops_server :: "ops_config \<Rightarrow> string \<times> ops_target route list" where
  "ops_server cfg = (if op_addr cfg = '''' then default_ops_addr else op_addr cfg, ops_mux cfg)"

section \<open>The tables, with their patterns parsed\<close>

lemmas table_defs = handle_def Let_def path_unescape_def

lemma public_mux_routes:
  "public_mux =
     [\<lparr>rt_method = ''GET'', rt_segs = [Literal ''/''], rt_handler = HealthMount\<rparr>,
      \<lparr>rt_method = '''', rt_segs = [Literal ''siwe'', Multi], rt_handler = SiweMount\<rparr>,
      \<lparr>rt_method = '''', rt_segs = [Literal ''exchange'', Multi], rt_handler = ExchangeMount\<rparr>]"
  by (simp add: public_mux_def table_defs)

lemma siwe_mux_routes:
  "siwe_mux =
     [\<lparr>rt_method = ''POST'', rt_segs = [Literal ''challenge''], rt_handler = ToChallenge\<rparr>,
      \<lparr>rt_method = ''POST'', rt_segs = [Literal ''token''], rt_handler = ToToken\<rparr>,
      \<lparr>rt_method = ''GET'', rt_segs = [Literal ''.well-known'', Literal ''openid-configuration''], rt_handler = SiweDiscovery\<rparr>,
      \<lparr>rt_method = ''GET'', rt_segs = [Literal ''keys''], rt_handler = SiweKeys\<rparr>,
      \<lparr>rt_method = ''GET'', rt_segs = [Literal ''.well-known'', Literal ''jwks.json''], rt_handler = SiweKeys\<rparr>,
      \<lparr>rt_method = ''GET'', rt_segs = [Literal ''swagger'', Multi], rt_handler = SiweSwagger\<rparr>]"
  by (simp add: siwe_mux_def table_defs)

lemma exchange_mux_routes:
  "exchange_mux =
     [\<lparr>rt_method = ''GET'', rt_segs = [Literal ''swagger'', Multi], rt_handler = ExchangeSwagger\<rparr>,
      \<lparr>rt_method = ''GET'', rt_segs = [Literal ''keys''], rt_handler = ExchangeKeys\<rparr>,
      \<lparr>rt_method = ''GET'', rt_segs = [Literal ''.well-known'', Literal ''jwks.json''], rt_handler = ExchangeKeys\<rparr>,
      \<lparr>rt_method = ''GET'', rt_segs = [Literal ''.well-known'', Literal ''openid-configuration''], rt_handler = ExchangeDiscovery\<rparr>,
      \<lparr>rt_method = ''POST'', rt_segs = [Literal ''tokens'', Literal ''exchange''], rt_handler = ToExchange\<rparr>]"
  by (simp add: exchange_mux_def table_defs)

section \<open>Who is reached\<close>

lemmas match_defs = match_route_def method_node_def Let_def

text \<open>The target of one route of literal segments is reached by its method and these segments only.\<close>

lemma literal_route:
  assumes only: "\<And>r. r \<in> set mux \<Longrightarrow> rt_handler r = t \<Longrightarrow> rt_method r = ''POST'' \<and> rt_segs r = map Literal ks"
    and found: "\<And>p. path_segments p = ks \<Longrightarrow> \<exists>r. match_route mux ''POST'' p = Some r \<and> rt_handler r = t"
  shows "(\<exists>r. match_route mux m p = Some r \<and> rt_handler r = t) \<longleftrightarrow> m = ''POST'' \<and> path_segments p = ks"
proof -
  have "seg_match (map Literal ks) segs \<longleftrightarrow> segs = ks" for segs
    by (induction ks arbitrary: segs) auto
  then have "m = ''POST'' \<and> path_segments p = ks" if "match_route mux m p = Some r" "rt_handler r = t" for r
    using match_route_Some [OF that(1)] only [of r] that(2) by auto
  with found show ?thesis by blast
qed

lemma challenge_route:
  "(\<exists>r. match_route siwe_mux m p = Some r \<and> rt_handler r = ToChallenge) \<longleftrightarrow>
     m = ''POST'' \<and> path_segments p = [''challenge'']"
  by (rule literal_route) (auto simp: siwe_mux_routes match_defs)

lemma token_route:
  "(\<exists>r. match_route siwe_mux m p = Some r \<and> rt_handler r = ToToken) \<longleftrightarrow>
     m = ''POST'' \<and> path_segments p = [''token'']"
  by (rule literal_route) (auto simp: siwe_mux_routes match_defs)

lemma exchange_route:
  "(\<exists>r. match_route exchange_mux m p = Some r \<and> rt_handler r = ToExchange) \<longleftrightarrow>
     m = ''POST'' \<and> path_segments p = [''tokens'', ''exchange'']"
  by (rule literal_route) (auto simp: exchange_mux_routes match_defs)

text \<open>A handler behind literal segments is reached by the clean path of these segments only.\<close>

lemma find_handler_literal:
  assumes route: "(\<exists>r. match_route mux m p = Some r \<and> rt_handler r = t) \<longleftrightarrow> m = ''POST'' \<and> path_segments p = ks"
    and lit: "\<And>r. r \<in> set mux \<Longrightarrow> rt_handler r = t \<Longrightarrow> last (rt_segs r) \<noteq> Multi"
    and ks: "list_all (\<lambda>k. k \<notin> {'''', ''.'', ''..'', ''/''}) ks"
  shows "find_handler mux m p = Serve t \<longleftrightarrow>
    m = ''POST'' \<and> (\<exists>ws. ws \<noteq> [] \<and> p = ''/'' @ join_with ''/'' ws \<and> list_all plain_segment ws \<and> map path_unescape ws = ks)"
proof
  assume "find_handler mux m p = Serve t"
  then have "(m = ''CONNECT'' \<or> clean_path p = p)" "m = ''POST''" "path_segments p = ks"
    using route by (auto simp: find_handler_Serve)
  moreover from this obtain s where "p = CHR ''/'' # s" using clean_path_rooted [of p] by auto
  ultimately show "m = ''POST'' \<and> (\<exists>ws. ws \<noteq> [] \<and> p = ''/'' @ join_with ''/'' ws \<and> list_all plain_segment ws \<and> map path_unescape ws = ks)"
    using path_segments_plain [OF _ ks, of s] by auto
next
  assume "m = ''POST'' \<and> (\<exists>ws. ws \<noteq> [] \<and> p = ''/'' @ join_with ''/'' ws \<and> list_all plain_segment ws \<and> map path_unescape ws = ks)"
  then obtain ws where ws: "m = ''POST''" "ws \<noteq> []" "p = ''/'' @ join_with ''/'' ws" "list_all plain_segment ws"
    "map path_unescape ws = ks" by blast
  then have "path_segments p = ks" "clean_path p = p"
    using segments_of_join [OF ws(2,4)] clean_path_plain(1) [OF ws(2,4)] by simp_all
  moreover from this ws(1) route obtain r where r: "match_route mux m p = Some r" "rt_handler r = t" by blast
  moreover have "exact_match (Some r) p" using lit match_route_Some(1) [OF r(1)] r(2) by (simp add: exact_match_def)
  ultimately show "find_handler mux m p = Serve t" by (auto simp: find_handler_Serve)
qed

lemma siwe_reached:
  "find_handler siwe_mux m p = Serve ToChallenge \<longleftrightarrow> m = ''POST'' \<and>
     (\<exists>ws. ws \<noteq> [] \<and> p = ''/'' @ join_with ''/'' ws \<and> list_all plain_segment ws \<and> map path_unescape ws = [''challenge''])"
  "find_handler siwe_mux m p = Serve ToToken \<longleftrightarrow> m = ''POST'' \<and>
     (\<exists>ws. ws \<noteq> [] \<and> p = ''/'' @ join_with ''/'' ws \<and> list_all plain_segment ws \<and> map path_unescape ws = [''token''])"
  by (rule find_handler_literal [OF challenge_route] find_handler_literal [OF token_route]; auto simp: siwe_mux_routes)+

lemma exchange_reached:
  "find_handler exchange_mux m p = Serve ToExchange \<longleftrightarrow> m = ''POST'' \<and>
     (\<exists>ws. ws \<noteq> [] \<and> p = ''/'' @ join_with ''/'' ws \<and> list_all plain_segment ws \<and>
        map path_unescape ws = [''tokens'', ''exchange''])"
  by (rule find_handler_literal [OF exchange_route]) (auto simp: exchange_mux_routes)

text \<open>Every clean path below a mount goes to the surface mounted there.\<close>

lemma mount_route:
  assumes "path_segments q = k # x # xs" and "(k, t) \<in> {(''siwe'', SiweMount), (''exchange'', ExchangeMount)}"
  shows "\<exists>r. match_route public_mux m q = Some r \<and> rt_handler r = t"
proof -
  have "match_route public_mux m q \<noteq> None"
    using assms match_route_found [of "public_mux ! 1" public_mux m q] match_route_found [of "public_mux ! 2" public_mux m q]
    by (auto simp: public_mux_routes)
  then obtain r where r: "match_route public_mux m q = Some r" by blast
  with assms match_route_Some [OF r] show ?thesis by (auto simp: public_mux_routes)
qed

lemma mounted:
  assumes "ws \<noteq> []" and "list_all plain_segment ws" and "(k, t) \<in> {(''siwe'', SiweMount), (''exchange'', ExchangeMount)}"
  shows "find_handler public_mux m (''/'' @ k @ ''/'' @ join_with ''/'' ws) = Serve t"
proof -
  let ?p = "''/'' @ k @ ''/'' @ join_with ''/'' ws"
  have k: "list_all plain_segment (k # ws)" "path_unescape k = k"
    using assms(2,3) by (auto simp: plain_segment_def path_unescape_def)
  have p: "?p = ''/'' @ join_with ''/'' (k # ws)" using assms(1) by (cases ws) simp_all
  have segs: "path_segments ?p = k # map path_unescape ws" "clean_path ?p = ?p"
    unfolding p using segments_of_join [OF _ k(1)] clean_path_plain(1) [OF _ k(1)] k(2) by simp_all
  obtain x xs where x: "map path_unescape ws = x # xs" using assms(1) by (cases ws) auto
  have "\<exists>r. match_route public_mux m ?p = Some r \<and> rt_handler r = t"
    using mount_route [OF _ assms(3)] segs(1) x by simp
  moreover have "\<not> exact_match (match_route public_mux m (?p @ ''/'')) (?p @ ''/'')"
  proof (cases "match_route public_mux m (?p @ ''/'')")
    case (Some r)
    have "path_segments (?p @ ''/'') \<noteq> [''/'']"
      using assms(3) by (subst path_segments.simps) (auto simp: first_segment_def path_unescape_def)
    with match_route_Some [OF Some] have "rt_segs r \<in> {[Literal ''siwe'', Multi], [Literal ''exchange'', Multi]}"
      by (auto simp: public_mux_routes)
    with Some show ?thesis by (auto simp: exact_match_def)
  qed (simp add: exact_match_def)
  ultimately show ?thesis by (simp only: find_handler_Serve segs(2)) blast
qed

lemma strip_prefix_Serve: "strip_prefix prefix f p = Serve t \<longleftrightarrow> (\<exists>q. p = prefix @ q \<and> f q = Serve t)"
  by (auto simp: strip_prefix_def cut_prefix_Some split: option.splits)

lemma map_mux_answer_Serve: "map_mux_answer f a = Serve t \<longleftrightarrow> (\<exists>s. a = Serve s \<and> t = f s)"
  by (cases a) auto

lemma dispatch_Siwe:
  "public_dispatch m path = Serve (Siwe t) \<longleftrightarrow>
     (\<exists>p. path = ''/siwe'' @ p \<and> find_handler public_mux m path = Serve SiweMount \<and> find_handler siwe_mux m p = Serve t)"
  by (auto simp: public_dispatch_def strip_prefix_Serve map_mux_answer_Serve split: mux_answer.splits mount.splits)

lemma dispatch_Exchange:
  "public_dispatch m path = Serve (Exchange t) \<longleftrightarrow>
     (\<exists>p. path = ''/exchange'' @ p \<and> find_handler public_mux m path = Serve ExchangeMount \<and>
        find_handler exchange_mux m p = Serve t)"
  by (auto simp: public_dispatch_def strip_prefix_Serve map_mux_answer_Serve split: mux_answer.splits mount.splits)

lemma one_segment:
  "(\<exists>ws. ws \<noteq> [] \<and> p = pre @ join_with ''/'' ws \<and> list_all plain_segment ws \<and> map path_unescape ws = [k]) \<longleftrightarrow>
   (\<exists>w. p = pre @ w \<and> plain_segment w \<and> path_unescape w = k)"
  by (auto simp: map_eq_Cons_conv) (rule exI [of _ "[w]" for w], simp)

lemma two_segments:
  "(\<exists>ws. ws \<noteq> [] \<and> p = pre @ join_with ''/'' ws \<and> list_all plain_segment ws \<and> map path_unescape ws = [k, l]) \<longleftrightarrow>
   (\<exists>v w. p = pre @ v @ ''/'' @ w \<and> plain_segment v \<and> plain_segment w \<and> path_unescape v = k \<and> path_unescape w = l)"
proof
  assume "\<exists>v w. p = pre @ v @ ''/'' @ w \<and> plain_segment v \<and> plain_segment w \<and> path_unescape v = k \<and> path_unescape w = l"
  then obtain v w where "p = pre @ v @ ''/'' @ w" "plain_segment v" "plain_segment w" "path_unescape v = k" "path_unescape w = l"
    by blast
  then show "\<exists>ws. ws \<noteq> [] \<and> p = pre @ join_with ''/'' ws \<and> list_all plain_segment ws \<and> map path_unescape ws = [k, l]"
    by (intro exI [of _ "[v, w]"]) simp
next
  assume "\<exists>ws. ws \<noteq> [] \<and> p = pre @ join_with ''/'' ws \<and> list_all plain_segment ws \<and> map path_unescape ws = [k, l]"
  then obtain v w where "p = pre @ join_with ''/'' [v, w]" "list_all plain_segment [v, w]" "map path_unescape [v, w] = [k, l]"
    by (auto simp: map_eq_Cons_conv)
  then show "\<exists>v w. p = pre @ v @ ''/'' @ w \<and> plain_segment v \<and> plain_segment w \<and> path_unescape v = k \<and> path_unescape w = l"
    by (intro exI [of _ v] exI [of _ w]) simp
qed

lemma plain_segment_iff:
  "k \<notin> {'''', ''.'', ''..''} \<Longrightarrow> plain_segment w \<and> path_unescape w = k \<longleftrightarrow> CHR ''/'' \<notin> set w \<and> path_unescape w = k"
  using path_unescape_plain [of w] by (auto simp: plain_segment_def)

section \<open>Properties\<close>

text \<open>
  C13: The handlers that change state or issue tokens are reached by one method and one path each:
  \<open>POST /siwe/challenge\<close>, \<open>POST /siwe/token\<close> and \<open>POST /exchange/tokens/exchange\<close>, whose segments below the
  mount may be percent-encoded but hold no slash.  Every other request, with another method, a path that
  is not clean or an encoded mount point, gets to none of them.
\<close>

theorem public_routes_exact:
  "(public_dispatch m path = Serve (Siwe ToChallenge) \<longleftrightarrow>
      m = ''POST'' \<and> (\<exists>w. path = ''/siwe/'' @ w \<and> CHR ''/'' \<notin> set w \<and> path_unescape w = ''challenge'')) \<and>
   (public_dispatch m path = Serve (Siwe ToToken) \<longleftrightarrow>
      m = ''POST'' \<and> (\<exists>w. path = ''/siwe/'' @ w \<and> CHR ''/'' \<notin> set w \<and> path_unescape w = ''token'')) \<and>
   (public_dispatch m path = Serve (Exchange ToExchange) \<longleftrightarrow>
      m = ''POST'' \<and> (\<exists>v w. path = ''/exchange/'' @ v @ ''/'' @ w \<and> CHR ''/'' \<notin> set v \<and> CHR ''/'' \<notin> set w \<and>
        path_unescape v = ''tokens'' \<and> path_unescape w = ''exchange''))"
proof -
  have siwe: "public_dispatch m path = Serve (Siwe t) \<longleftrightarrow>
      m = ''POST'' \<and> (\<exists>w. path = ''/siwe/'' @ w \<and> CHR ''/'' \<notin> set w \<and> path_unescape w = k)"
    if t: "\<And>p. find_handler siwe_mux m p = Serve t \<longleftrightarrow> m = ''POST'' \<and>
        (\<exists>w. p = ''/'' @ w \<and> plain_segment w \<and> path_unescape w = k)" and k: "k \<notin> {'''', ''.'', ''..''}" for t k
  proof -
    have "find_handler public_mux m (''/siwe/'' @ w) = Serve SiweMount" if "plain_segment w" for w
      using mounted [of "[w]" "''siwe''" SiweMount m] that by simp
    then show ?thesis
      unfolding dispatch_Siwe t using plain_segment_iff [OF k] by auto
  qed
  have "public_dispatch m path = Serve (Exchange ToExchange) \<longleftrightarrow>
      m = ''POST'' \<and> (\<exists>v w. path = ''/exchange/'' @ v @ ''/'' @ w \<and> CHR ''/'' \<notin> set v \<and> CHR ''/'' \<notin> set w \<and>
        path_unescape v = ''tokens'' \<and> path_unescape w = ''exchange'')"
  proof -
    have "find_handler public_mux m (''/exchange/'' @ v @ ''/'' @ w) = Serve ExchangeMount"
      if "plain_segment v" "plain_segment w" for v w
      using mounted [of "[v, w]" "''exchange''" ExchangeMount m] that by simp
    then have "public_dispatch m path = Serve (Exchange ToExchange) \<longleftrightarrow>
        m = ''POST'' \<and> (\<exists>v w. path = ''/exchange/'' @ v @ ''/'' @ w \<and>
          (plain_segment v \<and> path_unescape v = ''tokens'') \<and> (plain_segment w \<and> path_unescape w = ''exchange''))"
      unfolding dispatch_Exchange exchange_reached two_segments by auto
    moreover have "plain_segment w \<and> path_unescape w = k \<longleftrightarrow> CHR ''/'' \<notin> set w \<and> path_unescape w = k"
      if "k \<in> {''tokens'', ''exchange''}" for k w
      by (rule plain_segment_iff) (use that in auto)
    ultimately show ?thesis by (simp add: conj_ac)
  qed
  moreover note siwe [OF siwe_reached(1) [unfolded one_segment]] siwe [OF siwe_reached(2) [unfolded one_segment]]
  ultimately show ?thesis by simp
qed

text \<open>
  The interactive documents below a mount are served with the slash at the end only: without it, the
  redirect of the inner mux has lost the mount point and leads to a path that nothing serves.
\<close>

lemma swagger_redirect_lost:
  "public_dispatch ''GET'' ''/siwe/swagger'' = RedirectTo ''/swagger/''"
  "public_dispatch ''GET'' ''/exchange/swagger'' = RedirectTo ''/swagger/''"
  "public_dispatch ''GET'' ''/swagger/'' = NotFound"
  by code_simp+

text \<open>The profiler is reached only when it is enabled.\<close>

lemma pprof_gated:
  assumes "find_handler (ops_mux cfg) m p = Serve t" and "\<not> op_enable_pprof cfg"
  shows "t \<in> {Ping, Ready, Metrics}"
proof -
  from assms(1) obtain r where r: "match_route (ops_mux cfg) m p = Some r" "rt_handler r = t"
    by (auto simp: find_handler_Serve)
  then show ?thesis
    using match_route_Some(1) [OF r(1)] assms(2) by (auto simp: ops_mux_def handle_def Let_def)
qed

end
