(* ===== verification/WellKnown.thy ===== *)
theory WellKnown imports Keyset begin

text \<open>
  The documents that let others check tokens offline (internal/oidc/wellknown.go): the discovery
  document and the JWKS, rendered once when the process starts and served with cache headers.
\<close>

section \<open>The documents\<close>

record oidc_config =
  oc_issuer :: string
  oc_jwks_uri :: string
  oc_keys :: key_set
  oc_claims_supported :: "string list"

record well_known =
  wk_discovery :: string
  wk_jwks :: string

record discovery_doc =
  dd_issuer :: string
  dd_jwks_uri :: string
  dd_response_types_supported :: "string list"
  dd_subject_types_supported :: "string list"
  dd_id_token_signing_alg_values_supported :: "string list"
  dd_scopes_supported :: "string list"
  dd_claims_supported :: "string list"

definition discovery_json :: "discovery_doc \<Rightarrow> json" where
  "discovery_json d = JObj
     [(''issuer'', JStr (dd_issuer d)), (''jwks_uri'', JStr (dd_jwks_uri d)),
      (''response_types_supported'', json_strings (dd_response_types_supported d)),
      (''subject_types_supported'', json_strings (dd_subject_types_supported d)),
      (''id_token_signing_alg_values_supported'', json_strings (dd_id_token_signing_alg_values_supported d)),
      (''scopes_supported'', json_strings (dd_scopes_supported d)),
      (''claims_supported'', json_strings (dd_claims_supported d))]"

definition registered_claims_supported :: "string list" where
  "registered_claims_supported = [''iss'', ''sub'', ''aud'', ''exp'', ''nbf'', ''iat'', ''jti'']"

definition discovery_of :: "oidc_config \<Rightarrow> discovery_doc" where
  "discovery_of cfg =
     (let claims = (if length (oc_claims_supported cfg) = 0 then registered_claims_supported
                    else oc_claims_supported cfg)
      in \<lparr>dd_issuer = oc_issuer cfg, dd_jwks_uri = oc_jwks_uri cfg,
          dd_response_types_supported = [''none''], dd_subject_types_supported = [''public''],
          dd_id_token_signing_alg_values_supported = [''RS256''], dd_scopes_supported = [''openid''],
          dd_claims_supported = claims\<rparr>)"

text \<open>
  \<open>json.Marshal\<close> of a struct of strings and lists of strings does not fail, and neither does
  \<open>JWKS\<close>; the error branches of the code are never taken.
\<close>

definition new_well_known :: "oidc_config \<Rightarrow> go_error + well_known" where
  "new_well_known cfg =
     Inr \<lparr>wk_discovery = json_text (discovery_json (discovery_of cfg)), wk_jwks = keyset_jwks (oc_keys cfg)\<rparr>"

section \<open>Serving them\<close>

record document =
  dc_content_type :: string
  dc_cache_control :: string
  dc_body :: string

definition serve_discovery :: "well_known \<Rightarrow> document" where
  "serve_discovery wk = \<lparr>dc_content_type = ''application/json'', dc_cache_control = ''public, max-age=3600'',
     dc_body = wk_discovery wk\<rparr>"

definition serve_jwks :: "well_known \<Rightarrow> document" where
  "serve_jwks wk = \<lparr>dc_content_type = ''application/json'', dc_cache_control = ''public, max-age=300'',
     dc_body = wk_jwks wk\<rparr>"

lemma new_well_known_served:
  assumes "new_well_known cfg = Inr wk"
  shows "dc_body (serve_jwks wk) = keyset_jwks (oc_keys cfg)"
    and "dc_body (serve_discovery wk) = json_text (discovery_json (discovery_of cfg))"
  using assms by (auto simp: new_well_known_def serve_jwks_def serve_discovery_def)

end
