(* ===== verification/ChallengeStore.thy ===== *)
theory ChallengeStore imports SiweSystem begin

text \<open>
  The challenge store a process runs with: a value of the \<open>Store\<close> interface, which is the memory store
  or the Postgres store as \<open>newStore\<close> of cmd/dauth/main.go chose it.  A call is dispatched on it.
\<close>

datatype nonce_store = MemoryStore memory | PostgresStore pg_table

definition store_put ::
  "eth \<Rightarrow> (instant \<Rightarrow> instant) \<Rightarrow> pg_call \<Rightarrow> string \<Rightarrow> challenge \<Rightarrow> nonce_store \<Rightarrow> go_error option \<times> nonce_store" where
  "store_put eth ts call nc ch st =
     (case st of
        MemoryStore m \<Rightarrow> map_prod (\<lambda>r. r) MemoryStore (memory_put (pg_now call) nc ch m)
      | PostgresStore t \<Rightarrow> map_prod (\<lambda>r. r) PostgresStore (postgres_put eth ts call nc ch t))"

definition store_consume ::
  "eth \<Rightarrow> pg_call \<Rightarrow> string \<Rightarrow> nonce_store \<Rightarrow> (go_error + challenge) \<times> nonce_store" where
  "store_consume eth call nc st =
     (case st of
        MemoryStore m \<Rightarrow> map_prod (\<lambda>r. r) MemoryStore (memory_consume (pg_now call) nc m)
      | PostgresStore t \<Rightarrow> map_prod (\<lambda>r. r) PostgresStore (postgres_consume eth call nc t))"

text \<open>A step of the janitor of the store.\<close>

definition store_sweep :: "(instant \<Rightarrow> instant) \<Rightarrow> pg_call \<Rightarrow> nat \<Rightarrow> nonce_store \<Rightarrow> nonce_store" where
  "store_sweep ts call i st =
     (case st of
        MemoryStore m \<Rightarrow> MemoryStore (memory_sweep (pg_now call) i m)
      | PostgresStore t \<Rightarrow> PostgresStore (postgres_sweep ts call t))"

definition store_lookup :: "eth \<Rightarrow> nonce_store \<Rightarrow> string \<Rightarrow> challenge option" where
  "store_lookup eth st =
     (case st of MemoryStore m \<Rightarrow> memory_lookup m | PostgresStore t \<Rightarrow> postgres_lookup eth t)"

definition store_ops :: "eth \<Rightarrow> (instant \<Rightarrow> instant) \<Rightarrow> (pg_call, nonce_store) siwe_ops" where
  "store_ops eth ts = \<lparr>op_put = store_put eth ts, op_consume = store_consume eth, op_sweep = store_sweep ts\<rparr>"

text \<open>
  The kind of store is part of the invariant: started as a memory store for \<open>n\<close> challenges it stays
  one, and started on a database it stays on it.
\<close>

definition memory_kind :: "int \<Rightarrow> nonce_store \<Rightarrow> bool" where
  "memory_kind n st \<longleftrightarrow> (\<exists>m. st = MemoryStore m \<and> memory_inv m \<and> mem_max_entries m = n)"

definition postgres_kind :: "nonce_store \<Rightarrow> bool" where
  "postgres_kind st \<longleftrightarrow> (\<exists>t. st = PostgresStore t)"

lemma memory_put_cap: "memory_put now nc ch m = (r, m') \<Longrightarrow> mem_max_entries m' = mem_max_entries m"
  by (auto simp: memory_put_def Let_def split: if_splits)

lemma memory_consume_cap: "memory_consume now nc m = (r, m') \<Longrightarrow> mem_max_entries m' = mem_max_entries m"
  by (auto simp: memory_consume_def Let_def split: if_splits option.splits)

lemma memory_sweep_cap: "mem_max_entries (memory_sweep now i m) = mem_max_entries m"
  by (simp add: memory_sweep_def)

lemma dispatched: "map_prod (\<lambda>r. r) K p = (r, st) \<longleftrightarrow> (\<exists>s. p = (r, s) \<and> st = K s)"
  by (cases p) auto

lemmas store_defs = store_put_def store_consume_def store_sweep_def store_lookup_def


lemma memory_put_step:
  assumes "memory_kind n st" and "store_put eth ts e k ch st = (r, st')"
  obtains m m' where "st = MemoryStore m" "st' = MemoryStore m'" "memory_inv m" "memory_put (pg_now e) k ch m = (r, m')"
    "memory_kind n st'"
  using assms mem.put_inv memory_put_cap by (fastforce simp: memory_kind_def store_defs dispatched)

lemma memory_consume_step:
  assumes "memory_kind n st" and "store_consume eth e k st = (r, st')"
  obtains m m' where "st = MemoryStore m" "st' = MemoryStore m'" "memory_inv m" "memory_consume (pg_now e) k m = (r, m')"
    "memory_kind n st'"
  using assms mem.consume_inv memory_consume_cap by (fastforce simp: memory_kind_def store_defs dispatched)

interpretation mem_kind: challenge_store "store_put eth ts" "store_consume eth" "store_sweep ts" "store_lookup eth"
  "memory_kind n" pg_now "\<lambda>_. True" "\<lambda>ch. ch" for eth ts n
proof (unfold_locales, goal_cases)
  case 5
  from 5(1,2) show ?case
    by (rule memory_put_step) (use 5 in \<open>auto simp: store_lookup_def dest: mem.put_inv\<close>)
next
  case 6
  from 6(1,2) show ?case
    by (rule memory_put_step) (use 6 in \<open>auto simp: store_lookup_def dest: mem.put_stores\<close>)
next
  case 7
  from 7(1,2) show ?case
    by (rule memory_put_step) (use 7 in \<open>auto simp: store_lookup_def dest: mem.put_only\<close>)
next
  case 8
  from 8(1,2) show ?case
    by (rule memory_put_step) (use 8 in \<open>auto simp: store_lookup_def dest: mem.put_keeps\<close>)
next
  case 9
  from 9(1,2) show ?case
    by (rule memory_consume_step) (use 9 in \<open>auto simp: store_lookup_def dest: mem.consume_inv\<close>)
next
  case 10
  from 10(1,2) show ?case
    by (rule memory_consume_step) (use 10 in \<open>auto simp: store_lookup_def dest: mem.consume_returns\<close>)
next
  case 11
  from 11(1,2) show ?case
    by (rule memory_consume_step) (use 11 in \<open>auto simp: store_lookup_def dest: mem.consume_removes\<close>)
next
  case 12
  from 12(1,2) show ?case
    by (rule memory_consume_step) (use 12 in \<open>auto simp: store_lookup_def dest: mem.consume_only\<close>)
next
  case 13
  from 13(1,2) show ?case
    by (rule memory_consume_step) (use 13 in \<open>auto simp: store_lookup_def dest: mem.consume_keeps\<close>)
next
  case 14
  then show ?case
    by (auto simp: memory_kind_def store_lookup_def store_consume_def dispatched dest: mem.consume_live)
next
  case 15
  then show ?case by (auto simp: memory_kind_def store_sweep_def memory_sweep_cap intro: mem.sweep_inv)
next
  case 16
  then show ?case by (auto simp: memory_kind_def store_sweep_def store_lookup_def dest: mem.sweep_only)
next
  case 17
  then show ?case by (auto simp: memory_kind_def store_sweep_def store_lookup_def intro: mem.sweep_keeps)
qed simp_all

lemma postgres_put_step:
  assumes "postgres_kind st" and "store_put eth ts e k ch st = (r, st')"
  obtains t t' where "st = PostgresStore t" "st' = PostgresStore t'" "postgres_put eth ts e k ch t = (r, t')"
  using assms by (auto simp: postgres_kind_def store_defs dispatched)

lemma postgres_consume_step:
  assumes "postgres_kind st" and "store_consume eth e k st = (r, st')"
  obtains t t' where "st = PostgresStore t" "st' = PostgresStore t'" "postgres_consume eth e k t = (r, t')"
  using assms by (auto simp: postgres_kind_def store_defs dispatched)

sublocale postgres_backend \<subseteq> pg_kind: challenge_store "store_put eth ts" "store_consume eth" "store_sweep ts"
  "store_lookup eth" postgres_kind pg_now "\<lambda>call. pg_fate call = Committed" "stored_challenge ts"
proof (unfold_locales, goal_cases)
  case 6
  from 6(1,2) show ?case
    by (rule postgres_put_step) (use 6 in \<open>auto simp: store_lookup_def dest: pg.put_stores [OF TrueI]\<close>)
next
  case 7
  from 7(1,2) show ?case
    by (rule postgres_put_step) (use 7 in \<open>auto simp: store_lookup_def dest: pg.put_only [OF TrueI]\<close>)
next
  case 8
  from 8(1,2) show ?case
    by (rule postgres_put_step) (use 8 in \<open>auto simp: store_lookup_def dest: pg.put_keeps [OF TrueI]\<close>)
next
  case 10
  from 10(1,2) show ?case
    by (rule postgres_consume_step) (use 10 in \<open>auto simp: store_lookup_def dest: pg.consume_returns [OF TrueI]\<close>)
next
  case 11
  from 11(1,2) show ?case
    by (rule postgres_consume_step) (use 11 in \<open>auto simp: store_lookup_def dest: pg.consume_removes [OF TrueI]\<close>)
next
  case 12
  from 12(1,2) show ?case
    by (rule postgres_consume_step) (use 12 in \<open>auto simp: store_lookup_def dest: pg.consume_only [OF TrueI]\<close>)
next
  case 13
  from 13(1,2) show ?case
    by (rule postgres_consume_step) (use 13 in \<open>auto simp: store_lookup_def dest: pg.consume_keeps [OF TrueI]\<close>)
qed (auto simp: postgres_kind_def store_defs dispatched pg.norm_keeps pg.norm_expiry
    intro: pg.consume_live [OF TrueI] pg.sweep_keeps [OF TrueI] dest: pg.sweep_only [OF TrueI])

section \<open>The sign-in surface over it\<close>

interpretation mem_surface: siwe "store_put eth ts" "store_consume eth" "store_sweep ts" "store_lookup eth"
  "memory_kind n" pg_now "\<lambda>_. True" "\<lambda>ch. ch" eth sg "store_ops eth ts" for eth ts n sg
  by unfold_locales (simp_all add: store_ops_def)

sublocale postgres_backend \<subseteq> pg_surface: siwe "store_put eth ts" "store_consume eth" "store_sweep ts"
  "store_lookup eth" postgres_kind pg_now "\<lambda>call. pg_fate call = Committed" "stored_challenge ts"
  eth sg "store_ops eth ts" for sg
  by unfold_locales (simp_all add: store_ops_def)

context postgres_backend
begin

lemmas surface_token_sound_from = pg_surface.token_sound_from
lemmas surface_run_inv = pg_surface.run_inv
lemmas surface_token_count = pg_surface.token_count

end

text \<open>What a process relies on, whichever store it was started with.\<close>

lemma surface_token_sound:
  assumes "postgres_backend eth ts" and "memory_kind n st \<or> postgres_kind st"
    and "siwe_run eth sg (store_ops eth ts) st (tr @ [TokenServed h decoded e now uuid r]) st'" and "rs_status r = 200"
  shows "\<exists>nc sig ch tok. ((\<exists>ev \<in> set tr. asks_challenge eth nc ch ev) \<or> store_lookup eth st nc = Some ch) \<and>
    token_presented eth decoded nc sig \<and> pg_now e \<le> ch_expires_at ch \<and>
    verify eth (h_verifier h) (ch_address ch) (bytes_of (ch_message ch)) sig = Inr True \<and>
    keyset_sign sg (is_keys (h_issuer h))
      (issue_claims eth (h_issuer h) now uuid (ch_address ch) (ch_audience ch)) = Inr tok \<and>
    r = write_json 200 (token_response tok (int_seconds (issuer_ttl (h_issuer h))))"
  using assms(2)
proof
  assume "memory_kind n st"
  from mem_surface.token_sound_from [OF assms(3) this assms(4)] show ?thesis .
next
  assume "postgres_kind st"
  from postgres_backend.surface_token_sound_from [OF assms(1,3) this assms(4)] show ?thesis .
qed

lemma surface_kind:
  assumes "postgres_backend eth ts" and "siwe_run eth sg (store_ops eth ts) st tr st'"
  shows "memory_kind n st \<Longrightarrow> memory_kind n st'" and "postgres_kind st \<Longrightarrow> postgres_kind st'"
  using mem_surface.run_inv [OF assms(2)] postgres_backend.surface_run_inv [OF assms] by blast+

lemma new_memory_kind: "memory_kind n (MemoryStore (new_memory n))"
  by (simp add: memory_kind_def new_memory_inv) (simp add: new_memory_def)

end
