(* ===== verification/RequestBodies.thy ===== *)
theory RequestBodies imports JsonReading GoConv SiweServer ExchangeController begin

text \<open>
  The request bodies of the two surfaces, from the bytes that arrive: \<open>MaxBytes\<close> of internal/httpmw, the
  request structs of siwe/server/handlers.go, read by \<open>decodeJSON\<close> with \<open>DisallowUnknownFields\<close>, and those
  of the exchange controller, read without.
\<close>

section \<open>Bodies\<close>

text \<open>\<open>MaxBytes\<close>: of the body at most \<open>limit\<close> bytes can be read, and reading on fails if there are more.\<close>

type_synonym limited_body = "bytes \<times> bool"

definition max_bytes :: "nat \<Rightarrow> bytes \<Rightarrow> limited_body" where
  "max_bytes limit body = (take limit body, limit < length body)"

definition max_body_bytes :: nat where
  "max_body_bytes = 16 * 2 ^ 10"

definition max_request_bytes :: nat where
  "max_request_bytes = 2 ^ 20"

section \<open>Sign-in\<close>

text \<open>\<open>int64\<close>\<close>

definition decode_int64 :: "int64 decode" where
  "decode_int64 v old =
     (case v of
        VNull \<Rightarrow> (old, False)
      | VNum t \<Rightarrow> (case go_atoi t of Inl _ \<Rightarrow> (old, True) | Inr i \<Rightarrow> (i, False))
      | _ \<Rightarrow> (old, True))"

text \<open>The structs as they are being filled, with the backing arrays of their slices.\<close>

record challenge_wire =
  cw_address :: string
  cw_audience :: "string slice"

definition challenge_fields :: "challenge_wire fields" where
  "challenge_fields =
     [field ''address'' cw_address cw_address_update decode_string,
      field ''audience'' cw_audience cw_audience_update decode_strings]"

definition token_fields :: "token_request fields" where
  "token_fields =
     [field ''nonce'' tr_nonce tr_nonce_update decode_string,
      field ''signature'' tr_signature tr_signature_update decode_string]"

definition decode_json :: "'s fields \<Rightarrow> 's \<Rightarrow> limited_body \<Rightarrow> go_error + 's" where
  "decode_json fs zero body = json_decode (decode_struct True fs) zero body"

definition read_challenge :: "bytes \<Rightarrow> go_error + challenge_request" where
  "read_challenge body =
     (case decode_json challenge_fields \<lparr>cw_address = '''', cw_audience = ([], 0)\<rparr> (max_bytes max_body_bytes body) of
        Inl err \<Rightarrow> Inl err
      | Inr w \<Rightarrow> Inr \<lparr>cr_address = cw_address w, cr_audience = slice_elems (cw_audience w)\<rparr>)"

definition read_token :: "bytes \<Rightarrow> go_error + token_request" where
  "read_token body = decode_json token_fields \<lparr>tr_nonce = '''', tr_signature = ''''\<rparr> (max_bytes max_body_bytes body)"

section \<open>Exchange\<close>

record filter_wire =
  fw_event_type :: string
  fw_source :: string
  fw_ids :: "string slice"
  fw_tags :: "string slice"

record exchange_wire =
  xw_asset :: string
  xw_events :: "filter_wire slice"
  xw_permissions :: "string slice"
  xw_audience :: "string slice"
  xw_token_id :: int64
  xw_privileges :: "int64 slice"
  xw_nft_contract_address :: string

definition empty_filter :: filter_wire where
  "empty_filter = \<lparr>fw_event_type = '''', fw_source = '''', fw_ids = ([], 0), fw_tags = ([], 0)\<rparr>"

definition empty_exchange :: exchange_wire where
  "empty_exchange = \<lparr>xw_asset = '''', xw_events = ([], 0), xw_permissions = ([], 0), xw_audience = ([], 0),
     xw_token_id = 0, xw_privileges = ([], 0), xw_nft_contract_address = ''''\<rparr>"

definition filter_fields :: "filter_wire fields" where
  "filter_fields =
     [field ''eventType'' fw_event_type fw_event_type_update decode_string,
      field ''source'' fw_source fw_source_update decode_string,
      field ''ids'' fw_ids fw_ids_update decode_strings,
      field ''tags'' fw_tags fw_tags_update decode_strings]"

definition decode_events :: "filter_wire slice decode" where
  "decode_events = decode_slice (decode_struct False filter_fields) empty_filter"

definition cloud_events_fields :: "filter_wire slice fields" where
  "cloud_events_fields = [field ''events'' (\<lambda>s. s) (\<lambda>f. f) decode_events]"

definition exchange_fields :: "exchange_wire fields" where
  "exchange_fields =
     [field ''asset'' xw_asset xw_asset_update decode_string,
      field ''cloudEvents'' xw_events xw_events_update (decode_struct False cloud_events_fields),
      field ''permissions'' xw_permissions xw_permissions_update decode_strings,
      field ''audience'' xw_audience xw_audience_update decode_strings,
      field ''tokenId'' xw_token_id xw_token_id_update decode_int64,
      field ''privileges'' xw_privileges xw_privileges_update (decode_slice decode_int64 0),
      field ''nftContractAddress'' xw_nft_contract_address xw_nft_contract_address_update decode_string]"

definition filter_of :: "filter_wire \<Rightarrow> event_filter" where
  "filter_of w = \<lparr>ef_event_type = fw_event_type w, ef_source = fw_source w, ef_ids = slice_elems (fw_ids w),
     ef_tags = slice_elems (fw_tags w)\<rparr>"

definition exchange_of :: "exchange_wire \<Rightarrow> exchange_request" where
  "exchange_of w =
     \<lparr>xq_asset = xw_asset w, xq_cloud_events = map filter_of (slice_elems (xw_events w)),
      xq_permissions = slice_elems (xw_permissions w), xq_audience = slice_elems (xw_audience w),
      xq_token_id = xw_token_id w, xq_privileges = slice_elems (xw_privileges w),
      xq_nft_contract_address = xw_nft_contract_address w\<rparr>"

definition read_exchange :: "bytes \<Rightarrow> go_error + exchange_request" where
  "read_exchange body =
     (case json_decode (decode_struct False exchange_fields) empty_exchange (max_bytes max_request_bytes body) of
        Inl err \<Rightarrow> Inl err
      | Inr w \<Rightarrow> Inr (exchange_of w))"

section \<open>Requests as clients write them\<close>

definition challenge_json :: "challenge_request \<Rightarrow> json" where
  "challenge_json r =
     JObj ((''address'', JStr (cr_address r)) # (if cr_audience r = [] then [] else [(''audience'', json_strings (cr_audience r))]))"

definition token_json :: "token_request \<Rightarrow> json" where
  "token_json r = JObj [(''nonce'', JStr (tr_nonce r)), (''signature'', JStr (tr_signature r))]"

definition filter_json :: "event_filter \<Rightarrow> json" where
  "filter_json e =
     JObj [(''eventType'', JStr (ef_event_type e)), (''source'', JStr (ef_source e)), (''ids'', json_strings (ef_ids e)),
       (''tags'', json_strings (ef_tags e))]"

definition exchange_json :: "exchange_request \<Rightarrow> json" where
  "exchange_json r =
     JObj [(''asset'', JStr (xq_asset r)), (''cloudEvents'', JObj [(''events'', JArr (map filter_json (xq_cloud_events r)))]),
       (''permissions'', json_strings (xq_permissions r)), (''audience'', json_strings (xq_audience r)),
       (''tokenId'', JInt (sint (xq_token_id r))), (''privileges'', JArr (map (\<lambda>i. JInt (sint i)) (xq_privileges r))),
       (''nftContractAddress'', JStr (xq_nft_contract_address r))]"

definition ascii_filter :: "event_filter \<Rightarrow> bool" where
  "ascii_filter e \<longleftrightarrow> ascii (ef_event_type e) \<and> ascii (ef_source e) \<and> list_all ascii (ef_ids e) \<and> list_all ascii (ef_tags e)"

definition ascii_exchange :: "exchange_request \<Rightarrow> bool" where
  "ascii_exchange r \<longleftrightarrow> ascii (xq_asset r) \<and> list_all ascii_filter (xq_cloud_events r) \<and> list_all ascii (xq_permissions r) \<and>
     list_all ascii (xq_audience r) \<and> ascii (xq_nft_contract_address r)"

section \<open>Reading them back\<close>

lemma decode_challenge_scanned:
  assumes "ascii (cr_address r)" "list_all ascii (cr_audience r)"
  shows "decode_struct True challenge_fields (scanned (challenge_json r)) \<lparr>cw_address = '''', cw_audience = ([], 0)\<rparr> =
    (\<lparr>cw_address = cr_address r, cw_audience = (cr_audience r, length (cr_audience r))\<rparr>, False)"
  using decode_strings_scanned [OF assms(2)] assms(1)
  by (simp add: challenge_json_def challenge_fields_def decode_scanned split: prod.splits)

lemma decode_token_scanned:
  assumes "ascii (tr_nonce r)" "ascii (tr_signature r)"
  shows "decode_struct True token_fields (scanned (token_json r)) \<lparr>tr_nonce = '''', tr_signature = ''''\<rparr> = (r, False)"
  using assms
  by (simp add: token_json_def token_fields_def decode_scanned)

lemma sint_range: "- (2 ^ 63) \<le> sint (i :: int64)" "sint (i :: int64) < 2 ^ 63"
  using sint_range_size [of i] by (simp_all add: word_size)

lemma decode_int64_scanned: "decode_int64 (VNum (show_int (sint i))) old = (i, False)"
  using sint_range [of i] by (simp add: decode_int64_def go_atoi_def big_set_string_show_int del: power_numeral)

definition wire_filter :: "event_filter \<Rightarrow> filter_wire" where
  "wire_filter e = \<lparr>fw_event_type = ef_event_type e, fw_source = ef_source e, fw_ids = (ef_ids e, length (ef_ids e)),
     fw_tags = (ef_tags e, length (ef_tags e))\<rparr>"

lemma decode_filter_scanned:
  assumes "ascii_filter e"
  shows "decode_struct False filter_fields (scanned (filter_json e)) empty_filter = (wire_filter e, False)"
  using assms unfolding ascii_filter_def
  by (simp add: filter_json_def filter_fields_def empty_filter_def wire_filter_def decode_scanned decode_strings_scanned)

lemma decode_exchange_scanned:
  assumes "ascii_exchange r"
  shows "decode_struct False exchange_fields (scanned (exchange_json r)) empty_exchange =
    (\<lparr>xw_asset = xq_asset r, xw_events = (map wire_filter (xq_cloud_events r), length (xq_cloud_events r)),
      xw_permissions = (xq_permissions r, length (xq_permissions r)), xw_audience = (xq_audience r, length (xq_audience r)),
      xw_token_id = xq_token_id r, xw_privileges = (xq_privileges r, length (xq_privileges r)),
      xw_nft_contract_address = xq_nft_contract_address r\<rparr>, False)"
proof -
  have ev: "decode_events (scanned (JArr (map filter_json (xq_cloud_events r)))) ([], 0) =
      ((map wire_filter (xq_cloud_events r), length (xq_cloud_events r)), False)"
    using decode_slice_scanned [of "xq_cloud_events r" "decode_struct False filter_fields" "\<lambda>e. scanned (filter_json e)" empty_filter wire_filter]
      assms by (simp add: decode_events_def ascii_exchange_def list_all_iff decode_filter_scanned comp_def)
  have pr: "decode_slice decode_int64 0 (scanned (JArr (map (\<lambda>i. JInt (sint i)) (xq_privileges r)))) ([], 0) =
      ((xq_privileges r, length (xq_privileges r)), False)"
    using decode_slice_scanned [of "xq_privileges r" decode_int64 "\<lambda>i. scanned (JInt (sint i))" 0 "\<lambda>i. i"]
    by (simp add: decode_int64_scanned comp_def)
  from assms ev pr show ?thesis unfolding ascii_exchange_def
    by (simp add: exchange_json_def exchange_fields_def empty_exchange_def cloud_events_fields_def decode_scanned
        decode_strings_scanned decode_int64_scanned)
qed

lemma json_decode_object:
  assumes "j = JObj fs" "json_depth j \<le> max_nesting_depth"
  shows "json_decode d zero (max_bytes limit (json_body j @ rest)) =
    (if length (json_body j) \<le> limit then decode_into d zero (scanned j) else Inl (Err ''reading JSON value''))"
  using read_object [of fs limit rest] assms by (simp add: json_decode_def max_bytes_def json_body_def del: json_text.simps scanned.simps)

lemma json_depth_small:
  "json_depth (challenge_json c) \<le> max_nesting_depth" "json_depth (token_json t) \<le> max_nesting_depth"
  "json_depth (exchange_json r) \<le> max_nesting_depth"
proof -
  have f: "json_depth (filter_json e) = 2" for e by (simp add: filter_json_def)
  have "3 \<le> d \<Longrightarrow> json_depth (JArr (map filter_json es)) \<le> d" for d es by (cases d) (simp_all add: foldr_max_le f)
  moreover have "3 \<le> d \<Longrightarrow> json_depth (JArr (map (\<lambda>i. JInt (sint (i :: int64))) ks)) \<le> d" for d ks
    by (cases d) (simp_all add: foldr_max_le)
  ultimately show "json_depth (exchange_json r) \<le> max_nesting_depth"
    by (simp add: exchange_json_def max_nesting_depth_def del: json_depth.simps(1))
qed (simp_all add: challenge_json_def token_json_def max_nesting_depth_def)

lemma filter_of_wire [simp]: "filter_of (wire_filter e) = e"
  by (simp add: filter_of_def wire_filter_def)

lemma sign_in_bodies_read:
  shows "ascii (cr_address c) \<Longrightarrow> list_all ascii (cr_audience c) \<Longrightarrow>
      read_challenge (json_body (challenge_json c) @ rest) =
        (if length (json_body (challenge_json c)) \<le> max_body_bytes then Inr c else Inl (Err ''reading JSON value''))"
    and "ascii (tr_nonce t) \<Longrightarrow> ascii (tr_signature t) \<Longrightarrow>
      read_token (json_body (token_json t) @ rest) =
        (if length (json_body (token_json t)) \<le> max_body_bytes then Inr t else Inl (Err ''reading JSON value''))"
  by (simp_all add: read_challenge_def read_token_def decode_json_def decode_into_def decode_challenge_scanned decode_token_scanned
      json_decode_object [OF challenge_json_def] json_decode_object [OF token_json_def] json_depth_small)

lemma exchange_body_read:
  assumes "ascii_exchange r"
  shows "read_exchange (json_body (exchange_json r) @ rest) =
    (if length (json_body (exchange_json r)) \<le> max_request_bytes then Inr r else Inl (Err ''reading JSON value''))"
  by (simp add: read_exchange_def decode_into_def exchange_of_def comp_def decode_exchange_scanned [OF assms]
      json_decode_object [OF exchange_json_def] json_depth_small)

lemma decode_members_unknown:
  "(raw, v) \<in> set ms \<Longrightarrow> find_field fs (unquote raw) = None \<Longrightarrow> snd (decode_members True fs ms s)"
  by (induction ms arbitrary: s) (auto split: prod.splits option.splits, metis snd_conv)

lemma decode_members_filter:
  "decode_members False fs ms s = decode_members False fs (filter (\<lambda>(raw, v). find_field fs (unquote raw) \<noteq> None) ms) s"
  by (induction ms arbitrary: s) (auto split: prod.splits option.splits)

section \<open>Members no field takes\<close>

lemma length_join_with: "length (join_with sep xs) = sum_list (map length xs) + length sep * (length xs - 1)"
  by (induction sep xs rule: join_with.induct) (simp_all add: algebra_simps)

lemma sum_length_filter_le: "sum_list (map (\<lambda>x. length (g x)) (filter P xs)) \<le> sum_list (map (\<lambda>x. length (g x)) xs)"
  by (induction xs) auto

lemma length_json_filter: "length (json_body (JObj (filter P fs))) \<le> length (json_body (JObj fs))"
proof -
  have "length (filter P fs) - 1 \<le> length fs - 1" by (simp add: diff_le_mono)
  then show ?thesis
    using sum_length_filter_le [of "\<lambda>(k, j). json_quote k @ '':'' @ json_text j" P fs]
    by (simp add: json_body_def length_join_with comp_def add_mono del: diff_le_mono)
qed

lemma strict_refused:
  assumes "(k, j) \<in> set fs" "ascii k" "find_field flds k = None" "json_depth (JObj fs) \<le> max_nesting_depth"
  shows "\<exists>err. decode_json flds zero (max_bytes limit (json_body (JObj fs) @ rest)) = Inl err"
proof -
  have "snd (decode_members True flds (map (\<lambda>(n, v). (escaped n, scanned v)) fs) zero)"
    by (rule decode_members_unknown [of "escaped k" "scanned j"]) (use assms in \<open>force simp: unquote_escaped\<close>)+
  then show ?thesis
    by (auto simp: decode_json_def json_decode_object [OF refl assms(4)] decode_into_def decode_struct_def split: prod.splits)
qed

lemma lenient_ignores:
  assumes "\<forall>(n, v) \<in> set fs. ascii n" "json_depth (JObj fs) \<le> max_nesting_depth" "length (json_body (JObj fs)) \<le> max_request_bytes"
  shows "read_exchange (json_body (JObj fs) @ rest) =
    read_exchange (json_body (JObj (filter (\<lambda>(n, v). find_field exchange_fields n \<noteq> None) fs)))"
proof -
  let ?fs = "filter (\<lambda>(n, v). find_field exchange_fields n \<noteq> None) fs"
  have depth: "json_depth (JObj ?fs) \<le> max_nesting_depth"
    using assms(2) by (rule json_depth_filter)
  have "decode_struct False exchange_fields (scanned (JObj ?fs)) empty_exchange =
      decode_struct False exchange_fields (scanned (JObj fs)) empty_exchange"
    unfolding scanned_object [OF assms(1)]
    by (simp add: decode_struct_def decode_members_filter [of exchange_fields "map _ fs"])
  then show ?thesis
    using json_decode_object [OF refl depth, where rest = "[]" and limit = max_request_bytes and d = "decode_struct False exchange_fields" and zero = empty_exchange]
      length_json_filter [of _ fs] assms(3) le_trans [OF length_json_filter assms(3)]
    by (simp add: read_exchange_def json_decode_object [OF refl assms(2)] decode_into_def)
qed

end
