(* ===== verification/Process.thy ===== *)
theory Process imports Routes WellKnown ChallengeStore ExchangeSystem SignatureValidator RequestBodies begin

text \<open>
  The running process: the public handler that main composes from the two surfaces (cmd/dauth/main.go,
  internal/siwe/server/server.go, internal/exchange/app/app.go), the gRPC check and the janitor, over the
  challenge store and the template cache.  Each request meets the network as it is at that moment.
\<close>

section \<open>The services of the exchange, wired\<close>

text \<open>
  What does not change: the addresses of the configuration, and the functions of packages outside of the
  repository that the services call.
\<close>

record exchange_parts =
  xp_sacd :: address
  xp_template :: address
  xp_vehicle :: address
  xp_manufacturer :: address
  xp_abi :: "go_error option"
  xp_event_pkg :: event_pkg
  xp_is_rich :: "go_error \<Rightarrow> bool"

text \<open>
  What the outside answers while one request is served; \<open>nw\_chain\<close> is the node of the exchange and
  \<open>nw\_rpc\<close> that of the sign-in verifier, if it has one.
\<close>

record network =
  nw_chain :: chain
  nw_rpc :: chain
  nw_ipfs :: ipfs_net
  nw_identity :: identity_net
  nw_license :: license_net
  nw_clock :: "nat \<Rightarrow> instant"
  nw_now :: instant
  nw_uuid :: string

definition new_validator :: "chain \<Rightarrow> go_error option \<Rightarrow> validator" where
  "new_validator backend abi = \<lparr>vd_backend = backend, vd_abi = abi\<rparr>"

definition new_template_service :: "eth \<Rightarrow> exchange_parts \<Rightarrow> bound_contract \<Rightarrow> ipfs_net \<Rightarrow> chain \<Rightarrow> template_env" where
  "new_template_service eth x contract ipfs client =
     \<lparr>te_templates = templates contract, te_is_active = is_template_active contract,
      te_get_doc = get_valid_sacd_doc ipfs (xp_event_pkg x),
      te_validate = validate_signature eth (new_validator client (xp_abi x))\<rparr>"

definition new_access_service ::
  "eth \<Rightarrow> exchange_parts \<Rightarrow> ipfs_net \<Rightarrow> sacd_interface \<Rightarrow> chain \<Rightarrow> address \<Rightarrow> access_service" where
  "new_access_service eth x ipfs sacd client manufacturer =
     \<lparr>as_sacd = sacd, as_get_doc = get_valid_sacd_doc ipfs (xp_event_pkg x),
      as_validate = validate_signature eth (new_validator client (xp_abi x)),
      as_is_rich = xp_is_rich x, as_manufacturer = manufacturer\<rparr>"

text \<open>The bindings at the configured addresses, over the node as it answers now.\<close>

definition exchange_world :: "eth \<Rightarrow> exchange_parts \<Rightarrow> network \<Rightarrow> world" where
  "exchange_world eth x net =
     (let client = nw_chain net;
          sacd_contract = \<lparr>bc_address = xp_sacd x, bc_chain = client\<rparr>;
          prox = \<lparr>px_contract = sacd_contract, px_contract_address_vehicle = xp_vehicle x, px_http = nw_identity net\<rparr>;
          template_contract = \<lparr>bc_address = xp_template x, bc_chain = client\<rparr>
      in \<lparr>w_service = new_access_service eth x (nw_ipfs net) (proxy_interface eth prox) client (xp_manufacturer x),
          w_templates = new_template_service eth x template_contract (nw_ipfs net) client,
          w_dev_license = is_dev_license eth (nw_license net), w_clock = nw_clock net, w_now = nw_now net,
          w_uuid = nw_uuid net\<rparr>)"

section \<open>Requests and replies\<close>

record public_request =
  pq_method :: string
  pq_path :: string
  pq_authorization :: string
  pq_body :: bytes

text \<open>What one sign-in request meets besides: the randomness, the clocks, the database call, the uuid.\<close>

record request_env =
  rv_random :: "go_error + bytes"
  rv_now :: instant
  rv_call :: pg_call
  rv_uuid :: string
  rv_net :: network

datatype public_reply =
    SiweAnswer response
  | ExchangeAnswer http_response
  | DocumentAnswer document
  | SwaggerAnswer string
  | Moved string
  | NotAllowed "string list"
  | Missing

section \<open>The process\<close>

record 'k process =
  pc_handlers :: handlers
  pc_claims_signer :: claims_signer
  pc_timestamp :: "instant \<Rightarrow> instant"
  pc_siwe_well_known :: well_known
  pc_exchange :: "'k exchange_server"
  pc_exchange_parts :: exchange_parts
  pc_exchange_well_known :: well_known
  pc_http_addr :: string
  pc_ops :: "string \<times> ops_target route list"
  pc_grpc_port :: int64

record process_state =
  ps_store :: nonce_store
  ps_cache :: template_cache

definition health_check :: document where
  "health_check = \<lparr>dc_content_type = ''application/json'', dc_cache_control = '''',
     dc_body = json_text (JObj [(''data'', JStr ''Server is up and running'')])\<rparr>"

abbreviation pc_eth :: "'k process \<Rightarrow> eth" where
  "pc_eth pc \<equiv> xs_eth (pc_exchange pc)"

abbreviation pc_store_ops :: "'k process \<Rightarrow> (pg_call, nonce_store) siwe_ops" where
  "pc_store_ops pc \<equiv> store_ops (pc_eth pc) (pc_timestamp pc)"

definition exchange_body :: "public_request \<Rightarrow> (go_error + exchange_request) http_request" where
  "exchange_body q =
     \<lparr>hq_authorization = pq_authorization q, hq_body = read_exchange (pq_body q), hq_token = None, hq_response_subject = None\<rparr>"

text \<open>The sign-in handlers, over the node as it answers now.\<close>

definition handlers_at :: "'k process \<Rightarrow> network \<Rightarrow> handlers" where
  "handlers_at pc net =
     (let h = pc_handlers pc; v = h_verifier h
      in h\<lparr>h_verifier := v\<lparr>vf_backend := map_option (\<lambda>_. nw_rpc net) (vf_backend v)\<rparr>\<rparr>)"

definition serve_siwe ::
  "'k process \<Rightarrow> siwe_target \<Rightarrow> request_env \<Rightarrow> public_request \<Rightarrow> nonce_store \<Rightarrow> public_reply \<times> nonce_store" where
  "serve_siwe pc target e q s =
     (case target of
        ToChallenge \<Rightarrow>
          map_prod SiweAnswer (\<lambda>s'. s')
            (challenge_handler (pc_eth pc) (op_put (pc_store_ops pc)) (handlers_at pc (rv_net e)) (read_challenge (pq_body q))
               (rv_random e) (rv_now e) (rv_call e) s)
      | ToToken \<Rightarrow>
          map_prod SiweAnswer (\<lambda>s'. s')
            (token_handler (pc_eth pc) (pc_claims_signer pc) (op_consume (pc_store_ops pc)) (handlers_at pc (rv_net e))
               (read_token (pq_body q)) (rv_call e) (rv_now e) (rv_uuid e) s)
      | SiweDiscovery \<Rightarrow> (DocumentAnswer (serve_discovery (pc_siwe_well_known pc)), s)
      | SiweKeys \<Rightarrow> (DocumentAnswer (serve_jwks (pc_siwe_well_known pc)), s)
      | SiweSwagger \<Rightarrow> (SwaggerAnswer ''dauth'', s))"

text \<open>\<open>Recover\<close> stands around the whole handler; a panic of the exchange has been turned into its answer.\<close>

definition serve_exchange_surface ::
  "'k process \<Rightarrow> exchange_target \<Rightarrow> request_env \<Rightarrow> public_request \<Rightarrow> template_cache \<Rightarrow> public_reply \<times> template_cache" where
  "serve_exchange_surface pc target e q c =
     (case target of
        ExchangeSwagger \<Rightarrow> (SwaggerAnswer ''swagger'', c)
      | ExchangeKeys \<Rightarrow> (DocumentAnswer (serve_jwks (pc_exchange_well_known pc)), c)
      | ExchangeDiscovery \<Rightarrow> (DocumentAnswer (serve_discovery (pc_exchange_well_known pc)), c)
      | ToExchange \<Rightarrow>
          map_prod (\<lambda>r. ExchangeAnswer (case r of Some resp \<Rightarrow> resp | None \<Rightarrow> http_error ''internal server error'' 500))
            (\<lambda>c'. c')
            (serve_exchange (pc_exchange pc) (exchange_world (pc_eth pc) (pc_exchange_parts pc) (rv_net e))
               (exchange_body q) c))"

definition serve_public ::
  "'k process \<Rightarrow> request_env \<Rightarrow> public_request \<Rightarrow> process_state \<Rightarrow> public_reply \<times> process_state" where
  "serve_public pc e q st =
     (case public_dispatch (pq_method q) (pq_path q) of
        Serve HealthCheck \<Rightarrow> (DocumentAnswer health_check, st)
      | Serve (Siwe t) \<Rightarrow> map_prod (\<lambda>r. r) (\<lambda>s. st\<lparr>ps_store := s\<rparr>) (serve_siwe pc t e q (ps_store st))
      | Serve (Exchange t) \<Rightarrow> map_prod (\<lambda>r. r) (\<lambda>c. st\<lparr>ps_cache := c\<rparr>) (serve_exchange_surface pc t e q (ps_cache st))
      | RedirectTo to \<Rightarrow> (Moved to, st)
      | MethodNotAllowed ms \<Rightarrow> (NotAllowed ms, st)
      | NotFound \<Rightarrow> (Missing, st))"

section \<open>Steps and runs\<close>

datatype process_event =
    Served request_env public_request public_reply
  | Checked network access_check_request "go_error + access_check_response"
  | Ticked pg_call nat

inductive process_step :: "'k process \<Rightarrow> process_state \<Rightarrow> process_event \<Rightarrow> process_state \<Rightarrow> bool" for pc where
  served: "serve_public pc e q st = (r, st') \<Longrightarrow> process_step pc st (Served e q r) st'"
| checked: "serve_check (pc_exchange pc) (exchange_world (pc_eth pc) (pc_exchange_parts pc) net) q (ps_cache st) = (r, c') \<Longrightarrow>
    process_step pc st (Checked net q r) (st\<lparr>ps_cache := c'\<rparr>)"
| ticked: "process_step pc st (Ticked call i) (st\<lparr>ps_store := op_sweep (pc_store_ops pc) call i (ps_store st)\<rparr>)"

inductive process_run :: "'k process \<Rightarrow> process_state \<Rightarrow> process_event list \<Rightarrow> process_state \<Rightarrow> bool" for pc st0 where
  start: "process_run pc st0 [] st0"
| step: "process_run pc st0 tr st \<Longrightarrow> process_step pc st ev st' \<Longrightarrow> process_run pc st0 (tr @ [ev]) st'"

inductive_cases process_stepE: "process_step pc st ev st'"
inductive_simps process_step_served: "process_step pc st (Served e q r) st'"

section \<open>The two surfaces of a run\<close>

fun siwe_events :: "'k process \<Rightarrow> process_event \<Rightarrow> pg_call siwe_event list" where
  "siwe_events pc (Served e q r) =
     (case (public_dispatch (pq_method q) (pq_path q), r) of
        (Serve (Siwe ToChallenge), SiweAnswer resp) \<Rightarrow>
          [ChallengeServed (handlers_at pc (rv_net e)) (read_challenge (pq_body q)) (rv_random e) (rv_now e) (rv_call e) resp]
      | (Serve (Siwe ToToken), SiweAnswer resp) \<Rightarrow>
          [TokenServed (handlers_at pc (rv_net e)) (read_token (pq_body q)) (rv_call e) (rv_now e) (rv_uuid e) resp]
      | _ \<Rightarrow> [])"
| "siwe_events pc (Checked net q r) = []"
| "siwe_events pc (Ticked call i) = [JanitorTick call i]"

fun exchange_events :: "'k process \<Rightarrow> process_event \<Rightarrow> exchange_event list" where
  "exchange_events pc (Served e q r) =
     (case (public_dispatch (pq_method q) (pq_path q), r) of
        (Serve (Exchange ToExchange), ExchangeAnswer resp) \<Rightarrow>
          [ExchangeServed (exchange_world (pc_eth pc) (pc_exchange_parts pc) (rv_net e)) (exchange_body q) resp]
      | _ \<Rightarrow> [])"
| "exchange_events pc (Checked net q r) =
     [CheckServed (exchange_world (pc_eth pc) (pc_exchange_parts pc) net) q r]"
| "exchange_events pc (Ticked call i) = []"

definition siwe_trace :: "'k process \<Rightarrow> process_event list \<Rightarrow> pg_call siwe_event list" where
  "siwe_trace pc tr = concat (map (siwe_events pc) tr)"

definition exchange_trace :: "'k process \<Rightarrow> process_event list \<Rightarrow> exchange_event list" where
  "exchange_trace pc tr = concat (map (exchange_events pc) tr)"

lemma traces_snoc [simp]:
  "siwe_trace pc [] = []" "siwe_trace pc (tr @ [ev]) = siwe_trace pc tr @ siwe_events pc ev"
  "exchange_trace pc [] = []" "exchange_trace pc (tr @ [ev]) = exchange_trace pc tr @ exchange_events pc ev"
  by (simp_all add: siwe_trace_def exchange_trace_def)

lemma map_prod_id_iff: "map_prod f (\<lambda>x. x) p = (a, b) \<longleftrightarrow> (\<exists>r. p = (r, b) \<and> a = f r)"
  by (cases p) auto

lemma serve_exchange_Some: "\<exists>resp. fst (serve_exchange x w r c) = Some resp"
  by (simp add: serve_exchange_def exchange_chain_def recover_def split: prod.split option.split)

lemma siwe_run_one:
  "siwe_run eth sg ops s [ev] s' \<longleftrightarrow> siwe_step eth sg ops s ev s'"
  by (simp add: siwe_run_Cons siwe_run_Nil)

lemma served_siwe:
  assumes "serve_public pc e q st = (r, st')"
  shows "siwe_run (pc_eth pc) (pc_claims_signer pc) (pc_store_ops pc) (ps_store st)
    (siwe_events pc (Served e q r)) (ps_store st')"
  using assms
  by (auto simp: serve_public_def serve_siwe_def dispatched map_prod_id_iff siwe_run_one siwe_run_Nil siwe_step_simps
      split: mux_answer.splits public_target.splits siwe_target.splits)

lemma served_exchange:
  assumes "serve_public pc e q st = (r, st')" and "exchange_run (pc_exchange pc) tr (ps_cache st)"
  shows "exchange_run (pc_exchange pc) (tr @ exchange_events pc (Served e q r)) (ps_cache st')"
proof (cases "public_dispatch (pq_method q) (pq_path q) = Serve (Exchange ToExchange)")
  case True
  let ?w = "exchange_world (pc_eth pc) (pc_exchange_parts pc) (rv_net e)"
  obtain resp c where run: "serve_exchange (pc_exchange pc) ?w (exchange_body q) (ps_cache st) = (Some resp, c)"
    using serve_exchange_Some [of "pc_exchange pc" ?w "exchange_body q" "ps_cache st"] by (metis prod.collapse)
  with assms(1) True have "r = ExchangeAnswer resp" "ps_cache st' = c"
    by (auto simp: serve_public_def serve_exchange_surface_def dispatched map_prod_id_iff)
  with run True show ?thesis by (auto intro!: exchange_run.step [OF assms(2)] exchange_step.exchange)
next
  case False
  with assms show ?thesis
    by (auto simp: serve_public_def serve_exchange_surface_def dispatched
        split: mux_answer.splits public_target.splits exchange_target.splits)
qed

lemma step_siwe:
  assumes "process_step pc st ev st'"
  shows "siwe_run (pc_eth pc) (pc_claims_signer pc) (pc_store_ops pc) (ps_store st)
      (siwe_events pc ev) (ps_store st')"
  using assms
proof cases
  case (served e q r)
  then show ?thesis by (simp only: served_siwe)
qed (auto simp: siwe_run_one siwe_run_Nil siwe_step_simps)

lemma step_exchange:
  assumes "process_step pc st ev st'" and "exchange_run (pc_exchange pc) tr (ps_cache st)"
  shows "exchange_run (pc_exchange pc) (tr @ exchange_events pc ev) (ps_cache st')"
  using assms(1)
proof cases
  case (served e q r)
  then show ?thesis using assms(2) by (simp only: served_exchange)
next
  case (checked net q r c')
  then show ?thesis using assms(2) by (auto intro!: exchange_run.step exchange_step.check)
qed (use assms(2) in simp)

lemma process_run_surfaces:
  assumes "process_run pc st0 tr st" and "ps_cache st0 = Map.empty"
  shows "siwe_run (pc_eth pc) (pc_claims_signer pc) (pc_store_ops pc) (ps_store st0)
      (siwe_trace pc tr) (ps_store st)"
    and "exchange_run (pc_exchange pc) (exchange_trace pc tr) (ps_cache st)"
proof -
  have "siwe_run (pc_eth pc) (pc_claims_signer pc) (pc_store_ops pc) (ps_store st0)
      (siwe_trace pc tr) (ps_store st) \<and>
    exchange_run (pc_exchange pc) (exchange_trace pc tr) (ps_cache st)"
    using assms
  proof (induction rule: process_run.induct)
    case start
    then show ?case by (simp add: siwe_run_Nil exchange_run.start)
  next
    case (step tr st ev st')
    then show ?case using step_siwe [OF step.hyps(2)] step_exchange [OF step.hyps(2)] by (auto simp: siwe_run_append)
  qed
  then show "siwe_run (pc_eth pc) (pc_claims_signer pc) (pc_store_ops pc) (ps_store st0)
      (siwe_trace pc tr) (ps_store st)" and "exchange_run (pc_exchange pc) (exchange_trace pc tr) (ps_cache st)" by simp_all
qed

lemma process_run_event:
  "process_run pc st0 tr st \<Longrightarrow> ev \<in> set tr \<Longrightarrow> \<exists>s s'. process_step pc s ev s'"
  by (induction rule: process_run.induct) auto

text \<open>A permission token comes from the exchange handler, run over the cache of that moment.\<close>

lemma served_permission_token:
  assumes "process_step pc st (Served e q (ExchangeAnswer (token_reply tk))) st'"
  shows "public_dispatch (pq_method q) (pq_path q) = Serve (Exchange ToExchange)"
    and "exchange_step (pc_exchange pc) (ps_cache st) (ExchangeServed (exchange_world (pc_eth pc) (pc_exchange_parts pc) (rv_net e))
      (exchange_body q) (token_reply tk)) (ps_cache st')"
proof -
  let ?w = "exchange_world (pc_eth pc) (pc_exchange_parts pc) (rv_net e)"
  obtain resp c where run: "serve_exchange (pc_exchange pc) ?w (exchange_body q) (ps_cache st) = (Some resp, c)"
    using serve_exchange_Some [of "pc_exchange pc" ?w "exchange_body q" "ps_cache st"] by (metis prod.collapse)
  from assms have "serve_public pc e q st = (ExchangeAnswer (token_reply tk), st')" by (simp add: process_step_served)
  with run show "public_dispatch (pq_method q) (pq_path q) = Serve (Exchange ToExchange)"
    "exchange_step (pc_exchange pc) (ps_cache st) (ExchangeServed ?w (exchange_body q) (token_reply tk)) (ps_cache st')"
    by (auto simp: serve_public_def serve_siwe_def serve_exchange_surface_def dispatched map_prod_id_iff exchange_step_simps
        split: mux_answer.splits public_target.splits siwe_target.splits exchange_target.splits)
qed

text \<open>
  C6: A run of the process is a run of the sign-in surface over its store and, at the same time, a run of
  the exchange over its cache: what the public handler serves, a janitor tick and a gRPC check are the
  steps of the surface they belong to, and neither surface touches the other's state.
\<close>

theorem process_refines_surfaces:
  assumes "process_run pc st0 tr st" and "ps_cache st0 = Map.empty"
  shows "siwe_run (pc_eth pc) (pc_claims_signer pc) (pc_store_ops pc) (ps_store st0)
      (siwe_trace pc tr) (ps_store st) \<and>
    exchange_run (pc_exchange pc) (exchange_trace pc tr) (ps_cache st)"
  using process_run_surfaces [OF assms] by blast

end
