(* ===== verification/SiweConfig.thy ===== *)
theory SiweConfig imports Envx begin

text \<open>
  The configuration of the sign-in surface and of the process (internal/siwe/config/config.go).  Of
  \<open>net/url\<close> the code reads whether a text parses, the scheme and the host: that is the parameter
  \<open>url\_parse\<close>.
\<close>

record url_parts =
  url_scheme :: string
  url_host :: string

record siwe_config =
  sc_environment :: string
  sc_log_level :: string
  sc_http_addr :: string
  sc_ops_addr :: string
  sc_public_base_url :: string
  sc_issuer :: string
  sc_domain :: string
  sc_audience :: "string list"
  sc_statement :: string
  sc_allowed_audiences :: "string list"
  sc_chain_id :: uint64
  sc_challenge_ttl :: duration
  sc_token_ttl :: duration
  sc_rpc_url :: string
  sc_rpc_timeout :: duration
  sc_signing_keys :: "string list"
  sc_database_url :: string

definition use_postgres :: "siwe_config \<Rightarrow> bool" where
  "use_postgres s \<longleftrightarrow> sc_database_url s \<noteq> ''''"

text \<open>\<open>strings.TrimRight(s, "/")\<close>\<close>

definition trim_slashes :: "string \<Rightarrow> string" where
  "trim_slashes s = trim_right (\<lambda>c. c = CHR ''/'') s"

text \<open>The two checks for an absolute URL: parsed, with a scheme and a host.\<close>

definition absolute_url :: "(string \<Rightarrow> go_error + url_parts) \<Rightarrow> string \<Rightarrow> url_parts option" where
  "absolute_url url_parse s =
     (case url_parse s of
        Inl err \<Rightarrow> None
      | Inr u \<Rightarrow> if url_scheme u = '''' \<or> url_host u = '''' then None else Some u)"

text \<open>The fields that are set before anything can fail.\<close>

definition siwe_config_start :: "environ \<Rightarrow> siwe_config" where
  "siwe_config_start env =
     \<lparr>sc_environment = env_string env ''ENVIRONMENT'' ''dev'', sc_log_level = env_string env ''LOG_LEVEL'' ''info'',
      sc_http_addr = env_string env ''HTTP_ADDRESS'' ''0.0.0.0:8080'',
      sc_ops_addr = env_string env ''OPS_ADDRESS'' ''0.0.0.0:8081'',
      sc_public_base_url = getenv env ''PUBLIC_BASE_URL'', sc_issuer = getenv env ''SIWE_ISSUER'',
      sc_domain = getenv env ''SIWE_DOMAIN'', sc_audience = env_list (getenv env ''JWT_AUDIENCE''),
      sc_statement = env_string env ''SIWE_STATEMENT'' ''Sign in to DIMO.'',
      sc_allowed_audiences = env_list (getenv env ''SIWE_ALLOWED_AUDIENCES''), sc_chain_id = 0,
      sc_challenge_ttl = 0, sc_token_ttl = 0, sc_rpc_url = getenv env ''RPC_URL'', sc_rpc_timeout = 0,
      sc_signing_keys = [], sc_database_url = ''''\<rparr>"

definition siwe_load :: "(string \<Rightarrow> go_error + url_parts) \<Rightarrow> environ \<Rightarrow> go_error + siwe_config" where
  "siwe_load url_parse env =
     (let s = siwe_config_start env in
      if sc_issuer s = '''' then Inl (Err ''SIWE_ISSUER is required (e.g. https://dauth.dimo.zone/siwe)'')
      else case absolute_url url_parse (sc_issuer s) of
        None \<Rightarrow> Inl (Err ''SIWE_ISSUER must be an absolute URL'')
      | Some _ \<Rightarrow>
     (let s = s\<lparr>sc_issuer := trim_slashes (sc_issuer s)\<rparr> in
      if sc_public_base_url s = '''' then Inl (Err ''PUBLIC_BASE_URL is required (e.g. https://dauth.dimo.zone)'')
      else case absolute_url url_parse (sc_public_base_url s) of
        None \<Rightarrow> Inl (Err ''PUBLIC_BASE_URL must be an absolute URL'')
      | Some public_url \<Rightarrow>
     (let s = s\<lparr>sc_public_base_url := trim_slashes (sc_public_base_url s)\<rparr>;
          s = (if sc_domain s = '''' then s\<lparr>sc_domain := url_host public_url\<rparr> else s) in
      if length (sc_audience s) = 0 then Inl (Err ''JWT_AUDIENCE is required (comma-separated audience list)'')
      else case env_uint env ''CHAIN_ID'' 137 of
        Inl err \<Rightarrow> Inl err
      | Inr chain_id \<Rightarrow>
     (case env_duration env ''CHALLENGE_TTL'' (300 * second) of
        Inl err \<Rightarrow> Inl err
      | Inr challenge_ttl \<Rightarrow>
     (case env_duration env ''TOKEN_TTL'' (3600 * second) of
        Inl err \<Rightarrow> Inl err
      | Inr token_ttl \<Rightarrow>
     (case env_duration env ''RPC_TIMEOUT'' (3 * second) of
        Inl err \<Rightarrow> Inl err
      | Inr rpc_timeout \<Rightarrow>
     (let s = s\<lparr>sc_chain_id := chain_id, sc_challenge_ttl := challenge_ttl, sc_token_ttl := token_ttl,
                sc_rpc_timeout := rpc_timeout, sc_signing_keys := numbered env ''SIWE_SIGNING_KEY_''\<rparr> in
      if length (sc_signing_keys s) = 0
      then Inl (Err ''at least one signing key is required (SIWE_SIGNING_KEY_1, SIWE_SIGNING_KEY_2, ...)'')
      else (let s = s\<lparr>sc_database_url := getenv env ''DATABASE_URL''\<rparr> in
            if use_postgres s
            then (case url_parse (sc_database_url s) of
                    Inl err \<Rightarrow> Inl (Err ''DATABASE_URL must be a postgres:// connection URL'')
                  | Inr u \<Rightarrow> if url_scheme u \<noteq> ''postgres'' \<and> url_scheme u \<noteq> ''postgresql''
                              then Inl (Err ''DATABASE_URL must be a postgres:// connection URL'') else Inr s)
            else Inr s))))))))"

section \<open>Properties\<close>

lemma trim_slashes_last: "trim_slashes s \<noteq> p @ ''/''"
  using trim_right_last [of "\<lambda>c. c = CHR ''/''" s] by (auto simp: trim_slashes_def)

lemma trim_slashes_rest: "\<exists>k. s = trim_slashes s @ replicate k (CHR ''/'')"
proof -
  let ?w = "takeWhile (\<lambda>c. c = CHR ''/'') (rev s)"
  have "rev ?w = replicate (length ?w) (CHR ''/'')"
    by (rule replicate_eqI) (auto dest: set_takeWhileD)
  moreover have "s = trim_slashes s @ rev ?w"
    unfolding trim_slashes_def trim_right_def by (metis rev_append rev_rev_ident takeWhile_dropWhile_id)
  ultimately show ?thesis by metis
qed

text \<open>An environment that the checks accept.\<close>

definition siwe_env_ok :: "(string \<Rightarrow> go_error + url_parts) \<Rightarrow> environ \<Rightarrow> bool" where
  "siwe_env_ok url_parse env \<longleftrightarrow>
     getenv env ''SIWE_ISSUER'' \<noteq> '''' \<and> absolute_url url_parse (getenv env ''SIWE_ISSUER'') \<noteq> None \<and>
     getenv env ''PUBLIC_BASE_URL'' \<noteq> '''' \<and> absolute_url url_parse (getenv env ''PUBLIC_BASE_URL'') \<noteq> None \<and>
     env_list (getenv env ''JWT_AUDIENCE'') \<noteq> [] \<and> succeeds (env_uint env ''CHAIN_ID'' 137) \<and>
     succeeds (env_duration env ''CHALLENGE_TTL'' (300 * second)) \<and> succeeds (env_duration env ''TOKEN_TTL'' (3600 * second)) \<and>
     succeeds (env_duration env ''RPC_TIMEOUT'' (3 * second)) \<and> getenv env ''SIWE_SIGNING_KEY_1'' \<noteq> '''' \<and>
     (getenv env ''DATABASE_URL'' = '''' \<or>
       (case url_parse (getenv env ''DATABASE_URL'') of
          Inl e \<Rightarrow> False | Inr u \<Rightarrow> url_scheme u = ''postgres'' \<or> url_scheme u = ''postgresql''))"

lemma siwe_load_cases:
  "case siwe_load url_parse env of
     Inl err \<Rightarrow> \<not> siwe_env_ok url_parse env
   | Inr s \<Rightarrow> siwe_env_ok url_parse env \<and>
       s = (siwe_config_start env)\<lparr>
         sc_issuer := trim_slashes (getenv env ''SIWE_ISSUER''),
         sc_public_base_url := trim_slashes (getenv env ''PUBLIC_BASE_URL''),
         sc_domain := (if getenv env ''SIWE_DOMAIN'' = ''''
           then url_host (the (absolute_url url_parse (getenv env ''PUBLIC_BASE_URL''))) else getenv env ''SIWE_DOMAIN''),
         sc_chain_id := projr (env_uint env ''CHAIN_ID'' 137),
         sc_challenge_ttl := projr (env_duration env ''CHALLENGE_TTL'' (300 * second)),
         sc_token_ttl := projr (env_duration env ''TOKEN_TTL'' (3600 * second)),
         sc_rpc_timeout := projr (env_duration env ''RPC_TIMEOUT'' (3 * second)),
         sc_signing_keys := numbered env ''SIWE_SIGNING_KEY_'', sc_database_url := getenv env ''DATABASE_URL''\<rparr>"
proof -
  note d = siwe_load_def siwe_env_ok_def siwe_config_start_def use_postgres_def numbered_Nil Let_def
  consider (issuer) "getenv env ''SIWE_ISSUER'' = '''' \<or> absolute_url url_parse (getenv env ''SIWE_ISSUER'') = None"
    | (absolute) u where "getenv env ''SIWE_ISSUER'' \<noteq> ''''" "absolute_url url_parse (getenv env ''SIWE_ISSUER'') = Some u"
    by blast
  then show ?thesis
  proof cases
    case issuer
    then show ?thesis by (auto simp: d)
  next
    case issuer: absolute
    consider (public) "getenv env ''PUBLIC_BASE_URL'' = '''' \<or> absolute_url url_parse (getenv env ''PUBLIC_BASE_URL'') = None"
      | (absolute) u where "getenv env ''PUBLIC_BASE_URL'' \<noteq> ''''" "absolute_url url_parse (getenv env ''PUBLIC_BASE_URL'') = Some u"
      by blast
    then show ?thesis
    proof cases
      case public
      with issuer show ?thesis by (auto simp: d)
    next
      case public: absolute
      consider (failed) "\<not> (succeeds (env_uint env ''CHAIN_ID'' 137) \<and> succeeds (env_duration env ''CHALLENGE_TTL'' (300 * second)) \<and>
          succeeds (env_duration env ''TOKEN_TTL'' (3600 * second)) \<and> succeeds (env_duration env ''RPC_TIMEOUT'' (3 * second)))"
        | (parsed) c t1 t2 t3 where "env_uint env ''CHAIN_ID'' 137 = Inr c" "env_duration env ''CHALLENGE_TTL'' (300 * second) = Inr t1"
          "env_duration env ''TOKEN_TTL'' (3600 * second) = Inr t2" "env_duration env ''RPC_TIMEOUT'' (3 * second) = Inr t3"
        unfolding succeeds_iff by blast
      then show ?thesis
      proof cases
        case failed
        then have "\<not> siwe_env_ok url_parse env" by (auto simp: siwe_env_ok_def)
        moreover have "\<exists>e. siwe_load url_parse env = Inl e"
          using failed issuer public
          by (cases "env_uint env ''CHAIN_ID'' 137"; cases "env_duration env ''CHALLENGE_TTL'' (300 * second)";
              cases "env_duration env ''TOKEN_TTL'' (3600 * second)"; cases "env_duration env ''RPC_TIMEOUT'' (3 * second)")
             (simp_all add: siwe_load_def siwe_config_start_def Let_def)
        ultimately show ?thesis by auto
      next
        case parsed
        with issuer public show ?thesis by (simp add: d split: sum.split)
      qed
    qed
  qed
qed

text \<open>
  C32: When the sign-in configuration loads, and what it then guarantees.  It loads exactly when issuer and
  public URL are absolute URLs, there is an audience, the four numbers are unset or well formed, the
  first signing key is set, and the database URL is unset or a Postgres URL.  The issuer and the public
  URL are then those of the environment without slashes at the end, the domain is not empty, every
  audience is trimmed and nonempty, and the signing keys are those numbered from 1.
\<close>

theorem siwe_load_exact:
  "succeeds (siwe_load url_parse env) = siwe_env_ok url_parse env \<and>
   (case siwe_load url_parse env of
      Inl err \<Rightarrow> True
    | Inr s \<Rightarrow>
        (\<exists>k. getenv env ''SIWE_ISSUER'' = sc_issuer s @ replicate k (CHR ''/'')) \<and> (\<nexists>p. sc_issuer s = p @ ''/'') \<and>
        (\<exists>k. getenv env ''PUBLIC_BASE_URL'' = sc_public_base_url s @ replicate k (CHR ''/'')) \<and>
        (\<nexists>p. sc_public_base_url s = p @ ''/'') \<and> sc_domain s \<noteq> '''' \<and> sc_audience s \<noteq> [] \<and>
        list_all (\<lambda>w. w \<noteq> '''' \<and> trimmed w \<and> \<not> is_space (hd w) \<and> \<not> is_space (last w)) (sc_audience s @ sc_allowed_audiences s) \<and>
        env_uint env ''CHAIN_ID'' 137 = Inr (sc_chain_id s) \<and>
        env_duration env ''CHALLENGE_TTL'' (300 * second) = Inr (sc_challenge_ttl s) \<and>
        env_duration env ''TOKEN_TTL'' (3600 * second) = Inr (sc_token_ttl s) \<and>
        sc_signing_keys s = numbered env ''SIWE_SIGNING_KEY_'' \<and> sc_signing_keys s \<noteq> [] \<and>
        use_postgres s = (getenv env ''DATABASE_URL'' \<noteq> ''''))"
proof (cases "siwe_load url_parse env")
  case (Inl err)
  with siwe_load_cases [of url_parse env] show ?thesis by simp
next
  case (Inr s)
  with siwe_load_cases [of url_parse env] have ok: "siwe_env_ok url_parse env"
    and fields: "sc_issuer s = trim_slashes (getenv env ''SIWE_ISSUER'')"
      "sc_public_base_url s = trim_slashes (getenv env ''PUBLIC_BASE_URL'')"
      "sc_domain s = (if getenv env ''SIWE_DOMAIN'' = ''''
           then url_host (the (absolute_url url_parse (getenv env ''PUBLIC_BASE_URL''))) else getenv env ''SIWE_DOMAIN'')"
      "sc_audience s = env_list (getenv env ''JWT_AUDIENCE'')"
      "sc_allowed_audiences s = env_list (getenv env ''SIWE_ALLOWED_AUDIENCES'')"
      "sc_chain_id s = projr (env_uint env ''CHAIN_ID'' 137)"
      "sc_challenge_ttl s = projr (env_duration env ''CHALLENGE_TTL'' (300 * second))"
      "sc_token_ttl s = projr (env_duration env ''TOKEN_TTL'' (3600 * second))"
      "sc_signing_keys s = numbered env ''SIWE_SIGNING_KEY_''" "sc_database_url s = getenv env ''DATABASE_URL''"
    by (simp_all add: siwe_config_start_def)
  have "sc_domain s \<noteq> ''''"
    using ok by (auto simp: fields(3) siwe_env_ok_def absolute_url_def split: sum.splits if_splits)
  moreover have "list_all (\<lambda>w. w \<noteq> '''' \<and> trimmed w \<and> \<not> is_space (hd w) \<and> \<not> is_space (last w)) (env_list v)" for v
    using env_list_items by (fastforce simp: list_all_iff)
  ultimately show ?thesis
    using Inr ok trim_slashes_rest trim_slashes_last
    by (auto simp: fields siwe_env_ok_def numbered_Nil use_postgres_def succeeds_def split: sum.splits)
qed

end
