(* ===== verification/Startup.thy ===== *)
theory Startup imports Process SiweConfig ExchangeConfig begin

text \<open>
  Starting the process: \<open>run\<close>, \<open>buildSIWE\<close> and \<open>newStore\<close> of cmd/dauth/main.go, \<open>CreateServers\<close> of
  internal/exchange/app/app.go and \<open>NewPostgres\<close> of internal/siwe/nonce/postgres.go, from the environment
  to the process that listens, or to the first error.
\<close>

section \<open>Fallible steps\<close>

text \<open>\<open>x, err := f(); if err != nil { return err }\<close>, and the same with \<open>fmt.Errorf("msg: %w", err)\<close>.\<close>

definition and_then :: "go_error + 'a \<Rightarrow> ('a \<Rightarrow> go_error + 'b) \<Rightarrow> go_error + 'b" where
  "and_then x f = (case x of Inl err \<Rightarrow> Inl err | Inr a \<Rightarrow> f a)"

definition annotate :: "string \<Rightarrow> go_error + 'a \<Rightarrow> go_error + 'a" where
  "annotate msg x = (case x of Inl err \<Rightarrow> Inl (Wrap msg err) | Inr a \<Rightarrow> Inr a)"

lemma and_then_simps [simp]: "and_then (Inl err) f = Inl err" "and_then (Inr a) f = f a"
  by (simp_all add: and_then_def)

lemma annotate_simps [simp]: "annotate msg (Inl err) = Inl (Wrap msg err)" "annotate msg (Inr a) = Inr a"
  by (simp_all add: annotate_def)

lemma and_then_Inr: "and_then x f = Inr b \<longleftrightarrow> (\<exists>a. x = Inr a \<and> f a = Inr b)"
  by (cases x) auto

lemma annotate_Inr: "annotate msg x = Inr b \<longleftrightarrow> x = Inr b"
  by (cases x) auto

section \<open>What the start calls\<close>

text \<open>
  Packages outside of the repository: a pool is what its ping and the statements of schema.sql answer, the
  latter with the table as it then is; dialling gives a client.
\<close>

record pool =
  pool_ping :: "go_error option"
  pool_ensure_schema :: "go_error + pg_table"

record 'k startup_lib =
  su_eth :: eth
  su_url_parse :: "string \<Rightarrow> go_error + url_parts"
  su_key_codec :: key_codec
  su_dial :: "string \<Rightarrow> go_error + chain"
  su_new_pool :: "string \<Rightarrow> go_error + pool"
  su_jwt :: "'k jwt_lib"
  su_abi :: "go_error option"
  su_map_order :: "(string \<times> string) list \<Rightarrow> (string \<times> string) list"
  su_claims_signer :: claims_signer
  su_permission_signer :: "rsa_private \<Rightarrow> string \<Rightarrow> permission_token \<Rightarrow> go_error + string"
  su_timestamp :: "instant \<Rightarrow> instant"
  su_codec :: did_codec
  su_err_text :: "go_error \<Rightarrow> string"
  su_as_rich :: "go_error \<Rightarrow> (int \<times> go_error option \<times> string) option"
  su_event_pkg :: event_pkg
  su_is_rich :: "go_error \<Rightarrow> bool"

section \<open>The sign-in surface\<close>

definition max_outstanding_challenges :: int where
  "max_outstanding_challenges = 100000"

definition new_postgres :: "pool \<Rightarrow> go_error + nonce_store" where
  "new_postgres db = map_sum (\<lambda>e. e) PostgresStore (annotate ''ensuring nonce schema'' (pool_ensure_schema db))"

definition new_store :: "'k startup_lib \<Rightarrow> siwe_config \<Rightarrow> go_error + nonce_store" where
  "new_store lib cfg =
     (if \<not> use_postgres cfg then Inr (MemoryStore (new_memory max_outstanding_challenges))
      else and_then (annotate ''opening challenge database'' (su_new_pool lib (sc_database_url cfg))) (\<lambda>pool.
        case pool_ping pool of
          Some err \<Rightarrow> Inl (Wrap ''connecting to challenge database'' err)
        | None \<Rightarrow> new_postgres pool))"

definition build_siwe ::
  "'k startup_lib \<Rightarrow> siwe_config \<Rightarrow> key_set \<Rightarrow> go_error + handlers \<times> well_known \<times> nonce_store" where
  "build_siwe lib cfg keys =
     and_then (if sc_rpc_url cfg \<noteq> '''' then map_sum (\<lambda>e. e) Some (su_dial lib (sc_rpc_url cfg)) else Inr None) (\<lambda>backend.
     and_then (new_store lib cfg) (\<lambda>store.
     let handlers =
       \<lparr>h_verifier = \<lparr>vf_backend = backend, vf_abi = su_abi lib\<rparr>,
        h_issuer = new_issuer \<lparr>ic_keys = keys, ic_issuer = sc_issuer cfg, ic_audience = sc_audience cfg,
          ic_ttl = sc_token_ttl cfg\<rparr>,
        h_domain = sc_domain cfg, h_uri = sc_public_base_url cfg, h_statement = sc_statement cfg,
        h_chain_id = sc_chain_id cfg, h_challenge_ttl = sc_challenge_ttl cfg,
        h_allowed_audiences = sc_allowed_audiences cfg\<rparr>
     in and_then (new_well_known
          \<lparr>oc_issuer = sc_issuer cfg, oc_jwks_uri = sc_public_base_url cfg @ ''/siwe/keys'', oc_keys = keys,
           oc_claims_supported = [''iss'', ''sub'', ''aud'', ''exp'', ''nbf'', ''iat'', ''jti'', ''ethereum_address'']\<rparr>)
        (\<lambda>wk. Inr (handlers, wk, store))))"

section \<open>The exchange surface\<close>

definition permission_token_ttl :: "exchange_config \<Rightarrow> go_error + duration" where
  "permission_token_ttl cfg =
     (if xg_token_expiration cfg \<noteq> '''' then annotate ''invalid TOKEN_EXPIRATION'' (parse_duration (xg_token_expiration cfg))
      else Inr (10 * 60 * second))"

definition new_exchange_controller :: "exchange_config \<Rightarrow> controller" where
  "new_exchange_controller cfg =
     \<lparr>xc_chain_id = xg_dimo_registry_chain_id cfg, xc_manufacturer = xg_contract_address_manufacturer cfg\<rparr>"

definition create_servers ::
  "'k startup_lib \<Rightarrow> exchange_config \<Rightarrow> string list \<Rightarrow> string \<Rightarrow> 'k
   \<Rightarrow> go_error + 'k exchange_server \<times> exchange_parts \<times> well_known" where
  "create_servers lib cfg signing_keys jwks_uri jwks =
     and_then (annotate ''failed to load signing keys'' (load_keys (su_key_codec lib) signing_keys)) (\<lambda>keys.
     and_then (permission_token_ttl cfg) (\<lambda>ttl.
     let signer = new_token_signer keys (xg_issuer cfg) ttl in
     and_then (annotate ''failed to dial Ethereum RPC'' (su_dial lib (xg_blockchain_node_url cfg))) (\<lambda>eth_client.
     and_then (annotate ''failed to create IPFS client''
        (new_ipfs_client (su_url_parse lib) parse_duration (xg_ipfs_base_url cfg) (xg_ipfs_timeout cfg))) (\<lambda>ipfs_service.
     and_then (annotate ''failed to connect to blockchain node''
        (new_sacd (su_abi lib) (xg_contract_address_sacd cfg) eth_client)) (\<lambda>sacd_contract.
     and_then (annotate ''failed to connect to blockchain node''
        (new_template_binding (su_abi lib) (xg_contract_address_template cfg) eth_client)) (\<lambda>template_contract.
     and_then (annotate ''failed to render well-known surface'' (new_well_known
          \<lparr>oc_issuer = xg_issuer cfg, oc_jwks_uri = jwks_uri, oc_keys = keys,
           oc_claims_supported = [''iss'', ''sub'', ''aud'', ''exp'', ''nbf'', ''iat'', ''jti'', ''asset'', ''permissions'', ''cloud_events'']\<rparr>))
        (\<lambda>wk. Inr (\<lparr>xs_eth = su_eth lib, xs_codec = su_codec lib, xs_err_text = su_err_text lib, xs_as_rich = su_as_rich lib,
                  xs_lib = su_jwt lib, xs_jwks = jwks, xs_controller = new_exchange_controller cfg, xs_signer = signer,
                  xs_signed_string = su_permission_signer lib\<rparr>,
                \<lparr>xp_sacd = bc_address sacd_contract, xp_template = bc_address template_contract,
                  xp_vehicle = xg_contract_address_vehicle cfg, xp_manufacturer = xg_contract_address_manufacturer cfg,
                  xp_abi = su_abi lib, xp_event_pkg = su_event_pkg lib, xp_is_rich = su_is_rich lib\<rparr>, wk))))))))"

section \<open>The process\<close>

definition start_process :: "'k startup_lib \<Rightarrow> environ \<Rightarrow> go_error + 'k process \<times> process_state" where
  "start_process lib env =
     and_then (siwe_load (su_url_parse lib) env) (\<lambda>cfg.
     and_then (annotate ''loading exchange config'' (exchange_load (su_eth lib) (su_map_order lib) env)) (\<lambda>exchange_cfg.
     and_then (load_keys (su_key_codec lib) (sc_signing_keys cfg)) (\<lambda>siwe_keys.
     and_then (build_siwe lib cfg siwe_keys) (\<lambda>(handlers, siwe_wk, store).
     and_then (annotate ''failed to build keyfunc from in-memory JWKS''
        (jl_new_jwk_set (su_jwt lib) (keyset_jwks siwe_keys))) (\<lambda>jwks.
     and_then (annotate ''building exchange surface''
        (create_servers lib exchange_cfg (exchange_signing_keys env) (sc_public_base_url cfg @ ''/exchange/keys'') jwks))
       (\<lambda>(exchange, parts, exchange_wk).
     Inr (\<lparr>pc_handlers = handlers, pc_claims_signer = su_claims_signer lib,
            pc_timestamp = su_timestamp lib, pc_siwe_well_known = siwe_wk, pc_exchange = exchange,
            pc_exchange_parts = parts, pc_exchange_well_known = exchange_wk, pc_http_addr = sc_http_addr cfg,
            pc_ops = ops_server \<lparr>op_addr = sc_ops_addr cfg, op_enable_pprof = xg_enable_pprof exchange_cfg\<rparr>,
            pc_grpc_port = xg_grpc_port exchange_cfg\<rparr>,
          \<lparr>ps_store = store, ps_cache = Map.empty\<rparr>)))))))"

section \<open>What a start amounts to\<close>

lemma succeeds_ex: "succeeds x \<longleftrightarrow> (\<exists>a. x = Inr a)"
  by (cases x) auto

lemma new_store_Inr:
  "new_store lib cfg = Inr st \<longleftrightarrow>
     (if use_postgres cfg
      then \<exists>pool t. su_new_pool lib (sc_database_url cfg) = Inr pool \<and> pool_ping pool = None \<and>
             pool_ensure_schema pool = Inr t \<and> st = PostgresStore t
      else st = MemoryStore (new_memory max_outstanding_challenges))"
proof -
  have "new_postgres pool = Inr st \<longleftrightarrow> (\<exists>t. pool_ensure_schema pool = Inr t \<and> st = PostgresStore t)" for pool
    by (cases "pool_ensure_schema pool") (auto simp: new_postgres_def)
  then show ?thesis by (auto simp: new_store_def and_then_Inr annotate_Inr split: option.splits)
qed

definition siwe_handlers :: "'k startup_lib \<Rightarrow> siwe_config \<Rightarrow> key_set \<Rightarrow> chain option \<Rightarrow> handlers" where
  "siwe_handlers lib cfg keys backend =
     \<lparr>h_verifier = \<lparr>vf_backend = backend, vf_abi = su_abi lib\<rparr>,
      h_issuer = \<lparr>is_keys = keys, is_issuer = sc_issuer cfg, is_audience = sc_audience cfg, is_ttl = sc_token_ttl cfg\<rparr>,
      h_domain = sc_domain cfg, h_uri = sc_public_base_url cfg, h_statement = sc_statement cfg,
      h_chain_id = sc_chain_id cfg, h_challenge_ttl = sc_challenge_ttl cfg,
      h_allowed_audiences = sc_allowed_audiences cfg\<rparr>"

definition dialled :: "'k startup_lib \<Rightarrow> string \<Rightarrow> chain option \<Rightarrow> bool" where
  "dialled lib url backend \<longleftrightarrow>
     (case backend of None \<Rightarrow> url = '''' | Some client \<Rightarrow> url \<noteq> '''' \<and> su_dial lib url = Inr client)"

lemma build_siwe_Inr:
  "build_siwe lib cfg keys = Inr (h, wk, st) \<longleftrightarrow>
     (\<exists>backend. dialled lib (sc_rpc_url cfg) backend \<and> new_store lib cfg = Inr st \<and> h = siwe_handlers lib cfg keys backend \<and>
        new_well_known \<lparr>oc_issuer = sc_issuer cfg, oc_jwks_uri = sc_public_base_url cfg @ ''/siwe/keys'', oc_keys = keys,
           oc_claims_supported = [''iss'', ''sub'', ''aud'', ''exp'', ''nbf'', ''iat'', ''jti'', ''ethereum_address'']\<rparr> = Inr wk)"
proof -
  have "(if sc_rpc_url cfg \<noteq> '''' then map_sum (\<lambda>e. e) Some (su_dial lib (sc_rpc_url cfg)) else Inr None) = Inr b \<longleftrightarrow>
      dialled lib (sc_rpc_url cfg) b" for b
    by (cases "su_dial lib (sc_rpc_url cfg)"; cases b) (auto simp: dialled_def)
  then show ?thesis
    by (auto simp: build_siwe_def and_then_Inr Let_def siwe_handlers_def new_issuer_def)
qed

lemma create_servers_Inr:
  "create_servers lib cfg texts uri jwks = Inr (x, parts, wk) \<longleftrightarrow>
     (\<exists>keys ttl client. load_keys (su_key_codec lib) texts = Inr keys \<and> permission_token_ttl cfg = Inr ttl \<and>
        su_dial lib (xg_blockchain_node_url cfg) = Inr client \<and>
        succeeds (new_ipfs_client (su_url_parse lib) parse_duration (xg_ipfs_base_url cfg) (xg_ipfs_timeout cfg)) \<and>
        su_abi lib = None \<and>
        x = \<lparr>xs_eth = su_eth lib, xs_codec = su_codec lib, xs_err_text = su_err_text lib, xs_as_rich = su_as_rich lib,
              xs_lib = su_jwt lib, xs_jwks = jwks, xs_controller = new_exchange_controller cfg,
              xs_signer = new_token_signer keys (xg_issuer cfg) ttl, xs_signed_string = su_permission_signer lib\<rparr> \<and>
        parts = \<lparr>xp_sacd = xg_contract_address_sacd cfg, xp_template = xg_contract_address_template cfg,
              xp_vehicle = xg_contract_address_vehicle cfg, xp_manufacturer = xg_contract_address_manufacturer cfg,
              xp_abi = None, xp_event_pkg = su_event_pkg lib, xp_is_rich = su_is_rich lib\<rparr> \<and>
        new_well_known \<lparr>oc_issuer = xg_issuer cfg, oc_jwks_uri = uri, oc_keys = keys,
           oc_claims_supported = [''iss'', ''sub'', ''aud'', ''exp'', ''nbf'', ''iat'', ''jti'', ''asset'', ''permissions'', ''cloud_events'']\<rparr> = Inr wk)"
  by (auto simp: create_servers_def and_then_Inr annotate_Inr Let_def go_defs new_bound_contract_def succeeds_ex
      split: option.splits)

text \<open>A start that succeeds, with the configurations, keys and connections that it found.\<close>

definition started ::
  "'k startup_lib \<Rightarrow> environ \<Rightarrow> siwe_config \<Rightarrow> exchange_config \<Rightarrow> key_set \<Rightarrow> key_set \<Rightarrow> 'k process \<Rightarrow> process_state \<Rightarrow> bool" where
  "started lib env cfg xcfg skeys xkeys pc st \<longleftrightarrow>
     siwe_load (su_url_parse lib) env = Inr cfg \<and> exchange_load (su_eth lib) (su_map_order lib) env = Inr xcfg \<and>
     load_keys (su_key_codec lib) (sc_signing_keys cfg) = Inr skeys \<and>
     load_keys (su_key_codec lib) (exchange_signing_keys env) = Inr xkeys \<and>
     start_process lib env = Inr (pc, st)"

lemma start_process_Inr:
  assumes "start_process lib env = Inr (pc, st)"
  obtains cfg xcfg skeys xkeys backend jwks ttl where "started lib env cfg xcfg skeys xkeys pc st"
    "dialled lib (sc_rpc_url cfg) backend" "pc_handlers pc = siwe_handlers lib cfg skeys backend"
    "new_store lib cfg = Inr (ps_store st)" "ps_cache st = Map.empty"
    "jl_new_jwk_set (su_jwt lib) (keyset_jwks skeys) = Inr jwks" "permission_token_ttl xcfg = Inr ttl"
    "pc_exchange pc = \<lparr>xs_eth = su_eth lib, xs_codec = su_codec lib, xs_err_text = su_err_text lib, xs_as_rich = su_as_rich lib,
        xs_lib = su_jwt lib, xs_jwks = jwks, xs_controller = new_exchange_controller xcfg,
        xs_signer = new_token_signer xkeys (xg_issuer xcfg) ttl, xs_signed_string = su_permission_signer lib\<rparr>"
    "pc_siwe_well_known pc = projr (new_well_known \<lparr>oc_issuer = sc_issuer cfg,
        oc_jwks_uri = sc_public_base_url cfg @ ''/siwe/keys'', oc_keys = skeys,
        oc_claims_supported = [''iss'', ''sub'', ''aud'', ''exp'', ''nbf'', ''iat'', ''jti'', ''ethereum_address'']\<rparr>)"
    "pc_exchange_well_known pc = projr (new_well_known \<lparr>oc_issuer = xg_issuer xcfg,
        oc_jwks_uri = sc_public_base_url cfg @ ''/exchange/keys'', oc_keys = xkeys,
        oc_claims_supported = [''iss'', ''sub'', ''aud'', ''exp'', ''nbf'', ''iat'', ''jti'', ''asset'', ''permissions'', ''cloud_events'']\<rparr>)"
    "pc_timestamp pc = su_timestamp lib" "pc_claims_signer pc = su_claims_signer lib"
  using assms
proof -
  obtain cfg xcfg skeys h wk s jwks x parts xwk where s: "siwe_load (su_url_parse lib) env = Inr cfg"
    "exchange_load (su_eth lib) (su_map_order lib) env = Inr xcfg"
    "load_keys (su_key_codec lib) (sc_signing_keys cfg) = Inr skeys" "build_siwe lib cfg skeys = Inr (h, wk, s)"
    "jl_new_jwk_set (su_jwt lib) (keyset_jwks skeys) = Inr jwks"
    "create_servers lib xcfg (exchange_signing_keys env) (sc_public_base_url cfg @ ''/exchange/keys'') jwks = Inr (x, parts, xwk)"
    and pc: "pc_handlers pc = h" "pc_exchange pc = x" "pc_siwe_well_known pc = wk" "pc_exchange_well_known pc = xwk"
      "pc_timestamp pc = su_timestamp lib" "pc_claims_signer pc = su_claims_signer lib" "ps_store st = s" "ps_cache st = Map.empty"
    using assms unfolding start_process_def by (auto simp: and_then_Inr annotate_Inr)
  obtain backend where b: "dialled lib (sc_rpc_url cfg) backend" "new_store lib cfg = Inr s"
    "h = siwe_handlers lib cfg skeys backend"
    "new_well_known \<lparr>oc_issuer = sc_issuer cfg, oc_jwks_uri = sc_public_base_url cfg @ ''/siwe/keys'', oc_keys = skeys,
       oc_claims_supported = [''iss'', ''sub'', ''aud'', ''exp'', ''nbf'', ''iat'', ''jti'', ''ethereum_address'']\<rparr> = Inr wk"
    using s(4) unfolding build_siwe_Inr by blast
  obtain xkeys ttl where x: "load_keys (su_key_codec lib) (exchange_signing_keys env) = Inr xkeys"
    "permission_token_ttl xcfg = Inr ttl"
    "x = \<lparr>xs_eth = su_eth lib, xs_codec = su_codec lib, xs_err_text = su_err_text lib, xs_as_rich = su_as_rich lib,
        xs_lib = su_jwt lib, xs_jwks = jwks, xs_controller = new_exchange_controller xcfg,
        xs_signer = new_token_signer xkeys (xg_issuer xcfg) ttl, xs_signed_string = su_permission_signer lib\<rparr>"
    "new_well_known \<lparr>oc_issuer = xg_issuer xcfg, oc_jwks_uri = sc_public_base_url cfg @ ''/exchange/keys'', oc_keys = xkeys,
       oc_claims_supported = [''iss'', ''sub'', ''aud'', ''exp'', ''nbf'', ''iat'', ''jti'', ''asset'', ''permissions'', ''cloud_events'']\<rparr> = Inr xwk"
    using s(6) unfolding create_servers_Inr by blast
  show ?thesis
    by (rule that [of cfg xcfg skeys xkeys backend jwks ttl]) (simp_all add: started_def s(1-3,5) x(1,2) x(3) b(1,2) pc b(3,4) x(4) assms)
qed

section \<open>When the steps succeed\<close>

lemma dialled_ex: "(\<exists>b. dialled lib u b) \<longleftrightarrow> u = '''' \<or> succeeds (su_dial lib u)"
proof
  assume "u = '''' \<or> succeeds (su_dial lib u)"
  then show "\<exists>b. dialled lib u b"
    by (cases "u = ''''") (auto simp: dialled_def succeeds_ex intro: exI [of _ None] exI [of _ "Some c" for c])
qed (auto simp: dialled_def succeeds_ex split: option.splits)

lemma new_store_succeeds: "succeeds (new_store lib cfg) \<longleftrightarrow> sc_database_url cfg = '''' \<or>
   (\<exists>pool. su_new_pool lib (sc_database_url cfg) = Inr pool \<and> pool_ping pool = None \<and> succeeds (pool_ensure_schema pool))"
  by (auto simp: succeeds_ex new_store_Inr use_postgres_def)

lemma new_ipfs_succeeds: "succeeds (new_ipfs_client p d u t) \<longleftrightarrow> succeeds (p u) \<and> succeeds (d t)"
  by (auto simp: new_ipfs_client_def split: sum.splits)

lemma ttl_succeeds: "succeeds (permission_token_ttl cfg) \<longleftrightarrow>
  xg_token_expiration cfg = '''' \<or> succeeds (parse_duration (xg_token_expiration cfg))"
  by (auto simp: permission_token_ttl_def succeeds_ex annotate_Inr)

lemma build_siwe_succeeds: "succeeds (build_siwe lib cfg keys) \<longleftrightarrow> (\<exists>b. dialled lib (sc_rpc_url cfg) b) \<and> succeeds (new_store lib cfg)"
proof -
  have "(\<exists>r. build_siwe lib cfg keys = Inr r) \<longleftrightarrow> (\<exists>h wk st. build_siwe lib cfg keys = Inr (h, wk, st))" by auto
  then show ?thesis unfolding succeeds_ex build_siwe_Inr by (auto simp: new_well_known_def)
qed

lemma create_servers_succeeds: "succeeds (create_servers lib cfg texts uri jwks) \<longleftrightarrow>
   succeeds (load_keys (su_key_codec lib) texts) \<and> succeeds (permission_token_ttl cfg) \<and>
   succeeds (su_dial lib (xg_blockchain_node_url cfg)) \<and>
   succeeds (new_ipfs_client (su_url_parse lib) parse_duration (xg_ipfs_base_url cfg) (xg_ipfs_timeout cfg)) \<and> su_abi lib = None"
proof -
  have "(\<exists>r. create_servers lib cfg texts uri jwks = Inr r) \<longleftrightarrow> (\<exists>x p wk. create_servers lib cfg texts uri jwks = Inr (x, p, wk))" by auto
  then show ?thesis unfolding succeeds_ex create_servers_Inr by (auto simp: new_well_known_def)
qed

lemma and_then_succeeds: "succeeds (and_then x f) \<longleftrightarrow> (\<exists>a. x = Inr a \<and> succeeds (f a))"
  by (cases x) auto

lemma annotate_succeeds: "succeeds (annotate m x) \<longleftrightarrow> succeeds x"
  by (cases x) auto

end
