(* ===== verification/ProcessDemo.thy ===== *)
theory ProcessDemo imports Startup ExchangeSpec SiweSpec begin

text \<open>
  A concrete process for the witnesses: an environment with a database, a node and two sets of keys, and a
  run in which the account 7 signs in and exchanges its token.
\<close>

definition demo_url :: "string \<Rightarrow> go_error + url_parts" where
  "demo_url s = Inr \<lparr>url_scheme = (if take 8 s = ''postgres'' then ''postgres'' else ''https''), url_host = ''auth.example''\<rparr>"

definition demo_env :: environ where
  "demo_env =
     [(''SIWE_ISSUER'', ''https://auth.example''), (''PUBLIC_BASE_URL'', ''https://auth.example/''),
      (''JWT_AUDIENCE'', ''dimo''), (''SIWE_ALLOWED_AUDIENCES'', '' step-ca,''), (''SIWE_STATEMENT'', ''Sign in''),
      (''SIWE_SIGNING_KEY_1'', ''A''), (''DATABASE_URL'', ''postgres://db''),
      (''EXCHANGE_ISSUER'', ''https://auth.example/exchange''), (''BLOCKCHAIN_NODE_URL'', ''https://node''),
      (''IDENTITY_URL'', ''https://identity''), (''IPFS_BASE_URL'', ''https://ipfs''),
      (''CONTRACT_ADDRESS_VEHICLE'', ''0x09''), (''CONTRACT_ADDRESS_MANUFACTURER'', ''0x03''),
      (''EXCHANGE_SIGNING_KEY_1'', ''B''), (''EXCHANGE_SIGNING_KEY_2'', ''A'')]"

definition demo_chain :: chain where
  "demo_chain = \<lparr>chain_code_at = (\<lambda>a. Inr []), chain_bytes4 = (\<lambda>a m args. Inr []), chain_uint = (\<lambda>a m args. Inr 0),
     chain_bool = (\<lambda>a m args. Inr False), chain_record = (\<lambda>a m args. Inl (Err ''reverted'')),
     chain_template = (\<lambda>a m args. Inl (Err ''reverted''))\<rparr>"

definition demo_lib :: "unit startup_lib" where
  "demo_lib = \<lparr>su_eth = eth_model, su_url_parse = demo_url, su_key_codec = toy_codec, su_dial = (\<lambda>u. Inr demo_chain),
     su_new_pool = (\<lambda>u. Inr \<lparr>pool_ping = None, pool_ensure_schema = Inr Map.empty\<rparr>), su_jwt = sample_jwt, su_abi = None,
     su_map_order = (\<lambda>xs. xs), su_claims_signer = demo_sign,
     su_permission_signer = (\<lambda>priv kid pt. Inr (kid @ ''.'' @ rc_subject (tk_registered pt))), su_timestamp = microseconds,
     su_codec = sample_codec, su_err_text = (\<lambda>e. ''''), su_as_rich = (\<lambda>e. None),
     su_event_pkg = \<lparr>parse_raw_event = (\<lambda>b. Inl (Err ''bad'')), type_sacd = ''dimo.sacd'', type_sacd_template = ''dimo.sacd.template''\<rparr>,
     su_is_rich = (\<lambda>e. False)\<rparr>"

definition demo_license_reply :: json where
  "demo_license_reply = license_json eth_model 9"

lemma demo_license_read:
  "read_identity eth_model (json_body demo_license_reply) =
     Inr \<lparr>ir_data = Some \<lparr>ia_developer_license = Some \<lparr>dl_owner = 9\<rparr>\<rparr>, ir_errors = []\<rparr>"
  by (simp add: demo_license_reply_def read_license_text)

definition demo_network :: network where
  "demo_network = \<lparr>nw_chain = demo_chain, nw_rpc = demo_chain,
     nw_ipfs = \<lparr>ipfs_join_path = (\<lambda>p. p), ipfs_new_request = (\<lambda>u. None), ipfs_do = (\<lambda>u. Inl (Err ''down''))\<rparr>,
     nw_identity = sample_net,
     nw_license = \<lparr>ln_new_request = (\<lambda>c. None), ln_do = (\<lambda>c. Inr \<lparr>hr_status = 200, hr_body = Inr (json_body demo_license_reply)\<rparr>)\<rparr>,
     nw_clock = (\<lambda>i. 50), nw_now = 1000, nw_uuid = ''uuid''\<rparr>"

section \<open>It starts\<close>

lemma demo_env_ok: "siwe_env_ok demo_url demo_env"
  by code_simp

lemma demo_config_start: "siwe_config_start demo_env =
  \<lparr>sc_environment = ''dev'', sc_log_level = ''info'', sc_http_addr = ''0.0.0.0:8080'', sc_ops_addr = ''0.0.0.0:8081'',
    sc_public_base_url = ''https://auth.example/'', sc_issuer = ''https://auth.example'', sc_domain = '''',
    sc_audience = [''dimo''], sc_statement = ''Sign in'', sc_allowed_audiences = [''step-ca''], sc_chain_id = 0,
    sc_challenge_ttl = 0, sc_token_ttl = 0, sc_rpc_url = '''', sc_rpc_timeout = 0, sc_signing_keys = [], sc_database_url = ''''\<rparr>"
  by code_simp

lemma demo_fields:
  "trim_slashes (getenv demo_env ''SIWE_ISSUER'') = ''https://auth.example''"
  "trim_slashes (getenv demo_env ''PUBLIC_BASE_URL'') = ''https://auth.example''"
  "getenv demo_env ''SIWE_DOMAIN'' = ''''"
  "url_host (the (absolute_url demo_url (getenv demo_env ''PUBLIC_BASE_URL''))) = ''auth.example''"
  "env_uint demo_env ''CHAIN_ID'' 137 = Inr 137" "numbered demo_env ''SIWE_SIGNING_KEY_'' = [''A'']"
  "getenv demo_env ''DATABASE_URL'' = ''postgres://db''"
  by code_simp+

lemma demo_env_durations:
  "env_duration demo_env ''CHALLENGE_TTL'' d = Inr d" "env_duration demo_env ''TOKEN_TTL'' d = Inr d"
  "env_duration demo_env ''RPC_TIMEOUT'' d = Inr d"
  by (simp_all add: env_duration_def getenv_def demo_env_def)

lemma demo_siwe_config: "siwe_load demo_url demo_env =
  Inr \<lparr>sc_environment = ''dev'', sc_log_level = ''info'', sc_http_addr = ''0.0.0.0:8080'', sc_ops_addr = ''0.0.0.0:8081'',
    sc_public_base_url = ''https://auth.example'', sc_issuer = ''https://auth.example'', sc_domain = ''auth.example'',
    sc_audience = [''dimo''], sc_statement = ''Sign in'', sc_allowed_audiences = [''step-ca''], sc_chain_id = 137,
    sc_challenge_ttl = 300 * second, sc_token_ttl = 3600 * second, sc_rpc_url = '''', sc_rpc_timeout = 3 * second,
    sc_signing_keys = [''A''], sc_database_url = ''postgres://db''\<rparr>"
  using siwe_load_cases [of demo_url demo_env] demo_env_ok
  by (simp add: demo_config_start demo_fields demo_env_durations split: sum.splits)

lemma demo_addresses:
  "eth_hex_to_address eth_model ''0x09'' = 9" "eth_hex_to_address eth_model ''0x03'' = 3" "eth_hex_to_address eth_model '''' = 0"
  by (simp_all add: eth_model_def model_bytes_to_address_def bytes_nat_def model_from_hex_def strip_0x_def
      is_hex_digit_def is_digit_def hex_val_def Let_def)

lemma demo_getenv:
  "getenv demo_env ''ENVIRONMENT'' = ''''"
  "getenv demo_env ''LOG_LEVEL'' = ''''"
  "getenv demo_env ''SERVICE_NAME'' = ''''"
  "getenv demo_env ''ENABLE_PPROF'' = ''''"
  "getenv demo_env ''EXCHANGE_ISSUER'' = ''https://auth.example/exchange''"
  "getenv demo_env ''TOKEN_EXPIRATION'' = ''''"
  "getenv demo_env ''BLOCKCHAIN_NODE_URL'' = ''https://node''"
  "getenv demo_env ''CONTRACT_ADDRESS_SACD'' = ''''"
  "getenv demo_env ''CONTRACT_ADDRESS_TEMPLATE'' = ''''"
  "getenv demo_env ''CONTRACT_ADDRESS_MANUFACTURER'' = ''0x03''"
  "getenv demo_env ''CONTRACT_ADDRESS_VEHICLE'' = ''0x09''"
  "getenv demo_env ''IDENTITY_URL'' = ''https://identity''"
  "getenv demo_env ''IPFS_BASE_URL'' = ''https://ipfs''"
  "getenv demo_env ''IPFS_TIMEOUT'' = ''''"
  "getenv demo_env ''GRPC_PORT'' = ''''"
  "getenv demo_env ''DIMO_REGISTRY_CHAIN_ID'' = ''''"
  by code_simp+

lemma demo_exchange_start: "exchange_config_start eth_model demo_env =
  \<lparr>xg_environment = ''local'', xg_log_level = ''info'', xg_service_name = ''token-exchange-api'', xg_grpc_port = 0,
    xg_enable_pprof = False, xg_issuer = ''https://auth.example/exchange'', xg_token_expiration = ''10m'',
    xg_blockchain_node_url = ''https://node'', xg_contract_address_sacd = 0, xg_contract_address_template = 0,
    xg_contract_address_manufacturer = 3, xg_contract_address_vehicle = 9, xg_identity_url = ''https://identity'',
    xg_ipfs_base_url = ''https://ipfs'', xg_ipfs_timeout = ''30s'', xg_dimo_registry_chain_id = 0\<rparr>"
  by (simp add: exchange_config_start_def env_string_def demo_getenv demo_addresses)

lemma demo_exchange_numbers: "env_int demo_env ''GRPC_PORT'' d = Inr d" "env_uint demo_env ''DIMO_REGISTRY_CHAIN_ID'' n = Inr n"
  by (simp_all add: env_int_def env_uint_def demo_getenv)

lemma demo_exchange_config: "exchange_load eth_model (\<lambda>xs. xs) demo_env =
  Inr \<lparr>xg_environment = ''local'', xg_log_level = ''info'', xg_service_name = ''token-exchange-api'', xg_grpc_port = 8086,
    xg_enable_pprof = False, xg_issuer = ''https://auth.example/exchange'', xg_token_expiration = ''10m'',
    xg_blockchain_node_url = ''https://node'', xg_contract_address_sacd = 0, xg_contract_address_template = 0,
    xg_contract_address_manufacturer = 3, xg_contract_address_vehicle = 9, xg_identity_url = ''https://identity'',
    xg_ipfs_base_url = ''https://ipfs'', xg_ipfs_timeout = ''30s'', xg_dimo_registry_chain_id = 137\<rparr>"
  unfolding exchange_load_def demo_exchange_start demo_exchange_numbers by (simp add: required_def)

lemma demo_durations: "parse_duration ''10m'' = Inr (600 * second)" "parse_duration ''30s'' = Inr (30 * second)"
proof -
  have "show_nat 10 = ''10''" "show_nat 30 = ''30''" by code_simp+
  moreover have "unit_map ''m'' = Some 60000000000" "unit_map ''s'' = Some 1000000000"
    by (simp_all add: unit_map_def)
  ultimately show "parse_duration ''10m'' = Inr (600 * second)" "parse_duration ''30s'' = Inr (30 * second)"
    using parse_duration_whole [of "''m''" 60000000000 10] parse_duration_whole [of "''s''" 1000000000 30]
    by (simp_all add: is_dot_or_digit_def is_digit_def second_def)
qed

lemma demo_exchange_keys: "exchange_signing_keys demo_env = [''B'', ''A'']"
  by code_simp

definition demo_exchange_kid :: string where
  "demo_exchange_kid = thumbprint toy_codec (public_key (toy_key 66))"

definition demo_exchange_key_set :: key_set where
  "demo_exchange_key_set = \<lparr>ks_all = [signing_key_of toy_codec (toy_key 66), signing_key_of toy_codec (toy_key 65)]\<rparr>"

definition demo_exchange :: "unit exchange_server" where
  "demo_exchange = \<lparr>xs_eth = eth_model, xs_codec = sample_codec, xs_err_text = (\<lambda>e. ''''), xs_as_rich = (\<lambda>e. None),
     xs_lib = sample_jwt, xs_jwks = (), xs_controller = sample_controller,
     xs_signer = \<lparr>tg_keys = demo_exchange_key_set, tg_issuer = ''https://auth.example/exchange'', tg_ttl = 600 * second\<rparr>,
     xs_signed_string = (\<lambda>priv kid pt. Inr (kid @ ''.'' @ rc_subject (tk_registered pt)))\<rparr>"

definition demo_parts :: exchange_parts where
  "demo_parts = \<lparr>xp_sacd = 0, xp_template = 0, xp_vehicle = 9, xp_manufacturer = 3, xp_abi = None,
     xp_event_pkg = \<lparr>parse_raw_event = (\<lambda>b. Inl (Err ''bad'')), type_sacd = ''dimo.sacd'', type_sacd_template = ''dimo.sacd.template''\<rparr>,
     xp_is_rich = (\<lambda>e. False)\<rparr>"

definition demo_process :: "well_known \<Rightarrow> well_known \<Rightarrow> unit process" where
  "demo_process wk xwk = \<lparr>pc_handlers = demo_handlers, pc_claims_signer = demo_sign,
     pc_timestamp = microseconds, pc_siwe_well_known = wk, pc_exchange = demo_exchange, pc_exchange_parts = demo_parts,
     pc_exchange_well_known = xwk, pc_http_addr = ''0.0.0.0:8080'',
     pc_ops = ops_server \<lparr>op_addr = ''0.0.0.0:8081'', op_enable_pprof = False\<rparr>, pc_grpc_port = 8086\<rparr>"

definition demo_state :: process_state where
  "demo_state = \<lparr>ps_store = PostgresStore Map.empty, ps_cache = Map.empty\<rparr>"

lemma demo_lib_simps:
  "su_eth demo_lib = eth_model" "su_url_parse demo_lib = demo_url" "su_key_codec demo_lib = toy_codec"
  "su_dial demo_lib u = Inr demo_chain" "su_new_pool demo_lib u = Inr \<lparr>pool_ping = None, pool_ensure_schema = Inr Map.empty\<rparr>"
  "su_jwt demo_lib = sample_jwt" "su_abi demo_lib = None" "su_map_order demo_lib = (\<lambda>xs. xs)"
  "su_claims_signer demo_lib = demo_sign" "su_timestamp demo_lib = microseconds"
  by (simp_all add: demo_lib_def)

lemma demo_starts: "\<exists>wk xwk. start_process demo_lib demo_env = Inr (demo_process wk xwk, demo_state)"
  unfolding start_process_def demo_lib_simps demo_siwe_config demo_exchange_config and_then_simps annotate_simps
  by (simp add: toy_loads build_siwe_def new_store_def use_postgres_def demo_lib_simps new_postgres_def new_well_known_def
      create_servers_def demo_exchange_keys permission_token_ttl_def demo_durations new_ipfs_client_def demo_url_def
      go_defs new_bound_contract_def sample_jwt_def)
    (simp add: demo_process_def demo_state_def demo_handlers_def new_issuer_def demo_exchange_def demo_parts_def demo_lib_def
      new_exchange_controller_def sample_controller_def new_token_signer_def demo_exchange_key_set_def sample_jwt_def)

section \<open>A run\<close>

definition demo_env_at :: "instant \<Rightarrow> request_env" where
  "demo_env_at now = \<lparr>rv_random = Inr demo_random, rv_now = now, rv_call = demo_call now, rv_uuid = ''uuid'', rv_net = demo_network\<rparr>"

definition demo_post :: "string \<Rightarrow> string \<Rightarrow> json \<Rightarrow> public_request" where
  "demo_post path auth j = \<lparr>pq_method = ''POST'', pq_path = path, pq_authorization = auth, pq_body = json_body j\<rparr>"

definition demo_exchange_request :: exchange_request where
  "demo_exchange_request = \<lparr>xq_asset = ''did:x'', xq_cloud_events = [], xq_permissions = [''privilege:GetVINCredential''],
     xq_audience = [], xq_token_id = 0, xq_privileges = [], xq_nft_contract_address = ''''\<rparr>"

definition demo_challenge_post :: public_request where
  "demo_challenge_post = demo_post ''/siwe/challenge'' '''' (challenge_json demo_request)"

definition demo_token_post :: public_request where
  "demo_token_post = demo_post ''/siwe/token'' '''' (token_json demo_token_request)"

definition demo_exchange_post :: public_request where
  "demo_exchange_post = demo_post ''/exchange/tokens/exchange'' (''Bearer '' @ demo_token) (exchange_json demo_exchange_request)"

definition demo_permission_token :: string where
  "demo_permission_token = demo_exchange_kid @ ''.'' @ eth_address_hex eth_model 7"

definition demo_run :: "process_event list" where
  "demo_run = [Served (demo_env_at demo_now) demo_challenge_post (SiweAnswer demo_challenge_reply),
     Served (demo_env_at (demo_now + second)) demo_token_post (SiweAnswer demo_token_reply),
     Served (demo_env_at (demo_now + second)) demo_exchange_post
       (ExchangeAnswer (token_reply demo_permission_token))]"

lemma demo_routes:
  "public_dispatch ''POST'' ''/siwe/challenge'' = Serve (Siwe ToChallenge)"
  "public_dispatch ''POST'' ''/siwe/token'' = Serve (Siwe ToToken)"
  "public_dispatch ''POST'' ''/exchange/tokens/exchange'' = Serve (Exchange ToExchange)"
  by code_simp+

lemma demo_pc_simps:
  "pc_eth (demo_process wk xwk) = eth_model" "pc_timestamp (demo_process wk xwk) = microseconds"
  "pc_handlers (demo_process wk xwk) = demo_handlers" "pc_claims_signer (demo_process wk xwk) = demo_sign"
  "pc_exchange (demo_process wk xwk) = demo_exchange" "pc_exchange_parts (demo_process wk xwk) = demo_parts"
  "xs_eth demo_exchange = eth_model" "handlers_at (demo_process wk xwk) net = demo_handlers"
  by (simp_all add: demo_process_def demo_exchange_def handlers_at_def demo_handlers_def)

lemma demo_token_body_length: "length (json_body (token_json demo_token_request)) \<le> max_body_bytes"
  using length_json_quote [of "tr_nonce demo_token_request"] length_json_quote [of "tr_signature demo_token_request"]
    length_json_quote [of "''nonce''"] length_json_quote [of "''signature''"]
  by (simp add: token_json_def json_body_def max_body_bytes_def)
     (simp add: demo_token_request_def demo_nonce_def model_signature_def demo_random_def length_model_address_bytes)

lemma demo_bodies_fit:
  "ascii (cr_address demo_request)" "list_all ascii (cr_audience demo_request)"
  "length (json_body (challenge_json demo_request)) \<le> 300"
  "ascii (tr_nonce demo_token_request)" "ascii (tr_signature demo_token_request)"
  "ascii_exchange demo_exchange_request" "length (json_body (exchange_json demo_exchange_request)) \<le> 300"
proof -
  show "ascii (tr_nonce demo_token_request)" "ascii (tr_signature demo_token_request)"
    by (simp_all add: demo_token_request_def demo_nonce_def)
qed code_simp+

lemma demo_bodies:
  "read_challenge (pq_body demo_challenge_post) = Inr demo_request"
  "read_token (pq_body demo_token_post) = Inr demo_token_request"
  "read_exchange (pq_body demo_exchange_post) = Inr demo_exchange_request"
  using demo_bodies_fit demo_token_body_length sign_in_bodies_read [where rest = "[]"] exchange_body_read [where rest = "[]"]
  by (simp_all add: demo_challenge_post_def demo_token_post_def demo_exchange_post_def demo_post_def max_body_bytes_def
      max_request_bytes_def)

lemma demo_exchange_body: "exchange_body demo_exchange_post = sample_exchange_request (''Bearer '' @ demo_token)"
  by (simp add: exchange_body_def demo_bodies)
    (simp add: demo_exchange_post_def demo_post_def sample_exchange_request_def demo_exchange_request_def)

lemma demo_env_simps:
  "rv_random (demo_env_at now) = Inr demo_random" "rv_now (demo_env_at now) = now" "rv_call (demo_env_at now) = demo_call now"
  "rv_uuid (demo_env_at now) = ''uuid''" "rv_net (demo_env_at now) = demo_network"
  "pq_method demo_challenge_post = ''POST''" "pq_path demo_challenge_post = ''/siwe/challenge''"
  "pq_method demo_token_post = ''POST''" "pq_path demo_token_post = ''/siwe/token''"
  "pq_method demo_exchange_post = ''POST''" "pq_path demo_exchange_post = ''/exchange/tokens/exchange''"
  "pq_authorization demo_exchange_post = ''Bearer '' @ demo_token"
  by (simp_all add: demo_env_at_def demo_challenge_post_def demo_token_post_def demo_exchange_post_def demo_post_def)

lemma demo_served_challenge:
  "process_step (demo_process wk xwk) demo_state
     (Served (demo_env_at demo_now) demo_challenge_post (SiweAnswer demo_challenge_reply))
     (demo_state\<lparr>ps_store := PostgresStore demo_table\<rparr>)"
proof -
  have "siwe_step eth_model demo_sign (store_ops eth_model microseconds) (PostgresStore Map.empty)
      (demo_challenge_event (demo_call demo_now)) (PostgresStore demo_table)"
    by (intro demo_challenge_step) (simp add: store_ops_def store_put_def demo_pg_put)
  then show ?thesis
    by (simp add: process_step_served serve_public_def demo_env_simps demo_routes serve_siwe_def demo_pc_simps demo_bodies
        demo_challenge_event_def siwe_step_simps demo_state_def)
qed

lemma demo_served_token:
  "\<exists>s. process_step (demo_process wk xwk) (demo_state\<lparr>ps_store := PostgresStore demo_table\<rparr>)
     (Served (demo_env_at (demo_now + second)) demo_token_post (SiweAnswer demo_token_reply))
     (demo_state\<lparr>ps_store := s\<rparr>)"
proof -
  obtain t where "postgres_consume eth_model (demo_call (demo_now + second)) demo_nonce demo_table
      = (Inr (stored_challenge microseconds demo_challenge), t)"
    using demo_pg_consume by blast
  then have "siwe_step eth_model demo_sign (store_ops eth_model microseconds) (PostgresStore demo_table)
      (demo_token_event (demo_call (demo_now + second))) (PostgresStore t)"
    by (intro demo_token_step [where c = "stored_challenge microseconds demo_challenge"])
       (simp_all add: store_ops_def store_consume_def stored_challenge_def)
  then show ?thesis
    by (intro exI [of _ "PostgresStore t"])
      (simp add: process_step_served serve_public_def demo_env_simps demo_routes serve_siwe_def demo_pc_simps demo_bodies
        demo_token_event_def siwe_step_simps demo_state_def)
qed

lemma demo_granted:
  "validate_access_via_record eth_model sample_codec (w_service (exchange_world eth_model demo_parts demo_network))
     (sample_request [''privilege:GetVINCredential'']) 7 = Granted"
    (is "validate_access_via_record _ _ ?s ?req 7 = _")
proof -
  have held: "held_permissions ?s sample_asset 7 msk = Inr msk" for msk
    by (simp add: held_permissions_def exchange_world_def Let_def new_access_service_def demo_parts_def demo_network_def sample_asset_def
        proxy_interface_def proxy_get_permissions_def get_vehicle_sacd_def convert_token_id_def sample_net_def sample_reply_read)
  show ?thesis
  proof (cases rule: via_record_cases [of ?req ?s eth_model sample_codec 7])
    case unknown
    then show ?thesis
      by (simp add: sample_request_def privilege_map_def sample_asset_def exchange_world_def Let_def new_access_service_def
          demo_parts_def privilege_name_to_id_def privilege_id_to_name_def)
  next
    case (known ids msk)
    then show ?thesis by (simp add: sample_request_def held)
  qed
qed

lemma demo_bearer:
  "bearer sample_jwt () (sample_exchange_request (''Bearer '' @ demo_token))
     \<lparr>jt_valid = True, jt_claims = Some [''ethereum_address'' \<mapsto> ClaimString (eth_address_hex eth_model 7)]\<rparr>"
  unfolding bearer_def
  by (intro exI [of _ demo_token]) (simp add: sample_exchange_request_def, simp add: demo_token_def sample_parse [simplified])

lemma demo_served_exchange:
  "\<exists>c. process_step (demo_process wk xwk) (demo_state\<lparr>ps_store := s\<rparr>)
     (Served (demo_env_at (demo_now + second)) demo_exchange_post
        (ExchangeAnswer (token_reply demo_permission_token))) (demo_state\<lparr>ps_store := s, ps_cache := c\<rparr>)"
proof -
  let ?w = "exchange_world eth_model demo_parts demo_network" and ?r = "sample_exchange_request (''Bearer '' @ demo_token)"
  have lic: "w_dev_license ?w 7 = Inr True"
    by (simp add: exchange_world_def Let_def demo_network_def is_dev_license_def execute_query_def demo_license_read)
  have v: "fst (exchange_validate demo_exchange ?w (sample_request [''privilege:GetVINCredential'']) 7 Map.empty) = Granted"
    using demo_granted unfolding exchange_validate_def validate_access_Granted
    by (simp add: demo_exchange_def sample_request_def)
  have "fst (serve_exchange demo_exchange ?w ?r Map.empty) = Some (token_reply demo_permission_token)"
    unfolding serve_exchange_def demo_exchange_def exchange_server.simps exchange_chain_reply [OF empty_not_address]
    by (intro exI conjI, rule demo_bearer, rule sample_token_address, rule lic,
        simp add: sample_exchange_request_def, rule sample_asks, rule v [unfolded demo_exchange_def],
        simp add: sign_privilege_payload_def keyset_sign_def demo_exchange_key_set_def signing_key_of_def permission_token_of_def
          demo_permission_token_def demo_exchange_kid_def)
  then obtain c where "serve_exchange demo_exchange ?w ?r Map.empty = (Some (token_reply demo_permission_token), c)"
    by (metis prod.collapse)
  then show ?thesis
    by (intro exI [of _ c])
      (simp add: process_step_served serve_public_def demo_env_simps demo_routes serve_exchange_surface_def demo_pc_simps demo_exchange_body demo_state_def)
qed

lemma demo_process_run: "\<exists>st. process_run (demo_process wk xwk) demo_state demo_run st"
proof -
  note step1 = demo_served_challenge [of wk xwk]
  obtain s where step2: "process_step (demo_process wk xwk) (demo_state\<lparr>ps_store := PostgresStore demo_table\<rparr>)
     (Served (demo_env_at (demo_now + second)) demo_token_post (SiweAnswer demo_token_reply))
     (demo_state\<lparr>ps_store := s\<rparr>)" using demo_served_token by blast
  obtain c where step3: "process_step (demo_process wk xwk) (demo_state\<lparr>ps_store := s\<rparr>)
     (Served (demo_env_at (demo_now + second)) demo_exchange_post
        (ExchangeAnswer (token_reply demo_permission_token))) (demo_state\<lparr>ps_store := s, ps_cache := c\<rparr>)"
    using demo_served_exchange by blast
  have "process_run (demo_process wk xwk) demo_state
      ((([] @ [demo_run ! 0]) @ [demo_run ! 1]) @ [demo_run ! 2]) (demo_state\<lparr>ps_store := s, ps_cache := c\<rparr>)"
    by (intro process_run.step [OF process_run.step [OF process_run.step [OF process_run.start]]])
      (use step1 step2 step3 in \<open>simp_all add: demo_run_def\<close>)
  then show ?thesis by (auto simp: demo_run_def)
qed


end
