(* ===== verification/ProcessSpec.thy ===== *)
theory ProcessSpec imports ProcessDemo begin

text \<open>
  Properties of the whole process, from its environment to the tokens it serves.
\<close>

section \<open>Starting\<close>

text \<open>
  C12: When the process starts: exactly when both configurations load, both sets of signing keys load, the
  JWT library takes the sign-in JWKS, the nodes and the challenge database that are configured answer (the
  database only if one is configured), the lifetime of permission tokens and the IPFS timeout are
  durations, and the IPFS address is a URL.  Anything else ends the start with an error.
\<close>

theorem startup_exact:
  "succeeds (start_process lib env) \<longleftrightarrow>
     (\<exists>cfg xcfg skeys. siwe_load (su_url_parse lib) env = Inr cfg \<and>
        exchange_load (su_eth lib) (su_map_order lib) env = Inr xcfg \<and>
        load_keys (su_key_codec lib) (sc_signing_keys cfg) = Inr skeys \<and>
        succeeds (load_keys (su_key_codec lib) (exchange_signing_keys env)) \<and>
        succeeds (jl_new_jwk_set (su_jwt lib) (keyset_jwks skeys)) \<and>
        (sc_rpc_url cfg = '''' \<or> succeeds (su_dial lib (sc_rpc_url cfg))) \<and>
        (sc_database_url cfg = '''' \<or>
          (\<exists>pool. su_new_pool lib (sc_database_url cfg) = Inr pool \<and> pool_ping pool = None \<and> succeeds (pool_ensure_schema pool))) \<and>
        (xg_token_expiration xcfg = '''' \<or> succeeds (parse_duration (xg_token_expiration xcfg))) \<and>
        succeeds (su_dial lib (xg_blockchain_node_url xcfg)) \<and> succeeds (su_url_parse lib (xg_ipfs_base_url xcfg)) \<and>
        succeeds (parse_duration (xg_ipfs_timeout xcfg)) \<and> su_abi lib = None)"
proof -
  have "succeeds (start_process lib env) \<longleftrightarrow>
     (\<exists>cfg xcfg skeys. siwe_load (su_url_parse lib) env = Inr cfg \<and>
        exchange_load (su_eth lib) (su_map_order lib) env = Inr xcfg \<and>
        load_keys (su_key_codec lib) (sc_signing_keys cfg) = Inr skeys \<and> succeeds (build_siwe lib cfg skeys) \<and>
        (\<exists>jwks. jl_new_jwk_set (su_jwt lib) (keyset_jwks skeys) = Inr jwks \<and>
           succeeds (create_servers lib xcfg (exchange_signing_keys env) (sc_public_base_url cfg @ ''/exchange/keys'') jwks)))"
    by (simp add: start_process_def and_then_succeeds annotate_Inr split_def) (simp add: succeeds_ex)
  then show ?thesis
    unfolding build_siwe_succeeds create_servers_succeeds dialled_ex new_store_succeeds new_ipfs_succeeds ttl_succeeds
    unfolding succeeds_ex [of "jl_new_jwk_set (su_jwt lib) x" for x] by blast
qed

section \<open>What a started process serves and keeps\<close>

lemma key_routes:
  "public_dispatch ''GET'' ''/siwe/keys'' = Serve (Siwe SiweKeys)"
  "public_dispatch ''GET'' ''/exchange/keys'' = Serve (Exchange ExchangeKeys)"
  "public_dispatch ''GET'' ''/siwe/.well-known/openid-configuration'' = Serve (Siwe SiweDiscovery)"
  "public_dispatch ''GET'' ''/exchange/.well-known/openid-configuration'' = Serve (Exchange ExchangeDiscovery)"
  by code_simp+

text \<open>
  C11: A started process publishes the keys it signs with.  Whatever its state, it answers
  \<open>GET /siwe/keys\<close> with the JWKS of exactly the keys loaded for sign-in, which sign the sign-in tokens and
  against which the exchange checks bearer tokens, and \<open>GET /exchange/keys\<close> with that of the keys loaded
  for the exchange, which sign the permission tokens; and each discovery document names its surface's
  issuer, as its tokens do, and the public address of its keys.
\<close>

theorem keys_published:
  assumes "start_process lib env = Inr (pc, st0)"
  shows "\<exists>cfg skeys xkeys. siwe_load (su_url_parse lib) env = Inr cfg \<and>
    load_keys (su_key_codec lib) (numbered env ''SIWE_SIGNING_KEY_'') = Inr skeys \<and>
    load_keys (su_key_codec lib) (numbered env ''EXCHANGE_SIGNING_KEY_'') = Inr xkeys \<and>
    is_keys (h_issuer (pc_handlers pc)) = skeys \<and> tg_keys (xs_signer (pc_exchange pc)) = xkeys \<and>
    jl_new_jwk_set (su_jwt lib) (keyset_jwks skeys) = Inr (xs_jwks (pc_exchange pc)) \<and>
    (\<forall>e st auth b. \<exists>sd xd.
       serve_public pc e \<lparr>pq_method = ''GET'', pq_path = ''/siwe/keys'', pq_authorization = auth, pq_body = b\<rparr> st =
         (DocumentAnswer \<lparr>dc_content_type = ''application/json'', dc_cache_control = ''public, max-age=300'',
            dc_body = keyset_jwks skeys\<rparr>, st) \<and>
       serve_public pc e \<lparr>pq_method = ''GET'', pq_path = ''/exchange/keys'', pq_authorization = auth, pq_body = b\<rparr> st =
         (DocumentAnswer \<lparr>dc_content_type = ''application/json'', dc_cache_control = ''public, max-age=300'',
            dc_body = keyset_jwks xkeys\<rparr>, st) \<and>
       serve_public pc e \<lparr>pq_method = ''GET'', pq_path = ''/siwe/.well-known/openid-configuration'',
           pq_authorization = auth, pq_body = b\<rparr> st =
         (DocumentAnswer \<lparr>dc_content_type = ''application/json'', dc_cache_control = ''public, max-age=3600'',
            dc_body = json_text (discovery_json sd)\<rparr>, st) \<and>
       dd_issuer sd = is_issuer (h_issuer (pc_handlers pc)) \<and> dd_jwks_uri sd = sc_public_base_url cfg @ ''/siwe/keys'' \<and>
       serve_public pc e \<lparr>pq_method = ''GET'', pq_path = ''/exchange/.well-known/openid-configuration'',
           pq_authorization = auth, pq_body = b\<rparr> st =
         (DocumentAnswer \<lparr>dc_content_type = ''application/json'', dc_cache_control = ''public, max-age=3600'',
            dc_body = json_text (discovery_json xd)\<rparr>, st) \<and>
       dd_issuer xd = tg_issuer (xs_signer (pc_exchange pc)) \<and> dd_jwks_uri xd = sc_public_base_url cfg @ ''/exchange/keys'')"
  using assms
proof (cases rule: start_process_Inr)
  case (1 cfg xcfg skeys xkeys backend jwks ttl)
  let ?sd = "discovery_of \<lparr>oc_issuer = sc_issuer cfg, oc_jwks_uri = sc_public_base_url cfg @ ''/siwe/keys'', oc_keys = skeys,
        oc_claims_supported = [''iss'', ''sub'', ''aud'', ''exp'', ''nbf'', ''iat'', ''jti'', ''ethereum_address'']\<rparr>"
  let ?xd = "discovery_of \<lparr>oc_issuer = xg_issuer xcfg, oc_jwks_uri = sc_public_base_url cfg @ ''/exchange/keys'', oc_keys = xkeys,
        oc_claims_supported = [''iss'', ''sub'', ''aud'', ''exp'', ''nbf'', ''iat'', ''jti'', ''asset'', ''permissions'', ''cloud_events'']\<rparr>"
  have keys: "sc_signing_keys cfg = numbered env ''SIWE_SIGNING_KEY_''"
    using siwe_load_cases [of "su_url_parse lib" env] 1(1) by (simp add: started_def)
  have wk: "wk_jwks (pc_siwe_well_known pc) = keyset_jwks skeys" "wk_jwks (pc_exchange_well_known pc) = keyset_jwks xkeys"
    "wk_discovery (pc_siwe_well_known pc) = json_text (discovery_json ?sd)"
    "wk_discovery (pc_exchange_well_known pc) = json_text (discovery_json ?xd)"
    by (simp_all add: 1(9,10) new_well_known_def)
  note serve = serve_public_def serve_siwe_def serve_exchange_surface_def key_routes serve_jwks_def serve_discovery_def wk
  have docs: "dd_issuer ?sd = sc_issuer cfg" "dd_jwks_uri ?sd = sc_public_base_url cfg @ ''/siwe/keys''"
    "dd_issuer ?xd = xg_issuer xcfg" "dd_jwks_uri ?xd = sc_public_base_url cfg @ ''/exchange/keys''"
    by (simp_all add: discovery_of_def)
  show ?thesis
    by (intro exI [of _ cfg] exI [of _ skeys] exI [of _ xkeys] conjI allI exI [of _ ?sd] exI [of _ ?xd])
      (use 1(1) in \<open>simp_all add: started_def keys exchange_signing_keys_def [symmetric] 1(3,6,8) siwe_handlers_def
         new_token_signer_def serve docs\<close>)
qed

theorem keys_published_witness:
  "\<exists>wk xwk. start_process demo_lib demo_env = Inr (demo_process wk xwk, demo_state) \<and>
     load_keys toy_codec (numbered demo_env ''SIWE_SIGNING_KEY_'') = Inr (is_keys (h_issuer (pc_handlers (demo_process wk xwk))))"
proof -
  obtain wk xwk where start: "start_process demo_lib demo_env = Inr (demo_process wk xwk, demo_state)"
    using demo_starts by blast
  from keys_published [OF this] have
    "load_keys toy_codec (numbered demo_env ''SIWE_SIGNING_KEY_'') = Inr (is_keys (h_issuer (pc_handlers (demo_process wk xwk))))"
    by (auto simp: demo_lib_simps)
  with start show ?thesis by blast
qed

text \<open>
  C21: The state of a started process keeps its type.  Without a database it stays a memory store whose
  shards are well formed and which never holds more than 100000 challenges; with one it stays on it.
\<close>

theorem process_store_typed:
  assumes "postgres_backend (su_eth lib) (su_timestamp lib)" and "start_process lib env = Inr (pc, st0)"
    and "process_run pc st0 tr st"
  shows "if getenv env ''DATABASE_URL'' = ''''
    then \<exists>m. ps_store st = MemoryStore m \<and> memory_inv m \<and> int (memory_size m) \<le> 100000
    else \<exists>t. ps_store st = PostgresStore t"
  using assms(2)
proof (cases rule: start_process_Inr)
  case (1 cfg xcfg skeys xkeys backend jwks ttl)
  have db: "use_postgres cfg \<longleftrightarrow> getenv env ''DATABASE_URL'' \<noteq> ''''"
    using siwe_load_cases [of "su_url_parse lib" env] 1(1) by (simp add: started_def use_postgres_def)
  have eth: "pc_eth pc = su_eth lib" "pc_timestamp pc = su_timestamp lib" by (simp_all add: 1(8,11))
  note run = process_run_surfaces(1) [OF assms(3) 1(5), unfolded eth]
  show ?thesis
  proof (cases "use_postgres cfg")
    case True
    with 1(4) have "postgres_kind (ps_store st0)" by (auto simp: new_store_Inr postgres_kind_def)
    with surface_kind(2) [OF assms(1) run] True db show ?thesis by (simp add: postgres_kind_def)
  next
    case False
    with 1(4) have "memory_kind 100000 (ps_store st0)"
      using new_memory_kind by (simp add: new_store_Inr max_outstanding_challenges_def)
    from surface_kind(1) [OF assms(1) run this] obtain m where m: "ps_store st = MemoryStore m" "memory_inv m"
      "mem_max_entries m = 100000" by (auto simp: memory_kind_def)
    with memory_size_bound [OF m(2)] per_shard_cap [of 100000] have "int (memory_size m) \<le> 100000"
      by (simp add: shards_def)
    with m(1,2) False db show ?thesis by simp
  qed
qed

theorem process_store_typed_witness:
  "\<exists>wk xwk st t. process_run (demo_process wk xwk) demo_state demo_run st \<and> ps_store st = PostgresStore t"
proof -
  obtain wk xwk where start: "start_process demo_lib demo_env = Inr (demo_process wk xwk, demo_state)"
    using demo_starts by blast
  obtain st where run: "process_run (demo_process wk xwk) demo_state demo_run st" using demo_process_run by blast
  from process_store_typed [OF _ start run] pg_model.postgres_backend_axioms have "\<exists>t. ps_store st = PostgresStore t"
    by (simp add: demo_lib_simps demo_fields)
  with run show ?thesis by blast
qed

section \<open>From a wallet's signature to a permission token\<close>

text \<open>
  What is assumed of the JWT library: a token that the claims signer made and that the library accepts
  shows the address claim that was signed.  And of the world: every bearer token that the exchange accepts
  in a run was served by \<open>/siwe/token\<close> before, since nobody else holds the keys.
\<close>

definition reads_back :: "claims_signer \<Rightarrow> 'k jwt_lib \<Rightarrow> bool" where
  "reads_back sg lib \<longleftrightarrow>
     (\<forall>jwks keys cl tok jt m. keyset_sign sg keys cl = Inr tok \<longrightarrow> jl_parse lib jwks (trim_space tok) = Inr jt \<longrightarrow>
        jt_valid jt \<longrightarrow> jt_claims jt = Some m \<longrightarrow>
        m ''ethereum_address'' = Some (ClaimString (cl_ethereum_address cl)))"

definition own_token :: "'k process \<Rightarrow> pg_call siwe_event list \<Rightarrow> public_request \<Rightarrow> bool" where
  "own_token pc earlier q \<longleftrightarrow>
     (public_dispatch (pq_method q) (pq_path q) = Serve (Exchange ToExchange) \<longrightarrow>
       (\<forall>jt. bearer (xs_lib (pc_exchange pc)) (xs_jwks (pc_exchange pc)) (exchange_body q) jt \<longrightarrow>
        (\<exists>tok h decoded call now uuid ttl. pq_authorization q = ''Bearer '' @ tok \<and>
           TokenServed h decoded call now uuid (write_json 200 (token_response tok ttl)) \<in> set earlier)))"

text \<open>
  A bearer token was earned for an account, in the events before: its challenge was requested there or
  stood in the store, and the verifier of the handlers that served the token took the signature.
\<close>

definition token_earned ::
  "eth \<Rightarrow> claims_signer \<Rightarrow> pg_call siwe_event list \<Rightarrow> nonce_store \<Rightarrow> string \<Rightarrow> address \<Rightarrow> bool" where
  "token_earned eth sg earlier st tok a \<longleftrightarrow>
     (\<exists>h decoded call now uuid ttl nc sig ch.
        TokenServed h decoded call now uuid (write_json 200 (token_response tok ttl)) \<in> set earlier \<and>
        ((\<exists>ev \<in> set earlier. asks_challenge eth nc ch ev) \<or> store_lookup eth st nc = Some ch) \<and>
        token_presented eth decoded nc sig \<and> pg_now call \<le> ch_expires_at ch \<and> ch_address ch = a \<and>
        verify eth (h_verifier h) a (bytes_of (ch_message ch)) sig = Inr True \<and>
        keyset_sign sg (is_keys (h_issuer h)) (issue_claims eth (h_issuer h) now uuid a (ch_audience ch)) = Inr tok)"

lemma served_token_earned:
  assumes "postgres_backend eth ts" and "memory_kind n st \<or> postgres_kind st"
    and "siwe_run eth sg (store_ops eth ts) st tr st'"
    and "TokenServed h decoded call now uuid (write_json 200 (token_response tok ttl)) \<in> set tr"
  shows "\<exists>a. token_earned eth sg tr st tok a"
proof -
  let ?ev = "TokenServed h decoded call now uuid (write_json 200 (token_response tok ttl))"
  obtain pre post where tr: "tr = (pre @ [?ev]) @ post" using split_list [OF assms(4)] by auto
  obtain s where "siwe_run eth sg (store_ops eth ts) st (pre @ [?ev]) s"
    using assms(3) unfolding tr siwe_run_append by blast
  from surface_token_sound [OF assms(1,2) this write_json_status] obtain nc sig ch tok' where e:
    "(\<exists>ev \<in> set pre. asks_challenge eth nc ch ev) \<or> store_lookup eth st nc = Some ch"
    "token_presented eth decoded nc sig" "pg_now call \<le> ch_expires_at ch"
    "verify eth (h_verifier h) (ch_address ch) (bytes_of (ch_message ch)) sig = Inr True"
    "keyset_sign sg (is_keys (h_issuer h)) (issue_claims eth (h_issuer h) now uuid (ch_address ch) (ch_audience ch)) = Inr tok'"
    "write_json 200 (token_response tok ttl) = write_json 200 (token_response tok' (int_seconds (issuer_ttl (h_issuer h))))"
    by (elim exE conjE) (rule that; assumption)
  from e(6) have "tok' = tok" by (simp add: write_json_def token_response_def)
  moreover have "(\<exists>ev \<in> set tr. asks_challenge eth nc ch ev) \<or> store_lookup eth st nc = Some ch"
    using e(1) unfolding tr by auto
  ultimately show ?thesis
    unfolding token_earned_def using assms(4) e(2-5)
    by (intro exI [of _ "ch_address ch"] exI [of _ h] exI [of _ decoded] exI [of _ call] exI [of _ now] exI [of _ uuid]
        exI [of _ ttl] exI [of _ nc] exI [of _ sig] exI [of _ ch]) simp
qed

text \<open>
  What a permission token that a started process served rests on: a licensee who earned the bearer token in
  the sign-in events before, and who holds what the token names.
\<close>

definition permission_earned ::
  "'k startup_lib \<Rightarrow> 'k process \<Rightarrow> request_env \<Rightarrow> public_request \<Rightarrow> string
   \<Rightarrow> pg_call siwe_event list \<Rightarrow> nonce_store \<Rightarrow> template_env set \<Rightarrow> bool" where
  "permission_earned lib pc e q tk earlier st E \<longleftrightarrow>
     (let x = pc_exchange pc; w = exchange_world (su_eth lib) (pc_exchange_parts pc) (rv_net e)
      in \<exists>a tok req acc pt. pq_authorization q = ''Bearer '' @ tok \<and>
        token_earned (su_eth lib) (su_claims_signer lib) earlier st tok a \<and>
        is_dev_license (su_eth lib) (nw_license (rv_net e)) a = Inr True \<and>
        hq_body (exchange_body q) = Inr req \<and>
        asks_for (su_eth lib) (xs_codec x) (xs_err_text x) (xs_controller x) req acc \<and>
        keyset_sign (su_permission_signer lib) (tg_keys (xs_signer x)) pt = Inr tk \<and>
        rc_subject (tk_registered pt) = eth_address_hex (su_eth lib) a \<and>
        cc_asset (tk_custom pt) = asset_string (xs_codec x) (ar_asset acc) \<and>
        cc_permissions (tk_custom pt) = ar_permissions acc \<and>
        cc_cloud_events (tk_custom pt) = Some (map event_claim_of (ar_event_filters acc)) \<and>
        grant_held x w E acc a)"

lemma permission_token_earned:
  assumes backend: "postgres_backend (su_eth lib) (su_timestamp lib)"
    and codec: "\<not> eth_is_hex_address (su_eth lib) ''''"
      "\<And>b. eth_hex_to_address (su_eth lib) (eth_address_hex (su_eth lib) b) = b"
    and start: "start_process lib env = Inr (pc, st0)" and reads: "reads_back (su_claims_signer lib) (su_jwt lib)"
    and kind: "memory_kind n st \<or> postgres_kind st"
    and run: "siwe_run (su_eth lib) (su_claims_signer lib) (store_ops (su_eth lib) (su_timestamp lib)) st earlier st'"
    and own: "own_token pc earlier q" and cached: "exchange_run (pc_exchange pc) xtr (ps_cache s)"
    and step: "process_step pc s (Served e q (ExchangeAnswer (token_reply tk))) s'"
    and envs: "insert (w_templates (exchange_world (su_eth lib) (pc_exchange_parts pc) (rv_net e))) (run_envs xtr) \<subseteq> E"
  shows "permission_earned lib pc e q tk earlier st E"
  using start
proof (cases rule: start_process_Inr)
  case (1 cfg xcfg skeys xkeys backend jwks ttl)
  have eth: "pc_eth pc = su_eth lib" "xs_lib (pc_exchange pc) = su_jwt lib"
    "xs_signed_string (pc_exchange pc) = su_permission_signer lib"
    by (simp_all add: 1(8))
  let ?w = "exchange_world (su_eth lib) (pc_exchange_parts pc) (rv_net e)" and ?x = "pc_exchange pc"
  note served = served_permission_token [OF step, unfolded eth]
  obtain jt a req acc pt where x: "bearer (su_jwt lib) (xs_jwks ?x) (exchange_body q) jt"
    "token_address (su_eth lib) jt = Some a" "w_dev_license ?w a = Inr True"
    and rest: "hq_body (exchange_body q) = Inr req"
      "asks_for (su_eth lib) (xs_codec ?x) (xs_err_text ?x) (xs_controller ?x) req acc"
      "keyset_sign (su_permission_signer lib) (tg_keys (xs_signer ?x)) pt = Inr tk"
      "rc_subject (tk_registered pt) = eth_address_hex (su_eth lib) a"
      "cc_asset (tk_custom pt) = asset_string (xs_codec ?x) (ar_asset acc)"
      "cc_permissions (tk_custom pt) = ar_permissions acc"
      "cc_cloud_events (tk_custom pt) = Some (map event_claim_of (ar_event_filters acc))" "grant_held ?x ?w E acc a"
    using served_token_backed [OF _ cached served(2) envs, unfolded eth, OF codec(1)]
    by (elim exE conjE) (rule that; assumption)
  obtain tok h decoded call now uuid ttl where tok: "pq_authorization q = ''Bearer '' @ tok"
    "TokenServed h decoded call now uuid (write_json 200 (token_response tok ttl)) \<in> set earlier"
    using own [unfolded own_token_def eth, rule_format, OF served(1) x(1)] by blast
  obtain a' where earned: "token_earned (su_eth lib) (su_claims_signer lib) earlier st tok a'"
    using served_token_earned [OF backend kind run tok(2)] by blast
  obtain keys cl where "keyset_sign (su_claims_signer lib) keys cl = Inr tok"
    and cl: "cl_ethereum_address cl = eth_address_hex (su_eth lib) a'"
    using earned by (fastforce simp: token_earned_def)
  moreover obtain m where m: "jt_claims jt = Some m" using x(2) by (auto simp: token_address_def split: option.splits)
  moreover have "jl_parse (su_jwt lib) (xs_jwks ?x) (trim_space tok) = Inr jt" "jt_valid jt"
    using x(1) tok(1) by (auto simp: bearer_def exchange_body_def)
  ultimately have "m ''ethereum_address'' = Some (ClaimString (eth_address_hex (su_eth lib) a'))"
    using reads unfolding reads_back_def by metis
  with x(2) m codec(2) have "a' = a" by (auto simp: token_address_def split: if_splits)
  moreover have "is_dev_license (su_eth lib) (nw_license (rv_net e)) a = Inr True"
    using x(3) by (simp add: exchange_world_def Let_def)
  ultimately show ?thesis unfolding permission_earned_def Let_def using tok(1) earned rest by blast
qed

text \<open>
  From a signature to a permission token in one process.  In any run of a started process, a permission
  token is served only for an account that is a developer licensee at that moment and whose signature,
  verified by the sign-in surface over the text of a challenge made out to this account, paid for the
  bearer token; the challenge was requested in the run or stood in the database when the process started.
\<close>

theorem process_end_to_end:
  assumes "postgres_backend (su_eth lib) (su_timestamp lib)"
    and "\<not> eth_is_hex_address (su_eth lib) ''''"
    and "\<And>b. eth_hex_to_address (su_eth lib) (eth_address_hex (su_eth lib) b) = b"
    and "start_process lib env = Inr (pc, st0)"
    and "process_run pc st0 (pre @ [Served e q (ExchangeAnswer (token_reply tk))]) st"
    and "reads_back (su_claims_signer lib) (su_jwt lib)" and "own_token pc (siwe_trace pc pre) q"
  shows "permission_earned lib pc e q tk (siwe_trace pc pre) (ps_store st0)
    (run_envs (exchange_trace pc (pre @ [Served e q (ExchangeAnswer (token_reply tk))])))"
  using assms(4)
proof (cases rule: start_process_Inr)
  case (1 cfg xcfg skeys xkeys backend jwks ttl)
  have eth: "pc_eth pc = su_eth lib" "pc_timestamp pc = su_timestamp lib" "pc_claims_signer pc = su_claims_signer lib"
    by (simp_all add: 1(8,11,12))
  have kind: "memory_kind max_outstanding_challenges (ps_store st0) \<or> postgres_kind (ps_store st0)"
    using 1(4) new_memory_kind by (auto simp: new_store_Inr postgres_kind_def split: if_splits)
  obtain s where s: "process_run pc st0 pre s" "process_step pc s (Served e q (ExchangeAnswer (token_reply tk))) st"
    using assms(5) by (auto elim: process_run.cases)
  show ?thesis
    by (rule permission_token_earned [OF assms(1,2,3,4,6) kind process_run_surfaces(1) [OF s(1) 1(5), unfolded eth]
          assms(7) process_run_surfaces(2) [OF s(1) 1(5)] s(2)])
      (use served_permission_token(1) [OF s(2)] eth in auto)
qed

lemma demo_reads_back: "reads_back demo_sign sample_jwt"
  by (auto simp: reads_back_def demo_sign_def keyset_sign_def sample_parse [simplified] split: list.splits)

lemma demo_own_token:
  "own_token (demo_process wk xwk) (siwe_trace (demo_process wk xwk) (butlast demo_run))
     demo_exchange_post"
proof -
  have "TokenServed demo_handlers (Inr demo_token_request) (demo_call (demo_now + second)) (demo_now + second) ''uuid''
      (write_json 200 (token_response demo_token (int_seconds (3600 * second))))
      \<in> set (siwe_trace (demo_process wk xwk) (butlast demo_run))"
    unfolding demo_token_reply_def [symmetric]
    by (simp add: siwe_trace_def demo_run_def demo_env_simps demo_routes demo_pc_simps demo_bodies)
  then show ?thesis unfolding own_token_def demo_env_simps by blast
qed

lemma demo_run_split:
  "demo_run = butlast demo_run @ [Served (demo_env_at (demo_now + second))
     demo_exchange_post (ExchangeAnswer (token_reply demo_permission_token))]"
  by (simp add: demo_run_def)

theorem process_end_to_end_witness:
  "\<exists>wk xwk. permission_earned demo_lib (demo_process wk xwk) (demo_env_at (demo_now + second))
     demo_exchange_post demo_permission_token
     (siwe_trace (demo_process wk xwk) (butlast demo_run)) (PostgresStore Map.empty)
     (run_envs (exchange_trace (demo_process wk xwk) demo_run))"
proof -
  obtain wk xwk where start: "start_process demo_lib demo_env = Inr (demo_process wk xwk, demo_state)"
    using demo_starts by blast
  obtain st where run: "process_run (demo_process wk xwk) demo_state demo_run st" using demo_process_run by blast
  have backend: "postgres_backend (su_eth demo_lib) (su_timestamp demo_lib)"
    using pg_model.postgres_backend_axioms by (simp add: demo_lib_simps)
  have codec: "\<not> eth_is_hex_address (su_eth demo_lib) ''''"
    "\<And>b. eth_hex_to_address (su_eth demo_lib) (eth_address_hex (su_eth demo_lib) b) = b"
    "reads_back (su_claims_signer demo_lib) (su_jwt demo_lib)"
    by (simp_all add: demo_lib_simps empty_not_address model_decode_address demo_reads_back)
  from run have "process_run (demo_process wk xwk) demo_state (butlast demo_run @ [Served (demo_env_at (demo_now + second))
     demo_exchange_post (ExchangeAnswer (token_reply demo_permission_token))]) st"
    by (simp only: demo_run_split [symmetric])
  from process_end_to_end [OF backend codec(1,2) start this codec(3) demo_own_token]
  show ?thesis unfolding demo_run_split [symmetric] by (auto simp: demo_state_def)
qed

theorem process_refines_surfaces_witness:
  "\<exists>st :: process_state. siwe_run eth_model demo_sign (store_ops eth_model microseconds) (PostgresStore Map.empty)
     (siwe_trace (demo_process \<lparr>wk_discovery = '''', wk_jwks = ''''\<rparr> \<lparr>wk_discovery = '''', wk_jwks = ''''\<rparr>) demo_run) (ps_store st)"
proof -
  let ?wk = "\<lparr>wk_discovery = '''', wk_jwks = ''''\<rparr>"
  obtain st where "process_run (demo_process ?wk ?wk) demo_state demo_run st" using demo_process_run by blast
  from process_refines_surfaces [OF this] have "siwe_run eth_model demo_sign (store_ops eth_model microseconds)
      (PostgresStore Map.empty) (siwe_trace (demo_process ?wk ?wk) demo_run) (ps_store st)"
    by (simp add: demo_pc_simps demo_state_def)
  then show ?thesis by blast
qed

section \<open>Bodies\<close>

abbreviation could_not_parse :: response where
  "could_not_parse \<equiv> write_error 400 ''invalid_request'' ''could not parse request body''"

text \<open>
  C14: What a client writes is what the handlers get.  The rendering of a request over ASCII, whatever follows
  it in the body, is served as exactly that request when it fits the surface's limit (16 KiB for the sign-in,
  1 MiB for the exchange); a longer one is refused as unparsable and changes nothing.
\<close>

theorem requests_read_back:
  assumes "pq_body q = json_body j @ rest"
  shows "(public_dispatch (pq_method q) (pq_path q) = Serve (Siwe ToChallenge) \<and> j = challenge_json c \<and>
        ascii (cr_address c) \<and> list_all ascii (cr_audience c) \<longrightarrow>
      serve_public pc e q st =
        (if length (json_body j) \<le> 16384
         then map_prod SiweAnswer (\<lambda>s. st\<lparr>ps_store := s\<rparr>)
           (challenge_handler (pc_eth pc) (op_put (pc_store_ops pc)) (handlers_at pc (rv_net e)) (Inr c) (rv_random e) (rv_now e)
              (rv_call e) (ps_store st))
         else (SiweAnswer could_not_parse, st))) \<and>
    (public_dispatch (pq_method q) (pq_path q) = Serve (Siwe ToToken) \<and> j = token_json t \<and>
        ascii (tr_nonce t) \<and> ascii (tr_signature t) \<longrightarrow>
      serve_public pc e q st =
        (if length (json_body j) \<le> 16384
         then map_prod SiweAnswer (\<lambda>s. st\<lparr>ps_store := s\<rparr>)
           (token_handler (pc_eth pc) (pc_claims_signer pc) (op_consume (pc_store_ops pc)) (handlers_at pc (rv_net e)) (Inr t)
              (rv_call e) (rv_now e) (rv_uuid e) (ps_store st))
         else (SiweAnswer could_not_parse, st))) \<and>
    (j = exchange_json r \<and> ascii_exchange r \<longrightarrow>
      hq_body (exchange_body q) = (if length (json_body j) \<le> 1048576 then Inr r else Inl (Err ''reading JSON value'')))"
  using assms
  by (auto simp: serve_public_def serve_siwe_def sign_in_bodies_read exchange_body_read max_body_bytes_def max_request_bytes_def
      exchange_body_def challenge_handler_def token_handler_def prod.map_comp comp_def)

theorem requests_read_back_witness:
  "\<exists>wk xwk. start_process demo_lib demo_env = Inr (demo_process wk xwk, demo_state) \<and>
     fst (serve_public (demo_process wk xwk) (demo_env_at demo_now) demo_challenge_post demo_state) = SiweAnswer demo_challenge_reply \<and>
     hq_body (exchange_body demo_exchange_post) = Inr demo_exchange_request"
proof -
  obtain wk xwk where start: "start_process demo_lib demo_env = Inr (demo_process wk xwk, demo_state)" using demo_starts by blast
  have fits: "length (json_body (challenge_json demo_request)) \<le> 16384" "length (json_body (exchange_json demo_exchange_request)) \<le> 1048576"
    using demo_bodies_fit by simp_all
  have "fst (serve_public (demo_process wk xwk) (demo_env_at demo_now) demo_challenge_post demo_state) =
      SiweAnswer (fst (challenge_handler eth_model (op_put (store_ops eth_model microseconds)) demo_handlers (Inr demo_request)
        (Inr demo_random) demo_now (demo_call demo_now) (PostgresStore Map.empty)))"
    using requests_read_back [of demo_challenge_post "challenge_json demo_request" "[]" demo_request "demo_process wk xwk" "demo_env_at demo_now" demo_state]
    by (simp add: fits demo_bodies_fit demo_env_simps demo_routes demo_pc_simps demo_state_def demo_challenge_post_def demo_post_def)
  moreover have "hq_body (exchange_body demo_exchange_post) = Inr demo_exchange_request"
    using requests_read_back [of demo_exchange_post "exchange_json demo_exchange_request" "[]" _ _ _ _ _ demo_exchange_request, THEN conjunct2, THEN conjunct2]
    by (simp add: fits demo_bodies_fit demo_exchange_post_def demo_post_def)
  moreover have "siwe_step eth_model demo_sign (store_ops eth_model microseconds) (PostgresStore Map.empty)
      (demo_challenge_event (demo_call demo_now)) (PostgresStore demo_table)"
    by (intro demo_challenge_step) (simp add: store_ops_def store_put_def demo_pg_put)
  ultimately show ?thesis using start by (auto simp: demo_challenge_event_def siwe_step_simps)
qed

text \<open>
  C15: Members of a request that no field of it takes.  A body that is an object with such a member is refused
  by the sign-in, whatever else it says, and changes nothing; the exchange serves it as if the member were not
  there.
\<close>

theorem unknown_members:
  assumes body: "pq_body q = json_body (JObj fs) @ rest" "\<forall>(n, v) \<in> set fs. ascii n" "json_depth (JObj fs) \<le> max_nesting_depth"
  shows "(public_dispatch (pq_method q) (pq_path q) = Serve (Siwe ToChallenge) \<and>
        (\<exists>(n, v) \<in> set fs. find_field challenge_fields n = None) \<longrightarrow> serve_public pc e q st = (SiweAnswer could_not_parse, st)) \<and>
    (public_dispatch (pq_method q) (pq_path q) = Serve (Siwe ToToken) \<and>
        (\<exists>(n, v) \<in> set fs. find_field token_fields n = None) \<longrightarrow> serve_public pc e q st = (SiweAnswer could_not_parse, st)) \<and>
    (public_dispatch (pq_method q) (pq_path q) = Serve (Exchange ToExchange) \<and> length (json_body (JObj fs)) \<le> max_request_bytes \<longrightarrow>
      serve_public pc e q st =
        serve_public pc e (q\<lparr>pq_body := json_body (JObj (filter (\<lambda>(n, v). find_field exchange_fields n \<noteq> None) fs))\<rparr>) st)"
proof -
  have refused: "\<exists>err. decode_json flds zero (max_bytes max_body_bytes (json_body (JObj fs) @ rest)) = Inl err"
    if "\<exists>(n, v) \<in> set fs. find_field flds n = None" for flds :: "'s fields" and zero
  proof -
    from that body(2) obtain n v where "(n, v) \<in> set fs" "ascii n" "find_field flds n = None" by auto
    from strict_refused [OF this body(3)] show ?thesis .
  qed
  have challenge: "\<exists>err. read_challenge (pq_body q) = Inl err" if "\<exists>(n, v) \<in> set fs. find_field challenge_fields n = None"
    using refused [OF that, of "\<lparr>cw_address = [], cw_audience = ([], 0)\<rparr>"] by (auto simp: read_challenge_def body(1))
  have token: "\<exists>err. read_token (pq_body q) = Inl err" if "\<exists>(n, v) \<in> set fs. find_field token_fields n = None"
    using refused [OF that, of "\<lparr>tr_nonce = [], tr_signature = []\<rparr>"] by (auto simp: read_token_def body(1))
  show ?thesis
  proof (intro conjI impI)
    assume "public_dispatch (pq_method q) (pq_path q) = Serve (Siwe ToChallenge) \<and> (\<exists>(n, v) \<in> set fs. find_field challenge_fields n = None)"
    with challenge show "serve_public pc e q st = (SiweAnswer could_not_parse, st)"
      by (auto simp: serve_public_def serve_siwe_def challenge_handler_def simp del: split_paired_Ex)
  next
    assume "public_dispatch (pq_method q) (pq_path q) = Serve (Siwe ToToken) \<and> (\<exists>(n, v) \<in> set fs. find_field token_fields n = None)"
    with token show "serve_public pc e q st = (SiweAnswer could_not_parse, st)"
      by (auto simp: serve_public_def serve_siwe_def token_handler_def simp del: split_paired_Ex)
  next
    assume "public_dispatch (pq_method q) (pq_path q) = Serve (Exchange ToExchange) \<and> length (json_body (JObj fs)) \<le> max_request_bytes"
    with lenient_ignores [OF body(2,3), of rest]
    show "serve_public pc e q st =
        serve_public pc e (q\<lparr>pq_body := json_body (JObj (filter (\<lambda>(n, v). find_field exchange_fields n \<noteq> None) fs))\<rparr>) st"
      by (simp add: serve_public_def serve_exchange_surface_def exchange_body_def body(1))
  qed
qed

theorem unknown_members_witness:
  "\<exists>wk xwk. start_process demo_lib demo_env = Inr (demo_process wk xwk, demo_state) \<and>
     serve_public (demo_process wk xwk) (demo_env_at demo_now)
       (demo_post ''/siwe/challenge'' [] (JObj [(''address'', JStr ''0x07''), (''admin'', JBool True)])) demo_state
     = (SiweAnswer could_not_parse, demo_state)"
proof -
  obtain wk xwk where start: "start_process demo_lib demo_env = Inr (demo_process wk xwk, demo_state)" using demo_starts by blast
  have "find_field challenge_fields ''admin'' = None" by code_simp
  then show ?thesis
    using unknown_members [of "demo_post ''/siwe/challenge'' [] (JObj [(''address'', JStr ''0x07''), (''admin'', JBool True)])"
        "[(''address'', JStr ''0x07''), (''admin'', JBool True)]" "[]" "demo_process wk xwk" "demo_env_at demo_now" demo_state] start
    by (auto simp: demo_post_def demo_routes max_nesting_depth_def)
qed

end
