(* ===== verification/Fleet.thy ===== *)
theory Fleet imports ProcessSpec begin

text \<open>
  Several replicas of the process over one Postgres database, which is what the Postgres store is for
  (internal/siwe/nonce/postgres.go, the Helm chart).  Replicas start from environments of their own, which
  may differ in keys and settings during a rollout, serve, and go; a replica that comes back starts anew.
  They share the table of challenges and nothing else.
\<close>

section \<open>Replicas\<close>

record 'k fleet =
  fl_table :: pg_table
  fl_replicas :: "nat \<Rightarrow> ('k process \<times> template_cache) option"

text \<open>
  A start meets the nodes and the database as they answer at that moment; the packages it is linked with
  stay the same.  \<open>schema.sql\<close> creates the table only if there is none, so that the start finds the table as
  the others left it.
\<close>

datatype 'k fleet_event =
    Joined nat "string \<Rightarrow> go_error + chain" "string \<Rightarrow> go_error + pool" environ
  | Left nat
  | At nat "'k process" process_event

abbreviation linked ::
  "'k startup_lib \<Rightarrow> (string \<Rightarrow> go_error + chain) \<Rightarrow> (string \<Rightarrow> go_error + pool) \<Rightarrow> 'k startup_lib" where
  "linked lib dial pools \<equiv> lib\<lparr>su_dial := dial, su_new_pool := pools\<rparr>"

inductive fleet_step :: "'k startup_lib \<Rightarrow> 'k fleet \<Rightarrow> 'k fleet_event \<Rightarrow> 'k fleet \<Rightarrow> bool" for lib where
  joined: "start_process (linked lib dial pools) env =
      Inr (pc, \<lparr>ps_store = PostgresStore (fl_table fl), ps_cache = Map.empty\<rparr>) \<Longrightarrow>
    fleet_step lib fl (Joined i dial pools env) (fl\<lparr>fl_replicas := (fl_replicas fl)(i \<mapsto> (pc, Map.empty))\<rparr>)"
| left: "fleet_step lib fl (Left i) (fl\<lparr>fl_replicas := (fl_replicas fl)(i := None)\<rparr>)"
| at: "fl_replicas fl i = Some (pc, c) \<Longrightarrow>
    process_step pc \<lparr>ps_store = PostgresStore (fl_table fl), ps_cache = c\<rparr> ev \<lparr>ps_store = PostgresStore t, ps_cache = c'\<rparr> \<Longrightarrow>
    fleet_step lib fl (At i pc ev) \<lparr>fl_table = t, fl_replicas = (fl_replicas fl)(i \<mapsto> (pc, c'))\<rparr>"

inductive_cases fleet_atE: "fleet_step lib fl (At i pc ev) fl'"

definition no_replicas :: "'k fleet" where
  "no_replicas = \<lparr>fl_table = Map.empty, fl_replicas = Map.empty\<rparr>"

inductive fleet_run :: "'k startup_lib \<Rightarrow> 'k fleet_event list \<Rightarrow> 'k fleet \<Rightarrow> bool" for lib where
  start: "fleet_run lib [] no_replicas"
| step: "fleet_run lib tr fl \<Longrightarrow> fleet_step lib fl ev fl' \<Longrightarrow> fleet_run lib (tr @ [ev]) fl'"

inductive_cases fleet_run_snocE: "fleet_run lib (tr @ [ev]) fl"

text \<open>What the sign-in surfaces served, of all replicas, and what the exchange of one replica served.\<close>

fun fleet_siwe_events :: "'k fleet_event \<Rightarrow> pg_call siwe_event list" where
  "fleet_siwe_events (At i pc ev) = siwe_events pc ev"
| "fleet_siwe_events (Joined i dial pools env) = []"
| "fleet_siwe_events (Left i) = []"

fun fleet_exchange_events :: "nat \<Rightarrow> 'k fleet_event \<Rightarrow> exchange_event list" where
  "fleet_exchange_events j (At i pc ev) = (if i = j then exchange_events pc ev else [])"
| "fleet_exchange_events j (Joined i dial pools env) = []"
| "fleet_exchange_events j (Left i) = []"

definition fleet_siwe :: "'k fleet_event list \<Rightarrow> pg_call siwe_event list" where
  "fleet_siwe tr = concat (map fleet_siwe_events tr)"

definition fleet_exchange :: "nat \<Rightarrow> 'k fleet_event list \<Rightarrow> exchange_event list" where
  "fleet_exchange j tr = concat (map (fleet_exchange_events j) tr)"

lemma fleet_traces_snoc [simp]:
  "fleet_siwe [] = []" "fleet_siwe (tr @ [ev]) = fleet_siwe tr @ fleet_siwe_events ev"
  "fleet_exchange j [] = []" "fleet_exchange j (tr @ [ev]) = fleet_exchange j tr @ fleet_exchange_events j ev"
  by (simp_all add: fleet_siwe_def fleet_exchange_def)

section \<open>The shared store of a run\<close>

text \<open>Whatever runs was started by the code, and its template cache comes from a run of its exchange.\<close>

definition replica_ok :: "'k startup_lib \<Rightarrow> exchange_event list \<Rightarrow> 'k process \<Rightarrow> template_cache \<Rightarrow> bool" where
  "replica_ok lib xtr pc c \<longleftrightarrow>
     (\<exists>dial pools env st. start_process (linked lib dial pools) env = Inr (pc, st)) \<and>
     (\<exists>tr. set tr \<subseteq> set xtr \<and> exchange_run (pc_exchange pc) tr c)"

lemma replica_ok_mono: "replica_ok lib xtr pc c \<Longrightarrow> set xtr \<subseteq> set xtr' \<Longrightarrow> replica_ok lib xtr' pc c"
  unfolding replica_ok_def by blast

lemma fleet_replica_ok:
  "fleet_run lib tr fl \<Longrightarrow> fl_replicas fl i = Some (pc, c) \<Longrightarrow> replica_ok lib (fleet_exchange i tr) pc c"
proof (induction arbitrary: pc c rule: fleet_run.induct)
  case start
  then show ?case by (simp add: no_replicas_def)
next
  case (step tr fl ev fl')
  have old: "replica_ok lib (fleet_exchange i (tr @ [ev])) pc c" if "fl_replicas fl i = Some (pc, c)" for pc c
    using step.IH [OF that] by (rule replica_ok_mono) simp
  from step.hyps(2) show ?case
  proof cases
    case (joined dial pools env pc' j)
    show ?thesis
    proof (cases "i = j")
      case True
      with joined step.prems have "pc = pc'" "c = Map.empty" by simp_all
      with joined(3) show ?thesis unfolding replica_ok_def
        by (intro conjI exI [of _ dial] exI [of _ pools] exI [of _ env] exI [of _ "[]"]) (auto intro: exchange_run.start)
    qed (use joined step.prems old in simp)
  next
    case (left j)
    then show ?thesis using step.prems old by (simp split: if_splits)
  next
    case (at j pc' c0 ev' t c')
    show ?thesis
    proof (cases "i = j")
      case True
      with at step.prems have pc: "pc = pc'" "c = c'" by simp_all
      from step.IH at(3) True obtain xtr where xtr: "set xtr \<subseteq> set (fleet_exchange i tr)"
        "exchange_run (pc_exchange pc) xtr c0"
        and st: "\<exists>dial pools env st. start_process (linked lib dial pools) env = Inr (pc, st)"
        unfolding replica_ok_def pc by blast
      from step_exchange [OF at(4)] xtr(2) have "exchange_run (pc_exchange pc) (xtr @ exchange_events pc ev') c"
        by (simp add: pc)
      moreover have "set (xtr @ exchange_events pc ev') \<subseteq> set (fleet_exchange i (tr @ [ev]))"
        using xtr(1) at(1) True by (auto simp: pc)
      ultimately show ?thesis unfolding replica_ok_def using st by blast
    qed (use at step.prems old in simp)
  qed
qed

lemma started_parts:
  assumes "start_process (linked lib dial pools) env = Inr (pc, st)"
  shows "pc_eth pc = su_eth lib" "pc_timestamp pc = su_timestamp lib" "pc_claims_signer pc = su_claims_signer lib"
  using assms by (cases rule: start_process_Inr; simp)+

text \<open>The sign-in surfaces of all replicas together are one run over the shared table.\<close>

lemma fleet_siwe_run:
  "fleet_run lib tr fl \<Longrightarrow> siwe_run (su_eth lib) (su_claims_signer lib) (store_ops (su_eth lib) (su_timestamp lib))
     (PostgresStore Map.empty) (fleet_siwe tr) (PostgresStore (fl_table fl))"
proof (induction rule: fleet_run.induct)
  case start
  then show ?case by (simp add: siwe_run_Nil no_replicas_def)
next
  case (step tr fl ev fl')
  from step.hyps(2) show ?case
  proof cases
    case (at i pc c ev' t c')
    from fleet_replica_ok [OF step.hyps(1) at(3)] obtain dial pools env st where
      "start_process (linked lib dial pools) env = Inr (pc, st)" unfolding replica_ok_def by blast
    from step_siwe [OF at(4), unfolded started_parts [OF this]] step.IH show ?thesis
      by (auto simp: at(1,2) siwe_run_append)
  qed (use step.IH in simp_all)
qed

section \<open>Properties\<close>

text \<open>
  C3: Single use across replicas.  However the requests for challenges and tokens and the janitor ticks of
  any number of replicas over one database interleave, and whatever becomes of their statements, the tokens
  that all replicas together served for a nonce, and the challenge still in the table for it, are at most
  the challenges drawn with it: a nonce that is presented to two replicas pays for one token.
\<close>

theorem fleet_single_use:
  assumes "postgres_backend (su_eth lib) (su_timestamp lib)" and "fleet_run lib tr fl"
  shows "count_events (serves_token k) (fleet_siwe tr) + (if fl_table fl k = None then 0 else 1)
    \<le> count_events (draws k) (fleet_siwe tr)"
  using postgres_backend.surface_token_count [OF assms(1) fleet_siwe_run [OF assms(2)], where k = k]
  by (simp add: postgres_kind_def store_lookup_def postgres_lookup_def)

text \<open>
  C1: From a wallet's signature to a permission token.  Over the whole life of a fleet of replicas, a
  permission token is served only for an account with all of this: before, some replica was asked for a
  challenge made out to the account; some replica, before that challenge expired, verified a signature of the
  account over its text and served the bearer token, signed by its sign-in keys for the account; the
  account is a developer licensee when it presents the bearer token; and a signed document or its
  permission bits give it what the request asks for.  The permission token is signed with the key of the
  replica's exchange and names the account, the asset, the permissions and the events asked for.
\<close>

theorem fleet_end_to_end:
  assumes "postgres_backend (su_eth lib) (su_timestamp lib)"
    and "\<not> eth_is_hex_address (su_eth lib) ''''"
    and "\<And>b. eth_hex_to_address (su_eth lib) (eth_address_hex (su_eth lib) b) = b"
    and "reads_back (su_claims_signer lib) (su_jwt lib)" and "own_token pc (fleet_siwe pre) q"
    and "fleet_run lib (pre @ [At i pc (Served e q (ExchangeAnswer (token_reply tk)))]) fl"
    and "x = pc_exchange pc" and "w = exchange_world (su_eth lib) (pc_exchange_parts pc) (rv_net e)"
    and "seen = run_envs (fleet_exchange i (pre @ [At i pc (Served e q (ExchangeAnswer (token_reply tk)))]))"
  shows "\<exists>a tok req acc pt h decoded call now uuid ttl nc sig ch.
    pq_authorization q = ''Bearer '' @ tok \<and>
    TokenServed h decoded call now uuid (write_json 200 (token_response tok ttl)) \<in> set (fleet_siwe pre) \<and>
    (\<exists>ev \<in> set (fleet_siwe pre). asks_challenge (su_eth lib) nc ch ev) \<and>
    token_presented (su_eth lib) decoded nc sig \<and> pg_now call \<le> ch_expires_at ch \<and> ch_address ch = a \<and>
    verify (su_eth lib) (h_verifier h) a (bytes_of (ch_message ch)) sig = Inr True \<and>
    keyset_sign (su_claims_signer lib) (is_keys (h_issuer h))
      (issue_claims (su_eth lib) (h_issuer h) now uuid a (ch_audience ch)) = Inr tok \<and>
    is_dev_license (su_eth lib) (nw_license (rv_net e)) a = Inr True \<and>
    hq_body (exchange_body q) = Inr req \<and>
    asks_for (su_eth lib) (xs_codec x) (xs_err_text x) (xs_controller x) req acc \<and> grant_held x w seen acc a \<and>
    keyset_sign (su_permission_signer lib) (tg_keys (xs_signer x)) pt = Inr tk \<and>
    rc_subject (tk_registered pt) = eth_address_hex (su_eth lib) a \<and>
    cc_asset (tk_custom pt) = asset_string (xs_codec x) (ar_asset acc) \<and>
    cc_permissions (tk_custom pt) = ar_permissions acc \<and>
    cc_cloud_events (tk_custom pt) = Some (map event_claim_of (ar_event_filters acc))"
proof -
  obtain f where run: "fleet_run lib pre f" "fleet_step lib f (At i pc (Served e q (ExchangeAnswer (token_reply tk)))) fl"
    using assms(6) by (auto elim: fleet_run_snocE)
  from run(2) obtain c t c' where at: "fl_replicas f i = Some (pc, c)"
    "process_step pc \<lparr>ps_store = PostgresStore (fl_table f), ps_cache = c\<rparr> (Served e q (ExchangeAnswer (token_reply tk)))
       \<lparr>ps_store = PostgresStore t, ps_cache = c'\<rparr>" by (auto elim: fleet_atE)
  from fleet_replica_ok [OF run(1) at(1)] obtain dial pools env st xtr where
    st: "start_process (linked lib dial pools) env = Inr (pc, st)"
    and xtr: "set xtr \<subseteq> set (fleet_exchange i pre)" "exchange_run (pc_exchange pc) xtr c"
    unfolding replica_ok_def by blast
  have "w_templates w \<in> seen"
    using served_permission_token(1) [OF at(2)] by (simp add: assms(8,9) started_parts [OF st])
  moreover have "run_envs xtr \<subseteq> seen" using xtr(1) by (auto simp: assms(9) run_envs_def)
  ultimately have envs: "insert (w_templates w) (run_envs xtr) \<subseteq> seen" by simp
  let ?lib = "linked lib dial pools"
  have none: "store_lookup (su_eth lib) (PostgresStore Map.empty) nc = None" for nc
    by (simp add: store_lookup_def postgres_lookup_def)
  have lib: "postgres_backend (su_eth ?lib) (su_timestamp ?lib)" "\<not> eth_is_hex_address (su_eth ?lib) ''''"
    "\<And>b. eth_hex_to_address (su_eth ?lib) (eth_address_hex (su_eth ?lib) b) = b"
    "reads_back (su_claims_signer ?lib) (su_jwt ?lib)"
    and siwe: "siwe_run (su_eth ?lib) (su_claims_signer ?lib) (store_ops (su_eth ?lib) (su_timestamp ?lib))
      (PostgresStore Map.empty) (fleet_siwe pre) (PostgresStore (fl_table f))"
    and kind: "memory_kind 0 (PostgresStore Map.empty) \<or> postgres_kind (PostgresStore Map.empty)"
    using assms(1-4) fleet_siwe_run [OF run(1)] by (simp_all add: postgres_kind_def)
  have "permission_earned ?lib pc e q tk (fleet_siwe pre) (PostgresStore Map.empty) seen"
    by (rule permission_token_earned [OF lib(1,2,3) st lib(4) kind siwe assms(5) _ at(2), where xtr = xtr])
      (use xtr(2) envs in \<open>simp_all add: assms(8)\<close>)
  then obtain a tok req acc pt where p: "pq_authorization q = ''Bearer '' @ tok"
    "token_earned (su_eth lib) (su_claims_signer lib) (fleet_siwe pre) (PostgresStore Map.empty) tok a"
    "is_dev_license (su_eth lib) (nw_license (rv_net e)) a = Inr True" "hq_body (exchange_body q) = Inr req"
    "asks_for (su_eth lib) (xs_codec x) (xs_err_text x) (xs_controller x) req acc" "grant_held x w seen acc a"
    "keyset_sign (su_permission_signer lib) (tg_keys (xs_signer x)) pt = Inr tk"
    "rc_subject (tk_registered pt) = eth_address_hex (su_eth lib) a"
    "cc_asset (tk_custom pt) = asset_string (xs_codec x) (ar_asset acc)"
    "cc_permissions (tk_custom pt) = ar_permissions acc"
    "cc_cloud_events (tk_custom pt) = Some (map event_claim_of (ar_event_filters acc))"
    unfolding permission_earned_def Let_def by (auto simp: assms(7,8))
  from p(2) obtain h decoded call now uuid ttl nc sig ch where t:
    "TokenServed h decoded call now uuid (write_json 200 (token_response tok ttl)) \<in> set (fleet_siwe pre)"
    "\<exists>ev \<in> set (fleet_siwe pre). asks_challenge (su_eth lib) nc ch ev"
    "token_presented (su_eth lib) decoded nc sig" "pg_now call \<le> ch_expires_at ch" "ch_address ch = a"
    "verify (su_eth lib) (h_verifier h) a (bytes_of (ch_message ch)) sig = Inr True"
    "keyset_sign (su_claims_signer lib) (is_keys (h_issuer h))
      (issue_claims (su_eth lib) (h_issuer h) now uuid a (ch_audience ch)) = Inr tok"
    unfolding token_earned_def none by (elim exE conjE disjE) ((rule that; assumption) | simp)+
  show ?thesis
    by (intro exI conjI; (rule p t)?)
qed

section \<open>Two replicas\<close>

text \<open>The challenge comes from one replica, the bearer token from the other, the permission token from the first.\<close>

definition demo_join :: "nat \<Rightarrow> unit fleet_event" where
  "demo_join i = Joined i (su_dial demo_lib) (su_new_pool demo_lib) demo_env"

definition demo_before :: "unit process \<Rightarrow> unit fleet_event list" where
  "demo_before pc = [demo_join 0, demo_join 1, At 0 pc (demo_run ! 0), At 1 pc (demo_run ! 1)]"

definition demo_last :: "unit process \<Rightarrow> unit fleet_event" where
  "demo_last pc = At 0 pc (Served (demo_env_at (demo_now + second))
     demo_exchange_post (ExchangeAnswer (token_reply demo_permission_token)))"

lemma demo_joined:
  assumes "start_process demo_lib demo_env = Inr (pc, demo_state)" and "fl_table fl = Map.empty"
  shows "fleet_step demo_lib fl (demo_join i) (fl\<lparr>fl_replicas := (fl_replicas fl)(i \<mapsto> (pc, Map.empty))\<rparr>)"
  unfolding demo_join_def by (rule fleet_step.joined) (simp add: assms demo_state_def [symmetric])

lemma demo_fleet_run:
  assumes "start_process demo_lib demo_env = Inr (demo_process wk xwk, demo_state)" (is "_ = Inr (?pc, _)")
  shows "\<exists>fl. fleet_run demo_lib (demo_before ?pc @ [demo_last ?pc]) fl"
proof -
  obtain s where token: "process_step ?pc (demo_state\<lparr>ps_store := PostgresStore demo_table\<rparr>) (demo_run ! 1) (demo_state\<lparr>ps_store := s\<rparr>)"
    using demo_served_token [of wk xwk] by (auto simp: demo_run_def)
  have "postgres_kind s"
    using surface_kind(2) [OF _ step_siwe [OF token]] pg_model.postgres_backend_axioms
    by (simp add: demo_pc_simps postgres_kind_def)
  then obtain t where s: "s = PostgresStore t" by (auto simp: postgres_kind_def)
  obtain c where exchange: "process_step ?pc (demo_state\<lparr>ps_store := s\<rparr>) (demo_run ! 2) (demo_state\<lparr>ps_store := s, ps_cache := c\<rparr>)"
    using demo_served_exchange [of wk xwk s] by (auto simp: demo_run_def)
  let ?both = "[0 \<mapsto> (?pc, Map.empty), 1 \<mapsto> (?pc, Map.empty)]"
  have "fleet_run demo_lib ([] @ [demo_join 0]) \<lparr>fl_table = Map.empty, fl_replicas = [0 \<mapsto> (?pc, Map.empty)]\<rparr>"
    by (rule fleet_run.step [OF fleet_run.start]) (use demo_joined [OF assms, of no_replicas 0] in \<open>simp add: no_replicas_def\<close>)
  from fleet_run.step [OF this demo_joined [OF assms]]
  have "fleet_run demo_lib ([demo_join 0] @ [demo_join 1]) \<lparr>fl_table = Map.empty, fl_replicas = ?both\<rparr>" by simp
  from fleet_run.step [OF this fleet_step.at [of _ 0 ?pc Map.empty "demo_run ! 0" demo_table Map.empty]] demo_served_challenge [of wk xwk]
  have "fleet_run demo_lib [demo_join 0, demo_join 1, At 0 ?pc (demo_run ! 0)] \<lparr>fl_table = demo_table, fl_replicas = ?both\<rparr>"
    by (simp add: demo_state_def demo_run_def fun_upd_twist)
  from fleet_run.step [OF this fleet_step.at [of _ 1 ?pc Map.empty "demo_run ! 1" t Map.empty]] token
  have "fleet_run demo_lib (demo_before ?pc) \<lparr>fl_table = t, fl_replicas = ?both\<rparr>"
    by (simp add: demo_state_def demo_before_def s)
  from fleet_run.step [OF this fleet_step.at [of _ 0 ?pc Map.empty "demo_run ! 2" t c]] exchange
  show ?thesis by (auto simp: demo_state_def demo_last_def s demo_run_def)
qed

theorem fleet_single_use_witness:
  "\<exists>wk xwk fl. fleet_run demo_lib (demo_before (demo_process wk xwk) @ [demo_last (demo_process wk xwk)]) fl \<and>
     count_events (serves_token demo_nonce) (fleet_siwe (demo_before (demo_process wk xwk) @ [demo_last (demo_process wk xwk)]))
     \<le> count_events (draws demo_nonce) (fleet_siwe (demo_before (demo_process wk xwk) @ [demo_last (demo_process wk xwk)]))"
proof -
  obtain wk xwk where "start_process demo_lib demo_env = Inr (demo_process wk xwk, demo_state)"
    using demo_starts by blast
  then obtain fl where run: "fleet_run demo_lib (demo_before (demo_process wk xwk) @ [demo_last (demo_process wk xwk)]) fl"
    using demo_fleet_run by blast
  have backend: "postgres_backend (su_eth demo_lib) (su_timestamp demo_lib)"
    using pg_model.postgres_backend_axioms by (simp add: demo_lib_simps)
  from fleet_single_use [OF this run, of demo_nonce] run show ?thesis by (meson add_leD1)
qed

lemma demo_fleet_token:
  "own_token (demo_process wk xwk) (fleet_siwe (demo_before (demo_process wk xwk)))
     demo_exchange_post"
proof -
  have "fleet_siwe (demo_before (demo_process wk xwk)) = siwe_trace (demo_process wk xwk) (butlast demo_run)"
    by (simp add: fleet_siwe_def demo_before_def demo_join_def siwe_trace_def demo_run_def)
  with demo_own_token show ?thesis by simp
qed

theorem fleet_end_to_end_witness:
  "\<exists>wk xwk a nc ch (h :: handlers) sig. (\<exists>ev \<in> set (fleet_siwe (demo_before (demo_process wk xwk))). asks_challenge eth_model nc ch ev) \<and>
     ch_address ch = a \<and> verify eth_model (h_verifier h) a (bytes_of (ch_message ch)) sig = Inr True"
proof -
  obtain wk xwk where start: "start_process demo_lib demo_env = Inr (demo_process wk xwk, demo_state)"
    using demo_starts by blast
  obtain fl where run: "fleet_run demo_lib (demo_before (demo_process wk xwk) @ [demo_last (demo_process wk xwk)]) fl"
    using demo_fleet_run [OF start] by blast
  have lib: "postgres_backend (su_eth demo_lib) (su_timestamp demo_lib)" "\<not> eth_is_hex_address (su_eth demo_lib) ''''"
    "\<And>b. eth_hex_to_address (su_eth demo_lib) (eth_address_hex (su_eth demo_lib) b) = b"
    "reads_back (su_claims_signer demo_lib) (su_jwt demo_lib)"
    using pg_model.postgres_backend_axioms
    by (simp_all add: demo_lib_simps empty_not_address model_decode_address demo_reads_back)
  from fleet_end_to_end [OF lib demo_fleet_token run [unfolded demo_last_def] refl refl refl]
  obtain a nc ch and h :: handlers and sig where w: "\<exists>ev \<in> set (fleet_siwe (demo_before (demo_process wk xwk))). asks_challenge eth_model nc ch ev"
    "ch_address ch = a" "verify eth_model (h_verifier h) a (bytes_of (ch_message ch)) sig = Inr True"
    unfolding demo_lib_simps by (elim exE conjE) (rule that; assumption)
  then show ?thesis by blast
qed

end
