(* ===== verification/Serving.thy ===== *)
theory Serving imports Startup begin

text \<open>
  How the process ends (cmd/dauth/main.go): the three servers run in an \<open>errgroup\<close> until one of them fails
  or a signal cancels the context; the first failure is the result of \<open>run\<close>, and \<open>main\<close> exits with
  status 1 for it.
\<close>

text \<open>
  What the \<open>select\<close> of a server sees first: its listener ended with an error, or with
  \<open>http.ErrServerClosed\<close> (no error for gRPC), or the context was done, with the outcome of the shutdown,
  which is only logged.
\<close>

datatype server_end = EndedWith go_error | EndedClosed | ContextDone "go_error option"

definition serve_http :: "server_end \<Rightarrow> go_error option" where
  "serve_http e = (case e of EndedWith err \<Rightarrow> Some err | EndedClosed \<Rightarrow> None | ContextDone shutdown \<Rightarrow> None)"

text \<open>The gRPC server listens first; its shutdown has no outcome.\<close>

definition serve_grpc :: "go_error option \<Rightarrow> server_end \<Rightarrow> go_error option" where
  "serve_grpc listen e =
     (case listen of
        Some err \<Rightarrow> Some (Wrap ''grpc listen'' err)
      | None \<Rightarrow> (case e of EndedWith err \<Rightarrow> Some err | EndedClosed \<Rightarrow> None | ContextDone shutdown \<Rightarrow> None))"

text \<open>
  \<open>group.Wait()\<close>: the functions of the group in the order in which they returned; the first error counts,
  and cancels the context of the others.
\<close>

datatype server_task = PublicServer server_end | OpsServer server_end | GrpcServer "go_error option" server_end

fun task_result :: "server_task \<Rightarrow> go_error option" where
  "task_result (PublicServer e) = serve_http e"
| "task_result (OpsServer e) = serve_http e"
| "task_result (GrpcServer listen e) = serve_grpc listen e"

definition group_wait :: "server_task list \<Rightarrow> go_error option" where
  "group_wait returned = first_some task_result returned"

definition run_process :: "'k startup_lib \<Rightarrow> environ \<Rightarrow> server_task list \<Rightarrow> go_error option" where
  "run_process lib env returned =
     (case start_process lib env of Inl err \<Rightarrow> Some err | Inr _ \<Rightarrow> group_wait returned)"

definition main_exit :: "'k startup_lib \<Rightarrow> environ \<Rightarrow> server_task list \<Rightarrow> int" where
  "main_exit lib env returned = (case run_process lib env returned of Some err \<Rightarrow> 1 | None \<Rightarrow> 0)"

lemma first_some_None: "first_some f xs = None \<longleftrightarrow> (\<forall>x \<in> set xs. f x = None)"
  by (induction xs) (auto split: option.split)

text \<open>
  The process exits with status 0 exactly when it started and no server failed: all of them were closed or
  saw the context done, whatever their shutdown said.
\<close>

lemma clean_exit_iff:
  "main_exit lib env returned = 0 \<longleftrightarrow>
     succeeds (start_process lib env) \<and> (\<forall>t \<in> set returned. task_result t = None)"
  by (cases "start_process lib env")
    (auto simp: main_exit_def run_process_def group_wait_def first_some_None simp flip: first_some_None split: option.splits)

end
