(* ===== verification/ApiDocs.thy ===== *)
theory ApiDocs imports Process begin

text \<open>
  The OpenAPI documents that the two surfaces publish (internal/siwe/docs/dauth\_docs.go and
  internal/exchange/docs/docs.go), as JSON values: the text of each template with the fields of its
  \<open>swag.Spec\<close> filled in, apart from white space.  They are generated from the annotations of the handlers;
  the properties compare them with what the handlers do.
\<close>

section \<open>The specifications\<close>

text \<open>\<open>swag.Spec\<close>\<close>

record swag_spec =
  sp_version :: string
  sp_host :: string
  sp_base_path :: string
  sp_schemes :: "string list"
  sp_title :: string
  sp_description :: string
  sp_instance_name :: string
  sp_left_delim :: string
  sp_right_delim :: string

definition swagger_info_dauth :: swag_spec where
  "swagger_info_dauth =
     \<lparr>sp_version = ''1.0'', sp_host = '''', sp_base_path = ''/siwe'', sp_schemes = [], sp_title = ''dauth sign-in API'',
      sp_description = ''DIMO Web3 sign-in. A client signs a Sign-In With Ethereum'' @ nl
        @ ''(EIP-4361) challenge and receives a short-lived RS256 JWT carrying'' @ nl
        @ ''its Ethereum address, verifiable offline against the published JWKS.'',
      sp_instance_name = ''dauth'', sp_left_delim = ''{{'', sp_right_delim = ''}}''\<rparr>"

definition swagger_info :: swag_spec where
  "swagger_info =
     \<lparr>sp_version = ''1.0'', sp_host = '''', sp_base_path = ''/exchange'', sp_schemes = [],
      sp_title = ''DIMO Token Exchange API'', sp_description = '''', sp_instance_name = ''swagger'',
      sp_left_delim = ''{{'', sp_right_delim = ''}}''\<rparr>"

section \<open>The sign-in document\<close>

definition challenge_operation :: json where
  "challenge_operation = JObj [
      (''description'', JStr (''Generates an EIP-4361 (Sign-In With Ethereum) message for the given address and records ''
          @ ''its single-use nonce. The client signs the returned `challenge` string with its wallet ''
          @ ''and submits it to POST /auth/token. The chain is fixed by server config.'')),
      (''consumes'', JArr [JStr ''application/json'']),
      (''produces'', JArr [JStr ''application/json'']),
      (''tags'', JArr [JStr ''auth'']),
      (''summary'', JStr ''Request a SIWE challenge''),
      (''parameters'', JArr [
        JObj [
          (''description'', JStr ''Address to sign in''),
          (''name'', JStr ''request''),
          (''in'', JStr ''body''),
          (''required'', JBool True),
          (''schema'', JObj [(''$ref'', JStr ''#/definitions/server.challengeRequest'')])]]),
      (''responses'', JObj [
        (''200'', JObj [
          (''description'', JStr ''OK''),
          (''schema'', JObj [(''$ref'', JStr ''#/definitions/server.challengeResponse'')])]),
        (''400'', JObj [
          (''description'', JStr ''invalid_request''),
          (''schema'', JObj [(''$ref'', JStr ''#/definitions/server.errorResponse'')])]),
        (''429'', JObj [
          (''description'', JStr ''rate limited''),
          (''schema'', JObj [(''$ref'', JStr ''#/definitions/server.errorResponse'')])]),
        (''500'', JObj [
          (''description'', JStr ''server_error''),
          (''schema'', JObj [(''$ref'', JStr ''#/definitions/server.errorResponse'')])]),
        (''503'', JObj [
          (''description'', JStr ''challenge store unavailable''),
          (''schema'', JObj [(''$ref'', JStr ''#/definitions/server.errorResponse'')])])])]"

definition token_operation :: json where
  "token_operation = JObj [
      (''description'', JStr (''Looks up the stored challenge by nonce, consumes it (single-use), and verifies the ''
          @ ''signature over the canonical SIWE message ''
          @ [CHR 0xE2, CHR 0x80, CHR 0x94] @ '' EOA via ecrecover, or a deployed smart account via EIP-1271. On success, mints a ''
          @ ''short-lived RS256 JWT carrying the address.'')),
      (''consumes'', JArr [JStr ''application/json'']),
      (''produces'', JArr [JStr ''application/json'']),
      (''tags'', JArr [JStr ''auth'']),
      (''summary'', JStr ''Exchange a signed challenge for an access token''),
      (''parameters'', JArr [
        JObj [
          (''description'', JStr ''Nonce and 0x-prefixed signature''),
          (''name'', JStr ''request''),
          (''in'', JStr ''body''),
          (''required'', JBool True),
          (''schema'', JObj [(''$ref'', JStr ''#/definitions/server.tokenRequest'')])]]),
      (''responses'', JObj [
        (''200'', JObj [
          (''description'', JStr ''OK''),
          (''schema'', JObj [(''$ref'', JStr ''#/definitions/server.tokenResponse'')])]),
        (''400'', JObj [
          (''description'', JStr ''invalid_request''),
          (''schema'', JObj [(''$ref'', JStr ''#/definitions/server.errorResponse'')])]),
        (''401'', JObj [
          (''description'', JStr ''invalid_grant''),
          (''schema'', JObj [(''$ref'', JStr ''#/definitions/server.errorResponse'')])]),
        (''500'', JObj [
          (''description'', JStr ''server_error''),
          (''schema'', JObj [(''$ref'', JStr ''#/definitions/server.errorResponse'')])]),
        (''503'', JObj [
          (''description'', JStr ''verification backend unavailable''),
          (''schema'', JObj [(''$ref'', JStr ''#/definitions/server.errorResponse'')])])])]"

definition dauth_definitions :: json where
  "dauth_definitions = JObj [
      (''server.challengeRequest'', JObj [
        (''type'', JStr ''object''),
        (''properties'', JObj [
          (''address'', JObj [(''type'', JStr ''string''), (''example'', JStr ''0x6E4...A1b'')]),
          (''audience'', JObj [
            (''description'', JStr (''Audience optionally requests a specific `aud` for the issued token. Every'' @ nl
                @ ''value must be on the server's allow-list (SIWE_ALLOWED_AUDIENCES) or the'' @ nl
                @ ''challenge is rejected. Omit it to receive the configured default audience.'')),
            (''type'', JStr ''array''),
            (''items'', JObj [(''type'', JStr ''string'')]),
            (''example'', JArr [JStr ''step-ca''])])])]),
      (''server.challengeResponse'', JObj [
        (''type'', JStr ''object''),
        (''properties'', JObj [
          (''challenge'', JObj [
            (''type'', JStr ''string''),
            (''example'', JStr ''dauth.dimo.zone wants you to sign in with your Ethereum account:...'')]),
          (''expires_at'', JObj [(''type'', JStr ''string''), (''example'', JStr ''2026-06-14T17:25:00Z'')]),
          (''nonce'', JObj [(''type'', JStr ''string''), (''example'', JStr ''a1b2c3...'')])])]),
      (''server.errorResponse'', JObj [
        (''type'', JStr ''object''),
        (''properties'', JObj [
          (''error'', JObj [(''type'', JStr ''string''), (''example'', JStr ''invalid_grant'')]),
          (''error_description'', JObj [
            (''type'', JStr ''string''),
            (''example'', JStr ''challenge not found, already used, or expired'')])])]),
      (''server.tokenRequest'', JObj [
        (''type'', JStr ''object''),
        (''properties'', JObj [
          (''nonce'', JObj [(''type'', JStr ''string''), (''example'', JStr ''a1b2c3...'')]),
          (''signature'', JObj [(''type'', JStr ''string''), (''example'', JStr ''0x1c8f...'')])])]),
      (''server.tokenResponse'', JObj [
        (''type'', JStr ''object''),
        (''properties'', JObj [
          (''expires_in'', JObj [(''type'', JStr ''integer''), (''example'', JInt 600)]),
          (''token'', JObj [(''type'', JStr ''string''), (''example'', JStr ''eyJ...'')]),
          (''token_type'', JObj [(''type'', JStr ''string''), (''example'', JStr ''Bearer'')])])])]"

definition doc_template_dauth :: "swag_spec \<Rightarrow> json" where
  "doc_template_dauth s = JObj [
      (''schemes'', json_strings (sp_schemes s)),
      (''swagger'', JStr ''2.0''),
      (''info'', JObj [
        (''description'', JStr (sp_description s)),
        (''title'', JStr (sp_title s)),
        (''contact'', JObj []),
        (''version'', JStr (sp_version s))]),
      (''host'', JStr (sp_host s)),
      (''basePath'', JStr (sp_base_path s)),
      (''paths'', JObj [
        (''/challenge'', JObj [
          (''post'', challenge_operation)]),
        (''/token'', JObj [
          (''post'', token_operation)])]),
      (''definitions'', dauth_definitions)]"

section \<open>The exchange document\<close>

definition exchange_operation :: json where
  "exchange_operation = JObj [
      (''security'', JArr [JObj [(''BearerAuth'', JArr [])]]),
      (''description'', JStr ''Returns a signed token with the requested privileges.''),
      (''consumes'', JArr [JStr ''application/json'']),
      (''produces'', JArr [JStr ''application/json'']),
      (''summary'', JStr ''privileges on the correct token.''),
      (''parameters'', JArr [
        JObj [
          (''description'', JStr ''Requested privileges: must include address, token id, and privilege ids''),
          (''name'', JStr ''tokenRequest''),
          (''in'', JStr ''body''),
          (''required'', JBool True),
          (''schema'', JObj [(''$ref'', JStr ''#/definitions/internal_controllers_httpcontroller.TokenRequest'')])]]),
      (''responses'', JObj [
        (''200'', JObj [
          (''description'', JStr ''OK''),
          (''schema'', JObj [
            (''$ref'', JStr ''#/definitions/internal_controllers_httpcontroller.TokenResponse'')])])])]"

definition exchange_definitions :: json where
  "exchange_definitions = JObj [
      (''github_com_DIMO-Network_token-exchange-api_internal_models.EventFilter'', JObj [
        (''type'', JStr ''object''),
        (''properties'', JObj [
          (''eventType'', JObj [(''type'', JStr ''string'')]),
          (''ids'', JObj [(''type'', JStr ''array''), (''items'', JObj [(''type'', JStr ''string'')])]),
          (''source'', JObj [(''type'', JStr ''string'')]),
          (''tags'', JObj [(''type'', JStr ''array''), (''items'', JObj [(''type'', JStr ''string'')])])])]),
      (''internal_controllers_httpcontroller.CloudEvents'', JObj [
        (''type'', JStr ''object''),
        (''properties'', JObj [
          (''events'', JObj [
            (''type'', JStr ''array''),
            (''items'', JObj [
              (''$ref'', JStr ''#/definitions/github_com_DIMO-Network_token-exchange-api_internal_models.EventFilter'')])])])]),
      (''internal_controllers_httpcontroller.TokenRequest'', JObj [
        (''type'', JStr ''object''),
        (''properties'', JObj [
          (''asset'', JObj [
            (''description'', JStr (''Asset DID of the asset that permissions are being requested for currently either ''
                @ ''did:erc721 or did:ethr'')),
            (''type'', JStr ''string'')]),
          (''audience'', JObj [
            (''description'', JStr ''Audience is the intended audience for the token.''),
            (''type'', JStr ''array''),
            (''items'', JObj [(''type'', JStr ''string'')])]),
          (''cloudEvents'', JObj [
            (''description'', JStr ''CloudEvents contains requests for access to CloudEvents attached to the specified NFT.''),
            (''allOf'', JArr [
              JObj [
                (''$ref'', JStr ''#/definitions/internal_controllers_httpcontroller.CloudEvents'')]])]),
          (''nftContractAddress'', JObj [
            (''description'', JStr (''NFTContractAddress is the address of the NFT contract. Privileges will be checked'' @ nl
                @ ''on-chain at this address. Address must be in the 0x format e.g. ''
                @ ''0x5FbDB2315678afecb367f032d93F642f64180aa3.'' @ nl
                @ ''Varying case is okay.'' @ nl
                @ ''If asset is provided, this is ignored.'' @ nl
                @ ''Deprecated: Use Asset instead.'')),
            (''type'', JStr ''string''),
            (''example'', JStr ''0xbA5738a18d83D41847dfFbDC6101d37C69c9B0cF'')]),
          (''permissions'', JObj [
            (''description'', JStr ''Permissions is a list of the desired permissions.''),
            (''type'', JStr ''array''),
            (''items'', JObj [(''type'', JStr ''string'')])]),
          (''privileges'', JObj [
            (''description'', JStr (''Privileges is a list of the desired privileges. It must not be empty.'' @ nl
                @ ''If Permissions are provided, this is ignored.'' @ nl
                @ ''Deprecated: Use Permissions instead.'')),
            (''type'', JStr ''array''),
            (''items'', JObj [(''type'', JStr ''integer'')]),
            (''example'', JArr [JInt 1, JInt 2, JInt 3, JInt 4])]),
          (''tokenId'', JObj [
            (''description'', JStr (''TokenID is the NFT token id.'' @ nl
                @ ''If asset is provided, this is ignored.'' @ nl
                @ ''Deprecated: Use Asset instead.'')),
            (''type'', JStr ''integer''),
            (''example'', JInt 7)])])]),
      (''internal_controllers_httpcontroller.TokenResponse'', JObj [
        (''type'', JStr ''object''),
        (''properties'', JObj [(''token'', JObj [(''type'', JStr ''string'')])])])]"

definition exchange_security_definitions :: json where
  "exchange_security_definitions = JObj [
      (''BearerAuth'', JObj [
        (''type'', JStr ''apiKey''),
        (''name'', JStr ''Authorization''),
        (''in'', JStr ''header'')])]"

definition doc_template :: "swag_spec \<Rightarrow> json" where
  "doc_template s = JObj [
      (''schemes'', json_strings (sp_schemes s)),
      (''swagger'', JStr ''2.0''),
      (''info'', JObj [
        (''description'', JStr (sp_description s)),
        (''title'', JStr (sp_title s)),
        (''contact'', JObj []),
        (''version'', JStr (sp_version s))]),
      (''host'', JStr (sp_host s)),
      (''basePath'', JStr (sp_base_path s)),
      (''paths'', JObj [
        (''/tokens/exchange'', JObj [
          (''post'', exchange_operation)])]),
      (''definitions'', exchange_definitions),
      (''securityDefinitions'', exchange_security_definitions)]"

text \<open>What \<open>swag.Register\<close> is told in the \<open>init\<close> functions: the documents by their instance names.\<close>

definition registered_documents :: "(string \<times> json) list" where
  "registered_documents =
     [(sp_instance_name swagger_info_dauth, doc_template_dauth swagger_info_dauth),
      (sp_instance_name swagger_info, doc_template swagger_info)]"

section \<open>Reading a document\<close>

text \<open>The operations as method, path below the base path, and description of the operation.\<close>

fun members :: "json \<Rightarrow> (string \<times> json) list" where
  "members (JObj fs) = fs"
| "members j = []"

definition member :: "string \<Rightarrow> json \<Rightarrow> json" where
  "member k j = (case map_of (members j) k of None \<Rightarrow> JNull | Some v \<Rightarrow> v)"

definition operations :: "json \<Rightarrow> (string \<times> string \<times> json) list" where
  "operations doc = concat (map (\<lambda>(path, methods). map (\<lambda>(m, op). (m, path, op)) (members methods)) (members (member ''paths'' doc)))"

definition documented_statuses :: "json \<Rightarrow> string list" where
  "documented_statuses op = map fst (members (member ''responses'' op))"

definition schema_properties :: "json \<Rightarrow> string \<Rightarrow> string list" where
  "schema_properties definitions name = map fst (members (member ''properties'' (member name definitions)))"

text \<open>The type of a JSON value as a schema names it, and the properties of a schema with their types.\<close>

fun json_type :: "json \<Rightarrow> string" where
  "json_type JNull = ''null''"
| "json_type (JBool b) = ''boolean''"
| "json_type (JInt i) = ''integer''"
| "json_type (JStr s) = ''string''"
| "json_type (JArr js) = ''array''"
| "json_type (JObj fs) = ''object''"

definition typed_properties :: "json \<Rightarrow> string \<Rightarrow> (string \<times> json) list" where
  "typed_properties definitions name = map (\<lambda>(k, p). (k, member ''type'' p)) (members (member ''properties'' (member name definitions)))"

definition typed_members :: "json \<Rightarrow> (string \<times> json) list" where
  "typed_members j = map (\<lambda>(k, v). (k, JStr (json_type v))) (members j)"

text \<open>The names of the schemas of an operation: of its body, and of its replies by their statuses.\<close>

definition schema_name :: "json \<Rightarrow> string" where
  "schema_name j = (case member ''$ref'' (member ''schema'' j) of JStr s \<Rightarrow> trim_prefix s ''#/definitions/'' | _ \<Rightarrow> '''')"

definition body_schemas :: "json \<Rightarrow> string list" where
  "body_schemas op = (case member ''parameters'' op of JArr ps \<Rightarrow> map schema_name ps | _ \<Rightarrow> [])"

definition reply_schemas :: "json \<Rightarrow> (string \<times> string) list" where
  "reply_schemas op = map (\<lambda>(st, r). (st, schema_name r)) (members (member ''responses'' op))"

text \<open>A method as the document writes it, in the upper case of HTTP.\<close>

definition http_method :: "string \<Rightarrow> string" where
  "http_method m = fold_name m"

section \<open>The documents and the program\<close>

lemma challenge_statuses:
  "rs_status (fst (challenge_handler eth put h decoded rnd now e s)) \<in> {200, 400, 500, 503}"
  by (auto simp: challenge_handler_def write_json_def write_error_def Let_def split: sum.splits prod.splits option.splits)

lemma token_statuses:
  "rs_status (fst (token_handler eth sg consume h decoded e now uuid s)) \<in> {200, 400, 401, 500, 503}"
  by (auto simp: token_handler_def write_json_def write_error_def Let_def split: sum.splits prod.splits if_splits)

text \<open>
  C17: What the OpenAPI documents say is so.  Every operation of a document, at its base path, is served, by
  the handler it describes.  The sign-in handlers answer with no status that their operations do not
  list.  Each operation names the schemas of its body and of its replies; the documented properties of the bodies are
  exactly the fields that are read, and those of the replies, of the sign-in's errors and of the exchange's token
  are exactly the ones that are written, with their types.
\<close>

theorem documents_match:
  "map (\<lambda>(m, p, op). (public_dispatch (http_method m) (sp_base_path swagger_info_dauth @ p), op))
      (operations (doc_template_dauth swagger_info_dauth)) =
     [(Serve (Siwe ToChallenge), challenge_operation), (Serve (Siwe ToToken), token_operation)] \<and>
   map (\<lambda>(m, p, op). (public_dispatch (http_method m) (sp_base_path swagger_info @ p), op)) (operations (doc_template swagger_info)) =
     [(Serve (Exchange ToExchange), exchange_operation)] \<and>
   show_int (rs_status (fst (challenge_handler eth put h decoded rnd now e s))) \<in> set (documented_statuses challenge_operation) \<and>
   show_int (rs_status (fst (token_handler eth sg consume h decoded' e now uuid s))) \<in> set (documented_statuses token_operation) \<and>
   set (schema_properties dauth_definitions ''server.challengeRequest'') = fst ` set challenge_fields \<and>
   set (schema_properties dauth_definitions ''server.tokenRequest'') = fst ` set token_fields \<and>
   body_schemas challenge_operation = [''server.challengeRequest''] \<and>
   reply_schemas challenge_operation = (''200'', ''server.challengeResponse'') #
     map (\<lambda>st. (st, ''server.errorResponse'')) [''400'', ''429'', ''500'', ''503''] \<and>
   body_schemas token_operation = [''server.tokenRequest''] \<and>
   reply_schemas token_operation = (''200'', ''server.tokenResponse'') #
     map (\<lambda>st. (st, ''server.errorResponse'')) [''400'', ''401'', ''500'', ''503''] \<and>
   set (typed_properties dauth_definitions ''server.challengeResponse'') = set (typed_members (challenge_response ch nc expires)) \<and>
   set (typed_properties dauth_definitions ''server.tokenResponse'') = set (typed_members (token_response tok ttl)) \<and>
   set (typed_properties dauth_definitions ''server.errorResponse'') = set (typed_members (rs_body (write_error status code text))) \<and>
   body_schemas exchange_operation = [''internal_controllers_httpcontroller.TokenRequest''] \<and>
   reply_schemas exchange_operation = [(''200'', ''internal_controllers_httpcontroller.TokenResponse'')] \<and>
   set (schema_properties exchange_definitions ''internal_controllers_httpcontroller.TokenRequest'') = fst ` set exchange_fields \<and>
   set (schema_properties exchange_definitions ''internal_controllers_httpcontroller.CloudEvents'') = fst ` set cloud_events_fields \<and>
   set (schema_properties exchange_definitions ''github_com_DIMO-Network_token-exchange-api_internal_models.EventFilter'') =
     fst ` set filter_fields \<and>
   hp_status (token_reply tk) = 200 \<and>
   (\<exists>j. hp_body (token_reply tk) = JsonBody j \<and>
     set (typed_properties exchange_definitions ''internal_controllers_httpcontroller.TokenResponse'') = set (typed_members j))"
proof -
  have dispatch: "public_dispatch (http_method ''post'') ''/siwe/challenge'' = Serve (Siwe ToChallenge)"
    "public_dispatch (http_method ''post'') ''/siwe/token'' = Serve (Siwe ToToken)"
    "public_dispatch (http_method ''post'') ''/exchange/tokens/exchange'' = Serve (Exchange ToExchange)"
    by code_simp+
  have shown: "show_int 200 = ''200''" "show_int 400 = ''400''" "show_int 401 = ''401''" "show_int 500 = ''500''" "show_int 503 = ''503''"
    by code_simp+
  note statuses = challenge_statuses [of eth put h decoded rnd now e s] token_statuses [of eth sg consume h decoded' e now uuid s]
  have listed: "documented_statuses challenge_operation = [''200'', ''400'', ''429'', ''500'', ''503'']"
    "documented_statuses token_operation = [''200'', ''400'', ''401'', ''500'', ''503'']"
    by (simp_all add: documented_statuses_def member_def challenge_operation_def token_operation_def)
  have schemas: "body_schemas challenge_operation = [''server.challengeRequest'']"
    "body_schemas token_operation = [''server.tokenRequest'']"
    "body_schemas exchange_operation = [''internal_controllers_httpcontroller.TokenRequest'']"
    "reply_schemas challenge_operation = (''200'', ''server.challengeResponse'') #
       map (\<lambda>st. (st, ''server.errorResponse'')) [''400'', ''429'', ''500'', ''503'']"
    "reply_schemas token_operation = (''200'', ''server.tokenResponse'') #
       map (\<lambda>st. (st, ''server.errorResponse'')) [''400'', ''401'', ''500'', ''503'']"
    "reply_schemas exchange_operation = [(''200'', ''internal_controllers_httpcontroller.TokenResponse'')]"
    by code_simp+
  show ?thesis
    using statuses
    by (intro conjI)
      (simp_all add: listed operations_def member_def doc_template_dauth_def doc_template_def swagger_info_dauth_def swagger_info_def
        dispatch shown schema_properties_def dauth_definitions_def exchange_definitions_def challenge_fields_def token_fields_def
        exchange_fields_def cloud_events_fields_def filter_fields_def field_def challenge_response_def token_response_def write_error_def write_json_def
        schemas typed_properties_def typed_members_def token_reply_def,
       auto simp: shown)
qed

end
