(* ===== verification/Bindings.thy ===== *)
theory Bindings imports Contracts GoJson begin

text \<open>
  What the generated contract bindings share (internal/exchange/contracts and
  internal/siwe/web3/contract\_login.go).  go-ethereum's \<open>bind\<close> and \<open>abi\<close> packages are the
  record \<open>bind_library\<close>: parsing an ABI, a call, a paid transaction and a transfer on a bound
  contract.  A binding is a bound contract seen through three views (reader, writer, log
  filterer); each of its methods names a contract method, lists the arguments in order and
  converts the first output.

  The second half states what the library documents about a call whose method and argument types
  are those of the parsed ABI, against the typed calls of the theory \<open>Contracts\<close>, so that
  the theories of the bindings can show that each method is the call the program's model makes.
\<close>

section \<open>The library\<close>

text \<open>A type of an ABI: an elementary one by its name, or a tuple of named elementary ones.\<close>

datatype abi_type = Elementary string | Tuple "(string \<times> string) list"

type_synonym abi_method = "string \<times> abi_type list \<times> abi_type list"

text \<open>
  What a call puts in its output list: a struct is the list of its Go fields.
\<close>

datatype abi_result =
    RAddress address
  | RUint int
  | RBool bool
  | RString string
  | RFixed bytes
  | RStruct "(string \<times> abi_result) list"

text \<open>
  \<open>bind.BoundContract\<close>: the address, the parsed ABI and the three parts of a backend, each of
  which may be nil.
\<close>

record 'n bound =
  bn_address :: address
  bn_abi :: "abi_method list"
  bn_caller :: "'n option"
  bn_transactor :: "'n option"
  bn_filterer :: "'n option"

text \<open>
  \<open>'n\<close> is a backend, \<open>'o\<close> the type \<open>CallOpts\<close>, \<open>'t\<close> the type \<open>TransactOpts\<close>, \<open>'x\<close> a transaction and
  \<open>'w\<close> the state of the network, which only a transaction changes.  None is a panic.
\<close>

record ('n, 'o, 't, 'x, 'w) bind_library =
  bl_get_abi :: "string \<Rightarrow> go_error + abi_method list"
  bl_call :: "'n bound \<Rightarrow> 'o \<Rightarrow> string \<Rightarrow> abi_value list \<Rightarrow> (go_error + abi_result list) option"
  bl_transact :: "'n bound \<Rightarrow> 't \<Rightarrow> string \<Rightarrow> abi_value list \<Rightarrow> 'w \<Rightarrow> (go_error + 'x) option \<times> 'w"
  bl_transfer :: "'n bound \<Rightarrow> 't \<Rightarrow> 'w \<Rightarrow> (go_error + 'x) option \<times> 'w"

text \<open>The \<open>bind\<close> function of every binding: parse its ABI, then \<open>bind.NewBoundContract\<close>.\<close>

definition bind_contract ::
  "('n, 'o, 't, 'x, 'w) bind_library \<Rightarrow> string \<Rightarrow> address \<Rightarrow> 'n option \<Rightarrow> 'n option \<Rightarrow> 'n option \<Rightarrow> go_error + 'n bound" where
  "bind_contract lib meta_data a caller transactor filterer =
     (case bl_get_abi lib meta_data of
        Inl err \<Rightarrow> Inl err
      | Inr parsed \<Rightarrow> Inr \<lparr>bn_address = a, bn_abi = parsed, bn_caller = caller, bn_transactor = transactor,
          bn_filterer = filterer\<rparr>)"

text \<open>
  The body of every generated read method: call, then convert \<open>out[0]\<close>.  \<open>convert\<close> is
  \<open>abi.ConvertType\<close> and the type assertion for the method's result type, None where they panic.
\<close>

definition call_method ::
  "('n, 'o, 't, 'x, 'w) bind_library \<Rightarrow> 'n bound \<Rightarrow> 'o \<Rightarrow> string \<Rightarrow> abi_value list \<Rightarrow> (abi_result \<Rightarrow> 'r option)
   \<Rightarrow> (go_error + 'r) option" where
  "call_method lib c opts method args convert =
     (case bl_call lib c opts method args of
        None \<Rightarrow> None
      | Some (Inl err) \<Rightarrow> Some (Inl err)
      | Some (Inr out) \<Rightarrow> (case out of [] \<Rightarrow> None | out0 # _ \<Rightarrow> map_option Inr (convert out0)))"

text \<open>The conversions to the Go types of the results.\<close>

fun as_big_int :: "abi_result \<Rightarrow> int option" where
  "as_big_int (RUint n) = Some n"
| "as_big_int _ = None"

fun as_bool :: "abi_result \<Rightarrow> bool option" where
  "as_bool (RBool b) = Some b"
| "as_bool _ = None"

fun as_bytes4 :: "abi_result \<Rightarrow> bytes option" where
  "as_bytes4 (RFixed bs) = (if length bs = 4 then Some bs else None)"
| "as_bytes4 _ = None"

definition as_permission_record :: "abi_result \<Rightarrow> sacd_record option" where
  "as_permission_record v =
     (case v of
        RStruct [(k1, RUint p), (k2, RUint e), (k3, RString s), (k4, RUint t)] \<Rightarrow>
          if [k1, k2, k3, k4] = [''Permissions'', ''Expiration'', ''Source'', ''TemplateId'']
          then Some \<lparr>sr_permissions = p, sr_expiration = e, sr_source = s, sr_template_id = Some t\<rparr> else None
      | _ \<Rightarrow> None)"

definition as_template_data :: "abi_result \<Rightarrow> template_data option" where
  "as_template_data v =
     (case v of
        RStruct [(k1, RAddress a), (k2, RUint p), (k3, RString s), (k4, RBool b)] \<Rightarrow>
          if [k1, k2, k3, k4] = [''Asset'', ''Permissions'', ''Source'', ''IsActive'']
          then Some \<lparr>td_asset = a, td_permissions = p, td_source = s, td_is_active = b\<rparr> else None
      | _ \<Rightarrow> None)"

section \<open>The ABI documents\<close>

text \<open>
  A parameter, a tuple parameter and a view method of an ABI, with the members in the order of the
  generated documents.
\<close>

definition abi_parameter :: "string \<Rightarrow> string \<Rightarrow> json" where
  "abi_parameter ty nm = JObj [(''internalType'', JStr ty), (''name'', JStr nm), (''type'', JStr ty)]"

definition abi_tuple :: "string \<Rightarrow> string \<Rightarrow> json list \<Rightarrow> json" where
  "abi_tuple internal nm components =
     JObj [(''components'', JArr components), (''internalType'', JStr internal), (''name'', JStr nm), (''type'', JStr ''tuple'')]"

definition abi_view :: "string \<Rightarrow> json list \<Rightarrow> json \<Rightarrow> json" where
  "abi_view nm inputs output =
     JObj [(''inputs'', JArr inputs), (''name'', JStr nm), (''outputs'', JArr [output]), (''stateMutability'', JStr ''view''),
       (''type'', JStr ''function'')]"

text \<open>The methods of such a document: name, types of the inputs, types of the outputs.\<close>

definition json_string_field :: "string \<Rightarrow> json \<Rightarrow> string" where
  "json_string_field k j = (case json_field k j of Some (JStr s) \<Rightarrow> s | _ \<Rightarrow> '''')"

definition json_array_field :: "string \<Rightarrow> json \<Rightarrow> json list" where
  "json_array_field k j = (case json_field k j of Some (JArr js) \<Rightarrow> js | _ \<Rightarrow> [])"

definition abi_type_of :: "json \<Rightarrow> abi_type" where
  "abi_type_of j =
     (if json_string_field ''type'' j = ''tuple''
      then Tuple (map (\<lambda>c. (json_string_field ''name'' c, json_string_field ''type'' c)) (json_array_field ''components'' j))
      else Elementary (json_string_field ''type'' j))"

definition abi_methods :: "json \<Rightarrow> abi_method list" where
  "abi_methods j =
     (case j of
        JArr entries \<Rightarrow> map (\<lambda>e. (json_string_field ''name'' e, map abi_type_of (json_array_field ''inputs'' e),
          map abi_type_of (json_array_field ''outputs'' e))) entries
      | _ \<Rightarrow> [])"

section \<open>What the library documents\<close>

text \<open>The Go values that can be packed as an ABI type.\<close>

fun packs_as :: "abi_value \<Rightarrow> abi_type \<Rightarrow> bool" where
  "packs_as (AbiAddress _) t = (t = Elementary ''address'')"
| "packs_as (AbiUint n) t = (n \<noteq> None \<and> t = Elementary ''uint256'')"
| "packs_as (AbiBytes _) t = (t = Elementary ''bytes'')"
| "packs_as (AbiFixed bs) t = (t = Elementary ''bytes32'' \<and> length bs = 32)"

text \<open>\<open>abi.ToCamelCase\<close> of a component's name without underscores\<close>

definition go_field_name :: "string \<Rightarrow> string" where
  "go_field_name s = (case s of [] \<Rightarrow> [] | c # cs \<Rightarrow> (let k = of_char c :: nat in if 97 \<le> k \<and> k \<le> 122 then char_of (k - 32) else c) # cs)"

definition struct_result :: "(string \<times> string) list \<Rightarrow> abi_result list \<Rightarrow> abi_result" where
  "struct_result components vs = RStruct (zip (map (go_field_name \<circ> fst) components) vs)"

text \<open>
  The outputs of a call in terms of the chain's answer to it, by the output types of the method:
  None where the model of the chain has no answer of those types.
\<close>

definition record_results :: "(string \<times> string) list \<Rightarrow> sacd_record \<Rightarrow> abi_result list option" where
  "record_results cs r =
     map_option (\<lambda>t. [struct_result cs [RUint (sr_permissions r), RUint (sr_expiration r), RString (sr_source r), RUint t]])
       (sr_template_id r)"

definition template_results :: "(string \<times> string) list \<Rightarrow> template_data \<Rightarrow> abi_result list" where
  "template_results cs d =
     [struct_result cs [RAddress (td_asset d), RUint (td_permissions d), RString (td_source d), RBool (td_is_active d)]]"

definition output_of :: "('r \<Rightarrow> 'v option) \<Rightarrow> go_error + 'r \<Rightarrow> (go_error + 'v) option" where
  "output_of f r = (case r of Inl err \<Rightarrow> Some (Inl err) | Inr v \<Rightarrow> map_option Inr (f v))"

definition chain_outputs ::
  "chain \<Rightarrow> address \<Rightarrow> string \<Rightarrow> abi_value list \<Rightarrow> abi_type list \<Rightarrow> (go_error + abi_result list) option" where
  "chain_outputs ch a m args outs =
     (case outs of
        [Elementary ty] \<Rightarrow>
          if ty = ''bytes4'' then output_of (\<lambda>bs. if length bs = 4 then Some [RFixed bs] else None) (chain_bytes4 ch a m args)
          else if ty = ''uint256'' then output_of (\<lambda>n. Some [RUint n]) (chain_uint ch a m args)
          else if ty = ''bool'' then output_of (\<lambda>b. Some [RBool b]) (chain_bool ch a m args)
          else None
      | [Tuple cs] \<Rightarrow>
          if map snd cs = [''uint256'', ''uint256'', ''string'', ''uint256''] then output_of (record_results cs) (chain_record ch a m args)
          else if map snd cs = [''address'', ''uint256'', ''string'', ''bool'']
          then output_of (Some \<circ> template_results cs) (chain_template ch a m args)
          else None
      | _ \<Rightarrow> None)"

text \<open>
  A call on a contract with a reader, of a method of its ABI and with arguments of the types the ABI
  lists, does what the chain seen through the backend and the options answers, and decoded
  integers and byte strings are there and of their width.
\<close>

definition well_typed_answers :: "chain \<Rightarrow> bool" where
  "well_typed_answers ch \<longleftrightarrow>
     (\<forall>a m args r. chain_record ch a m args = Inr r \<longrightarrow> sr_template_id r \<noteq> None) \<and>
     (\<forall>a m args bs. chain_bytes4 ch a m args = Inr bs \<longrightarrow> length bs = 4)"

definition documented_calls :: "('n, 'o, 't, 'x, 'w) bind_library \<Rightarrow> ('n \<Rightarrow> 'o \<Rightarrow> chain) \<Rightarrow> bool" where
  "documented_calls lib view \<longleftrightarrow>
     (\<forall>c n opts m args ins outs r. bn_caller c = Some n \<longrightarrow> map_of (bn_abi c) m = Some (ins, outs) \<longrightarrow>
        list_all2 packs_as args ins \<longrightarrow> chain_outputs (view n opts) (bn_address c) m args outs = Some r \<longrightarrow>
        bl_call lib c opts m args = Some r)"

definition reads_abi :: "('n, 'o, 't, 'x, 'w) bind_library \<Rightarrow> json \<Rightarrow> bool" where
  "reads_abi lib j \<longleftrightarrow> bl_get_abi lib (json_text j) = Inr (abi_methods j)"

text \<open>A bound contract of an ABI at an address that reads through a backend\<close>

definition contract_reader :: "json \<Rightarrow> address \<Rightarrow> 'n \<Rightarrow> 'n bound \<Rightarrow> bool" where
  "contract_reader j a n c \<longleftrightarrow> bn_address c = a \<and> bn_abi c = abi_methods j \<and> bn_caller c = Some n"

section \<open>Calls of a documented library\<close>

lemma bind_contract_reads:
  "reads_abi lib j \<Longrightarrow> bind_contract lib (json_text j) a caller transactor filterer =
     Inr \<lparr>bn_address = a, bn_abi = abi_methods j, bn_caller = caller, bn_transactor = transactor, bn_filterer = filterer\<rparr>"
  by (simp add: bind_contract_def reads_abi_def)

text \<open>
  The rule for one method: the ABI has it with the types of the arguments, and converting the output
  gives the typed answer back.
\<close>

lemma call_method_answer:
  assumes "documented_calls lib view" and "contract_reader j a n c"
    and "case map_of (abi_methods j) m of
           None \<Rightarrow> False
         | Some (ins, outs) \<Rightarrow> list_all2 packs_as args ins \<and>
             (case answer of
                Inl e \<Rightarrow> chain_outputs (view n opts) a m args outs = Some (Inl e)
              | Inr v \<Rightarrow> \<exists>out0. chain_outputs (view n opts) a m args outs = Some (Inr [out0]) \<and> convert out0 = Some v)"
  shows "call_method lib c opts m args convert = Some answer"
proof -
  obtain ins outs where m: "map_of (bn_abi c) m = Some (ins, outs)" and args: "list_all2 packs_as args ins"
    and answer: "case answer of
        Inl e \<Rightarrow> chain_outputs (view n opts) (bn_address c) m args outs = Some (Inl e)
      | Inr v \<Rightarrow> \<exists>out0. chain_outputs (view n opts) (bn_address c) m args outs = Some (Inr [out0]) \<and> convert out0 = Some v"
    using assms(2,3) by (auto simp: contract_reader_def split: option.splits prod.splits)
  have "bn_caller c = Some n" using assms(2) by (simp add: contract_reader_def)
  with assms(1) m args
  have call: "chain_outputs (view n opts) (bn_address c) m args outs = Some r \<Longrightarrow> bl_call lib c opts m args = Some r" for r
    unfolding documented_calls_def by blast
  show ?thesis
  proof (cases answer)
    case (Inl e)
    with answer call show ?thesis by (simp add: call_method_def)
  next
    case (Inr v)
    with answer obtain out0 where o: "chain_outputs (view n opts) (bn_address c) m args outs = Some (Inr [out0])"
      and "convert out0 = Some v" by auto
    with Inr call [OF o] show ?thesis by (simp add: call_method_def)
  qed
qed

lemma go_field_names:
  "go_field_name ''permissions'' = ''Permissions''" "go_field_name ''expiration'' = ''Expiration''"
  "go_field_name ''source'' = ''Source''" "go_field_name ''templateId'' = ''TemplateId''"
  "go_field_name ''asset'' = ''Asset''" "go_field_name ''isActive'' = ''IsActive''"
  by code_simp+

text \<open>A record or template written by the library is read back as the Go struct of the binding.\<close>

lemma permission_record_back:
  assumes "sr_template_id r \<noteq> None"
  shows "\<exists>v. record_results [(''permissions'', ''uint256''), (''expiration'', ''uint256''), (''source'', ''string''),
    (''templateId'', ''uint256'')] r = Some [v] \<and> as_permission_record v = Some r"
  using assms by (cases r) (auto simp: record_results_def struct_result_def as_permission_record_def go_field_names)

lemma template_data_back:
  "\<exists>v. template_results [(''asset'', ''address''), (''permissions'', ''uint256''), (''source'', ''string''),
    (''isActive'', ''bool'')] d = [v] \<and> as_template_data v = Some d"
  by (cases d) (simp add: template_results_def struct_result_def as_template_data_def go_field_names)

lemmas call_outputs = chain_outputs_def output_of_def well_typed_answers_def

end
