(* ===== verification/SacdBinding.thy ===== *)
theory SacdBinding imports Bindings begin

text \<open>
  The binding of the SACD permission contract (internal/exchange/contracts/sacd/sacd.go): its views,
  sessions and raw wrappers, its constructors and its four read methods.
\<close>

section \<open>The ABI\<close>

definition sacd_record_parameters :: "json list" where
  [go_defs]: "sacd_record_parameters =
     [abi_parameter ''uint256'' ''permissions'', abi_parameter ''uint256'' ''expiration'', abi_parameter ''string'' ''source'',
      abi_parameter ''uint256'' ''templateId'']"

definition sacd_abi :: json where
  "sacd_abi = JArr
     [abi_view ''currentPermissionRecord''
        [abi_parameter ''address'' ''asset'', abi_parameter ''uint256'' ''tokenId'', abi_parameter ''address'' ''grantee'']
        (abi_tuple ''structISacd.PermissionRecord'' ''permissionRecord'' sacd_record_parameters),
      abi_view ''getPermissions''
        [abi_parameter ''address'' ''asset'', abi_parameter ''uint256'' ''tokenId'', abi_parameter ''address'' ''grantee'',
         abi_parameter ''uint256'' ''permissions'']
        (abi_parameter ''uint256'' ''''),
      abi_view ''getAccountPermissions''
        [abi_parameter ''address'' ''grantor'', abi_parameter ''address'' ''grantee'', abi_parameter ''uint256'' ''permissions'']
        (abi_parameter ''uint256'' ''''),
      abi_view ''accountPermissionRecords''
        [abi_parameter ''address'' ''grantor'', abi_parameter ''address'' ''grantee'']
        (abi_tuple ''structISacd.PermissionRecord'' ''permissionRecord'' sacd_record_parameters)]"

definition sacd_meta_data :: string where
  "sacd_meta_data = json_text sacd_abi"

section \<open>The views\<close>

record 'n sacd_caller =
  sacd_caller_contract :: "'n bound"

record 'n sacd_transactor =
  sacd_transactor_contract :: "'n bound"

record 'n sacd_filterer =
  sacd_filterer_contract :: "'n bound"

record 'n sacd_binding =
  sacd_as_caller :: "'n sacd_caller"
  sacd_as_transactor :: "'n sacd_transactor"
  sacd_as_filterer :: "'n sacd_filterer"

record ('n, 'o, 't) sacd_session =
  sacd_session_contract :: "'n sacd_binding"
  sacd_session_call_opts :: "'o"
  sacd_session_transact_opts :: "'t"

record ('n, 'o) sacd_caller_session =
  sacd_caller_session_contract :: "'n sacd_caller"
  sacd_caller_session_opts :: "'o"

record ('n, 't) sacd_transactor_session =
  sacd_transactor_session_contract :: "'n sacd_transactor"
  sacd_transactor_session_opts :: "'t"

record 'n sacd_raw =
  sacd_raw_contract :: "'n sacd_binding"

record 'n sacd_caller_raw =
  sacd_caller_raw_contract :: "'n sacd_caller"

record 'n sacd_transactor_raw =
  sacd_transactor_raw_contract :: "'n sacd_transactor"

section \<open>Constructors\<close>

definition bind_sacd ::
  "('n, 'o, 't, 'x, 'w) bind_library \<Rightarrow> address \<Rightarrow> 'n option \<Rightarrow> 'n option \<Rightarrow> 'n option \<Rightarrow> go_error + 'n bound" where
  "bind_sacd lib a caller transactor filterer = bind_contract lib sacd_meta_data a caller transactor filterer"

definition new_sacd_bound ::
  "('n, 'o, 't, 'x, 'w) bind_library \<Rightarrow> address \<Rightarrow> 'n \<Rightarrow> go_error + 'n sacd_binding" where
  "new_sacd_bound lib a backend =
     (case bind_sacd lib a (Some backend) (Some backend) (Some backend) of
        Inl err \<Rightarrow> Inl err
      | Inr contract \<Rightarrow> Inr \<lparr>sacd_as_caller = \<lparr>sacd_caller_contract = contract\<rparr>,
          sacd_as_transactor = \<lparr>sacd_transactor_contract = contract\<rparr>,
          sacd_as_filterer = \<lparr>sacd_filterer_contract = contract\<rparr>\<rparr>)"

definition new_sacd_caller ::
  "('n, 'o, 't, 'x, 'w) bind_library \<Rightarrow> address \<Rightarrow> 'n \<Rightarrow> go_error + 'n sacd_caller" where
  "new_sacd_caller lib a caller =
     (case bind_sacd lib a (Some caller) None None of
        Inl err \<Rightarrow> Inl err
      | Inr contract \<Rightarrow> Inr \<lparr>sacd_caller_contract = contract\<rparr>)"

definition new_sacd_transactor ::
  "('n, 'o, 't, 'x, 'w) bind_library \<Rightarrow> address \<Rightarrow> 'n \<Rightarrow> go_error + 'n sacd_transactor" where
  "new_sacd_transactor lib a transactor =
     (case bind_sacd lib a None (Some transactor) None of
        Inl err \<Rightarrow> Inl err
      | Inr contract \<Rightarrow> Inr \<lparr>sacd_transactor_contract = contract\<rparr>)"

definition new_sacd_filterer ::
  "('n, 'o, 't, 'x, 'w) bind_library \<Rightarrow> address \<Rightarrow> 'n \<Rightarrow> go_error + 'n sacd_filterer" where
  "new_sacd_filterer lib a filterer =
     (case bind_sacd lib a None None (Some filterer) of
        Inl err \<Rightarrow> Inl err
      | Inr contract \<Rightarrow> Inr \<lparr>sacd_filterer_contract = contract\<rparr>)"

section \<open>Raw calls and transactions\<close>

definition sacd_raw_call ::
  "('n, 'o, 't, 'x, 'w) bind_library \<Rightarrow> 'n sacd_raw \<Rightarrow> 'o \<Rightarrow> string \<Rightarrow> abi_value list \<Rightarrow> (go_error + abi_result list) option" where
  "sacd_raw_call lib r opts method params =
     bl_call lib (sacd_caller_contract (sacd_as_caller (sacd_raw_contract r))) opts method params"

definition sacd_raw_transfer ::
  "('n, 'o, 't, 'x, 'w) bind_library \<Rightarrow> 'n sacd_raw \<Rightarrow> 't \<Rightarrow> 'w \<Rightarrow> (go_error + 'x) option \<times> 'w" where
  "sacd_raw_transfer lib r opts w =
     bl_transfer lib (sacd_transactor_contract (sacd_as_transactor (sacd_raw_contract r))) opts w"

definition sacd_raw_transact ::
  "('n, 'o, 't, 'x, 'w) bind_library \<Rightarrow> 'n sacd_raw \<Rightarrow> 't \<Rightarrow> string \<Rightarrow> abi_value list \<Rightarrow> 'w \<Rightarrow> (go_error + 'x) option \<times> 'w" where
  "sacd_raw_transact lib r opts method params w =
     bl_transact lib (sacd_transactor_contract (sacd_as_transactor (sacd_raw_contract r))) opts method params w"

definition sacd_caller_raw_call ::
  "('n, 'o, 't, 'x, 'w) bind_library \<Rightarrow> 'n sacd_caller_raw \<Rightarrow> 'o \<Rightarrow> string \<Rightarrow> abi_value list \<Rightarrow> (go_error + abi_result list) option" where
  "sacd_caller_raw_call lib r opts method params =
     bl_call lib (sacd_caller_contract (sacd_caller_raw_contract r)) opts method params"

definition sacd_transactor_raw_transfer ::
  "('n, 'o, 't, 'x, 'w) bind_library \<Rightarrow> 'n sacd_transactor_raw \<Rightarrow> 't \<Rightarrow> 'w \<Rightarrow> (go_error + 'x) option \<times> 'w" where
  "sacd_transactor_raw_transfer lib r opts w =
     bl_transfer lib (sacd_transactor_contract (sacd_transactor_raw_contract r)) opts w"

definition sacd_transactor_raw_transact ::
  "('n, 'o, 't, 'x, 'w) bind_library \<Rightarrow> 'n sacd_transactor_raw \<Rightarrow> 't \<Rightarrow> string \<Rightarrow> abi_value list \<Rightarrow> 'w \<Rightarrow> (go_error + 'x) option \<times> 'w" where
  "sacd_transactor_raw_transact lib r opts method params w =
     bl_transact lib (sacd_transactor_contract (sacd_transactor_raw_contract r)) opts method params w"

section \<open>The read methods\<close>

definition sacd_caller_account_permission_records ::
  "('n, 'o, 't, 'x, 'w) bind_library \<Rightarrow> 'n sacd_caller \<Rightarrow> 'o \<Rightarrow> address \<Rightarrow> address
   \<Rightarrow> (go_error + sacd_record) option" where
  "sacd_caller_account_permission_records lib c opts grantor grantee =
     call_method lib (sacd_caller_contract c) opts ''accountPermissionRecords''
       [AbiAddress grantor, AbiAddress grantee] as_permission_record"

definition sacd_session_account_permission_records ::
  "('n, 'o, 't, 'x, 'w) bind_library \<Rightarrow> ('n, 'o, 't) sacd_session \<Rightarrow> address \<Rightarrow> address
   \<Rightarrow> (go_error + sacd_record) option" where
  "sacd_session_account_permission_records lib s grantor grantee =
     sacd_caller_account_permission_records lib (sacd_as_caller (sacd_session_contract s)) (sacd_session_call_opts s) grantor grantee"

definition sacd_caller_session_account_permission_records ::
  "('n, 'o, 't, 'x, 'w) bind_library \<Rightarrow> ('n, 'o) sacd_caller_session \<Rightarrow> address \<Rightarrow> address
   \<Rightarrow> (go_error + sacd_record) option" where
  "sacd_caller_session_account_permission_records lib s grantor grantee =
     sacd_caller_account_permission_records lib (sacd_caller_session_contract s) (sacd_caller_session_opts s) grantor grantee"

definition sacd_caller_current_permission_record ::
  "('n, 'o, 't, 'x, 'w) bind_library \<Rightarrow> 'n sacd_caller \<Rightarrow> 'o \<Rightarrow> address \<Rightarrow> int option \<Rightarrow> address
   \<Rightarrow> (go_error + sacd_record) option" where
  "sacd_caller_current_permission_record lib c opts asset token_id grantee =
     call_method lib (sacd_caller_contract c) opts ''currentPermissionRecord''
       [AbiAddress asset, AbiUint token_id, AbiAddress grantee] as_permission_record"

definition sacd_session_current_permission_record ::
  "('n, 'o, 't, 'x, 'w) bind_library \<Rightarrow> ('n, 'o, 't) sacd_session \<Rightarrow> address \<Rightarrow> int option \<Rightarrow> address
   \<Rightarrow> (go_error + sacd_record) option" where
  "sacd_session_current_permission_record lib s asset token_id grantee =
     sacd_caller_current_permission_record lib (sacd_as_caller (sacd_session_contract s)) (sacd_session_call_opts s) asset token_id grantee"

definition sacd_caller_session_current_permission_record ::
  "('n, 'o, 't, 'x, 'w) bind_library \<Rightarrow> ('n, 'o) sacd_caller_session \<Rightarrow> address \<Rightarrow> int option \<Rightarrow> address
   \<Rightarrow> (go_error + sacd_record) option" where
  "sacd_caller_session_current_permission_record lib s asset token_id grantee =
     sacd_caller_current_permission_record lib (sacd_caller_session_contract s) (sacd_caller_session_opts s) asset token_id grantee"

definition sacd_caller_get_account_permissions ::
  "('n, 'o, 't, 'x, 'w) bind_library \<Rightarrow> 'n sacd_caller \<Rightarrow> 'o \<Rightarrow> address \<Rightarrow> address \<Rightarrow> int option
   \<Rightarrow> (go_error + int) option" where
  "sacd_caller_get_account_permissions lib c opts grantor grantee permissions =
     call_method lib (sacd_caller_contract c) opts ''getAccountPermissions''
       [AbiAddress grantor, AbiAddress grantee, AbiUint permissions] as_big_int"

definition sacd_session_get_account_permissions ::
  "('n, 'o, 't, 'x, 'w) bind_library \<Rightarrow> ('n, 'o, 't) sacd_session \<Rightarrow> address \<Rightarrow> address \<Rightarrow> int option
   \<Rightarrow> (go_error + int) option" where
  "sacd_session_get_account_permissions lib s grantor grantee permissions =
     sacd_caller_get_account_permissions lib (sacd_as_caller (sacd_session_contract s)) (sacd_session_call_opts s) grantor grantee permissions"

definition sacd_caller_session_get_account_permissions ::
  "('n, 'o, 't, 'x, 'w) bind_library \<Rightarrow> ('n, 'o) sacd_caller_session \<Rightarrow> address \<Rightarrow> address \<Rightarrow> int option
   \<Rightarrow> (go_error + int) option" where
  "sacd_caller_session_get_account_permissions lib s grantor grantee permissions =
     sacd_caller_get_account_permissions lib (sacd_caller_session_contract s) (sacd_caller_session_opts s) grantor grantee permissions"

definition sacd_caller_get_permissions ::
  "('n, 'o, 't, 'x, 'w) bind_library \<Rightarrow> 'n sacd_caller \<Rightarrow> 'o \<Rightarrow> address \<Rightarrow> int option \<Rightarrow> address \<Rightarrow> int option
   \<Rightarrow> (go_error + int) option" where
  "sacd_caller_get_permissions lib c opts asset token_id grantee permissions =
     call_method lib (sacd_caller_contract c) opts ''getPermissions''
       [AbiAddress asset, AbiUint token_id, AbiAddress grantee, AbiUint permissions] as_big_int"

definition sacd_session_get_permissions ::
  "('n, 'o, 't, 'x, 'w) bind_library \<Rightarrow> ('n, 'o, 't) sacd_session \<Rightarrow> address \<Rightarrow> int option \<Rightarrow> address \<Rightarrow> int option
   \<Rightarrow> (go_error + int) option" where
  "sacd_session_get_permissions lib s asset token_id grantee permissions =
     sacd_caller_get_permissions lib (sacd_as_caller (sacd_session_contract s)) (sacd_session_call_opts s) asset token_id grantee permissions"

definition sacd_caller_session_get_permissions ::
  "('n, 'o, 't, 'x, 'w) bind_library \<Rightarrow> ('n, 'o) sacd_caller_session \<Rightarrow> address \<Rightarrow> int option \<Rightarrow> address \<Rightarrow> int option
   \<Rightarrow> (go_error + int) option" where
  "sacd_caller_session_get_permissions lib s asset token_id grantee permissions =
     sacd_caller_get_permissions lib (sacd_caller_session_contract s) (sacd_caller_session_opts s) asset token_id grantee permissions"

section \<open>The calls it makes\<close>

lemma sacd_methods:
  "abi_methods sacd_abi =
    [(''currentPermissionRecord'', [Elementary ''address'', Elementary ''uint256'', Elementary ''address''],
        [Tuple [(''permissions'', ''uint256''), (''expiration'', ''uint256''), (''source'', ''string''),
          (''templateId'', ''uint256'')]]),
     (''getPermissions'', [Elementary ''address'', Elementary ''uint256'', Elementary ''address'', Elementary ''uint256''],
        [Elementary ''uint256'']),
     (''getAccountPermissions'', [Elementary ''address'', Elementary ''address'', Elementary ''uint256''],
        [Elementary ''uint256'']),
     (''accountPermissionRecords'', [Elementary ''address'', Elementary ''address''],
        [Tuple [(''permissions'', ''uint256''), (''expiration'', ''uint256''), (''source'', ''string''),
          (''templateId'', ''uint256'')]])]"
  by (simp add: sacd_abi_def abi_methods_def abi_view_def abi_parameter_def abi_tuple_def abi_type_of_def
      json_string_field_def json_array_field_def go_defs)

lemma new_sacd_reads:
  assumes "reads_abi lib sacd_abi"
  shows "\<exists>c. new_sacd_caller lib a n = Inr c \<and> contract_reader sacd_abi a n (sacd_caller_contract c)"
    and "\<exists>b. new_sacd_bound lib a n = Inr b \<and> contract_reader sacd_abi a n (sacd_caller_contract (sacd_as_caller b))"
  using assms by (simp_all add: new_sacd_caller_def new_sacd_bound_def bind_sacd_def sacd_meta_data_def bind_contract_reads
      contract_reader_def)

lemma sacd_caller_account_permission_records_answer:
  assumes "documented_calls lib view" and "well_typed_answers (view n opts)"
    and "contract_reader sacd_abi a n (sacd_caller_contract c)"
  shows "sacd_caller_account_permission_records lib c opts grantor grantee =
    Some (account_permission_records \<lparr>bc_address = a, bc_chain = view n opts\<rparr> grantor grantee)"
  unfolding sacd_caller_account_permission_records_def account_permission_records_def
  using assms by (intro call_method_answer) (auto simp: sacd_methods call_outputs intro!: permission_record_back 
      split: sum.splits)

lemma sacd_caller_current_permission_record_answer:
  assumes "documented_calls lib view" and "well_typed_answers (view n opts)"
    and "contract_reader sacd_abi a n (sacd_caller_contract c)"
  shows "sacd_caller_current_permission_record lib c opts asset (Some token_id) grantee =
    Some (current_permission_record \<lparr>bc_address = a, bc_chain = view n opts\<rparr> asset (Some token_id) grantee)"
  unfolding sacd_caller_current_permission_record_def current_permission_record_def
  using assms by (intro call_method_answer) (auto simp: sacd_methods call_outputs intro!: permission_record_back 
      split: sum.splits)

lemma sacd_caller_get_account_permissions_answer:
  assumes "documented_calls lib view" and "well_typed_answers (view n opts)"
    and "contract_reader sacd_abi a n (sacd_caller_contract c)"
  shows "sacd_caller_get_account_permissions lib c opts grantor grantee (Some permissions) =
    Some (get_account_permissions \<lparr>bc_address = a, bc_chain = view n opts\<rparr> grantor grantee permissions)"
  unfolding sacd_caller_get_account_permissions_def get_account_permissions_def
  using assms by (intro call_method_answer) (auto simp: sacd_methods call_outputs intro!: permission_record_back 
      split: sum.splits)

lemma sacd_caller_get_permissions_answer:
  assumes "documented_calls lib view" and "well_typed_answers (view n opts)"
    and "contract_reader sacd_abi a n (sacd_caller_contract c)"
  shows "sacd_caller_get_permissions lib c opts asset (Some token_id) grantee (Some permissions) =
    Some (get_permissions \<lparr>bc_address = a, bc_chain = view n opts\<rparr> asset (Some token_id) grantee permissions)"
  unfolding sacd_caller_get_permissions_def get_permissions_def
  using assms by (intro call_method_answer) (auto simp: sacd_methods call_outputs intro!: permission_record_back 
      split: sum.splits)

end
