(* ===== verification/TemplateBinding.thy ===== *)
theory TemplateBinding imports Bindings begin

text \<open>
  The binding of the template contract (internal/exchange/contracts/template/template.go): its views,
  sessions and raw wrappers, its constructors and its two read methods.
\<close>

section \<open>The ABI\<close>

definition template_abi :: json where
  "template_abi = JArr
     [abi_view ''templates'' [abi_parameter ''uint256'' ''templateId'']
        (abi_tuple ''structITemplate.TemplateData'' ''templateData''
           [abi_parameter ''address'' ''asset'', abi_parameter ''uint256'' ''permissions'', abi_parameter ''string'' ''source'',
            abi_parameter ''bool'' ''isActive'']),
      abi_view ''isTemplateActive'' [abi_parameter ''uint256'' ''templateId''] (abi_parameter ''bool'' ''isActive'')]"

definition template_meta_data :: string where
  "template_meta_data = json_text template_abi"

section \<open>The views\<close>

record 'n template_caller =
  template_caller_contract :: "'n bound"

record 'n template_transactor =
  template_transactor_contract :: "'n bound"

record 'n template_filterer =
  template_filterer_contract :: "'n bound"

record 'n template_binding =
  template_as_caller :: "'n template_caller"
  template_as_transactor :: "'n template_transactor"
  template_as_filterer :: "'n template_filterer"

record ('n, 'o, 't) template_session =
  template_session_contract :: "'n template_binding"
  template_session_call_opts :: "'o"
  template_session_transact_opts :: "'t"

record ('n, 'o) template_caller_session =
  template_caller_session_contract :: "'n template_caller"
  template_caller_session_opts :: "'o"

record ('n, 't) template_transactor_session =
  template_transactor_session_contract :: "'n template_transactor"
  template_transactor_session_opts :: "'t"

record 'n template_raw =
  template_raw_contract :: "'n template_binding"

record 'n template_caller_raw =
  template_caller_raw_contract :: "'n template_caller"

record 'n template_transactor_raw =
  template_transactor_raw_contract :: "'n template_transactor"

section \<open>Constructors\<close>

definition bind_template ::
  "('n, 'o, 't, 'x, 'w) bind_library \<Rightarrow> address \<Rightarrow> 'n option \<Rightarrow> 'n option \<Rightarrow> 'n option \<Rightarrow> go_error + 'n bound" where
  "bind_template lib a caller transactor filterer = bind_contract lib template_meta_data a caller transactor filterer"

definition new_template_bound ::
  "('n, 'o, 't, 'x, 'w) bind_library \<Rightarrow> address \<Rightarrow> 'n \<Rightarrow> go_error + 'n template_binding" where
  "new_template_bound lib a backend =
     (case bind_template lib a (Some backend) (Some backend) (Some backend) of
        Inl err \<Rightarrow> Inl err
      | Inr contract \<Rightarrow> Inr \<lparr>template_as_caller = \<lparr>template_caller_contract = contract\<rparr>,
          template_as_transactor = \<lparr>template_transactor_contract = contract\<rparr>,
          template_as_filterer = \<lparr>template_filterer_contract = contract\<rparr>\<rparr>)"

definition new_template_caller ::
  "('n, 'o, 't, 'x, 'w) bind_library \<Rightarrow> address \<Rightarrow> 'n \<Rightarrow> go_error + 'n template_caller" where
  "new_template_caller lib a caller =
     (case bind_template lib a (Some caller) None None of
        Inl err \<Rightarrow> Inl err
      | Inr contract \<Rightarrow> Inr \<lparr>template_caller_contract = contract\<rparr>)"

definition new_template_transactor ::
  "('n, 'o, 't, 'x, 'w) bind_library \<Rightarrow> address \<Rightarrow> 'n \<Rightarrow> go_error + 'n template_transactor" where
  "new_template_transactor lib a transactor =
     (case bind_template lib a None (Some transactor) None of
        Inl err \<Rightarrow> Inl err
      | Inr contract \<Rightarrow> Inr \<lparr>template_transactor_contract = contract\<rparr>)"

definition new_template_filterer ::
  "('n, 'o, 't, 'x, 'w) bind_library \<Rightarrow> address \<Rightarrow> 'n \<Rightarrow> go_error + 'n template_filterer" where
  "new_template_filterer lib a filterer =
     (case bind_template lib a None None (Some filterer) of
        Inl err \<Rightarrow> Inl err
      | Inr contract \<Rightarrow> Inr \<lparr>template_filterer_contract = contract\<rparr>)"

section \<open>Raw calls and transactions\<close>

definition template_raw_call ::
  "('n, 'o, 't, 'x, 'w) bind_library \<Rightarrow> 'n template_raw \<Rightarrow> 'o \<Rightarrow> string \<Rightarrow> abi_value list \<Rightarrow> (go_error + abi_result list) option" where
  "template_raw_call lib r opts method params =
     bl_call lib (template_caller_contract (template_as_caller (template_raw_contract r))) opts method params"

definition template_raw_transfer ::
  "('n, 'o, 't, 'x, 'w) bind_library \<Rightarrow> 'n template_raw \<Rightarrow> 't \<Rightarrow> 'w \<Rightarrow> (go_error + 'x) option \<times> 'w" where
  "template_raw_transfer lib r opts w =
     bl_transfer lib (template_transactor_contract (template_as_transactor (template_raw_contract r))) opts w"

definition template_raw_transact ::
  "('n, 'o, 't, 'x, 'w) bind_library \<Rightarrow> 'n template_raw \<Rightarrow> 't \<Rightarrow> string \<Rightarrow> abi_value list \<Rightarrow> 'w \<Rightarrow> (go_error + 'x) option \<times> 'w" where
  "template_raw_transact lib r opts method params w =
     bl_transact lib (template_transactor_contract (template_as_transactor (template_raw_contract r))) opts method params w"

definition template_caller_raw_call ::
  "('n, 'o, 't, 'x, 'w) bind_library \<Rightarrow> 'n template_caller_raw \<Rightarrow> 'o \<Rightarrow> string \<Rightarrow> abi_value list \<Rightarrow> (go_error + abi_result list) option" where
  "template_caller_raw_call lib r opts method params =
     bl_call lib (template_caller_contract (template_caller_raw_contract r)) opts method params"

definition template_transactor_raw_transfer ::
  "('n, 'o, 't, 'x, 'w) bind_library \<Rightarrow> 'n template_transactor_raw \<Rightarrow> 't \<Rightarrow> 'w \<Rightarrow> (go_error + 'x) option \<times> 'w" where
  "template_transactor_raw_transfer lib r opts w =
     bl_transfer lib (template_transactor_contract (template_transactor_raw_contract r)) opts w"

definition template_transactor_raw_transact ::
  "('n, 'o, 't, 'x, 'w) bind_library \<Rightarrow> 'n template_transactor_raw \<Rightarrow> 't \<Rightarrow> string \<Rightarrow> abi_value list \<Rightarrow> 'w \<Rightarrow> (go_error + 'x) option \<times> 'w" where
  "template_transactor_raw_transact lib r opts method params w =
     bl_transact lib (template_transactor_contract (template_transactor_raw_contract r)) opts method params w"

section \<open>The read methods\<close>

definition template_caller_is_template_active ::
  "('n, 'o, 't, 'x, 'w) bind_library \<Rightarrow> 'n template_caller \<Rightarrow> 'o \<Rightarrow> int option
   \<Rightarrow> (go_error + bool) option" where
  "template_caller_is_template_active lib c opts template_id =
     call_method lib (template_caller_contract c) opts ''isTemplateActive''
       [AbiUint template_id] as_bool"

definition template_session_is_template_active ::
  "('n, 'o, 't, 'x, 'w) bind_library \<Rightarrow> ('n, 'o, 't) template_session \<Rightarrow> int option
   \<Rightarrow> (go_error + bool) option" where
  "template_session_is_template_active lib s template_id =
     template_caller_is_template_active lib (template_as_caller (template_session_contract s)) (template_session_call_opts s) template_id"

definition template_caller_session_is_template_active ::
  "('n, 'o, 't, 'x, 'w) bind_library \<Rightarrow> ('n, 'o) template_caller_session \<Rightarrow> int option
   \<Rightarrow> (go_error + bool) option" where
  "template_caller_session_is_template_active lib s template_id =
     template_caller_is_template_active lib (template_caller_session_contract s) (template_caller_session_opts s) template_id"

definition template_caller_templates ::
  "('n, 'o, 't, 'x, 'w) bind_library \<Rightarrow> 'n template_caller \<Rightarrow> 'o \<Rightarrow> int option
   \<Rightarrow> (go_error + template_data) option" where
  "template_caller_templates lib c opts template_id =
     call_method lib (template_caller_contract c) opts ''templates''
       [AbiUint template_id] as_template_data"

definition template_session_templates ::
  "('n, 'o, 't, 'x, 'w) bind_library \<Rightarrow> ('n, 'o, 't) template_session \<Rightarrow> int option
   \<Rightarrow> (go_error + template_data) option" where
  "template_session_templates lib s template_id =
     template_caller_templates lib (template_as_caller (template_session_contract s)) (template_session_call_opts s) template_id"

definition template_caller_session_templates ::
  "('n, 'o, 't, 'x, 'w) bind_library \<Rightarrow> ('n, 'o) template_caller_session \<Rightarrow> int option
   \<Rightarrow> (go_error + template_data) option" where
  "template_caller_session_templates lib s template_id =
     template_caller_templates lib (template_caller_session_contract s) (template_caller_session_opts s) template_id"

section \<open>The calls it makes\<close>

lemma template_methods:
  "abi_methods template_abi =
    [(''templates'', [Elementary ''uint256''],
        [Tuple [(''asset'', ''address''), (''permissions'', ''uint256''), (''source'', ''string''),
          (''isActive'', ''bool'')]]),
     (''isTemplateActive'', [Elementary ''uint256''],
        [Elementary ''bool''])]"
  by (simp add: template_abi_def abi_methods_def abi_view_def abi_parameter_def abi_tuple_def abi_type_of_def
      json_string_field_def json_array_field_def go_defs)

lemma new_template_reads:
  assumes "reads_abi lib template_abi"
  shows "\<exists>c. new_template_caller lib a n = Inr c \<and> contract_reader template_abi a n (template_caller_contract c)"
    and "\<exists>b. new_template_bound lib a n = Inr b \<and> contract_reader template_abi a n (template_caller_contract (template_as_caller b))"
  using assms by (simp_all add: new_template_caller_def new_template_bound_def bind_template_def template_meta_data_def bind_contract_reads
      contract_reader_def)

lemma template_caller_is_template_active_answer:
  assumes "documented_calls lib view" and "well_typed_answers (view n opts)"
    and "contract_reader template_abi a n (template_caller_contract c)"
  shows "template_caller_is_template_active lib c opts (Some template_id) =
    Some (is_template_active \<lparr>bc_address = a, bc_chain = view n opts\<rparr> template_id)"
  unfolding template_caller_is_template_active_def is_template_active_def
  using assms by (intro call_method_answer) (auto simp: template_methods call_outputs intro!: template_data_back 
      split: sum.splits)

lemma template_caller_templates_answer:
  assumes "documented_calls lib view" and "well_typed_answers (view n opts)"
    and "contract_reader template_abi a n (template_caller_contract c)"
  shows "template_caller_templates lib c opts (Some template_id) =
    Some (templates \<lparr>bc_address = a, bc_chain = view n opts\<rparr> template_id)"
  unfolding template_caller_templates_def templates_def
  using assms by (intro call_method_answer) (auto simp: template_methods call_outputs intro!: template_data_back 
      split: sum.splits)

end
