(* ===== verification/Erc1271Binding.thy ===== *)
theory Erc1271Binding imports Bindings begin

text \<open>
  The binding of an ERC-1271 account that the exchange's signature validator uses
  (internal/exchange/contracts/erc1271/erc1271.go).
\<close>

section \<open>The ABI\<close>

definition erc1271_abi :: json where
  "erc1271_abi = JArr
     [abi_view ''isValidSignature'' [abi_parameter ''bytes32'' ''hash'', abi_parameter ''bytes'' ''signature'']
        (abi_parameter ''bytes4'' ''magicValue'')]"

definition erc1271_meta_data :: string where
  "erc1271_meta_data = json_text erc1271_abi"

section \<open>The views\<close>

record 'n erc1271_caller =
  erc1271_caller_contract :: "'n bound"

record 'n erc1271_transactor =
  erc1271_transactor_contract :: "'n bound"

record 'n erc1271_filterer =
  erc1271_filterer_contract :: "'n bound"

record 'n erc1271_binding =
  erc1271_as_caller :: "'n erc1271_caller"
  erc1271_as_transactor :: "'n erc1271_transactor"
  erc1271_as_filterer :: "'n erc1271_filterer"

record ('n, 'o, 't) erc1271_session =
  erc1271_session_contract :: "'n erc1271_binding"
  erc1271_session_call_opts :: "'o"
  erc1271_session_transact_opts :: "'t"

record ('n, 'o) erc1271_caller_session =
  erc1271_caller_session_contract :: "'n erc1271_caller"
  erc1271_caller_session_opts :: "'o"

record ('n, 't) erc1271_transactor_session =
  erc1271_transactor_session_contract :: "'n erc1271_transactor"
  erc1271_transactor_session_opts :: "'t"

record 'n erc1271_raw =
  erc1271_raw_contract :: "'n erc1271_binding"

record 'n erc1271_caller_raw =
  erc1271_caller_raw_contract :: "'n erc1271_caller"

record 'n erc1271_transactor_raw =
  erc1271_transactor_raw_contract :: "'n erc1271_transactor"

section \<open>Constructors\<close>

definition bind_erc1271 ::
  "('n, 'o, 't, 'x, 'w) bind_library \<Rightarrow> address \<Rightarrow> 'n option \<Rightarrow> 'n option \<Rightarrow> 'n option \<Rightarrow> go_error + 'n bound" where
  "bind_erc1271 lib a caller transactor filterer = bind_contract lib erc1271_meta_data a caller transactor filterer"

definition new_erc1271_bound ::
  "('n, 'o, 't, 'x, 'w) bind_library \<Rightarrow> address \<Rightarrow> 'n \<Rightarrow> go_error + 'n erc1271_binding" where
  "new_erc1271_bound lib a backend =
     (case bind_erc1271 lib a (Some backend) (Some backend) (Some backend) of
        Inl err \<Rightarrow> Inl err
      | Inr contract \<Rightarrow> Inr \<lparr>erc1271_as_caller = \<lparr>erc1271_caller_contract = contract\<rparr>,
          erc1271_as_transactor = \<lparr>erc1271_transactor_contract = contract\<rparr>,
          erc1271_as_filterer = \<lparr>erc1271_filterer_contract = contract\<rparr>\<rparr>)"

definition new_erc1271_caller ::
  "('n, 'o, 't, 'x, 'w) bind_library \<Rightarrow> address \<Rightarrow> 'n \<Rightarrow> go_error + 'n erc1271_caller" where
  "new_erc1271_caller lib a caller =
     (case bind_erc1271 lib a (Some caller) None None of
        Inl err \<Rightarrow> Inl err
      | Inr contract \<Rightarrow> Inr \<lparr>erc1271_caller_contract = contract\<rparr>)"

definition new_erc1271_transactor ::
  "('n, 'o, 't, 'x, 'w) bind_library \<Rightarrow> address \<Rightarrow> 'n \<Rightarrow> go_error + 'n erc1271_transactor" where
  "new_erc1271_transactor lib a transactor =
     (case bind_erc1271 lib a None (Some transactor) None of
        Inl err \<Rightarrow> Inl err
      | Inr contract \<Rightarrow> Inr \<lparr>erc1271_transactor_contract = contract\<rparr>)"

definition new_erc1271_filterer ::
  "('n, 'o, 't, 'x, 'w) bind_library \<Rightarrow> address \<Rightarrow> 'n \<Rightarrow> go_error + 'n erc1271_filterer" where
  "new_erc1271_filterer lib a filterer =
     (case bind_erc1271 lib a None None (Some filterer) of
        Inl err \<Rightarrow> Inl err
      | Inr contract \<Rightarrow> Inr \<lparr>erc1271_filterer_contract = contract\<rparr>)"

section \<open>Raw calls and transactions\<close>

definition erc1271_raw_call ::
  "('n, 'o, 't, 'x, 'w) bind_library \<Rightarrow> 'n erc1271_raw \<Rightarrow> 'o \<Rightarrow> string \<Rightarrow> abi_value list \<Rightarrow> (go_error + abi_result list) option" where
  "erc1271_raw_call lib r opts method params =
     bl_call lib (erc1271_caller_contract (erc1271_as_caller (erc1271_raw_contract r))) opts method params"

definition erc1271_raw_transfer ::
  "('n, 'o, 't, 'x, 'w) bind_library \<Rightarrow> 'n erc1271_raw \<Rightarrow> 't \<Rightarrow> 'w \<Rightarrow> (go_error + 'x) option \<times> 'w" where
  "erc1271_raw_transfer lib r opts w =
     bl_transfer lib (erc1271_transactor_contract (erc1271_as_transactor (erc1271_raw_contract r))) opts w"

definition erc1271_raw_transact ::
  "('n, 'o, 't, 'x, 'w) bind_library \<Rightarrow> 'n erc1271_raw \<Rightarrow> 't \<Rightarrow> string \<Rightarrow> abi_value list \<Rightarrow> 'w \<Rightarrow> (go_error + 'x) option \<times> 'w" where
  "erc1271_raw_transact lib r opts method params w =
     bl_transact lib (erc1271_transactor_contract (erc1271_as_transactor (erc1271_raw_contract r))) opts method params w"

definition erc1271_caller_raw_call ::
  "('n, 'o, 't, 'x, 'w) bind_library \<Rightarrow> 'n erc1271_caller_raw \<Rightarrow> 'o \<Rightarrow> string \<Rightarrow> abi_value list \<Rightarrow> (go_error + abi_result list) option" where
  "erc1271_caller_raw_call lib r opts method params =
     bl_call lib (erc1271_caller_contract (erc1271_caller_raw_contract r)) opts method params"

definition erc1271_transactor_raw_transfer ::
  "('n, 'o, 't, 'x, 'w) bind_library \<Rightarrow> 'n erc1271_transactor_raw \<Rightarrow> 't \<Rightarrow> 'w \<Rightarrow> (go_error + 'x) option \<times> 'w" where
  "erc1271_transactor_raw_transfer lib r opts w =
     bl_transfer lib (erc1271_transactor_contract (erc1271_transactor_raw_contract r)) opts w"

definition erc1271_transactor_raw_transact ::
  "('n, 'o, 't, 'x, 'w) bind_library \<Rightarrow> 'n erc1271_transactor_raw \<Rightarrow> 't \<Rightarrow> string \<Rightarrow> abi_value list \<Rightarrow> 'w \<Rightarrow> (go_error + 'x) option \<times> 'w" where
  "erc1271_transactor_raw_transact lib r opts method params w =
     bl_transact lib (erc1271_transactor_contract (erc1271_transactor_raw_contract r)) opts method params w"

section \<open>The read methods\<close>

definition erc1271_caller_is_valid_signature ::
  "('n, 'o, 't, 'x, 'w) bind_library \<Rightarrow> 'n erc1271_caller \<Rightarrow> 'o \<Rightarrow> bytes \<Rightarrow> bytes
   \<Rightarrow> (go_error + bytes) option" where
  "erc1271_caller_is_valid_signature lib c opts hash signature =
     call_method lib (erc1271_caller_contract c) opts ''isValidSignature''
       [AbiFixed hash, AbiBytes signature] as_bytes4"

definition erc1271_session_is_valid_signature ::
  "('n, 'o, 't, 'x, 'w) bind_library \<Rightarrow> ('n, 'o, 't) erc1271_session \<Rightarrow> bytes \<Rightarrow> bytes
   \<Rightarrow> (go_error + bytes) option" where
  "erc1271_session_is_valid_signature lib s hash signature =
     erc1271_caller_is_valid_signature lib (erc1271_as_caller (erc1271_session_contract s)) (erc1271_session_call_opts s) hash signature"

definition erc1271_caller_session_is_valid_signature ::
  "('n, 'o, 't, 'x, 'w) bind_library \<Rightarrow> ('n, 'o) erc1271_caller_session \<Rightarrow> bytes \<Rightarrow> bytes
   \<Rightarrow> (go_error + bytes) option" where
  "erc1271_caller_session_is_valid_signature lib s hash signature =
     erc1271_caller_is_valid_signature lib (erc1271_caller_session_contract s) (erc1271_caller_session_opts s) hash signature"

section \<open>The calls it makes\<close>

lemma erc1271_methods:
  "abi_methods erc1271_abi =
    [(''isValidSignature'', [Elementary ''bytes32'', Elementary ''bytes''],
        [Elementary ''bytes4''])]"
  by (simp add: erc1271_abi_def abi_methods_def abi_view_def abi_parameter_def abi_tuple_def abi_type_of_def
      json_string_field_def json_array_field_def go_defs)

lemma new_erc1271_reads:
  assumes "reads_abi lib erc1271_abi"
  shows "\<exists>c. new_erc1271_caller lib a n = Inr c \<and> contract_reader erc1271_abi a n (erc1271_caller_contract c)"
    and "\<exists>b. new_erc1271_bound lib a n = Inr b \<and> contract_reader erc1271_abi a n (erc1271_caller_contract (erc1271_as_caller b))"
  using assms by (simp_all add: new_erc1271_caller_def new_erc1271_bound_def bind_erc1271_def erc1271_meta_data_def bind_contract_reads
      contract_reader_def)

lemma erc1271_caller_is_valid_signature_answer:
  assumes "documented_calls lib view" and "well_typed_answers (view n opts)"
    and "contract_reader erc1271_abi a n (erc1271_caller_contract c)" and "length hash = 32"
  shows "erc1271_caller_is_valid_signature lib c opts hash signature =
    Some (is_valid_signature \<lparr>bc_address = a, bc_chain = view n opts\<rparr> hash signature)"
  unfolding erc1271_caller_is_valid_signature_def is_valid_signature_def
  using assms by (intro call_method_answer) (auto simp: erc1271_methods call_outputs 
      split: sum.splits)

end
