(* ===== verification/LoginBinding.thy ===== *)
theory LoginBinding imports Bindings begin

text \<open>
  The binding of an ERC-1271 account that the sign-in verifier uses
  (internal/siwe/web3/contract\_login.go): the same generated code as the one of the exchange, in a
  package of its own.
\<close>

section \<open>The ABI\<close>

definition login_abi :: json where
  "login_abi = JArr
     [abi_view ''isValidSignature'' [abi_parameter ''bytes32'' ''hash'', abi_parameter ''bytes'' ''signature'']
        (abi_parameter ''bytes4'' ''magicValue'')]"

definition login_meta_data :: string where
  "login_meta_data = json_text login_abi"

section \<open>The views\<close>

record 'n login_caller =
  login_caller_contract :: "'n bound"

record 'n login_transactor =
  login_transactor_contract :: "'n bound"

record 'n login_filterer =
  login_filterer_contract :: "'n bound"

record 'n login_binding =
  login_as_caller :: "'n login_caller"
  login_as_transactor :: "'n login_transactor"
  login_as_filterer :: "'n login_filterer"

record ('n, 'o, 't) login_session =
  login_session_contract :: "'n login_binding"
  login_session_call_opts :: "'o"
  login_session_transact_opts :: "'t"

record ('n, 'o) login_caller_session =
  login_caller_session_contract :: "'n login_caller"
  login_caller_session_opts :: "'o"

record ('n, 't) login_transactor_session =
  login_transactor_session_contract :: "'n login_transactor"
  login_transactor_session_opts :: "'t"

record 'n login_raw =
  login_raw_contract :: "'n login_binding"

record 'n login_caller_raw =
  login_caller_raw_contract :: "'n login_caller"

record 'n login_transactor_raw =
  login_transactor_raw_contract :: "'n login_transactor"

section \<open>Constructors\<close>

definition bind_login ::
  "('n, 'o, 't, 'x, 'w) bind_library \<Rightarrow> address \<Rightarrow> 'n option \<Rightarrow> 'n option \<Rightarrow> 'n option \<Rightarrow> go_error + 'n bound" where
  "bind_login lib a caller transactor filterer = bind_contract lib login_meta_data a caller transactor filterer"

definition new_login_bound ::
  "('n, 'o, 't, 'x, 'w) bind_library \<Rightarrow> address \<Rightarrow> 'n \<Rightarrow> go_error + 'n login_binding" where
  "new_login_bound lib a backend =
     (case bind_login lib a (Some backend) (Some backend) (Some backend) of
        Inl err \<Rightarrow> Inl err
      | Inr contract \<Rightarrow> Inr \<lparr>login_as_caller = \<lparr>login_caller_contract = contract\<rparr>,
          login_as_transactor = \<lparr>login_transactor_contract = contract\<rparr>,
          login_as_filterer = \<lparr>login_filterer_contract = contract\<rparr>\<rparr>)"

definition new_login_caller ::
  "('n, 'o, 't, 'x, 'w) bind_library \<Rightarrow> address \<Rightarrow> 'n \<Rightarrow> go_error + 'n login_caller" where
  "new_login_caller lib a caller =
     (case bind_login lib a (Some caller) None None of
        Inl err \<Rightarrow> Inl err
      | Inr contract \<Rightarrow> Inr \<lparr>login_caller_contract = contract\<rparr>)"

definition new_login_transactor ::
  "('n, 'o, 't, 'x, 'w) bind_library \<Rightarrow> address \<Rightarrow> 'n \<Rightarrow> go_error + 'n login_transactor" where
  "new_login_transactor lib a transactor =
     (case bind_login lib a None (Some transactor) None of
        Inl err \<Rightarrow> Inl err
      | Inr contract \<Rightarrow> Inr \<lparr>login_transactor_contract = contract\<rparr>)"

definition new_login_filterer ::
  "('n, 'o, 't, 'x, 'w) bind_library \<Rightarrow> address \<Rightarrow> 'n \<Rightarrow> go_error + 'n login_filterer" where
  "new_login_filterer lib a filterer =
     (case bind_login lib a None None (Some filterer) of
        Inl err \<Rightarrow> Inl err
      | Inr contract \<Rightarrow> Inr \<lparr>login_filterer_contract = contract\<rparr>)"

section \<open>Raw calls and transactions\<close>

definition login_raw_call ::
  "('n, 'o, 't, 'x, 'w) bind_library \<Rightarrow> 'n login_raw \<Rightarrow> 'o \<Rightarrow> string \<Rightarrow> abi_value list \<Rightarrow> (go_error + abi_result list) option" where
  "login_raw_call lib r opts method params =
     bl_call lib (login_caller_contract (login_as_caller (login_raw_contract r))) opts method params"

definition login_raw_transfer ::
  "('n, 'o, 't, 'x, 'w) bind_library \<Rightarrow> 'n login_raw \<Rightarrow> 't \<Rightarrow> 'w \<Rightarrow> (go_error + 'x) option \<times> 'w" where
  "login_raw_transfer lib r opts w =
     bl_transfer lib (login_transactor_contract (login_as_transactor (login_raw_contract r))) opts w"

definition login_raw_transact ::
  "('n, 'o, 't, 'x, 'w) bind_library \<Rightarrow> 'n login_raw \<Rightarrow> 't \<Rightarrow> string \<Rightarrow> abi_value list \<Rightarrow> 'w \<Rightarrow> (go_error + 'x) option \<times> 'w" where
  "login_raw_transact lib r opts method params w =
     bl_transact lib (login_transactor_contract (login_as_transactor (login_raw_contract r))) opts method params w"

definition login_caller_raw_call ::
  "('n, 'o, 't, 'x, 'w) bind_library \<Rightarrow> 'n login_caller_raw \<Rightarrow> 'o \<Rightarrow> string \<Rightarrow> abi_value list \<Rightarrow> (go_error + abi_result list) option" where
  "login_caller_raw_call lib r opts method params =
     bl_call lib (login_caller_contract (login_caller_raw_contract r)) opts method params"

definition login_transactor_raw_transfer ::
  "('n, 'o, 't, 'x, 'w) bind_library \<Rightarrow> 'n login_transactor_raw \<Rightarrow> 't \<Rightarrow> 'w \<Rightarrow> (go_error + 'x) option \<times> 'w" where
  "login_transactor_raw_transfer lib r opts w =
     bl_transfer lib (login_transactor_contract (login_transactor_raw_contract r)) opts w"

definition login_transactor_raw_transact ::
  "('n, 'o, 't, 'x, 'w) bind_library \<Rightarrow> 'n login_transactor_raw \<Rightarrow> 't \<Rightarrow> string \<Rightarrow> abi_value list \<Rightarrow> 'w \<Rightarrow> (go_error + 'x) option \<times> 'w" where
  "login_transactor_raw_transact lib r opts method params w =
     bl_transact lib (login_transactor_contract (login_transactor_raw_contract r)) opts method params w"

section \<open>The read methods\<close>

definition login_caller_is_valid_signature ::
  "('n, 'o, 't, 'x, 'w) bind_library \<Rightarrow> 'n login_caller \<Rightarrow> 'o \<Rightarrow> bytes \<Rightarrow> bytes
   \<Rightarrow> (go_error + bytes) option" where
  "login_caller_is_valid_signature lib c opts hash signature =
     call_method lib (login_caller_contract c) opts ''isValidSignature''
       [AbiFixed hash, AbiBytes signature] as_bytes4"

definition login_session_is_valid_signature ::
  "('n, 'o, 't, 'x, 'w) bind_library \<Rightarrow> ('n, 'o, 't) login_session \<Rightarrow> bytes \<Rightarrow> bytes
   \<Rightarrow> (go_error + bytes) option" where
  "login_session_is_valid_signature lib s hash signature =
     login_caller_is_valid_signature lib (login_as_caller (login_session_contract s)) (login_session_call_opts s) hash signature"

definition login_caller_session_is_valid_signature ::
  "('n, 'o, 't, 'x, 'w) bind_library \<Rightarrow> ('n, 'o) login_caller_session \<Rightarrow> bytes \<Rightarrow> bytes
   \<Rightarrow> (go_error + bytes) option" where
  "login_caller_session_is_valid_signature lib s hash signature =
     login_caller_is_valid_signature lib (login_caller_session_contract s) (login_caller_session_opts s) hash signature"

section \<open>The calls it makes\<close>

lemma login_methods:
  "abi_methods login_abi =
    [(''isValidSignature'', [Elementary ''bytes32'', Elementary ''bytes''],
        [Elementary ''bytes4''])]"
  by (simp add: login_abi_def abi_methods_def abi_view_def abi_parameter_def abi_tuple_def abi_type_of_def
      json_string_field_def json_array_field_def go_defs)

lemma new_login_reads:
  assumes "reads_abi lib login_abi"
  shows "\<exists>c. new_login_caller lib a n = Inr c \<and> contract_reader login_abi a n (login_caller_contract c)"
    and "\<exists>b. new_login_bound lib a n = Inr b \<and> contract_reader login_abi a n (login_caller_contract (login_as_caller b))"
  using assms by (simp_all add: new_login_caller_def new_login_bound_def bind_login_def login_meta_data_def bind_contract_reads
      contract_reader_def)

lemma login_caller_is_valid_signature_answer:
  assumes "documented_calls lib view" and "well_typed_answers (view n opts)"
    and "contract_reader login_abi a n (login_caller_contract c)" and "length hash = 32"
  shows "login_caller_is_valid_signature lib c opts hash signature =
    Some (is_valid_signature \<lparr>bc_address = a, bc_chain = view n opts\<rparr> hash signature)"
  unfolding login_caller_is_valid_signature_def is_valid_signature_def
  using assms by (intro call_method_answer) (auto simp: login_methods call_outputs 
      split: sum.splits)

end
