(* ===== verification/BindingSpec.thy ===== *)
theory BindingSpec imports JsonReading SacdBinding TemplateBinding Erc1271Binding LoginBinding begin

text \<open>
  The four generated bindings together: over a library that does what go-ethereum documents, each
  read method of a binding is the typed call of the theory \<open>Contracts\<close> that the rest of the
  development uses for it, on the chain seen through the backend and the call options.
\<close>

lemmas session_defs = sacd_session_account_permission_records_def sacd_session_current_permission_record_def
  sacd_session_get_account_permissions_def sacd_session_get_permissions_def template_session_is_template_active_def
  template_session_templates_def erc1271_session_is_valid_signature_def login_session_is_valid_signature_def

lemma login_is_erc1271: "login_abi = erc1271_abi"
  by (simp add: login_abi_def erc1271_abi_def)

section \<open>Callers bound for reading only\<close>

lemma caller_sessions_answer:
  assumes "documented_calls lib view" and "well_typed_answers (view n opts)" and "reads_abi lib sacd_abi"
    and "new_sacd_caller lib a n = Inr c"
  defines "s \<equiv> \<lparr>sacd_caller_session_contract = c, sacd_caller_session_opts = opts\<rparr>"
    and "b \<equiv> \<lparr>bc_address = a, bc_chain = view n opts\<rparr>"
  shows "sacd_caller_session_account_permission_records lib s grantor grantee = Some (account_permission_records b grantor grantee)"
    and "sacd_caller_session_current_permission_record lib s asset (Some tok) grantee =
      Some (current_permission_record b asset (Some tok) grantee)"
    and "sacd_caller_session_get_account_permissions lib s grantor grantee (Some perms) =
      Some (get_account_permissions b grantor grantee perms)"
    and "sacd_caller_session_get_permissions lib s asset (Some tok) grantee (Some perms) =
      Some (get_permissions b asset (Some tok) grantee perms)"
proof -
  have "contract_reader sacd_abi a n (sacd_caller_contract c)"
    using new_sacd_reads(1) [OF assms(3), of a n] assms(4) by auto
  note answers = this [THEN sacd_caller_account_permission_records_answer [OF assms(1,2)]]
    this [THEN sacd_caller_current_permission_record_answer [OF assms(1,2)]]
    this [THEN sacd_caller_get_account_permissions_answer [OF assms(1,2)]]
    this [THEN sacd_caller_get_permissions_answer [OF assms(1,2)]]
  show "sacd_caller_session_account_permission_records lib s grantor grantee = Some (account_permission_records b grantor grantee)"
    and "sacd_caller_session_current_permission_record lib s asset (Some tok) grantee =
      Some (current_permission_record b asset (Some tok) grantee)"
    and "sacd_caller_session_get_account_permissions lib s grantor grantee (Some perms) =
      Some (get_account_permissions b grantor grantee perms)"
    and "sacd_caller_session_get_permissions lib s asset (Some tok) grantee (Some perms) =
      Some (get_permissions b asset (Some tok) grantee perms)"
    by (simp_all add: answers s_def b_def sacd_caller_session_account_permission_records_def
        sacd_caller_session_current_permission_record_def sacd_caller_session_get_account_permissions_def
        sacd_caller_session_get_permissions_def)
qed

section \<open>The bindings make the calls of the model\<close>

text \<open>
  C39: With a library that does what go-ethereum documents, binding any of the four contracts at an
  address succeeds, no read method panics, and each one, called through a session, answers exactly
  what the typed call of the model answers for the chain seen through the backend and the options:
  the method names, the order and the types of the arguments and the fields of the result structs
  are those of the ABI documents the bindings carry.
\<close>

theorem bindings_answer_calls:
  assumes "documented_calls lib view" and "well_typed_answers (view n opts)"
    and "reads_abi lib sacd_abi" and "reads_abi lib template_abi" and "reads_abi lib erc1271_abi" and "reads_abi lib login_abi"
    and "length hash = 32"
  shows "\<exists>sacd template erc login.
    new_sacd_bound lib a n = Inr sacd \<and> new_template_bound lib a n = Inr template \<and>
    new_erc1271_bound lib a n = Inr erc \<and> new_login_bound lib a n = Inr login \<and>
    (let b = \<lparr>bc_address = a, bc_chain = view n opts\<rparr>;
         s = \<lparr>sacd_session_contract = sacd, sacd_session_call_opts = opts, sacd_session_transact_opts = topts\<rparr>;
         t = \<lparr>template_session_contract = template, template_session_call_opts = opts, template_session_transact_opts = topts\<rparr>;
         e = \<lparr>erc1271_session_contract = erc, erc1271_session_call_opts = opts, erc1271_session_transact_opts = topts\<rparr>;
         l = \<lparr>login_session_contract = login, login_session_call_opts = opts, login_session_transact_opts = topts\<rparr>
     in sacd_session_account_permission_records lib s grantor grantee = Some (account_permission_records b grantor grantee) \<and>
        sacd_session_current_permission_record lib s asset (Some tok) grantee =
          Some (current_permission_record b asset (Some tok) grantee) \<and>
        sacd_session_get_account_permissions lib s grantor grantee (Some perms) =
          Some (get_account_permissions b grantor grantee perms) \<and>
        sacd_session_get_permissions lib s asset (Some tok) grantee (Some perms) =
          Some (get_permissions b asset (Some tok) grantee perms) \<and>
        template_session_is_template_active lib t (Some tok) = Some (is_template_active b tok) \<and>
        template_session_templates lib t (Some tok) = Some (templates b tok) \<and>
        erc1271_session_is_valid_signature lib e hash sig = Some (is_valid_signature b hash sig) \<and>
        login_session_is_valid_signature lib l hash sig = Some (is_valid_signature b hash sig))"
proof -
  obtain sacd where s: "new_sacd_bound lib a n = Inr sacd" "contract_reader sacd_abi a n (sacd_caller_contract (sacd_as_caller sacd))"
    using new_sacd_reads(2) [OF assms(3)] by blast
  obtain template where t: "new_template_bound lib a n = Inr template"
      "contract_reader template_abi a n (template_caller_contract (template_as_caller template))"
    using new_template_reads(2) [OF assms(4)] by blast
  obtain erc where e: "new_erc1271_bound lib a n = Inr erc"
      "contract_reader erc1271_abi a n (erc1271_caller_contract (erc1271_as_caller erc))"
    using new_erc1271_reads(2) [OF assms(5)] by blast
  obtain login where l: "new_login_bound lib a n = Inr login"
      "contract_reader login_abi a n (login_caller_contract (login_as_caller login))"
    using new_login_reads(2) [OF assms(6)] by blast
  note sacd_answers = s(2) [THEN sacd_caller_account_permission_records_answer [OF assms(1,2)]]
    s(2) [THEN sacd_caller_current_permission_record_answer [OF assms(1,2)]]
    s(2) [THEN sacd_caller_get_account_permissions_answer [OF assms(1,2)]]
    s(2) [THEN sacd_caller_get_permissions_answer [OF assms(1,2)]]
  note template_answers = t(2) [THEN template_caller_is_template_active_answer [OF assms(1,2)]]
    t(2) [THEN template_caller_templates_answer [OF assms(1,2)]]
  note signature_answers = erc1271_caller_is_valid_signature_answer [OF assms(1,2) e(2) assms(7)]
    login_caller_is_valid_signature_answer [OF assms(1,2) l(2) assms(7)]
  from s(1) t(1) e(1) l(1) show ?thesis
    by (simp add: Let_def sacd_answers template_answers signature_answers session_defs)
qed

section \<open>A library that does what is documented\<close>

text \<open>
  It parses the documents of the four bindings and answers a well-typed call with what a sample
  chain holds.
\<close>

lemma json_text_inject:
  assumes "json_text i = json_text j" shows "scanned i = scanned j"
proof -
  let ?d = "max (json_depth i) (json_depth j)"
  have "ends_number []" by (simp add: ends_number_def)
  with assms show ?thesis using scan_json_text [of i ?d "[]"] scan_json_text [of j ?d "[]"] by simp
qed

definition sample_contracts :: chain where
  "sample_contracts = \<lparr>chain_code_at = \<lambda>a. Inr [0x60], chain_bytes4 = \<lambda>a m args. Inr [0x16, 0x26, 0xba, 0x7e],
     chain_uint = \<lambda>a m args. Inr 12, chain_bool = \<lambda>a m args. Inr True,
     chain_record = \<lambda>a m args. Inr \<lparr>sr_permissions = 12, sr_expiration = 2000000000, sr_source = ''ipfs://doc'', sr_template_id = Some 3\<rparr>,
     chain_template = \<lambda>a m args. Inl (Err ''reverted'')\<rparr>"

definition sample_library :: "(unit, unit, unit, unit, unit) bind_library" where
  "sample_library = \<lparr>
     bl_get_abi = \<lambda>text.
       if text = sacd_meta_data then Inr (abi_methods sacd_abi)
       else if text = template_meta_data then Inr (abi_methods template_abi)
       else if text = erc1271_meta_data then Inr (abi_methods erc1271_abi)
       else Inl (Err ''abi''),
     bl_call = \<lambda>c opts m args.
       (case (bn_caller c, map_of (bn_abi c) m) of
          (Some n, Some (ins, outs)) \<Rightarrow>
            if list_all2 packs_as args ins then chain_outputs sample_contracts (bn_address c) m args outs else Some (Inl (Err ''type''))
        | _ \<Rightarrow> Some (Inl (Err ''method''))),
     bl_transact = \<lambda>c opts m args w. (Some (Inl (Err ''no key'')), w),
     bl_transfer = \<lambda>c opts w. (Some (Inl (Err ''no key'')), w)\<rparr>"

lemma sample_library_documented:
  "documented_calls sample_library (\<lambda>_ _. sample_contracts)" "well_typed_answers sample_contracts"
  "reads_abi sample_library sacd_abi" "reads_abi sample_library template_abi"
  "reads_abi sample_library erc1271_abi" "reads_abi sample_library login_abi"
proof -
  have distinct: "sacd_meta_data \<noteq> template_meta_data" "sacd_meta_data \<noteq> erc1271_meta_data"
      "template_meta_data \<noteq> erc1271_meta_data"
    using json_text_inject [of sacd_abi template_abi] json_text_inject [of sacd_abi erc1271_abi]
      json_text_inject [of template_abi erc1271_abi]
    by (auto simp: sacd_meta_data_def template_meta_data_def erc1271_meta_data_def sacd_abi_def template_abi_def erc1271_abi_def)
  show "documented_calls sample_library (\<lambda>_ _. sample_contracts)" by (simp add: documented_calls_def sample_library_def)
  show "well_typed_answers sample_contracts" by (simp add: well_typed_answers_def sample_contracts_def)
  show "reads_abi sample_library sacd_abi" "reads_abi sample_library template_abi"
      "reads_abi sample_library erc1271_abi" "reads_abi sample_library login_abi"
    using distinct
    by (simp_all add: reads_abi_def sample_library_def sacd_meta_data_def template_meta_data_def
        erc1271_meta_data_def erc1271_abi_def [symmetric] login_is_erc1271)
qed

lemma bindings_answer_calls_witness:
  "\<exists>sacd erc. new_sacd_bound sample_library 0x11 () = Inr sacd \<and>
     new_erc1271_bound sample_library 0x11 () = Inr erc \<and>
     sacd_session_get_permissions sample_library
       \<lparr>sacd_session_contract = sacd, sacd_session_call_opts = (), sacd_session_transact_opts = ()\<rparr>
       0x22 (Some 7) 0x33 (Some 15) = Some (Inr 12) \<and>
     erc1271_session_is_valid_signature sample_library
       \<lparr>erc1271_session_contract = erc, erc1271_session_call_opts = (), erc1271_session_transact_opts = ()\<rparr>
       (replicate 32 0) [1] = Some (Inr [0x16, 0x26, 0xba, 0x7e])"
  using bindings_answer_calls [OF sample_library_documented, where hash = "replicate 32 0" and a = "0x11" and n = "()" and opts = "()" and topts = "()" and grantee = "0x33" and grantor = "0x44"
    and asset = "0x22" and tok = 7 and perms = 15 and sig = "[1]"]
  by (auto simp: Let_def get_permissions_def is_valid_signature_def sample_contracts_def)

end
