(* ===== verification/Spec2Isabelle.thy ===== *)
theory Spec2Isabelle
  imports SiweMessage StoreRefinement SiweSpec SignatureValidator ExchangeSpec Rpc ExchangeConfig Routes
    Fleet Serving ApiDocs BindingSpec
begin

text \<open>
  dauth, DIMO's Web3 auth service: one process with two surfaces.  The sign-in surface (\<open>/siwe\<close>) lets a
  wallet sign a challenge and gives it a bearer token that names its Ethereum address.  The exchange
  (\<open>/exchange\<close>, and a gRPC check) gives a developer licensee, for such a bearer token, a permission token
  for an asset that the owner has granted access to.  The development models the Go code of both, of the
  process around them and of its configuration, and proves what the two kinds of token stand for.

  \<^bold>\<open>The parts and how they interact.\<close>
  A sign-in starts with \<open>POST /siwe/challenge\<close>: the handler draws a nonce, renders the EIP-4361 message for
  it and puts the challenge into the store.  \<open>POST /siwe/token\<close> consumes the challenge of a nonce, verifies
  the signature over its message, of a key or of an ERC-1271 contract, and signs the bearer token with the
  first sign-in key.  \<open>POST /exchange/tokens/exchange\<close> passes the body cap, the bearer token check against
  the sign-in JWKS and the developer license lookup before the handler asks the access service, which looks
  for a signed SACD document on IPFS and, failing that, at the permission bits, on chain or, for vehicles,
  through the Identity API; the permission token is signed with the first exchange key.  The state that
  outlives a request is the challenge store and the template cache.

  \<^bold>\<open>What Go's library does for the code.\<close>
  \<^item> Prelude: Go types, errors with wrapping and \<open>errors.Is\<close>, small lemmas, \<open>named_theorems\<close>.
  \<^item> GoText, GoUtf8, GoStrings, GoTime, GoJson, GoConv: text and numbers (hexadecimal, base64url, runes,
    \<open>strings\<close> with the white space of Unicode, \<open>%q\<close>), RFC 3339 times, 64-bit durations and their whole seconds
    through float64, JSON as the code renders it, and \<open>strconv.Atoi\<close>, \<open>ParseUint\<close> and \<open>time.ParseDuration\<close>
    with their overflow checks at 64 bits.
  \<^item> GoDecode: \<open>encoding/json\<close> reading (the scanner with its nesting limit, quoted strings, structs with folded
    names and unknown members, slices, pointers, times); JsonReading: what GoJson writes is read back;
    GoTimeText: the RFC 3339 parser and its round trip.
  \<^item> GoMux: \<open>http.ServeMux\<close> (patterns with methods, cleaning of paths, unescaping by segment, redirects, 405
    and 404) and \<open>http.StripPrefix\<close>.
  \<^item> EthModel: the interface of go-ethereum as a record, and one concrete instance for the witnesses.

  \<^bold>\<open>Sign-in.\<close>
  \<^item> NonceStore (internal/siwe/nonce/nonce.go): \<open>Challenge\<close>, \<open>New\<close>, and \<open>Store\<close> as the locale
    \<open>challenge_store\<close>: what \<open>Consume\<close> returns after \<open>Put\<close>, and what a janitor may remove.
  \<^item> NonceMemory (nonce/memory.go): 64 shards, eviction on a full shard, the janitor; NoncePostgres
    (nonce/postgres.go, schema.sql): one definition per SQL statement, with refused statements and lost
    replies.  Both interpret \<open>challenge_store\<close>.  StoreRefinement: both refine one abstract map, and what each
    answers to any calls, refusals included, so that the two are compared.  ChallengeStore: the value of the interface type that a process runs with.
  \<^item> SiweMessage (message/message.go): the text that is signed and what it determines.
  \<^item> Keyset (internal/keyset): loading, kids, signing, JWKS.  WellKnown (internal/oidc/wellknown.go).
  \<^item> SiweToken (token/token.go), SiweVerifier (signer/verifier.go, web3/contract\_login.go), SiweServer
    (server/handlers.go): claims, signature checks and both handlers.
  \<^item> RequestBodies (server/handlers.go, httpcontroller/exchange.go): the bodies of the three endpoints, from the
    capped bytes to the requests of the handlers.
  \<^item> SiweSystem: any interleaving of challenges, tokens and janitor ticks, in the locale \<open>siwe\<close> that extends
    \<open>challenge_store\<close>; SiweSpec: single use, soundness and completion over both stores; SiweDemo: a run.

  \<^bold>\<open>Exchange.\<close>
  \<^item> TokenClaims (pkg/tokenclaims), ExchangeModels (internal/exchange/models), AuthEval (autheval): the names
    of permissions, DIDs and documents, and the evaluation of grants and of 2-bit masks.
  \<^item> Ipfs, SacdProxy, TemplateService, Access, Identity, TokenSigner (internal/exchange/services): documents,
    vehicle permissions, templates with their cache, the access decision, licenses, permission tokens.
    Documents (internal/exchange/models): grants and templates as JSON.  SignatureValidator
    (signature/validator.go).
  \<^item> Contracts (internal/exchange/contracts): the typed contract calls the program makes, over the chain.
    Bindings: what the generated bindings share, with go-ethereum's bind and abi packages as a record.
    SacdBinding, TemplateBinding, Erc1271Binding, LoginBinding: each generated binding, its ABI document,
    constructors, views, sessions and methods.  BindingSpec: their methods are the calls of Contracts.
  \<^item> ExchangeMiddleware (middleware, api/handlers.go, internal/httpmw), ExchangeController
    (httpcontroller/exchange.go), Rpc (rpc/rpc.go): the handler chain and the gRPC check.
  \<^item> GrpcMessages, GrpcStubs (pkg/grpc): the generated messages with their getters, the client, the handler, the
    registration, and \<open>createGRPCServer\<close> of app/app.go.
  \<^item> ApiDocs (internal/siwe/docs, internal/exchange/docs): the OpenAPI documents as JSON values.
  \<^item> ExchangeSystem, ExchangeSpec: runs over the template cache, and what a served permission token rests on.

  \<^bold>\<open>The process.\<close>
  \<^item> Envx (internal/envx/envx.go), SiweConfig (internal/siwe/config/config.go), ExchangeConfig
    (internal/exchange/config/config.go): from the environment to the two configurations.
  \<^item> Routes: the route tables of internal/siwe/server/server.go, internal/exchange/app/app.go,
    internal/ops/ops.go and the public handler of cmd/dauth/main.go.
  \<^item> Process: the public handler over the two surfaces, the wiring of the exchange services (app/app.go), and
    runs of public requests, gRPC checks and janitor ticks.  Startup: \<open>run\<close>, \<open>buildSIWE\<close>, \<open>newStore\<close> and
    \<open>CreateServers\<close>, up to the process that listens.  Serving: how the three servers end.
  \<^item> ProcessDemo: one environment and one run; ProcessSpec: what holds from the environment to the tokens.
  \<^item> Fleet: replicas that start, serve and go over one database, and two of them in a run.

  \<^bold>\<open>What the properties show.\<close>
  End to end, over all replicas and their whole life, a permission token is served only to a licensee that
  signed a challenge made out to it and that holds what the token names, which composes the soundness of the
  sign-in tokens, the exchange chain, the access service and the wiring; a nonce pays for one token, also
  between replicas; and what is granted was granted by a signed document or by the bits.  The handlers, the verifier, the stores, the loading
  of keys and of the configuration, and the start are characterised on all their branches; the two stores
  refine the abstract store and answer alike, up to the rounding of expiries, until one refuses a put, which is characterised for each; the process refines its two surfaces; the generated
  bindings make the typed calls of the model and the generated gRPC client sees the access check; what a client
  or a signer writes is what is read; the OpenAPI documents describe what is served; honest sign-ins complete; sign-in tokens pass the exchange; the store keeps its type and its bound; \<open>Numbered\<close> ends.

  \<^bold>\<open>Bounds and termination.\<close>
  No definition uses fuel.  \<open>numbered_loop\<close> ends by the number of variables that are left, the loop of
  \<open>parse_duration\<close>, \<open>path_segments\<close> and the other scanners by the length of the text, and the JSON scanner
  counts down Go's own nesting limit of 10000; routing is structural.
  The memory store holds at most \<open>maxOutstandingChallenges\<close> = 100000 entries in 64 shards of 1562, bodies are
  cut at 16 KiB and 1 MiB, durations and times are 64-bit words with wrap-around.

  \<^bold>\<open>Parameters.\<close>
  Code outside of the repository is an argument: go-ethereum (addresses and their JSON, recovery of
  signers, hashes, ABI and bound contracts, the node), the JWT and keyfunc library, PEM, X.509, SHA-256 and RSA,
  the HTTP transports to IPFS and the Identity API, the DID codec, the cloud event (with its own decoder) and
  error packages, the gRPC runtime with its middleware, \<open>pgx\<close>, \<open>url.Parse\<close>, and the order of Go's map iteration.  Hypotheses on them are stated where they are used: a
  licensee's text form reads back, the JWT library shows the claim that was signed (\<open>reads_back\<close>), nobody else
  holds the sign-in keys (\<open>own_tokens\<close>), Postgres keeps addresses and times (\<open>postgres_backend\<close>), a contract call with the
  types of its ABI answers what the chain does (\<open>documented_calls\<close>), and the gRPC runtime dispatches and chains
  as documented (\<open>documented_grpc\<close>, \<open>connected\<close>).

  \<^bold>\<open>Not modelled.\<close>
  The protobuf wire format, file descriptor and reflection methods behind the generated messages; the swagger
  page, its template engine and the metrics and profiler handlers, which are library code; logging and \<open>RemoteIP\<close>, which only feeds it; in routing, hosts,
  CONNECT and \<open>OPTIONS *\<close>, the status and the query string of a redirect; the value that an error
  message of the configuration quotes; \<open>%q\<close> of text that is not ASCII, which only error messages hold.  Requests are steps one after the other: each store operation is
  atomic in the code (a shard lock, one statement), and a handler makes one store operation.  The nodes and
  services outside may answer differently for each request, but the same throughout one.
\<close>

end
